(* ===== verification/Prelude.thy ===== *)
theory Prelude
  imports Main "HOL-Library.Sublist"
begin

text \<open>
  The shared prelude of the development: the collections of facts the component theories
  add to, the result type of fallible Go functions with its sequencing operators, and the
  generic list lemmas that several components use.

  A Go function that returns \<open>(T, error)\<close> is modelled by a function into \<open>'e + 'a\<close>: \<open>Inl e\<close>
  is a non-nil error, \<open>Inr x\<close> the value with a nil error.
\<close>

named_theorems result_iff \<open>when a sequence of fallible steps succeeds\<close>
named_theorems env_simps \<open>environment lists: keys, lookups and merges\<close>
named_theorems path_simps \<open>path algebra\<close>
named_theorems trace_simps \<open>what a driver operation appends to the engine trace\<close>

section \<open>Fallible steps\<close>

type_synonym ('e, 'a) result = "'e + 'a"

definition bindR :: "'e + 'a \<Rightarrow> ('a \<Rightarrow> 'e + 'b) \<Rightarrow> 'e + 'b" where
  "bindR m f = (case m of Inl e \<Rightarrow> Inl e | Inr x \<Rightarrow> f x)"

definition failIf :: "bool \<Rightarrow> 'e \<Rightarrow> 'e + unit" where
  "failIf b e = (if b then Inl e else Inr ())"

definition wrapE :: "('e \<Rightarrow> 'f) \<Rightarrow> 'e + 'a \<Rightarrow> 'f + 'a" where
  "wrapE w m = (case m of Inl e \<Rightarrow> Inl (w e) | Inr x \<Rightarrow> Inr x)"

fun isOk :: "'e + 'a \<Rightarrow> bool" where
  "isOk (Inl e) = False"
| "isOk (Inr x) = True"

fun mapR :: "('a \<Rightarrow> 'e + 'b) \<Rightarrow> 'a list \<Rightarrow> 'e + 'b list" where
  "mapR f [] = Inr []"
| "mapR f (x # xs) = bindR (f x) (\<lambda>y. bindR (mapR f xs) (\<lambda>ys. Inr (y # ys)))"

lemma bindR_simps [simp]:
  "bindR (Inl e) f = Inl e"
  "bindR (Inr x) f = f x"
  by (simp_all add: bindR_def)

lemma bindR_Inr_iff [result_iff]: "bindR m f = Inr y \<longleftrightarrow> (\<exists>x. m = Inr x \<and> f x = Inr y)"
  by (cases m) auto

lemma bindR_split: "P (bindR m f) \<longleftrightarrow> (\<forall>e. m = Inl e \<longrightarrow> P (Inl e)) \<and> (\<forall>x. m = Inr x \<longrightarrow> P (f x))"
  by (cases m) auto

lemma failIf_simps [simp]:
  "failIf True e = Inl e"
  "failIf False e = Inr ()"
  by (simp_all add: failIf_def)

lemma failIf_Inr_iff [result_iff]: "failIf b e = Inr u \<longleftrightarrow> \<not> b"
  by (auto simp: failIf_def)

lemma wrapE_simps [simp]:
  "wrapE w (Inl e) = Inl (w e)"
  "wrapE w (Inr x) = Inr x"
  by (simp_all add: wrapE_def)

lemma wrapE_Inr_iff [result_iff]: "wrapE w m = Inr y \<longleftrightarrow> m = Inr y"
  by (cases m) auto

lemma Let_Inr_iff [result_iff]: "(let x = v in f x) = Inr w \<longleftrightarrow> f v = Inr w"
  by simp

lemma isOk_iff: "isOk m \<longleftrightarrow> (\<exists>x. m = Inr x)"
  by (cases m) auto

lemma mapR_Inr_iff: "mapR f xs = Inr ys \<longleftrightarrow> list_all2 (\<lambda>x y. f x = Inr y) xs ys"
  by (induction xs arbitrary: ys) (auto simp: bindR_Inr_iff list_all2_Cons1)

lemma mapR_length: "mapR f xs = Inr ys \<Longrightarrow> length ys = length xs"
  by (simp add: mapR_Inr_iff list_all2_lengthD)

lemma mapR_set: "mapR f xs = Inr ys \<Longrightarrow> y \<in> set ys \<Longrightarrow> \<exists>x \<in> set xs. f x = Inr y"
  by (induction xs arbitrary: ys) (auto simp: bindR_Inr_iff)

section \<open>Stateful steps\<close>

text \<open>A fallible operation on a state \<open>'s\<close>; the state is kept when an error is returned.\<close>

type_synonym ('s, 'e, 'a) stateful = "'s \<Rightarrow> ('e + 'a) \<times> 's"

definition bindW :: "('s, 'e, 'a) stateful \<Rightarrow> ('a \<Rightarrow> ('s, 'e, 'b) stateful) \<Rightarrow> ('s, 'e, 'b) stateful" where
  "bindW m f w = (case m w of (r, w') \<Rightarrow> (case r of Inl e \<Rightarrow> (Inl e, w') | Inr x \<Rightarrow> f x w'))"

definition returnW :: "'a \<Rightarrow> ('s, 'e, 'a) stateful" where
  "returnW x w = (Inr x, w)"

definition liftW :: "'e + 'a \<Rightarrow> ('s, 'e, 'a) stateful" where
  "liftW r w = (r, w)"

definition wrapW :: "('e \<Rightarrow> 'f) \<Rightarrow> ('s, 'e, 'a) stateful \<Rightarrow> ('s, 'f, 'a) stateful" where
  "wrapW g m w = (case m w of (r, w') \<Rightarrow> (wrapE g r, w'))"

text \<open>Run an operation and go on with its result, error or not.\<close>

definition tryW :: "('s, 'e, 'a) stateful \<Rightarrow> ('s, 'f, 'e + 'a) stateful" where
  "tryW m w = (case m w of (r, w') \<Rightarrow> (Inr r, w'))"

lemma bindW_Inr [result_iff]:
  "bindW m f w = (Inr y, w') \<longleftrightarrow> (\<exists>x w1. m w = (Inr x, w1) \<and> f x w1 = (Inr y, w'))"
  by (auto simp: bindW_def split: prod.splits sum.splits)

lemma returnW_Inr [result_iff]: "returnW x w = (Inr y, w') \<longleftrightarrow> x = y \<and> w = w'"
  by (auto simp: returnW_def)

lemma liftW_Inr [result_iff]: "liftW r w = (Inr y, w') \<longleftrightarrow> r = Inr y \<and> w = w'"
  by (auto simp: liftW_def)

lemma wrapW_Inr [result_iff]: "wrapW g m w = (Inr y, w') \<longleftrightarrow> m w = (Inr y, w')"
  by (auto simp: wrapW_def wrapE_Inr_iff split: prod.splits)

lemma tryW_Inr [result_iff]: "tryW m w = (Inr y, w') \<longleftrightarrow> m w = (y, w')"
  by (auto simp: tryW_def split: prod.splits)

section \<open>Reading a map field by field\<close>

text \<open>A loop that feeds the entries of a list into a fallible update.\<close>

fun foldR :: "('s \<Rightarrow> 'a \<Rightarrow> 'e + 's) \<Rightarrow> 's \<Rightarrow> 'a list \<Rightarrow> 'e + 's" where
  "foldR f st [] = Inr st"
| "foldR f st (x # xs) = bindR (f st x) (\<lambda>st'. foldR f st' xs)"

text \<open>
  The contract of a decoder that visits the entries of a Go map in an unspecified order: whether an
  entry is accepted does not depend on the state, and an accepted entry turns the decoding of a map
  into the decoding of the updated map. The order of the visits is then irrelevant.
\<close>

locale map_reader =
  fixes readField :: "'s \<Rightarrow> 'k \<times> 'v \<Rightarrow> 'e + 's"
    and decode :: "('k \<Rightarrow> 'v option) \<Rightarrow> 's"
    and good :: "'k \<times> 'v \<Rightarrow> bool"
  assumes read_ok: "isOk (readField st kv) = good kv"
    and read_decode: "readField (decode m) (k, v) = Inr st \<Longrightarrow> st = decode (m(k \<mapsto> v))"
begin

lemma read_all: "foldR readField (decode m) vs = Inr st \<longleftrightarrow> list_all good vs \<and> st = decode (m ++ map_of (rev vs))"
proof (induction vs arbitrary: m)
  case (Cons kv vs)
  obtain k v where kv: "kv = (k, v)" by force
  have m: "m ++ map_of (rev (kv # vs)) = m(k \<mapsto> v) ++ map_of (rev vs)" by (simp add: kv)
  show ?case
  proof (cases "readField (decode m) kv")
    case (Inl e)
    then have "\<not> good kv" using read_ok [of "decode m" kv] by simp
    with Inl show ?thesis by simp
  next
    case (Inr st')
    then have "good kv" "st' = decode (m(k \<mapsto> v))"
      using read_ok [of "decode m" kv] read_decode [of m k v st'] by (simp_all add: kv)
    moreover from this Inr have "foldR readField (decode m) (kv # vs) = foldR readField (decode (m(k \<mapsto> v))) vs" by simp
    ultimately show ?thesis unfolding m by (simp only: Cons.IH list.pred_inject simp_thms)
  qed
qed auto

lemma read_any_order:
  assumes "distinct (map fst vs)" "distinct (map fst vs')" "set vs' = set vs"
  shows "foldR readField (decode Map.empty) vs' = Inr st \<longleftrightarrow> list_all good vs \<and> st = decode (map_of vs)"
proof -
  have "map_of (rev vs') = map_of vs"
    using assms by (simp add: map_of_inject_set rev_map [symmetric])
  then show ?thesis using assms(3) by (simp add: read_all list_all_iff)
qed

end

section \<open>Lists\<close>

text \<open>Comparing string literals, and nothing else.\<close>

lemmas string_neq = list.inject char.inject simp_thms if_False if_True list.distinct

lemma prefix_take: "prefix p s \<longleftrightarrow> take (length p) s = p"
  by (metis append_eq_conv_conj append_take_drop_id prefix_def)

lemma last_eq_suffix: "s \<noteq> [] \<Longrightarrow> suffix [last s] s"
  by (metis append_butlast_last_id suffixI)

lemma takeWhile_last_False: "xs \<noteq> [] \<Longrightarrow> \<not> P (last xs) \<Longrightarrow> takeWhile P xs \<noteq> xs"
  by (metis last_in_set set_takeWhileD)

lemma dropWhile_hd: "dropWhile P xs \<noteq> [] \<Longrightarrow> \<not> P (hd (dropWhile P xs))"
  by (rule hd_dropWhile)

lemma butlast_append_last_neq: "xs \<noteq> [] \<Longrightarrow> set (butlast xs) \<subseteq> set xs"
  by (meson in_set_butlastD subsetI)

end
