(* ===== verification/Go_Strings.thy ===== *)
theory Go_Strings
  imports Prelude
begin

text \<open>
  The operations of Go's \<^verbatim>\<open>strings\<close> and \<^verbatim>\<open>strconv\<close> packages that the driver uses. A Go
  string is a sequence of bytes; it is modelled as \<open>string\<close>, a list of 8-bit characters, so
  lengths and indices count bytes as in Go.

  Unicode is handled where it can be observed. \<^verbatim>\<open>TrimSpace\<close> removes the UTF-8 encodings of
  all Unicode white space. \<^verbatim>\<open>ToLower\<close> and \<^verbatim>\<open>EqualFold\<close> fold ASCII letters and the code points
  outside ASCII whose folding is an ASCII letter (U+0130, U+212A for \<^verbatim>\<open>ToLower\<close>; U+017F,
  U+212A for \<^verbatim>\<open>EqualFold\<close>); the bytes of the other code points are kept. The driver compares
  folded strings with ASCII literals only and filters them to ASCII, where this is exact.
\<close>

section \<open>White space\<close>

definition spaceSeqs :: "string list" where
  "spaceSeqs =
    [[CHR 0x20], [CHR 0x09], [CHR 0x0A], [CHR 0x0B], [CHR 0x0C], [CHR 0x0D],
     [CHR 0xC2, CHR 0x85], [CHR 0xC2, CHR 0xA0], [CHR 0xE1, CHR 0x9A, CHR 0x80],
     [CHR 0xE2, CHR 0x80, CHR 0x80], [CHR 0xE2, CHR 0x80, CHR 0x81],
     [CHR 0xE2, CHR 0x80, CHR 0x82], [CHR 0xE2, CHR 0x80, CHR 0x83],
     [CHR 0xE2, CHR 0x80, CHR 0x84], [CHR 0xE2, CHR 0x80, CHR 0x85],
     [CHR 0xE2, CHR 0x80, CHR 0x86], [CHR 0xE2, CHR 0x80, CHR 0x87],
     [CHR 0xE2, CHR 0x80, CHR 0x88], [CHR 0xE2, CHR 0x80, CHR 0x89],
     [CHR 0xE2, CHR 0x80, CHR 0x8A], [CHR 0xE2, CHR 0x80, CHR 0xA8],
     [CHR 0xE2, CHR 0x80, CHR 0xA9], [CHR 0xE2, CHR 0x80, CHR 0xAF],
     [CHR 0xE2, CHR 0x81, CHR 0x9F], [CHR 0xE3, CHR 0x80, CHR 0x80]]"

text \<open>Strip members of \<open>ws\<close> from the front as long as one matches.\<close>

function stripSeqs :: "string list \<Rightarrow> string \<Rightarrow> string" where
  "stripSeqs ws s =
     (case find (\<lambda>w. w \<noteq> [] \<and> prefix w s) ws of
        None \<Rightarrow> s
      | Some w \<Rightarrow> stripSeqs ws (drop (length w) s))"
  by pat_completeness auto
termination
proof (relation "measure (\<lambda>(ws, s). length s)")
  fix ws :: "string list" and s w :: string
  assume "find (\<lambda>w. w \<noteq> [] \<and> prefix w s) ws = Some w"
  then have "w \<noteq> [] \<and> prefix w s" by (auto simp: find_Some_iff)
  then have "0 < length w" "length w \<le> length s" by (auto dest: prefix_length_le)
  then have "length s - length w < length s" by linarith
  then show "((ws, drop (length w) s), ws, s) \<in> measure (\<lambda>(ws, s). length s)" by simp
qed simp

declare stripSeqs.simps [simp del]

definition trimLeftSpace :: "string \<Rightarrow> string" where
  "trimLeftSpace s = stripSeqs spaceSeqs s"

definition trimRightSpace :: "string \<Rightarrow> string" where
  "trimRightSpace s = rev (stripSeqs (map rev spaceSeqs) (rev s))"

definition TrimSpace :: "string \<Rightarrow> string" where
  "TrimSpace s = trimRightSpace (trimLeftSpace s)"

lemma stripSeqs_suffix: "suffix (stripSeqs ws s) s"
proof (induction ws s rule: stripSeqs.induct)
  case (1 ws s)
  show ?case
  proof (cases "find (\<lambda>w. w \<noteq> [] \<and> prefix w s) ws")
    case None
    then show ?thesis by (subst stripSeqs.simps) simp
  next
    case (Some w)
    with 1 have "suffix (stripSeqs ws (drop (length w) s)) (drop (length w) s)" by simp
    then have "suffix (stripSeqs ws (drop (length w) s)) s"
      using suffix_drop suffix_order.trans by blast
    with Some show ?thesis by (subst stripSeqs.simps) simp
  qed
qed

lemma stripSeqs_stops: "w \<in> set ws \<Longrightarrow> w \<noteq> [] \<Longrightarrow> \<not> prefix w (stripSeqs ws s)"
proof (induction ws s rule: stripSeqs.induct)
  case (1 ws s)
  show ?case
  proof (cases "find (\<lambda>w. w \<noteq> [] \<and> prefix w s) ws")
    case None
    with "1.prems" have "\<not> prefix w s" by (auto simp: find_None_iff)
    with None show ?thesis by (subst stripSeqs.simps) simp
  next
    case (Some v)
    with "1.IH" "1.prems" show ?thesis by (subst stripSeqs.simps) simp
  qed
qed

lemma stripSeqs_unchanged: "(\<And>w. w \<in> set ws \<Longrightarrow> w \<noteq> [] \<Longrightarrow> \<not> prefix w s) \<Longrightarrow> stripSeqs ws s = s"
proof -
  assume "\<And>w. w \<in> set ws \<Longrightarrow> w \<noteq> [] \<Longrightarrow> \<not> prefix w s"
  then have "find (\<lambda>w. w \<noteq> [] \<and> prefix w s) ws = None" by (auto simp: find_None_iff)
  then show ?thesis by (subst stripSeqs.simps) simp
qed

lemma stripSeqs_Nil [simp]: "stripSeqs ws [] = []"
  by (rule stripSeqs_unchanged) simp

lemma trimLeftSpace_suffix: "suffix (trimLeftSpace s) s"
  by (simp add: trimLeftSpace_def stripSeqs_suffix)

lemma trimRightSpace_prefix: "prefix (trimRightSpace s) s"
  using stripSeqs_suffix [of "map rev spaceSeqs" "rev s"]
  by (simp add: trimRightSpace_def suffix_to_prefix)

lemma TrimSpace_sublist: "sublist (TrimSpace s) s"
proof -
  have "sublist (trimRightSpace (trimLeftSpace s)) (trimLeftSpace s)"
    by (rule prefix_imp_sublist [OF trimRightSpace_prefix])
  moreover have "sublist (trimLeftSpace s) s"
    by (rule suffix_imp_sublist [OF trimLeftSpace_suffix])
  ultimately show ?thesis unfolding TrimSpace_def by (rule sublist_order.order_trans)
qed

lemma set_TrimSpace: "set (TrimSpace s) \<subseteq> set s"
  by (rule set_mono_sublist [OF TrimSpace_sublist])

lemma spaceSeqs_nonempty: "w \<in> set spaceSeqs \<Longrightarrow> w \<noteq> []"
  by (auto simp: spaceSeqs_def)

lemma TrimSpace_no_leading: "w \<in> set spaceSeqs \<Longrightarrow> \<not> prefix w (TrimSpace s)"
proof
  assume w: "w \<in> set spaceSeqs" and p: "prefix w (TrimSpace s)"
  have "prefix w (trimLeftSpace s)"
    using p trimRightSpace_prefix prefix_order.trans unfolding TrimSpace_def by blast
  with w spaceSeqs_nonempty [OF w] stripSeqs_stops show False
    unfolding trimLeftSpace_def by blast
qed

lemma TrimSpace_no_trailing: "w \<in> set spaceSeqs \<Longrightarrow> \<not> suffix w (TrimSpace s)"
  using stripSeqs_stops [of "rev w" "map rev spaceSeqs" "rev (trimLeftSpace s)"]
    spaceSeqs_nonempty [of w]
  by (auto simp: TrimSpace_def trimRightSpace_def suffix_to_prefix)

lemma TrimSpace_unchanged:
  assumes "\<And>w. w \<in> set spaceSeqs \<Longrightarrow> \<not> prefix w s \<and> \<not> suffix w s"
  shows "TrimSpace s = s"
proof -
  have l: "trimLeftSpace s = s"
    unfolding trimLeftSpace_def using assms by (intro stripSeqs_unchanged) blast
  have "stripSeqs (map rev spaceSeqs) (rev s) = rev s"
    using assms by (intro stripSeqs_unchanged) (auto simp: suffix_to_prefix)
  with l show ?thesis by (simp add: TrimSpace_def trimRightSpace_def)
qed

lemma TrimSpace_idem [simp]: "TrimSpace (TrimSpace s) = TrimSpace s"
  by (rule TrimSpace_unchanged) (simp add: TrimSpace_no_leading TrimSpace_no_trailing)

lemma TrimSpace_Nil [simp]: "TrimSpace [] = []"
  by (rule TrimSpace_unchanged) (auto dest: spaceSeqs_nonempty)

text \<open>A string whose first and last bytes are printable ASCII is its own trimming.\<close>

definition isGraph :: "char \<Rightarrow> bool" where
  "isGraph c \<longleftrightarrow> (let n = (of_char c :: nat) in 33 \<le> n \<and> n \<le> 126)"

lemma spaceSeqs_not_graph: "w \<in> set spaceSeqs \<Longrightarrow> \<not> isGraph (hd w) \<and> \<not> isGraph (last w)"
  by (auto simp: spaceSeqs_def isGraph_def)

lemma TrimSpace_graph:
  assumes "s \<noteq> []" "isGraph (hd s)" "isGraph (last s)"
  shows "TrimSpace s = s"
proof (rule TrimSpace_unchanged)
  fix w assume w: "w \<in> set spaceSeqs"
  then have "w \<noteq> []" by (rule spaceSeqs_nonempty)
  then have "prefix w s \<Longrightarrow> hd w = hd s" "suffix w s \<Longrightarrow> last w = last s"
    by (auto simp: prefix_def suffix_def)
  with spaceSeqs_not_graph [OF w] assms show "\<not> prefix w s \<and> \<not> suffix w s" by auto
qed

lemma stripSeqs_keeps: "(\<forall>w \<in> set ws. c \<notin> set w) \<Longrightarrow> c \<in> set s \<Longrightarrow> c \<in> set (stripSeqs ws s)"
proof (induction ws s rule: stripSeqs.induct)
  case (1 ws s)
  show ?case
  proof (cases "find (\<lambda>w. w \<noteq> [] \<and> prefix w s) ws")
    case None
    with "1.prems" show ?thesis by (subst stripSeqs.simps) simp
  next
    case (Some w)
    then have w: "w \<in> set ws" "prefix w s" by (auto simp: find_Some_iff)
    then obtain r where s: "s = w @ r" by (auto simp: prefix_def)
    with "1.prems" w have "c \<in> set (drop (length w) s)" by auto
    with "1.IH" [OF Some] "1.prems" have "c \<in> set (stripSeqs ws (drop (length w) s))" by blast
    with Some show ?thesis by (subst stripSeqs.simps) simp
  qed
qed

lemma TrimSpace_keeps_graph:
  assumes "c \<in> set s" "isGraph c"
  shows "c \<in> set (TrimSpace s)"
proof -
  have "\<forall>w \<in> set spaceSeqs. c \<notin> set w" using assms(2) by (auto simp: spaceSeqs_def isGraph_def)
  with assms(1) show ?thesis
    by (simp add: TrimSpace_def trimRightSpace_def trimLeftSpace_def stripSeqs_keeps)
qed

section \<open>Prefixes, suffixes, substrings\<close>

definition HasPrefix :: "string \<Rightarrow> string \<Rightarrow> bool" where
  "HasPrefix s p \<longleftrightarrow> prefix p s"

definition HasSuffix :: "string \<Rightarrow> string \<Rightarrow> bool" where
  "HasSuffix s p \<longleftrightarrow> suffix p s"

definition Contains :: "string \<Rightarrow> string \<Rightarrow> bool" where
  "Contains s sub \<longleftrightarrow> sublist sub s"

definition ContainsAny :: "string \<Rightarrow> string \<Rightarrow> bool" where
  "ContainsAny s cs \<longleftrightarrow> (\<exists>c \<in> set s. c \<in> set cs)"

definition TrimPrefix :: "string \<Rightarrow> string \<Rightarrow> string" where
  "TrimPrefix s p = (if prefix p s then drop (length p) s else s)"

definition TrimSuffix :: "string \<Rightarrow> string \<Rightarrow> string" where
  "TrimSuffix s p = (if suffix p s then take (length s - length p) s else s)"

definition trimRightChar :: "char \<Rightarrow> string \<Rightarrow> string" where
  "trimRightChar c s = rev (dropWhile (\<lambda>x. x = c) (rev s))"

definition trimChar :: "char \<Rightarrow> string \<Rightarrow> string" where
  "trimChar c s = trimRightChar c (dropWhile (\<lambda>x. x = c) s)"

lemma trimRightChar_prefix: "prefix (trimRightChar c s) s"
  using suffix_dropWhile [of "\<lambda>x. x = c" "rev s"]
  by (simp add: trimRightChar_def suffix_to_prefix)

lemma trimRightChar_last: "trimRightChar c s \<noteq> [] \<Longrightarrow> last (trimRightChar c s) \<noteq> c"
  using hd_dropWhile [of "\<lambda>x. x = c" "rev s"]
  by (auto simp: trimRightChar_def last_rev)

lemma trimRightChar_unchanged: "(s \<noteq> [] \<Longrightarrow> last s \<noteq> c) \<Longrightarrow> trimRightChar c s = s"
  by (cases s rule: rev_cases) (auto simp: trimRightChar_def)

lemma trimRightChar_empty_iff: "trimRightChar c s = [] \<longleftrightarrow> (\<forall>x \<in> set s. x = c)"
  by (auto simp: trimRightChar_def)

lemma trimChar_hd: "trimChar c s \<noteq> [] \<Longrightarrow> hd (trimChar c s) \<noteq> c"
proof -
  assume ne: "trimChar c s \<noteq> []"
  let ?d = "dropWhile (\<lambda>x. x = c) s"
  from ne have "?d \<noteq> []" by (metis trimChar_def trimRightChar_prefix prefix_Nil)
  then have "hd ?d \<noteq> c" by (rule hd_dropWhile)
  moreover have "prefix (trimChar c s) ?d" by (simp add: trimChar_def trimRightChar_prefix)
  ultimately show ?thesis using ne by (auto simp: prefix_def)
qed

lemma trimChar_last: "trimChar c s \<noteq> [] \<Longrightarrow> last (trimChar c s) \<noteq> c"
  by (simp add: trimChar_def trimRightChar_last)

lemma trimChar_unchanged:
  "(s \<noteq> [] \<Longrightarrow> hd s \<noteq> c \<and> last s \<noteq> c) \<Longrightarrow> trimChar c s = s"
  by (cases s) (auto simp: trimChar_def intro: trimRightChar_unchanged)

lemma set_trimChar: "set (trimChar c s) \<subseteq> set s"
  unfolding trimChar_def
  by (meson set_dropWhileD set_mono_prefix subsetD subsetI trimRightChar_prefix)

section \<open>Case folding\<close>

definition lowerChar :: "char \<Rightarrow> char" where
  "lowerChar c = (let n = (of_char c :: nat) in if 65 \<le> n \<and> n \<le> 90 then char_of (n + 32) else c)"

text \<open>U+212A (KELVIN SIGN) and U+0130 (I WITH DOT ABOVE) are the two code points outside ASCII
  with an ASCII lower case; U+017F (LONG S) and U+212A the two that fold to an ASCII letter.\<close>

function ToLower :: "string \<Rightarrow> string" where
  "ToLower [] = []"
| "ToLower (c # cs) =
     (if prefix [CHR 0xE2, CHR 0x84, CHR 0xAA] (c # cs) then CHR ''k'' # ToLower (drop 2 cs)
      else if prefix [CHR 0xC4, CHR 0xB0] (c # cs) then CHR ''i'' # ToLower (drop 1 cs)
      else lowerChar c # ToLower cs)"
  by pat_completeness auto
termination by (relation "measure length") auto

function foldCase :: "string \<Rightarrow> string" where
  "foldCase [] = []"
| "foldCase (c # cs) =
     (if prefix [CHR 0xE2, CHR 0x84, CHR 0xAA] (c # cs) then CHR ''k'' # foldCase (drop 2 cs)
      else if prefix [CHR 0xC5, CHR 0xBF] (c # cs) then CHR ''s'' # foldCase (drop 1 cs)
      else lowerChar c # foldCase cs)"
  by pat_completeness auto
termination by (relation "measure length") auto

definition EqualFold :: "string \<Rightarrow> string \<Rightarrow> bool" where
  "EqualFold s t \<longleftrightarrow> foldCase s = foldCase t"

definition isAscii :: "char \<Rightarrow> bool" where
  "isAscii c \<longleftrightarrow> (of_char c :: nat) < 128"

lemma lowerChar_idem [simp]: "lowerChar (lowerChar c) = lowerChar c"
  by (simp add: lowerChar_def Let_def)

lemma lowerChar_not_upper: "\<not> (65 \<le> (of_char (lowerChar c) :: nat) \<and> (of_char (lowerChar c) :: nat) \<le> 90)"
  by (simp add: lowerChar_def Let_def)

lemma ToLower_ascii: "list_all isAscii s \<Longrightarrow> ToLower s = map lowerChar s"
  by (induction s) (auto simp: isAscii_def)

lemma foldCase_ascii: "list_all isAscii s \<Longrightarrow> foldCase s = map lowerChar s"
  by (induction s) (auto simp: isAscii_def)

lemma EqualFold_refl [simp]: "EqualFold s s"
  by (simp add: EqualFold_def)

text \<open>Lower-casing only ever writes lower-case letters, so a run of other bytes in its result
  stood in the argument already.\<close>

definition isLower :: "char \<Rightarrow> bool" where
  "isLower c \<longleftrightarrow> (let n = (of_char c :: nat) in 97 \<le> n \<and> n \<le> 122)"

lemma lowerChar_other: "\<not> isLower (lowerChar c) \<Longrightarrow> lowerChar c = c"
  by (auto simp: lowerChar_def isLower_def Let_def split: if_splits)

lemma isLower_ki [simp]: "isLower (CHR ''k'')" "isLower (CHR ''i'')"
  by (simp_all add: isLower_def)

lemma ToLower_Nil_iff [simp]: "ToLower s = [] \<longleftrightarrow> s = []"
  by (cases s) simp_all

lemma ToLower_prefix_kept:
  "prefix w (ToLower s) \<Longrightarrow> list_all (\<lambda>c. \<not> isLower c) w \<Longrightarrow> prefix w s"
proof (induction w arbitrary: s)
  case (Cons x w)
  then obtain c cs where s: "s = c # cs" by (cases s) auto
  show ?case
    using Cons lowerChar_other [of c] unfolding s by (auto split: if_splits)
qed simp

lemma ToLower_suffix_kept:
  "ToLower s = u @ w \<Longrightarrow> list_all (\<lambda>c. \<not> isLower c) w \<Longrightarrow> w \<noteq> [] \<Longrightarrow> \<exists>u'. s = u' @ w \<and> ToLower u' = u"
proof (induction s arbitrary: u w rule: ToLower.induct)
  case (2 c cs)
  show ?case
  proof (cases "prefix [CHR 0xE2, CHR 0x84, CHR 0xAA] (c # cs) \<or> prefix [CHR 0xC4, CHR 0xB0] (c # cs)")
    case True
    then obtain tok rest x where tok: "c # cs = tok @ rest" "\<And>r. ToLower (tok @ r) = x # ToLower r"
        "isLower x"
        and ih: "\<And>u w. ToLower rest = u @ w \<Longrightarrow> list_all (\<lambda>c. \<not> isLower c) w \<Longrightarrow> w \<noteq> [] \<Longrightarrow>
          \<exists>u'. rest = u' @ w \<and> ToLower u' = u"
    proof (elim disjE)
      assume p: "prefix [CHR 0xE2, CHR 0x84, CHR 0xAA] (c # cs)"
      then obtain r where "c # cs = [CHR 0xE2, CHR 0x84, CHR 0xAA] @ r" by (auto simp: prefix_def)
      then show ?thesis using 2(1)[OF p] that[of "[CHR 0xE2, CHR 0x84, CHR 0xAA]" r "CHR ''k''"] by auto
    next
      assume p: "prefix [CHR 0xC4, CHR 0xB0] (c # cs)"
      then obtain r where r: "c # cs = [CHR 0xC4, CHR 0xB0] @ r" by (auto simp: prefix_def)
      then have "\<not> prefix [CHR 0xE2, CHR 0x84, CHR 0xAA] (c # cs)" by auto
      then show ?thesis using r 2(2)[OF _ p] that[of "[CHR 0xC4, CHR 0xB0]" r "CHR ''i''"] by auto
    qed
    have e: "x # ToLower rest = u @ w" using 2(4) tok(1,2) by metis
    then obtain u2 where u: "u = x # u2" "ToLower rest = u2 @ w"
      using 2(5,6) tok(3) by (cases u) (auto simp: Cons_eq_append_conv)
    from ih [OF u(2) 2(5,6)] obtain u' where "rest = u' @ w" "ToLower u' = u2" by blast
    with tok u show ?thesis by (intro exI [of _ "tok @ u'"]) simp
  next
    case False
    then have e: "lowerChar c # ToLower cs = u @ w" using 2(4) by (simp split: if_splits)
    show ?thesis
    proof (cases u)
      case Nil
      then have w: "w = lowerChar c # ToLower cs" using e by simp
      then have c: "lowerChar c = c" using 2(5) lowerChar_other by simp
      have "ToLower cs = cs"
      proof (cases "cs = []")
        case False
        with w 2(3)[of "[]" "ToLower cs"] 2(5) \<open>\<not> (prefix _ _ \<or> prefix _ _)\<close> show ?thesis by auto
      qed simp
      with w c Nil show ?thesis by simp
    next
      case (Cons y u2)
      then have "ToLower cs = u2 @ w" using e by simp
      with 2(3)[of u2 w] 2(5,6) False obtain u' where u': "cs = u' @ w" "ToLower u' = u2" by auto
      have "\<not> prefix p (c # u')" if "\<not> prefix p (c # cs)" for p
        using that u'(1) prefix_prefix [of p "c # u'" w] by auto
      then have "\<not> prefix [CHR 0xE2, CHR 0x84, CHR 0xAA] (c # u')" "\<not> prefix [CHR 0xC4, CHR 0xB0] (c # u')"
        using False by blast+
      then have "ToLower (c # u') = lowerChar c # u2" by (simp only: ToLower.simps u'(2) if_False)
      with u'(1) Cons e show ?thesis by (intro exI [of _ "c # u'"]) simp
    qed
  qed
qed simp

lemma ToLower_idem [simp]: "ToLower (ToLower s) = ToLower s"
proof (induction s rule: ToLower.induct)
  case (2 c cs)
  have k: "\<not> prefix p (ToLower (c # cs))"
    if "\<not> prefix p (c # cs)" "list_all (\<lambda>c. \<not> isLower c) p" for p
    using that ToLower_prefix_kept by blast
  have nl: "list_all (\<lambda>c. \<not> isLower c) [CHR 0xE2, CHR 0x84, CHR 0xAA]"
    "list_all (\<lambda>c. \<not> isLower c) [CHR 0xC4, CHR 0xB0]"
    by (simp_all add: isLower_def)
  have ki: "lowerChar (CHR ''k'') = CHR ''k''" "lowerChar (CHR ''i'') = CHR ''i''" by code_simp+
  show ?case
    using 2 k [OF _ nl(1)] k [OF _ nl(2)] by (auto simp: ki)
qed simp

lemma spaceSeqs_not_lower: "w \<in> set spaceSeqs \<Longrightarrow> list_all (\<lambda>c. \<not> isLower c) w"
  unfolding spaceSeqs_def by (auto simp: isLower_def)

lemma TrimSpace_ToLower [simp]: "TrimSpace (ToLower (TrimSpace s)) = ToLower (TrimSpace s)"
proof (rule TrimSpace_unchanged)
  fix w assume w: "w \<in> set spaceSeqs"
  have p: "\<not> prefix w (ToLower (TrimSpace s))"
    using TrimSpace_no_leading [OF w] ToLower_prefix_kept spaceSeqs_not_lower [OF w] by blast
  have "\<not> suffix w (ToLower (TrimSpace s))"
  proof
    assume "suffix w (ToLower (TrimSpace s))"
    then obtain u where "ToLower (TrimSpace s) = u @ w" by (auto simp: suffix_def)
    from ToLower_suffix_kept [OF this spaceSeqs_not_lower [OF w] spaceSeqs_nonempty [OF w]]
    show False using TrimSpace_no_trailing [OF w, of s] by (auto simp: suffix_def)
  qed
  with p show "\<not> prefix w (ToLower (TrimSpace s)) \<and> \<not> suffix w (ToLower (TrimSpace s))" ..
qed

section \<open>Splitting and joining\<close>

fun splitChar :: "char \<Rightarrow> string \<Rightarrow> string list" where
  "splitChar c [] = [[]]"
| "splitChar c (x # xs) =
     (if x = c then [] # splitChar c xs
      else (case splitChar c xs of [] \<Rightarrow> [[x]] | y # ys \<Rightarrow> (x # y) # ys))"

fun joinWith :: "char \<Rightarrow> string list \<Rightarrow> string" where
  "joinWith c [] = []"
| "joinWith c [s] = s"
| "joinWith c (s # t # ts) = s @ c # joinWith c (t # ts)"

definition Cut :: "string \<Rightarrow> char \<Rightarrow> string \<times> string \<times> bool" where
  "Cut s c =
     (case dropWhile (\<lambda>x. x \<noteq> c) s of
        [] \<Rightarrow> (s, [], False)
      | _ # rest \<Rightarrow> (takeWhile (\<lambda>x. x \<noteq> c) s, rest, True))"

definition ReplaceAllChar :: "string \<Rightarrow> char \<Rightarrow> string \<Rightarrow> string" where
  "ReplaceAllChar s c new = concat (map (\<lambda>x. if x = c then new else [x]) s)"

lemma splitChar_ne [simp]: "splitChar c s \<noteq> []"
  by (induction s) (auto split: list.splits)

lemma splitChar_no_sep: "t \<in> set (splitChar c s) \<Longrightarrow> c \<notin> set t"
  by (induction s arbitrary: t) (auto split: if_splits list.splits)

lemma joinWith_Cons: "ts \<noteq> [] \<Longrightarrow> joinWith c (s # ts) = s @ c # joinWith c ts"
  by (cases ts) auto

lemma joinWith_splitChar [simp]: "joinWith c (splitChar c s) = s"
proof (induction s)
  case (Cons x xs)
  obtain y ys where e: "splitChar c xs = y # ys" by (metis splitChar_ne list.exhaust)
  with Cons show ?case by (cases ys) (auto simp: joinWith_Cons)
qed simp

lemma splitChar_append_sep: "c \<notin> set s \<Longrightarrow> splitChar c (s @ c # t) = s # splitChar c t"
  by (induction s) auto

lemma splitChar_no_sep_id: "c \<notin> set s \<Longrightarrow> splitChar c s = [s]"
  by (induction s) auto

lemma splitChar_joinWith:
  "ts \<noteq> [] \<Longrightarrow> (\<And>t. t \<in> set ts \<Longrightarrow> c \<notin> set t) \<Longrightarrow> splitChar c (joinWith c ts) = ts"
  by (induction c ts rule: joinWith.induct)
     (auto simp: splitChar_append_sep splitChar_no_sep_id)

lemma set_splitChar: "t \<in> set (splitChar c s) \<Longrightarrow> set t \<subseteq> set s"
  by (induction s arbitrary: t) (fastforce split: if_splits list.splits)+

lemma Cut_found: "c \<notin> set k \<Longrightarrow> Cut (k @ c # v) c = (k, v, True)"
proof -
  assume "c \<notin> set k"
  then have "dropWhile (\<lambda>x. x \<noteq> c) (k @ c # v) = c # v" "takeWhile (\<lambda>x. x \<noteq> c) (k @ c # v) = k"
    by (induction k) auto
  then show ?thesis by (simp add: Cut_def)
qed

lemma Cut_cases:
  obtains (absent) "c \<notin> set s" "Cut s c = (s, [], False)"
  | (found) k v where "s = k @ c # v" "c \<notin> set k" "Cut s c = (k, v, True)"
proof (cases "c \<in> set s")
  case True
  then obtain k v where "s = k @ c # v" "c \<notin> set k" by (meson split_list_first)
  with found Cut_found show ?thesis by metis
next
  case False
  then have "dropWhile (\<lambda>x. x \<noteq> c) s = []" by (auto simp: dropWhile_eq_Nil_conv)
  then have "Cut s c = (s, [], False)" unfolding Cut_def by (simp only: list.case)
  with False absent show ?thesis by blast
qed

section \<open>Numbers in decimal\<close>

definition isDigit :: "char \<Rightarrow> bool" where
  "isDigit c \<longleftrightarrow> (let n = (of_char c :: nat) in 48 \<le> n \<and> n \<le> 57)"

definition digitVal :: "char \<Rightarrow> nat" where
  "digitVal c = (of_char c :: nat) - 48"

definition decVal :: "string \<Rightarrow> nat" where
  "decVal s = foldl (\<lambda>n c. 10 * n + digitVal c) 0 s"

fun natStr :: "nat \<Rightarrow> string" where
  "natStr n = (if n < 10 then [char_of (48 + n)] else natStr (n div 10) @ [char_of (48 + n mod 10)])"

declare natStr.simps [simp del]

definition Itoa :: "int \<Rightarrow> string" where
  "Itoa i = (if i < 0 then CHR ''-'' # natStr (nat (- i)) else natStr (nat i))"

text \<open>\<^verbatim>\<open>strconv.ParseUint(s, 10, bits)\<close>: a non-empty run of digits in range, no sign.\<close>

definition ParseUint :: "nat \<Rightarrow> string \<Rightarrow> nat option" where
  "ParseUint bits s =
     (if s \<noteq> [] \<and> list_all isDigit s \<and> decVal s < 2 ^ bits then Some (decVal s) else None)"

text \<open>\<^verbatim>\<open>strconv.ParseInt(s, 10, 64)\<close>, which is also \<^verbatim>\<open>strconv.Atoi\<close> where \<^verbatim>\<open>int\<close> has 64 bits.\<close>

definition ParseInt64 :: "string \<Rightarrow> int option" where
  "ParseInt64 s =
     (let (neg, ds) = (case s of
            [] \<Rightarrow> (False, [])
          | c # cs \<Rightarrow> if c = CHR ''-'' then (True, cs) else if c = CHR ''+'' then (False, cs) else (False, s));
          v = (if neg then - int (decVal ds) else int (decVal ds))
      in if ds \<noteq> [] \<and> list_all isDigit ds \<and> - (2 ^ 63) \<le> v \<and> v < 2 ^ 63 then Some v else None)"

lemma digitVal_char_of: "(d::nat) < 10 \<Longrightarrow> digitVal (char_of (48 + d)) = d"
  by (simp add: digitVal_def)

lemma isDigit_char_of: "(d::nat) < 10 \<Longrightarrow> isDigit (char_of (48 + d))"
  by (simp add: isDigit_def Let_def)

lemma decVal_append: "decVal (s @ [c]) = 10 * decVal s + digitVal c"
  by (simp add: decVal_def)

lemma natStr_digits: "list_all isDigit (natStr n)"
proof (induction n rule: natStr.induct)
  case (1 n)
  then show ?case by (subst natStr.simps) (auto simp: isDigit_char_of)
qed

lemma natStr_ne: "natStr n \<noteq> []"
  by (subst natStr.simps) simp

lemma decVal_natStr [simp]: "decVal (natStr n) = n"
proof (induction n rule: natStr.induct)
  case (1 n)
  show ?case
  proof (cases "n < 10")
    case True
    then show ?thesis by (subst natStr.simps) (simp add: decVal_def digitVal_char_of)
  next
    case False
    with 1 show ?thesis by (subst natStr.simps) (simp add: decVal_append digitVal_char_of)
  qed
qed

lemma ParseUint_natStr: "n < 2 ^ bits \<Longrightarrow> ParseUint bits (natStr n) = Some n"
  by (simp add: ParseUint_def natStr_ne natStr_digits)

lemma Itoa_nonneg: "0 \<le> i \<Longrightarrow> Itoa i = natStr (nat i)"
  by (simp add: Itoa_def)

end
