(* ===== verification/Go_Path.thy ===== *)
theory Go_Path
  imports Go_Strings
begin

text \<open>
  The lexical path operations of Go's \<^verbatim>\<open>path\<close> and \<^verbatim>\<open>path/filepath\<close> packages (Unix rules, where
  the two agree): \<^verbatim>\<open>IsAbs\<close>, \<^verbatim>\<open>Clean\<close>, \<^verbatim>\<open>Join\<close>, \<^verbatim>\<open>Dir\<close>, \<^verbatim>\<open>Base\<close>. \<^verbatim>\<open>Clean\<close> is written on the list of
  path elements: empty and \<^verbatim>\<open>.\<close> elements vanish, \<^verbatim>\<open>..\<close> cancels the element before it, and is
  dropped at the root of an absolute path.

  The lemmas give the algebra of cleaned paths that the mount checks, the archive checks and the
  socket paths rest on: cleaning is idempotent, and on clean absolute paths ``lies below'' is the
  prefix order on element lists.
\<close>

definition slash :: char where
  "slash = CHR ''/''"

definition IsAbs :: "string \<Rightarrow> bool" where
  "IsAbs p \<longleftrightarrow> (case p of [] \<Rightarrow> False | c # _ \<Rightarrow> c = slash)"

definition elems :: "string \<Rightarrow> string list" where
  "elems p = filter (\<lambda>s. s \<noteq> [] \<and> s \<noteq> ''.'') (splitChar slash p)"

definition cleanStep :: "bool \<Rightarrow> string list \<Rightarrow> string \<Rightarrow> string list" where
  "cleanStep rooted st s =
     (if s = ''..''
      then (if st \<noteq> [] \<and> last st \<noteq> ''..'' then butlast st
            else if rooted then st
            else st @ [''..''])
      else st @ [s])"

definition cleanElems :: "bool \<Rightarrow> string list \<Rightarrow> string list" where
  "cleanElems rooted es = foldl (cleanStep rooted) [] es"

definition render :: "bool \<Rightarrow> string list \<Rightarrow> string" where
  "render rooted es =
     (if rooted then slash # joinWith slash es
      else if es = [] then ''.'' else joinWith slash es)"

definition Clean :: "string \<Rightarrow> string" where
  "Clean p = render (IsAbs p) (cleanElems (IsAbs p) (elems p))"

definition uptoLastSlash :: "string \<Rightarrow> string" where
  "uptoLastSlash p = rev (dropWhile (\<lambda>c. c \<noteq> slash) (rev p))"

definition afterLastSlash :: "string \<Rightarrow> string" where
  "afterLastSlash p = rev (takeWhile (\<lambda>c. c \<noteq> slash) (rev p))"

definition Dir :: "string \<Rightarrow> string" where
  "Dir p = Clean (uptoLastSlash p)"

definition Base :: "string \<Rightarrow> string" where
  "Base p =
     (if p = [] then ''.''
      else let q = afterLastSlash (trimRightChar slash p) in if q = [] then [slash] else q)"

definition Join :: "string list \<Rightarrow> string" where
  "Join es =
     (case dropWhile (\<lambda>e. e = []) es of [] \<Rightarrow> [] | rest \<Rightarrow> Clean (joinWith slash rest))"

section \<open>Well-formed element lists\<close>

definition okElem :: "string \<Rightarrow> bool" where
  "okElem s \<longleftrightarrow> s \<noteq> [] \<and> s \<noteq> ''.'' \<and> slash \<notin> set s"

text \<open>What cleaning leaves: proper elements, with \<^verbatim>\<open>..\<close> only in front and only in a relative path.\<close>

definition cleanList :: "bool \<Rightarrow> string list \<Rightarrow> bool" where
  "cleanList rooted es \<longleftrightarrow>
     list_all okElem es \<and>
     (if rooted then ''..'' \<notin> set es else ''..'' \<notin> set (dropWhile (\<lambda>s. s = ''..'') es))"

lemma elems_ok: "list_all okElem (elems p)"
  by (auto simp: elems_def okElem_def list_all_iff dest: splitChar_no_sep)

lemma dropWhile_snoc_dd:
  "''..'' \<notin> set (dropWhile (\<lambda>s. s = ''..'') es) \<Longrightarrow> s \<noteq> ''..'' \<Longrightarrow>
   ''..'' \<notin> set (dropWhile (\<lambda>s. s = ''..'') (es @ [s]))"
  by (induction es) auto

lemma dropWhile_butlast_dd:
  "''..'' \<notin> set (dropWhile (\<lambda>s. s = ''..'') es) \<Longrightarrow>
   ''..'' \<notin> set (dropWhile (\<lambda>s. s = ''..'') (butlast es))"
  by (induction es) (auto split: if_splits dest: in_set_butlastD)

lemma all_dd_if_last_dd:
  "''..'' \<notin> set (dropWhile (\<lambda>s. s = ''..'') es) \<Longrightarrow> es \<noteq> [] \<Longrightarrow> last es = ''..'' \<Longrightarrow>
   set es = {''..''}"
proof (induction es)
  case (Cons e es)
  then show ?case by (cases "e = ''..''"; cases "es = []") (auto dest: last_in_set)
qed simp

lemma all_dd_snoc:
  "set es \<subseteq> {''..''} \<Longrightarrow> ''..'' \<notin> set (dropWhile (\<lambda>s. s = ''..'') (es @ [''..'']))"
  by (induction es) auto

lemma list_all_butlast: "list_all P xs \<Longrightarrow> list_all P (butlast xs)"
  by (auto simp: list_all_iff dest: in_set_butlastD)

lemma cleanStep_cleanList:
  assumes "cleanList rooted st" and "okElem s"
  shows "cleanList rooted (cleanStep rooted st s)"
proof (cases rooted)
  case True
  with assms show ?thesis
    by (auto simp: cleanList_def cleanStep_def dest: in_set_butlastD intro: list_all_butlast)
next
  case False
  let ?dd = "\<lambda>es. ''..'' \<notin> set (dropWhile (\<lambda>s. s = ''..'') es)"
  from False assms(1) have ok: "list_all okElem st" and dd: "?dd st"
    by (simp_all add: cleanList_def)
  have "set st \<subseteq> {''..''}" if "\<not> (st \<noteq> [] \<and> last st \<noteq> ''..'')"
    using that all_dd_if_last_dd [OF dd] by (cases "st = []") auto
  then have c: "\<not> (st \<noteq> [] \<and> last st \<noteq> ''..'') \<Longrightarrow> ?dd (st @ [''..''])"
    by (rule all_dd_snoc)
  have b: "?dd (butlast st)" by (rule dropWhile_butlast_dd [OF dd])
  have a: "s \<noteq> ''..'' \<Longrightarrow> ?dd (st @ [s])" by (rule dropWhile_snoc_dd [OF dd])
  have "?dd (cleanStep rooted st s)"
  proof (cases "s = ''..''")
    case True
    with b c \<open>\<not> rooted\<close> show ?thesis
      by (cases "st \<noteq> [] \<and> last st \<noteq> ''..''") (simp_all only: cleanStep_def if_True if_False simp_thms)
  next
    case False
    with a show ?thesis by (simp only: cleanStep_def if_False simp_thms)
  qed
  moreover have "list_all okElem (cleanStep rooted st s)"
    using ok assms(2) by (auto simp: cleanStep_def intro: list_all_butlast)
  ultimately show ?thesis using False by (simp add: cleanList_def)
qed

lemma foldl_cleanStep_cleanList:
  "cleanList rooted st \<Longrightarrow> list_all okElem es \<Longrightarrow> cleanList rooted (foldl (cleanStep rooted) st es)"
  by (induction es arbitrary: st) (auto intro: cleanStep_cleanList)

lemma cleanElems_cleanList: "list_all okElem es \<Longrightarrow> cleanList rooted (cleanElems rooted es)"
  unfolding cleanElems_def
  by (rule foldl_cleanStep_cleanList) (auto simp: cleanList_def)

lemma foldl_cleanStep_append:
  "(\<forall>s \<in> set es. s \<noteq> ''..'') \<Longrightarrow> foldl (cleanStep rooted) st es = st @ es"
  by (induction es arbitrary: st) (auto simp: cleanStep_def)

lemma foldl_cleanStep_dds:
  "set st \<subseteq> {''..''} \<Longrightarrow> set es \<subseteq> {''..''} \<Longrightarrow> foldl (cleanStep False) st es = st @ es"
proof (induction es arbitrary: st)
  case (Cons e es)
  then have "cleanStep False st e = st @ [e]" by (auto simp: cleanStep_def dest: last_in_set)
  with Cons show ?case by simp
qed simp

lemma cleanElems_id: "cleanList rooted es \<Longrightarrow> cleanElems rooted es = es"
proof (cases rooted)
  case True
  assume "cleanList rooted es"
  with True have "''..'' \<notin> set es" by (simp add: cleanList_def)
  then have "\<forall>s \<in> set es. s \<noteq> ''..''" by auto
  then show ?thesis by (simp add: cleanElems_def foldl_cleanStep_append)
next
  case False
  assume c: "cleanList rooted es"
  let ?t = "takeWhile (\<lambda>s. s = ''..'') es" and ?d = "dropWhile (\<lambda>s. s = ''..'') es"
  have t: "set ?t \<subseteq> {''..''}" by (auto dest: set_takeWhileD)
  have d: "\<forall>s \<in> set ?d. s \<noteq> ''..''" using c False by (auto simp: cleanList_def)
  have "foldl (cleanStep False) [] (?t @ ?d) = ?t @ ?d"
    by (simp only: foldl_append foldl_cleanStep_dds [OF _ t, of "[]", simplified]
        foldl_cleanStep_append [OF d])
  then show ?thesis using False by (simp add: cleanElems_def)
qed

section \<open>Rendering and reading back\<close>

lemma slash_not_ok: "okElem s \<Longrightarrow> slash \<notin> set s"
  by (simp add: okElem_def)

lemma elems_join: "list_all okElem es \<Longrightarrow> elems (joinWith slash es) = es"
proof (cases "es = []")
  case False
  assume ok: "list_all okElem es"
  then have "splitChar slash (joinWith slash es) = es"
    using False by (intro splitChar_joinWith) (auto simp: list_all_iff okElem_def)
  with ok show ?thesis by (auto simp: elems_def list_all_iff okElem_def intro: filter_True)
qed (simp add: elems_def)

lemma elems_slash_Cons: "elems (slash # p) = elems p"
  by (simp add: elems_def)

lemma IsAbs_simps [simp]: "IsAbs (slash # p)" "\<not> IsAbs []"
  by (simp_all add: IsAbs_def)

lemma IsAbs_Cons [simp]: "IsAbs (c # p) \<longleftrightarrow> c = slash"
  by (simp add: IsAbs_def)

lemma not_IsAbs_join: "es \<noteq> [] \<Longrightarrow> list_all okElem es \<Longrightarrow> \<not> IsAbs (joinWith slash es)"
proof -
  assume ne: "es \<noteq> []" and ok: "list_all okElem es"
  then obtain e ts where es: "es = e # ts" by (cases es) auto
  with ok obtain c cs where e: "e = c # cs" and c: "c \<noteq> slash"
    by (cases e) (auto simp: okElem_def)
  from es e have "\<exists>r. joinWith slash es = c # r" by (cases ts) auto
  with c show ?thesis by auto
qed

lemma IsAbs_render: "list_all okElem es \<Longrightarrow> IsAbs (render rooted es) = rooted"
  by (auto simp: render_def not_IsAbs_join) (simp add: IsAbs_def slash_def)

lemma elems_render: "list_all okElem es \<Longrightarrow> elems (render rooted es) = es"
proof -
  assume ok: "list_all okElem es"
  have "elems ''.'' = []" by (simp add: elems_def slash_def)
  with ok show ?thesis by (auto simp: render_def elems_slash_Cons elems_join)
qed

lemma cleanList_ok: "cleanList rooted es \<Longrightarrow> list_all okElem es"
  by (simp add: cleanList_def)

lemma cleanElems_ok: "list_all okElem (cleanElems rooted (elems p))"
  by (rule cleanList_ok [OF cleanElems_cleanList [OF elems_ok]])

lemma IsAbs_Clean [path_simps]: "IsAbs (Clean p) = IsAbs p"
  unfolding Clean_def by (rule IsAbs_render [OF cleanElems_ok])

lemma elems_Clean [path_simps]: "elems (Clean p) = cleanElems (IsAbs p) (elems p)"
  unfolding Clean_def by (rule elems_render [OF cleanElems_ok])

lemma Clean_idem [simp]: "Clean (Clean p) = Clean p"
proof -
  have "cleanElems (IsAbs p) (cleanElems (IsAbs p) (elems p)) = cleanElems (IsAbs p) (elems p)"
    by (rule cleanElems_id [OF cleanElems_cleanList [OF elems_ok]])
  then show ?thesis
    by (subst (1) Clean_def) (simp add: path_simps, simp add: Clean_def)
qed

lemma Clean_render: "cleanList rooted es \<Longrightarrow> Clean (render rooted es) = render rooted es"
  by (simp add: Clean_def IsAbs_render [OF cleanList_ok] elems_render [OF cleanList_ok] cleanElems_id)

lemma Clean_ne [simp]: "Clean p \<noteq> []"
proof -
  have "es \<noteq> [] \<Longrightarrow> list_all okElem es \<Longrightarrow> joinWith slash es \<noteq> []" for es
    by (cases es; cases "tl es") (auto simp: okElem_def)
  with cleanElems_ok show ?thesis by (auto simp: Clean_def render_def)
qed

text \<open>A clean absolute path is the rendering of its elements, none of them \<^verbatim>\<open>..\<close>.\<close>

lemma clean_abs_render:
  assumes "IsAbs p" "Clean p = p"
  shows "p = slash # joinWith slash (elems p)" "''..'' \<notin> set (elems p)"
proof -
  have e: "elems p = cleanElems True (elems p)" using elems_Clean [of p] assms by simp
  have "p = render True (elems p)" using assms e by (simp add: Clean_def)
  then show "p = slash # joinWith slash (elems p)" by (simp add: render_def)
  show "''..'' \<notin> set (elems p)"
    using cleanElems_cleanList [OF elems_ok, of True p] e by (simp add: cleanList_def)
qed

section \<open>Containment of paths\<close>

lemma joinWith_append:
  "xs \<noteq> [] \<Longrightarrow> ys \<noteq> [] \<Longrightarrow> joinWith c (xs @ ys) = joinWith c xs @ c # joinWith c ys"
proof (induction xs)
  case (Cons x xs)
  then show ?case by (cases "xs = []") (auto simp: joinWith_Cons)
qed simp

lemma splitChar_join_append:
  "xs \<noteq> [] \<Longrightarrow> (\<And>x. x \<in> set xs \<Longrightarrow> c \<notin> set x) \<Longrightarrow>
   splitChar c (joinWith c xs @ c # r) = xs @ splitChar c r"
proof (induction xs)
  case (Cons x xs)
  then show ?case
    by (cases "xs = []") (auto simp: joinWith_Cons splitChar_append_sep)
qed simp

lemma clean_abs_root: "IsAbs p \<Longrightarrow> Clean p = p \<Longrightarrow> p = ''/'' \<longleftrightarrow> elems p = []"
proof -
  assume a: "IsAbs p" "Clean p = p"
  have "elems ''/'' = []" by (simp add: elems_def slash_def)
  moreover have "elems p = [] \<Longrightarrow> p = ''/''" using clean_abs_render(1) [OF a] by (simp add: slash_def)
  ultimately show ?thesis by auto
qed

text \<open>Lying strictly below a clean absolute path, as the string test the code uses and as the
  prefix order on elements.\<close>

lemma below_iff:
  assumes "IsAbs a" "Clean a = a" "IsAbs b" "Clean b = b" "elems b \<noteq> []"
  shows "prefix (b @ [slash]) a \<longleftrightarrow> strict_prefix (elems b) (elems a)"
proof
  have a: "a = slash # joinWith slash (elems a)" and b: "b = slash # joinWith slash (elems b)"
    using assms clean_abs_render(1) by blast+
  have nos: "\<And>x. x \<in> set (elems b) \<Longrightarrow> slash \<notin> set x"
    using elems_ok by (auto simp: list_all_iff okElem_def)
  {
    assume "prefix (b @ [slash]) a"
    then obtain r where "a = b @ slash # r" by (auto simp: prefix_def)
    with a b have "slash # joinWith slash (elems a) = (slash # joinWith slash (elems b)) @ slash # r"
      by metis
    then have "joinWith slash (elems a) = joinWith slash (elems b) @ slash # r" by simp
    then have j: "elems a = filter (\<lambda>s. s \<noteq> [] \<and> s \<noteq> ''.'') (elems b @ splitChar slash r)"
      by (metis (no_types, lifting) assms(5) elems_def elems_join elems_ok nos splitChar_join_append)
    moreover have "filter (\<lambda>s. s \<noteq> [] \<and> s \<noteq> ''.'') (elems b) = elems b" by (simp add: elems_def)
    ultimately have p: "prefix (elems b) (elems a)" by (simp add: prefix_def)
    moreover have "elems a \<noteq> elems b" using \<open>a = b @ slash # r\<close> a b by auto
    ultimately show "strict_prefix (elems b) (elems a)" by (simp add: strict_prefix_def)
  next
    assume "strict_prefix (elems b) (elems a)"
    then obtain c cs where "elems a = elems b @ c # cs" by (auto simp: strict_prefix_def prefix_def neq_Nil_conv)
    then have "joinWith slash (elems a) = joinWith slash (elems b) @ slash # joinWith slash (c # cs)"
      using assms(5) by (simp add: joinWith_append)
    with a b have "a = (b @ [slash]) @ joinWith slash (c # cs)" by (metis append_Cons append_Nil append_assoc)
    then show "prefix (b @ [slash]) a" by (rule prefixI)
  }
qed

end
