(* ===== verification/Host.thy ===== *)
theory Host
  imports Go_Path
begin

text \<open>
  What the driver reads of its surroundings. Two records are parameters of the model and are
  passed to the operations that use them:
  \<^item> \<open>core_defaults\<close>: the constants of the module \<^verbatim>\<open>cauteum-core/defaults\<close>, which is not part of
    this repository;
  \<^item> \<open>host_os\<close>: the answers of the operating system behind Go's \<^verbatim>\<open>os\<close> package (environment, working
    and home directory, file metadata and contents) during one driver operation.
  \<open>OpenFile\<close> is opening a file, reading its metadata and closing it again; its value is absent when one
  of the last two fails.
  The lexical part of \<^verbatim>\<open>filepath.Abs\<close> is modelled here on top of the working directory.

  \<open>exampleDefaults\<close> and \<open>exampleOS\<close> are concrete values for evaluating the model; no operation
  depends on them.
\<close>

type_synonym os_error = string

record core_defaults =
  ImageDebian :: string
  ImageLocal :: string
  ImageGUI :: string
  ImageGPU :: string
  ImageProxy :: string
  ProxyPort :: int
  NoVNCPort :: int
  SandboxPidsLimit :: int
  GuestWorkspace :: string
  GuestRoot :: string
  GuestEtcOSG :: string
  GuestData :: string
  GuestHome :: string
  GuestBin :: string
  GuestPath :: string
  GuestCAFile :: string
  GuestCADir :: string
  GuestSSHD :: string
  GuestSSHSocket :: string
  GuestSSHLog :: string
  HostInternal :: string
  NoProxyValue :: string
  EnvImagePull :: string
  PublishedImage :: "string \<Rightarrow> string \<times> bool"

record file_info =
  fiIsDir :: bool
  fiIsRegular :: bool
  fiIsSymlink :: bool
  fiIsSocket :: bool
  fiPerm :: nat
  fiSize :: int
  fiModTime :: int

record host_os =
  Getenv :: "string \<Rightarrow> string"
  Getwd :: "os_error + string"
  UserHomeDir :: "os_error + string"
  EvalSymlinks :: "string \<Rightarrow> os_error + string"
  Stat :: "string \<Rightarrow> os_error + file_info"
  ReadFile :: "string \<Rightarrow> os_error + string"
  ReadDir :: "string \<Rightarrow> os_error + string list"
  OpenFile :: "string \<Rightarrow> os_error + file_info option"

definition Abs :: "host_os \<Rightarrow> string \<Rightarrow> os_error + string" where
  "Abs os p =
     (if IsAbs p then Inr (Clean p)
      else bindR (Getwd os) (\<lambda>wd. Inr (Join [wd, p])))"

definition exampleDefaults :: core_defaults where
  "exampleDefaults =
     \<lparr>ImageDebian = ''debian:bookworm'', ImageLocal = ''cauteum-sandbox:local'',
      ImageGUI = ''cauteum-sandbox:gui'', ImageGPU = ''cauteum-sandbox:gpu'',
      ImageProxy = ''debian:bookworm-slim'', ProxyPort = 3128, NoVNCPort = 6080,
      SandboxPidsLimit = 2048, GuestWorkspace = ''/workspace'', GuestRoot = ''/cauteum'',
      GuestEtcOSG = ''/etc/cauteum'', GuestData = ''/data'', GuestHome = ''/data/home'',
      GuestBin = ''/data/bin'', GuestPath = ''/data/bin:/usr/bin:/bin'',
      GuestCAFile = ''/cauteum/ca/ca.pem'', GuestCADir = ''/cauteum/ca'',
      GuestSSHD = ''/cauteum-haven/cauteum-sshd'', GuestSSHSocket = ''/run/cauteum/ssh/ssh.sock'',
      GuestSSHLog = ''/tmp/sshd.log'', HostInternal = ''host.cauteum.internal'',
      NoProxyValue = ''localhost'', EnvImagePull = ''CAUTEUM_IMAGE_PULL'',
      PublishedImage = (\<lambda>_. ([], False))\<rparr>"

definition dirInfo :: file_info where
  "dirInfo = \<lparr>fiIsDir = True, fiIsRegular = False, fiIsSymlink = False, fiIsSocket = False,
     fiPerm = 493, fiSize = 4096, fiModTime = 0\<rparr>"

definition fileInfo :: file_info where
  "fileInfo = \<lparr>fiIsDir = False, fiIsRegular = True, fiIsSymlink = False, fiIsSocket = False,
     fiPerm = 493, fiSize = 100, fiModTime = 0\<rparr>"

text \<open>A host where every path is a directory and no variable is set.\<close>

definition exampleOS :: host_os where
  "exampleOS =
     \<lparr>Getenv = (\<lambda>_. []), Getwd = Inr ''/home/u/p'', UserHomeDir = Inr ''/home/u'',
      EvalSymlinks = (\<lambda>p. Inr p), Stat = (\<lambda>_. Inr dirInfo), ReadFile = (\<lambda>_. Inr []),
      ReadDir = (\<lambda>_. Inr []), OpenFile = (\<lambda>_. Inr (Some fileInfo))\<rparr>"

end
