(* ===== verification/Go_Float.thy ===== *)
theory Go_Float
  imports Prelude
begin

text \<open>
  The \<^verbatim>\<open>float64\<close> values the driver handles: CPU limits, and numbers of a decoded configuration. A
  finite value is an integer mantissa with a power of two. Multiplication rounds the product to 53
  bits, ties to even; the exponent is not bounded, which cannot be observed here because a product
  that leaves the range of \<^verbatim>\<open>float64\<close> also leaves the range of the integers it is converted to. A
  conversion of a value outside \<^verbatim>\<open>int64\<close> is implementation-defined in Go; the model takes the
  result of amd64, the least integer.
\<close>

datatype gofloat = FNaN | FInf bool | FFin int int

fun fPositive :: "gofloat \<Rightarrow> bool" where
  "fPositive FNaN = False"
| "fPositive (FInf neg) = (\<not> neg)"
| "fPositive (FFin m e) = (0 < m)"

fun fZero :: "gofloat \<Rightarrow> bool" where
  "fZero (FFin m e) = (m = 0)"
| "fZero _ = False"

fun bitLen :: "nat \<Rightarrow> nat" where
  "bitLen n = (if n = 0 then 0 else Suc (bitLen (n div 2)))"

declare bitLen.simps [simp del]

definition roundEven53 :: "nat \<Rightarrow> int \<Rightarrow> nat \<times> int" where
  "roundEven53 m e =
     (if m < 2 ^ 53 then (m, e)
      else (let k = bitLen m - 53; q = m div 2 ^ k; r = m mod 2 ^ k; half = 2 ^ (k - 1) in
            (if half < r \<or> r = half \<and> odd q then q + 1 else q, e + int k)))"

fun fMulNano :: "gofloat \<Rightarrow> gofloat" where
  "fMulNano (FFin m e) =
     (let (q, e') = roundEven53 (nat \<bar>m\<bar> * 1000000000) e in FFin (if m < 0 then - int q else int q) e')"
| "fMulNano f = f"

definition minInt64 :: int where
  "minInt64 = - 9223372036854775808"

definition maxInt64 :: int where
  "maxInt64 = 9223372036854775807"

definition inInt64 :: "int \<Rightarrow> bool" where
  "inInt64 i \<longleftrightarrow> minInt64 \<le> i \<and> i \<le> maxInt64"

fun fTrunc :: "gofloat \<Rightarrow> int option" where
  "fTrunc (FFin m e) =
     Some (if 0 \<le> e then m * 2 ^ nat e
           else if m < 0 then - (- m div 2 ^ nat (- e)) else m div 2 ^ nat (- e))"
| "fTrunc _ = None"

definition toInt64 :: "gofloat \<Rightarrow> int" where
  "toInt64 f = (case fTrunc f of Some i \<Rightarrow> if inInt64 i then i else minInt64 | None \<Rightarrow> minInt64)"

definition nanoCPUs :: "gofloat \<Rightarrow> int" where
  "nanoCPUs cpu = toInt64 (fMulNano cpu)"

lemma bitLen_bounds: "0 < n \<Longrightarrow> 2 ^ (bitLen n - 1) \<le> n \<and> n < 2 ^ bitLen n"
proof (induction n rule: bitLen.induct)
  case (1 n)
  show ?case
  proof (cases "n < 2")
    case True
    with 1 have "n = 1" by simp
    moreover have "bitLen 1 = 1" by (subst bitLen.simps, simp, subst bitLen.simps, simp)
    ultimately show ?thesis by simp
  next
    case False
    let ?h = "n div 2"
    have h: "0 < ?h" using False by simp
    from h have "bitLen ?h \<noteq> 0" by (subst bitLen.simps) simp
    moreover have "bitLen n = Suc (bitLen ?h)" using False by (subst bitLen.simps) simp
    ultimately show ?thesis using 1(1) h False by (cases "bitLen ?h") auto
  qed
qed

lemma toInt64_range: "inInt64 (toInt64 f)"
  by (auto simp: toInt64_def inInt64_def minInt64_def maxInt64_def split: option.splits)

lemma toInt64_int: "inInt64 i \<Longrightarrow> toInt64 (FFin i 0) = i"
  by (simp add: toInt64_def)

text \<open>Whole numbers of CPUs convert exactly as long as the product needs no rounding.\<close>

lemma nanoCPUs_whole:
  assumes "0 \<le> n" "n < 9007199"
  shows "nanoCPUs (FFin n 0) = n * 1000000000"
proof -
  have "nat n * 1000000000 < 2 ^ 53" using assms by simp
  then have "fMulNano (FFin n 0) = FFin (n * 1000000000) 0"
    using assms(1) by (simp add: roundEven53_def)
  with assms show ?thesis
    by (simp add: nanoCPUs_def toInt64_def inInt64_def minInt64_def maxInt64_def)
qed

end
