(* ===== verification/Driver_API.thy ===== *)
theory Driver_API
  imports Host Go_Float
begin

text \<open>
  The public API of the driver module: \<^verbatim>\<open>driver/driver.go\<close>, \<^verbatim>\<open>driver/engine.go\<close> and the constants
  of \<^verbatim>\<open>driver/helpers.go\<close>.

  The Go interfaces are records of operations. An operation works on the state \<open>'w\<close> of the world
  outside the process and returns an error of type \<open>'e\<close> or a value, with the new state. \<open>Engine\<close>
  extends \<open>ComputeDriver\<close> as the Go interface embeds it. A Go map is an association list in the
  order in which \<^verbatim>\<open>range\<close> visits it, which Go leaves open.
\<close>

section \<open>driver.go: data\<close>

record PortPublish =
  ppHost :: int
  ppGuest :: int

record Spec =
  spName :: string
  spImage :: string
  spWorkspace :: string
  spCommand :: "string list"
  spEnv :: "string list"
  spIKnow :: bool
  spProxyBin :: string
  spPolicyPath :: string
  spProxyPort :: int
  spProxyEnv :: "string list"
  spInitBin :: string
  spNoHarden :: bool
  spSupervisorBin :: string
  spDisplayMode :: string
  spDisplayPort :: int
  spDisplayPassword :: string
  spLabels :: "(string \<times> string) list"
  spExtraHosts :: "string list"
  spGatewayURL :: string
  spPersistVolume :: bool
  spEnableSSH :: bool
  spSSHBin :: string
  spGPU :: bool
  spGPUCount :: int
  spCDIDevices :: "string list"
  spCPU :: gofloat
  spMemoryBytes :: int
  spPidsLimit :: int
  spProxyImage :: string
  spPublishPorts :: "PortPublish list"
  spDriverConfigJSON :: string

text \<open>Go's zero value of \<^verbatim>\<open>Spec\<close>.\<close>

definition zeroSpec :: Spec where
  "zeroSpec =
     \<lparr>spName = [], spImage = [], spWorkspace = [], spCommand = [], spEnv = [], spIKnow = False,
      spProxyBin = [], spPolicyPath = [], spProxyPort = 0, spProxyEnv = [], spInitBin = [],
      spNoHarden = False, spSupervisorBin = [], spDisplayMode = [], spDisplayPort = 0,
      spDisplayPassword = [], spLabels = [], spExtraHosts = [], spGatewayURL = [],
      spPersistVolume = False, spEnableSSH = False, spSSHBin = [], spGPU = False, spGPUCount = 0,
      spCDIDevices = [], spCPU = FFin 0 0, spMemoryBytes = 0, spPidsLimit = 0, spProxyImage = [],
      spPublishPorts = [], spDriverConfigJSON = []\<rparr>"

record Handle =
  hID :: string
  hName :: string
  hNetwork :: string
  hImage :: string

record Info =
  iID :: string
  iName :: string
  iNetwork :: string
  iImage :: string
  iStatus :: string

record ExecRequest =
  erArgv :: "string list"
  erTTY :: bool
  erEnv :: "string list"
  erWorkDir :: string

record ExecResult =
  ExitCode :: int

record Probe =
  pOK :: bool
  pServerVersion :: string
  pAPIVersion :: string
  pOperatingSystem :: string
  pArchitecture :: string
  pContext :: string
  pIsolation :: string
  pHostGOOS :: string
  pCapabilities :: "string list"
  pSecurityOptions :: "string list"
  pRootless :: string
  pError :: string

definition SupervisorControlSocketName :: string where
  "SupervisorControlSocketName = ''supervisor-control.sock''"

section \<open>driver.go, engine.go: interfaces\<close>

type_synonym ('e, 'w, 'a) operation = "'w \<Rightarrow> ('e + 'a) \<times> 'w"

record ('e, 'w) ComputeDriver =
  cdCreate :: "Spec \<Rightarrow> ('e, 'w, Handle) operation"
  cdStart :: "string \<Rightarrow> ('e, 'w, unit) operation"
  cdStop :: "string \<Rightarrow> ('e, 'w, unit) operation"
  cdExec :: "string \<Rightarrow> ExecRequest \<Rightarrow> ('e, 'w, ExecResult) operation"
  cdDelete :: "string \<Rightarrow> ('e, 'w, unit) operation"
  cdList :: "('e, 'w, Info list) operation"
  cdInspect :: "string \<Rightarrow> ('e, 'w, Info) operation"
  cdLogs :: "string \<Rightarrow> bool \<Rightarrow> ('e, 'w, unit) operation"
  cdCopyTo :: "string \<Rightarrow> string \<Rightarrow> string \<Rightarrow> ('e, 'w, unit) operation"
  cdCopyFrom :: "string \<Rightarrow> string \<Rightarrow> string \<Rightarrow> ('e, 'w, unit) operation"
  cdEnsureSSHDaemon :: "string \<Rightarrow> ('e, 'w, unit) operation"

record ('e, 'w) Engine = "('e, 'w) ComputeDriver" +
  enHealth :: "'w \<Rightarrow> Probe \<times> 'w"
  enImagePresent :: "string \<Rightarrow> 'w \<Rightarrow> bool \<times> 'w"
  enRunProbe :: "string \<Rightarrow> ('e, 'w, string) operation"
  enPolicyHostPath :: "string \<Rightarrow> ('e, 'w, string) operation"
  enContainerIP :: "string \<Rightarrow> string \<Rightarrow> ('e, 'w, string) operation"

section \<open>helpers.go\<close>

definition HostGatewayExtraHosts :: "core_defaults \<Rightarrow> string list" where
  "HostGatewayExtraHosts D = [HostInternal D @ '':host-gateway'', ''host.docker.internal:host-gateway'']"

definition ProxyExtraHosts :: "core_defaults \<Rightarrow> string list" where
  "ProxyExtraHosts D = HostGatewayExtraHosts D"

end
