(* ===== verification/Registry.thy ===== *)
theory Registry
  imports Driver_API
begin

text \<open>
  \<^verbatim>\<open>driver/open.go\<close>: the tables of backend factories, and the two placeholder backends
  \<^verbatim>\<open>internal/kubernetes\<close> and \<^verbatim>\<open>internal/vm\<close> that register in them.

  The package variables \<open>openers\<close>, \<open>engineOpeners\<close> and \<open>engineConfigOpeners\<close> are the fields of the
  record \<open>registry\<close>; a missing entry and a nil factory read alike in Go and are both \<open>None\<close>. The
  read-write lock makes each call atomic, so a run of the program is a sequence of these
  operations. A factory is a function of the surroundings \<open>'h\<close> it opens its client in.
\<close>

datatype open_error =
    UnknownKind string
  | NoEngineAPI string
  | NoDriverConfiguration string
  | FactoryError string

type_synonym ('h, 'd) factory = "'h \<Rightarrow> open_error + 'd"

record ('h, 'cd, 'en, 'c) registry =
  openers :: "string \<Rightarrow> ('h, 'cd) factory option"
  engineOpeners :: "string \<Rightarrow> ('h, 'en) factory option"
  engineConfigOpeners :: "string \<Rightarrow> ((string \<times> 'c) list \<Rightarrow> ('h, 'en) factory) option"

definition emptyRegistry :: "('h, 'cd, 'en, 'c) registry" where
  "emptyRegistry =
     \<lparr>openers = (\<lambda>_. None), engineOpeners = (\<lambda>_. None), engineConfigOpeners = (\<lambda>_. None)\<rparr>"

definition normalizeKind :: "string \<Rightarrow> string" where
  "normalizeKind kind =
     (let k = ToLower (TrimSpace kind) in
      if k = ''podman'' then ''podman''
      else if k = ''vm'' \<or> k = ''microvm'' then ''vm''
      else if k = ''kubernetes'' \<or> k = ''k8s'' then ''kubernetes''
      else if k = [] \<or> k = ''docker'' then ''docker''
      else ToLower (TrimSpace kind))"

definition Register ::
  "string \<Rightarrow> ('h, 'cd) factory option \<Rightarrow> ('h, 'cd, 'en, 'c) registry \<Rightarrow> ('h, 'cd, 'en, 'c) registry" where
  "Register kind open r = r\<lparr>openers := (openers r)(normalizeKind kind := open)\<rparr>"

definition RegisterEngine ::
  "string \<Rightarrow> ('h, 'en) factory option \<Rightarrow> ('h, 'cd, 'en, 'c) registry \<Rightarrow> ('h, 'cd, 'en, 'c) registry" where
  "RegisterEngine kind open r = r\<lparr>engineOpeners := (engineOpeners r)(normalizeKind kind := open)\<rparr>"

definition RegisterEngineWithConfig ::
  "string \<Rightarrow> ((string \<times> 'c) list \<Rightarrow> ('h, 'en) factory) option \<Rightarrow> ('h, 'cd, 'en, 'c) registry \<Rightarrow>
   ('h, 'cd, 'en, 'c) registry" where
  "RegisterEngineWithConfig kind open r =
     r\<lparr>engineConfigOpeners := (engineConfigOpeners r)(normalizeKind kind := open)\<rparr>"

definition Open :: "('h, 'cd, 'en, 'c) registry \<Rightarrow> string \<Rightarrow> 'h \<Rightarrow> open_error + 'cd" where
  "Open r kind h = (case openers r (normalizeKind kind) of None \<Rightarrow> Inl (UnknownKind kind) | Some f \<Rightarrow> f h)"

definition OpenEngine :: "('h, 'cd, 'en, 'c) registry \<Rightarrow> string \<Rightarrow> 'h \<Rightarrow> open_error + 'en" where
  "OpenEngine r kind h =
     (case engineOpeners r (normalizeKind kind) of None \<Rightarrow> Inl (NoEngineAPI kind) | Some f \<Rightarrow> f h)"

definition OpenEngineWithConfig ::
  "('h, 'cd, 'en, 'c) registry \<Rightarrow> string \<Rightarrow> (string \<times> 'c) list \<Rightarrow> 'h \<Rightarrow> open_error + 'en" where
  "OpenEngineWithConfig r kind config h =
     (case engineConfigOpeners r (normalizeKind kind) of
        Some f \<Rightarrow> f config h
      | None \<Rightarrow>
          (if length config \<noteq> 0 then Inl (NoDriverConfiguration kind) else OpenEngine r kind h))"

section \<open>kubernetes.go, vm.go\<close>

datatype stub_error = NotImplemented string string

definition kubernetesDriver :: "(stub_error, 'w) ComputeDriver" where
  "kubernetesDriver =
     (let stub = \<lambda>op. NotImplemented ''kubernetes'' op in
      \<lparr>cdCreate = \<lambda>_ w. (Inl (stub ''Create''), w), cdStart = \<lambda>_ w. (Inl (stub ''Start''), w),
       cdStop = \<lambda>_ w. (Inl (stub ''Stop''), w), cdExec = \<lambda>_ _ w. (Inl (stub ''Exec''), w),
       cdDelete = \<lambda>_ w. (Inl (stub ''Delete''), w), cdList = \<lambda>w. (Inl (stub ''List''), w),
       cdInspect = \<lambda>_ w. (Inl (stub ''Inspect''), w), cdLogs = \<lambda>_ _ w. (Inl (stub ''Logs''), w),
       cdCopyTo = \<lambda>_ _ _ w. (Inl (stub ''CopyTo''), w),
       cdCopyFrom = \<lambda>_ _ _ w. (Inl (stub ''CopyFrom''), w),
       cdEnsureSSHDaemon = \<lambda>_ w. (Inl (stub ''EnsureSSHDaemon''), w)\<rparr>)"

definition vmDriver :: "(stub_error, 'w) ComputeDriver" where
  "vmDriver =
     (let stub = \<lambda>op. NotImplemented ''vm'' op in
      \<lparr>cdCreate = \<lambda>_ w. (Inl (stub ''Create''), w), cdStart = \<lambda>_ w. (Inl (stub ''Start''), w),
       cdStop = \<lambda>_ w. (Inl (stub ''Stop''), w), cdExec = \<lambda>_ _ w. (Inl (stub ''Exec''), w),
       cdDelete = \<lambda>_ w. (Inl (stub ''Delete''), w), cdList = \<lambda>w. (Inl (stub ''List''), w),
       cdInspect = \<lambda>_ w. (Inl (stub ''Inspect''), w), cdLogs = \<lambda>_ _ w. (Inl (stub ''Logs''), w),
       cdCopyTo = \<lambda>_ _ _ w. (Inl (stub ''CopyTo''), w),
       cdCopyFrom = \<lambda>_ _ _ w. (Inl (stub ''CopyFrom''), w),
       cdEnsureSSHDaemon = \<lambda>_ w. (Inl (stub ''EnsureSSHDaemon''), w)\<rparr>)"

section \<open>register.go of the four backends\<close>

definition registerKubernetes ::
  "('h, (stub_error, 'w) ComputeDriver + 'cd, 'en, 'c) registry \<Rightarrow>
   ('h, (stub_error, 'w) ComputeDriver + 'cd, 'en, 'c) registry" where
  "registerKubernetes = Register ''kubernetes'' (Some (\<lambda>_. Inr (Inl kubernetesDriver)))"

definition registerVM ::
  "('h, (stub_error, 'w) ComputeDriver + 'cd, 'en, 'c) registry \<Rightarrow>
   ('h, (stub_error, 'w) ComputeDriver + 'cd, 'en, 'c) registry" where
  "registerVM = Register ''vm'' (Some (\<lambda>_. Inr (Inl vmDriver)))"

text \<open>Docker and Podman register three factories each: \<open>new\<close> is the backend's \<^verbatim>\<open>New\<close>, seen as a
  compute driver or as an engine, and \<open>newCfg\<close> the factory that reads a configuration.\<close>

definition registerEngineBackend ::
  "string \<Rightarrow> ('h, 'en) factory \<Rightarrow> ((string \<times> 'c) list \<Rightarrow> ('h, 'en) factory) \<Rightarrow>
   ('h, 's + 'en, 'en, 'c) registry \<Rightarrow> ('h, 's + 'en, 'en, 'c) registry" where
  "registerEngineBackend kind new newCfg r =
     RegisterEngineWithConfig kind (Some newCfg)
       (RegisterEngine kind (Some new)
         (Register kind (Some (\<lambda>h. bindR (new h) (\<lambda>d. Inr (Inr d)))) r))"

text \<open>Importing \<^verbatim>\<open>driver/all\<close> runs the \<^verbatim>\<open>init\<close> functions in the order of the import paths.\<close>

definition registerAll ::
  "('h, 'en) factory \<Rightarrow> ((string \<times> 'c) list \<Rightarrow> ('h, 'en) factory) \<Rightarrow>
   ('h, 'en) factory \<Rightarrow> ((string \<times> 'c) list \<Rightarrow> ('h, 'en) factory) \<Rightarrow>
   ('h, (stub_error, 'w) ComputeDriver + 'en, 'en, 'c) registry" where
  "registerAll dockerNew dockerCfg podmanNew podmanCfg =
     registerVM
       (registerEngineBackend ''podman'' podmanNew podmanCfg
         (registerKubernetes (registerEngineBackend ''docker'' dockerNew dockerCfg emptyRegistry)))"

section \<open>The contract of a factory table\<close>

lemma normalizeKind_canonical:
  "normalizeKind ''docker'' = ''docker''" "normalizeKind ''podman'' = ''podman''"
  "normalizeKind ''kubernetes'' = ''kubernetes''" "normalizeKind ''vm'' = ''vm''"
  by code_simp+

lemma normalizeKind_cases:
  "normalizeKind k \<in> {''podman'', ''vm'', ''kubernetes'', ''docker''} \<or>
   normalizeKind k = ToLower (TrimSpace k)"
  by (simp add: normalizeKind_def Let_def)

lemma normalizeKind_idem: "normalizeKind (normalizeKind k) = normalizeKind k"
proof -
  have "normalizeKind (ToLower (TrimSpace k)) = normalizeKind k" by (simp add: normalizeKind_def Let_def)
  with normalizeKind_cases [of k] normalizeKind_canonical show ?thesis
    by (elim disjE) (auto simp only: insert_iff empty_iff)
qed

locale kind_table =
  fixes norm :: "string \<Rightarrow> string"
    and put :: "string \<Rightarrow> 'f option \<Rightarrow> 'r \<Rightarrow> 'r"
    and get :: "'r \<Rightarrow> string \<Rightarrow> 'f option"
  assumes norm_idem: "norm (norm k) = norm k"
    and get_norm: "get r (norm k) = get r k"
    and get_put: "get (put k f r) k' = (if norm k' = norm k then f else get r k')"
begin

text \<open>The table as an abstract map from canonical kinds to factories.\<close>

definition absTable :: "'r \<Rightarrow> string \<Rightarrow> 'f option" where
  "absTable r = (\<lambda>k. if norm k = k then get r k else None)"

lemma absTable_put: "absTable (put k f r) = (absTable r)(norm k := f)"
  by (auto simp: absTable_def get_put norm_idem)

lemma get_absTable: "get r k = absTable r (norm k)"
  by (simp add: absTable_def norm_idem get_norm)

lemma last_registration_wins: "get (put k f (put k' g r)) k'' =
    (if norm k'' = norm k then f else if norm k'' = norm k' then g else get r k'')"
  by (simp add: get_put)

lemma puts_commute:
  "norm k \<noteq> norm k' \<Longrightarrow> get (put k f (put k' g r)) x = get (put k' g (put k f r)) x"
  by (simp add: get_put)

end

interpretation compute_table: kind_table normalizeKind Register
  "\<lambda>r k. openers r (normalizeKind k)"
  by unfold_locales (simp_all add: Register_def normalizeKind_idem)

interpretation engine_table: kind_table normalizeKind RegisterEngine
  "\<lambda>r k. engineOpeners r (normalizeKind k)"
  by unfold_locales (simp_all add: RegisterEngine_def normalizeKind_idem)

interpretation config_table: kind_table normalizeKind RegisterEngineWithConfig
  "\<lambda>r k. engineConfigOpeners r (normalizeKind k)"
  by unfold_locales (simp_all add: RegisterEngineWithConfig_def normalizeKind_idem)

section \<open>The contract of a placeholder backend\<close>

text \<open>Every operation of a placeholder fails with its own error and leaves the world alone.\<close>

locale inert_driver =
  fixes drv :: "(stub_error, 'w) ComputeDriver" and backend :: string
  assumes create_stub: "cdCreate drv s w = (Inl (NotImplemented backend ''Create''), w)"
    and start_stub: "cdStart drv i w = (Inl (NotImplemented backend ''Start''), w)"
    and stop_stub: "cdStop drv i w = (Inl (NotImplemented backend ''Stop''), w)"
    and exec_stub: "cdExec drv i q w = (Inl (NotImplemented backend ''Exec''), w)"
    and delete_stub: "cdDelete drv i w = (Inl (NotImplemented backend ''Delete''), w)"
    and list_stub: "cdList drv w = (Inl (NotImplemented backend ''List''), w)"
    and inspect_stub: "cdInspect drv i w = (Inl (NotImplemented backend ''Inspect''), w)"
    and logs_stub: "cdLogs drv i b w = (Inl (NotImplemented backend ''Logs''), w)"
    and copyto_stub: "cdCopyTo drv i src dst w = (Inl (NotImplemented backend ''CopyTo''), w)"
    and copyfrom_stub: "cdCopyFrom drv i src dst w = (Inl (NotImplemented backend ''CopyFrom''), w)"
    and ssh_stub: "cdEnsureSSHDaemon drv i w = (Inl (NotImplemented backend ''EnsureSSHDaemon''), w)"
begin

lemmas stubs = create_stub start_stub stop_stub exec_stub delete_stub list_stub inspect_stub
  logs_stub copyto_stub copyfrom_stub ssh_stub

text \<open>A create, start, exec, stop, delete sequence on a placeholder has no effect at all.\<close>

lemma lifecycle_inert:
  "snd (cdDelete drv i (snd (cdStop drv i (snd (cdExec drv i q (snd (cdStart drv i
     (snd (cdCreate drv s w))))))))) = w"
  by (simp add: stubs)

end

interpretation kubernetes_stub: inert_driver kubernetesDriver "''kubernetes''"
  by unfold_locales (simp_all add: kubernetesDriver_def Let_def)

interpretation vm_stub: inert_driver vmDriver "''vm''"
  by unfold_locales (simp_all add: vmDriver_def Let_def)

section \<open>Properties\<close>

lemmas registerAll_defs = registerAll_def registerVM_def registerKubernetes_def
  registerEngineBackend_def Register_def RegisterEngine_def RegisterEngineWithConfig_def
  emptyRegistry_def normalizeKind_canonical

lemma registerAll_openers:
  "openers (registerAll dn dc pn pc) =
     [''docker'' \<mapsto> \<lambda>h. bindR (dn h) (\<lambda>d. Inr (Inr d)), ''kubernetes'' \<mapsto> \<lambda>_. Inr (Inl kubernetesDriver),
      ''podman'' \<mapsto> \<lambda>h. bindR (pn h) (\<lambda>d. Inr (Inr d)), ''vm'' \<mapsto> \<lambda>_. Inr (Inl vmDriver)]"
  "engineOpeners (registerAll dn dc pn pc) = [''docker'' \<mapsto> dn, ''podman'' \<mapsto> pn]"
  "engineConfigOpeners (registerAll dn dc pn pc) = [''docker'' \<mapsto> dc, ''podman'' \<mapsto> pc]"
  by (simp_all add: registerAll_defs)

text \<open>
  C31. With all backends imported, a kind is resolved up to white space and letter case and with its
  aliases: the empty string and docker open Docker, podman opens Podman, vm and microvm the MicroVM
  placeholder, kubernetes and k8s the Kubernetes placeholder, anything else is an unknown kind.
  Engine access exists for Docker and Podman only, and a configuration for any other backend is
  refused rather than dropped.
\<close>

theorem open_dispatches_by_kind:
  "let k = ToLower (TrimSpace kind); R = registerAll dn dc pn pc in
    Open R kind h =
      (if k = [] \<or> k = ''docker'' then bindR (dn h) (\<lambda>d. Inr (Inr d))
       else if k = ''podman'' then bindR (pn h) (\<lambda>d. Inr (Inr d))
       else if k = ''vm'' \<or> k = ''microvm'' then Inr (Inl vmDriver)
       else if k = ''kubernetes'' \<or> k = ''k8s'' then Inr (Inl kubernetesDriver)
       else Inl (UnknownKind kind)) \<and>
    OpenEngineWithConfig R kind config h =
      (if k = [] \<or> k = ''docker'' then dc config h
       else if k = ''podman'' then pc config h
       else if config \<noteq> [] then Inl (NoDriverConfiguration kind)
       else Inl (NoEngineAPI kind)) \<and>
    OpenEngine R kind h =
      (if k = [] \<or> k = ''docker'' then dn h
       else if k = ''podman'' then pn h
       else Inl (NoEngineAPI kind))"
  unfolding Let_def Open_def OpenEngine_def OpenEngineWithConfig_def registerAll_openers
  by (simp add: normalizeKind_def Let_def)

text \<open>
  A program need not import \<^verbatim>\<open>driver/all\<close>: the backends it imports register themselves in the order in
  which Go runs their \<^verbatim>\<open>init\<close> functions.
\<close>

datatype backend = DockerBackend | PodmanBackend | KubernetesBackend | VMBackend

fun backendKind :: "backend \<Rightarrow> string" where
  "backendKind DockerBackend = ''docker''"
| "backendKind PodmanBackend = ''podman''"
| "backendKind KubernetesBackend = ''kubernetes''"
| "backendKind VMBackend = ''vm''"

fun registerBackend ::
  "('h, 'en) factory \<Rightarrow> ((string \<times> 'c) list \<Rightarrow> ('h, 'en) factory) \<Rightarrow>
   ('h, 'en) factory \<Rightarrow> ((string \<times> 'c) list \<Rightarrow> ('h, 'en) factory) \<Rightarrow> backend \<Rightarrow>
   ('h, (stub_error, 'w) ComputeDriver + 'en, 'en, 'c) registry \<Rightarrow>
   ('h, (stub_error, 'w) ComputeDriver + 'en, 'en, 'c) registry" where
  "registerBackend dn dc pn pc DockerBackend = registerEngineBackend ''docker'' dn dc"
| "registerBackend dn dc pn pc PodmanBackend = registerEngineBackend ''podman'' pn pc"
| "registerBackend dn dc pn pc KubernetesBackend = registerKubernetes"
| "registerBackend dn dc pn pc VMBackend = registerVM"

definition imported ::
  "('h, 'en) factory \<Rightarrow> ((string \<times> 'c) list \<Rightarrow> ('h, 'en) factory) \<Rightarrow>
   ('h, 'en) factory \<Rightarrow> ((string \<times> 'c) list \<Rightarrow> ('h, 'en) factory) \<Rightarrow> backend list \<Rightarrow>
   ('h, (stub_error, 'w) ComputeDriver + 'en, 'en, 'c) registry" where
  "imported dn dc pn pc bs = foldl (\<lambda>r b. registerBackend dn dc pn pc b r) emptyRegistry bs"

lemma imported_snoc: "imported dn dc pn pc (bs @ [b]) = registerBackend dn dc pn pc b (imported dn dc pn pc bs)"
  by (simp add: imported_def)

definition onlyKinds :: "string set \<Rightarrow> ('h, 'cd, 'en, 'c) registry \<Rightarrow> ('h, 'cd, 'en, 'c) registry" where
  "onlyKinds K r = \<lparr>openers = openers r |` K, engineOpeners = engineOpeners r |` K, engineConfigOpeners = engineConfigOpeners r |` K\<rparr>"

lemma imported_only: "imported dn dc pn pc bs = onlyKinds (backendKind ` set bs) (registerAll dn dc pn pc)"
proof (induction bs rule: rev_induct)
  case Nil
  show ?case by (simp add: imported_def emptyRegistry_def onlyKinds_def restrict_map_def)
next
  case (snoc b bs)
  define K where "K = backendKind ` set bs"
  have "registerBackend dn dc pn pc b (onlyKinds K (registerAll dn dc pn pc)) =
      onlyKinds (insert (backendKind b) K) (registerAll dn dc pn pc)"
    by (cases b)
      (auto simp: onlyKinds_def registerAll_openers registerEngineBackend_def registerKubernetes_def registerVM_def Register_def
        RegisterEngine_def RegisterEngineWithConfig_def normalizeKind_canonical restrict_map_def fun_eq_iff)
  then show ?case by (simp add: imported_snoc snoc.IH K_def)
qed

text \<open>
  C32. What can be opened depends on which backends a program imports and not on the order in which
  they register, nor on repetition: a kind of an imported backend opens as with all backends imported,
  and any other kind is unknown, has no engine, and accepts no configuration.
\<close>

theorem import_order_irrelevant:
  "let I = imported dn dc pn pc bs; R = registerAll dn dc pn pc; known = normalizeKind kind \<in> backendKind ` set bs in
   Open I kind h = (if known then Open R kind h else Inl (UnknownKind kind)) \<and>
   OpenEngine I kind h = (if known then OpenEngine R kind h else Inl (NoEngineAPI kind)) \<and>
   OpenEngineWithConfig I kind config h =
     (if known then OpenEngineWithConfig R kind config h
      else if config \<noteq> [] then Inl (NoDriverConfiguration kind) else Inl (NoEngineAPI kind))"
  by (simp add: Let_def Open_def OpenEngine_def OpenEngineWithConfig_def imported_only onlyKinds_def restrict_map_def split: option.splits)

end
