(* ===== verification/Env.thy ===== *)
theory Env
  imports Driver_API "HOL-Library.AList"
begin

text \<open>
  Environment lists: \<^verbatim>\<open>mergeEnv\<close>, \<^verbatim>\<open>filterIdentityEnv\<close> and \<^verbatim>\<open>ensureTTYEnv\<close> of \<^verbatim>\<open>docker.go\<close>, and the
  lists \<^verbatim>\<open>sidecar.ProxyEnv\<close> and \<^verbatim>\<open>sidecar.CABundleEnv\<close>.

  An environment is a list of entries \<^verbatim>\<open>KEY=VALUE\<close>. Its meaning is the map \<open>envOf\<close>, in which a
  later entry wins. \<open>mergeEnv\<close> keeps, as the code does, a table from keys to positions and the output
  slice; the lemmas show that it computes the override of the two maps and never repeats a key.
\<close>

section \<open>docker.go\<close>

definition envAdd :: "(string \<Rightarrow> nat option) \<times> string list \<Rightarrow> string \<Rightarrow> (string \<Rightarrow> nat option) \<times> string list" where
  "envAdd st entry =
     (case st of (keys, out) \<Rightarrow>
      (case Cut entry (CHR ''='') of (key, _, ok) \<Rightarrow>
        if \<not> ok \<or> key = [] then (keys, out)
        else (case keys key of
                Some i \<Rightarrow> (keys, out[i := entry])
              | None \<Rightarrow> (keys(key \<mapsto> length out), out @ [entry]))))"

definition mergeEnv :: "string list \<Rightarrow> string list \<Rightarrow> string list" where
  "mergeEnv base extra = snd (foldl envAdd (foldl envAdd (Map.empty, []) base) extra)"

definition identityKeys :: "string list" where
  "identityKeys = [''OPENSHELL_OCI_IMAGE_USER'', ''OPENSHELL_SANDBOX_UID'', ''OPENSHELL_SANDBOX_GID'']"

definition filterIdentityEnv :: "string list \<Rightarrow> string list" where
  "filterIdentityEnv env = filter (\<lambda>entry. fst (Cut entry (CHR ''='')) \<notin> set identityKeys) env"

definition guestTerm :: "string \<Rightarrow> string" where
  "guestTerm raw =
     (let termName = TrimSpace raw in
      if termName = [] \<or> termName = ''dumb'' \<or> termName = ''unknown'' then ''xterm-256color''
      else if Contains termName ''kitty'' \<or> Contains termName ''ghostty'' \<or>
           Contains termName ''alacritty'' \<or> HasPrefix termName ''tmux'' \<or>
           HasPrefix termName ''screen'' then ''xterm-256color''
      else termName)"

definition ensureTTYEnv :: "host_os \<Rightarrow> string list \<Rightarrow> string list" where
  "ensureTTYEnv os base =
     (let env = mergeEnv base [''TERM='' @ guestTerm (Getenv os ''TERM'')] in
      if Getenv os ''COLORTERM'' = [] then mergeEnv env [''COLORTERM=truecolor''] else env)"

section \<open>sidecar.go\<close>

definition ProxyEnv :: "core_defaults \<Rightarrow> string \<Rightarrow> int \<Rightarrow> string list" where
  "ProxyEnv D proxyHost0 port0 =
     (let proxyHost = (if proxyHost0 = [] then ''cauteum-proxy'' else proxyHost0);
          port = (if port0 \<le> 0 then ProxyPort D else port0);
          u = ''http://'' @ proxyHost @ '':'' @ Itoa port in
      [''HTTP_PROXY='' @ u, ''HTTPS_PROXY='' @ u, ''http_proxy='' @ u, ''https_proxy='' @ u,
       ''ALL_PROXY='' @ u, ''NO_PROXY='' @ NoProxyValue D, ''no_proxy='' @ NoProxyValue D])"

definition CABundleEnv :: "core_defaults \<Rightarrow> string \<Rightarrow> string list" where
  "CABundleEnv D caFile0 =
     (let caFile = (if caFile0 = [] then GuestCAFile D else caFile0) in
      [''SSL_CERT_FILE='' @ caFile, ''CURL_CA_BUNDLE='' @ caFile, ''REQUESTS_CA_BUNDLE='' @ caFile,
       ''NODE_EXTRA_CA_CERTS='' @ caFile, ''GIT_SSL_CAINFO='' @ caFile])"

section \<open>The meaning of an environment list\<close>

definition envKV :: "string \<Rightarrow> (string \<times> string) option" where
  "envKV entry =
     (case Cut entry (CHR ''='') of (k, v, ok) \<Rightarrow> if ok \<and> k \<noteq> [] then Some (k, v) else None)"

definition envPairs :: "string list \<Rightarrow> (string \<times> string) list" where
  "envPairs env = List.map_filter envKV env"

definition envOf :: "string list \<Rightarrow> string \<Rightarrow> string option" where
  "envOf env = map_of (rev (envPairs env))"

text \<open>What \<^verbatim>\<open>mergeEnv\<close> produces: well-formed entries, no key twice.\<close>

definition envNormal :: "string list \<Rightarrow> bool" where
  "envNormal env \<longleftrightarrow> list_all (\<lambda>e. envKV e \<noteq> None) env \<and> distinct (map fst (envPairs env))"

lemma envPairs_simps [env_simps]:
  "envPairs [] = []"
  "envPairs (e # env) = (case envKV e of None \<Rightarrow> envPairs env | Some p \<Rightarrow> p # envPairs env)"
  "envPairs (a @ b) = envPairs a @ envPairs b"
  by (simp_all add: envPairs_def List.map_filter_def split: option.splits)

lemma envOf_Nil [env_simps]: "envOf [] = Map.empty"
  by (simp add: envOf_def env_simps)

lemma envOf_append [env_simps]: "envOf (a @ b) = envOf a ++ envOf b"
  by (simp add: envOf_def env_simps map_add_def [symmetric])

lemma envOf_Cons [env_simps]:
  "envOf (e # env) = (case envKV e of None \<Rightarrow> envOf env | Some (k, v) \<Rightarrow> [k \<mapsto> v] ++ envOf env)"
  by (auto simp: envOf_def env_simps split: option.splits)

lemma envKV_entry [env_simps]: "CHR ''='' \<notin> set k \<Longrightarrow> k \<noteq> [] \<Longrightarrow> envKV (k @ CHR ''='' # v) = Some (k, v)"
  by (simp add: envKV_def Cut_found)

lemma envKV_Some: "envKV e = Some (k, v) \<longleftrightarrow> e = k @ CHR ''='' # v \<and> CHR ''='' \<notin> set k \<and> k \<noteq> []"
proof (cases rule: Cut_cases [of "CHR ''=''" e])
  case absent
  then show ?thesis by (auto simp: envKV_def)
next
  case (found k' v')
  then show ?thesis by (auto simp: envKV_def append_eq_append_conv2 Cons_eq_append_conv append_eq_Cons_conv)
qed

section \<open>mergeEnv is map override\<close>

text \<open>The table points at the positions of the keys of the output.\<close>

definition envInv :: "(string \<Rightarrow> nat option) \<times> string list \<Rightarrow> bool" where
  "envInv st \<longleftrightarrow>
     (case st of (keys, out) \<Rightarrow>
       envNormal out \<and>
       (\<forall>k i. keys k = Some i \<longleftrightarrow> i < length out \<and> (\<exists>v. envKV (out ! i) = Some (k, v))))"

lemma envPairs_normal: "list_all (\<lambda>e. envKV e \<noteq> None) out \<Longrightarrow> envPairs out = map (\<lambda>e. the (envKV e)) out"
  by (induction out) (auto simp: env_simps)

lemma AList_update_at:
  "i < length ps \<Longrightarrow> fst (ps ! i) = k \<Longrightarrow> distinct (map fst ps) \<Longrightarrow> AList.update k v ps = ps[i := (k, v)]"
proof (induction ps arbitrary: i)
  case (Cons p ps)
  show ?case
  proof (cases i)
    case (Suc j)
    then have j: "j < length ps" "fst (ps ! j) = k" using Cons.prems by auto
    then have "k \<in> fst ` set ps" using nth_mem by force
    then have "fst p \<noteq> k" using Cons.prems(3) by auto
    with Cons Suc j show ?thesis by (cases p) auto
  qed (use Cons in \<open>cases p, auto\<close>)
qed simp

lemma AList_update_new: "k \<notin> fst ` set ps \<Longrightarrow> AList.update k v ps = ps @ [(k, v)]"
  by (induction ps) auto

lemma envInv_D:
  assumes "envInv (keys, out)"
  shows "list_all (\<lambda>e. envKV e \<noteq> None) out" "distinct (map fst (envPairs out))"
    and "keys k = Some i \<longleftrightarrow> i < length out \<and> (\<exists>v. envKV (out ! i) = Some (k, v))"
    and "envPairs out = map (\<lambda>e. the (envKV e)) out"
  using assms envPairs_normal by (auto simp: envInv_def envNormal_def)

lemma envInv_replace:
  assumes inv: "envInv (keys, out)" and kv: "envKV e = Some (k, v)" and "keys k = Some i"
  shows "envInv (keys, out[i := e]) \<and> envPairs (out[i := e]) = AList.update k v (envPairs out)"
proof -
  note D = envInv_D [OF inv]
  have i: "i < length out" "\<exists>v. envKV (out ! i) = Some (k, v)" using assms(3) D(3) by auto
  have wf: "list_all (\<lambda>e. envKV e \<noteq> None) (out[i := e])"
    using D(1) kv by (auto simp: list_all_iff dest!: set_update_subset_insert [THEN subsetD])
  then have "envPairs (out[i := e]) = (envPairs out)[i := (k, v)]"
    using envPairs_normal [OF wf] D(4) kv by (simp add: map_update)
  moreover have "AList.update k v (envPairs out) = (envPairs out)[i := (k, v)]"
    using i D(2,4) by (intro AList_update_at) auto
  ultimately have u: "envPairs (out[i := e]) = AList.update k v (envPairs out)" by simp
  then have "distinct (map fst (envPairs (out[i := e])))" using distinct_update [OF D(2)] by metis
  with wf D(3) i kv u show ?thesis by (auto simp: envInv_def envNormal_def nth_list_update)
qed

lemma envInv_snoc:
  assumes inv: "envInv (keys, out)" and kv: "envKV e = Some (k, v)" and "keys k = None"
  shows "envInv (keys(k \<mapsto> length out), out @ [e]) \<and>
    envPairs (out @ [e]) = AList.update k v (envPairs out)"
proof -
  note D = envInv_D [OF inv]
  have absent: "envKV (out ! i) \<noteq> Some (k, w)" if "i < length out" for i w
    using D(3) [of k i] assms(3) that by auto
  have "k \<notin> fst ` set (envPairs out)"
  proof
    assume "k \<in> fst ` set (envPairs out)"
    then obtain i where "i < length out" "fst (the (envKV (out ! i))) = k"
      unfolding D(4) by (auto simp: in_set_conv_nth)
    with absent D(1) show False by (force simp: list_all_length)
  qed
  then have u: "envPairs (out @ [e]) = AList.update k v (envPairs out)"
    using kv by (simp add: AList_update_new env_simps)
  then have "distinct (map fst (envPairs (out @ [e])))" using distinct_update [OF D(2)] by metis
  with u D(1,3) kv absent show ?thesis
    by (auto simp: envInv_def envNormal_def nth_append less_Suc_eq)
qed

lemma envAdd_step:
  assumes "envInv st"
  shows "envInv (envAdd st e) \<and> envPairs (snd (envAdd st e)) =
    (case envKV e of None \<Rightarrow> envPairs (snd st) | Some (k, v) \<Rightarrow> AList.update k v (envPairs (snd st)))"
proof -
  obtain keys out where st: "st = (keys, out)" by force
  show ?thesis
  proof (cases "envKV e")
    case None
    then show ?thesis using assms by (auto simp: st envAdd_def envKV_def split: prod.splits if_splits)
  next
    case (Some p)
    obtain k v where p: "envKV e = Some (k, v)" using Some by (cases p) auto
    then have "Cut e (CHR ''='') = (k, v, True)" "k \<noteq> []"
      by (auto simp: envKV_def split: prod.splits if_splits)
    with p assms show ?thesis
      using envInv_replace [of keys out e k v] envInv_snoc [of keys out e k v]
      by (cases "keys k") (auto simp: st envAdd_def)
  qed
qed

lemma foldl_envAdd:
  "envInv st \<Longrightarrow> envInv (foldl envAdd st es) \<and>
   map_of (envPairs (snd (foldl envAdd st es))) = map_of (envPairs (snd st)) ++ envOf es"
proof (induction es arbitrary: st)
  case (Cons e es)
  note step = envAdd_step [OF Cons.prems, of e]
  with Cons.IH [of "envAdd st e"] show ?case
    by (auto simp: env_simps update_conv' map_add_assoc [symmetric] split: option.splits)
qed (simp add: env_simps)

lemma envOf_normal:
  assumes "envNormal env"
  shows "envOf env = map_of (envPairs env)"
proof -
  have "distinct (map fst (rev (envPairs env)))" using assms by (simp add: envNormal_def rev_map [symmetric])
  then show ?thesis
    unfolding envOf_def using assms by (intro map_of_eqI) (auto simp: envNormal_def intro: map_of_eqI)
qed

lemma envInv_init: "envInv (Map.empty, [])"
  by (simp add: envInv_def envNormal_def env_simps)

lemma mergeEnv_normal: "envNormal (mergeEnv base extra)"
proof -
  have "envInv (foldl envAdd (foldl envAdd (Map.empty, []) base) extra)"
    using foldl_envAdd envInv_init by blast
  then show ?thesis by (auto simp: mergeEnv_def envInv_def split: prod.splits)
qed

lemma mergeEnv_envOf: "envOf (mergeEnv base extra) = envOf base ++ envOf extra"
proof -
  have "map_of (envPairs (mergeEnv base extra)) = envOf base ++ envOf extra"
    using foldl_envAdd [OF envInv_init, of base] foldl_envAdd [of "foldl envAdd (Map.empty, []) base" extra]
    by (simp add: mergeEnv_def env_simps)
  then show ?thesis using envOf_normal [OF mergeEnv_normal] by simp
qed

text \<open>Keys keep the position of their first occurrence.\<close>

definition addKey :: "'a list \<Rightarrow> 'a \<Rightarrow> 'a list" where
  "addKey ks k = (if k \<in> set ks then ks else ks @ [k])"

lemma foldl_envAdd_keys:
  "envInv st \<Longrightarrow> map fst (envPairs (snd (foldl envAdd st es))) =
     foldl addKey (map fst (envPairs (snd st))) (map fst (envPairs es))"
proof (induction es arbitrary: st)
  case (Cons e es)
  with envAdd_step [OF Cons.prems, of e] show ?case
    by (auto simp: env_simps update_keys addKey_def split: option.splits)
qed (simp add: env_simps)

lemma mergeEnv_keys:
  "map fst (envPairs (mergeEnv base extra)) = foldl addKey [] (map fst (envPairs (base @ extra)))"
  using foldl_envAdd_keys [OF envInv_init, of "base @ extra"] by (simp add: mergeEnv_def env_simps)

section \<open>The contract of an environment store\<close>

text \<open>
  The client of the environment code is \<^verbatim>\<open>Create\<close>, which applies a chain of merges. It relies on one law:
  merging overrides. Which layer decides a variable follows from that law alone.
\<close>

locale env_store =
  fixes merge :: "'env \<Rightarrow> 'env \<Rightarrow> 'env"
    and look :: "'env \<Rightarrow> 'k \<Rightarrow> 'v option"
  assumes look_merge: "look (merge b e) = look b ++ look e"
begin

lemma merge_kept: "look e k = None \<Longrightarrow> look (merge b e) k = look b k"
  by (simp add: look_merge map_add_def)

lemma merge_set: "look e k = Some v \<Longrightarrow> look (merge b e) k = Some v"
  by (simp add: look_merge)

lemma merges_kept: "list_all (\<lambda>e. look e k = None) es \<Longrightarrow> look (foldl merge b es) k = look b k"
  by (induction es arbitrary: b) (simp_all add: merge_kept)

text \<open>The last layer that sets a variable decides it.\<close>

lemma last_layer_decides:
  "look e k = Some v \<Longrightarrow> list_all (\<lambda>e. look e k = None) later \<Longrightarrow>
   look (foldl merge b (earlier @ e # later)) k = Some v"
  by (simp add: merges_kept merge_set)

lemma merge_assoc_look: "look (merge (merge a b) c) = look (merge a (merge b c))"
  by (simp add: look_merge)

end

interpretation env_lists: env_store mergeEnv envOf
  by unfold_locales (rule mergeEnv_envOf)

section \<open>What the lists set\<close>

lemma envOf_filterIdentity: "k \<in> set identityKeys \<Longrightarrow> envOf (filterIdentityEnv env) k = None"
proof (induction env)
  case (Cons e env)
  then show ?case
    by (auto simp: filterIdentityEnv_def env_simps envKV_def split: option.splits prod.splits if_splits)
qed (simp add: filterIdentityEnv_def env_simps)

lemma envOf_filterIdentity_other:
  "k \<notin> set identityKeys \<Longrightarrow> envOf (filterIdentityEnv env) k = envOf env k"
proof (induction env)
  case (Cons e env)
  then show ?case
    by (auto simp: filterIdentityEnv_def env_simps envKV_def map_add_def
        split: option.splits prod.splits if_splits)
qed (simp add: filterIdentityEnv_def env_simps)

text \<open>A list of literal keys with values.\<close>

lemma envKV_literal:
  "CHR ''='' \<notin> set k \<Longrightarrow> k \<noteq> [] \<Longrightarrow> s = k @ CHR ''='' # v \<Longrightarrow> envKV s = Some (k, v)"
  by (simp add: env_simps)

definition proxyURL :: "string \<Rightarrow> int \<Rightarrow> string" where
  "proxyURL host port = ''http://'' @ host @ '':'' @ Itoa port"

lemma envPairs_ProxyEnv:
  assumes "host \<noteq> []" "0 < port"
  shows "envPairs (ProxyEnv D host port) =
    [(''HTTP_PROXY'', proxyURL host port), (''HTTPS_PROXY'', proxyURL host port),
     (''http_proxy'', proxyURL host port), (''https_proxy'', proxyURL host port),
     (''ALL_PROXY'', proxyURL host port), (''NO_PROXY'', NoProxyValue D), (''no_proxy'', NoProxyValue D)]"
  using assms
  by (simp add: ProxyEnv_def proxyURL_def Let_def env_simps envKV_def Cut_def)

lemma envPairs_CABundleEnv:
  assumes "ca \<noteq> []"
  shows "envPairs (CABundleEnv D ca) =
    [(''SSL_CERT_FILE'', ca), (''CURL_CA_BUNDLE'', ca), (''REQUESTS_CA_BUNDLE'', ca),
     (''NODE_EXTRA_CA_CERTS'', ca), (''GIT_SSL_CAINFO'', ca)]"
  using assms by (simp add: CABundleEnv_def Let_def env_simps envKV_def Cut_def)

section \<open>Properties\<close>

text \<open>
  C13. Merging environments is map override: the result assigns to each variable the value of the
  last valid entry of the extra list, or else of the base list; it repeats no variable, contains
  only well-formed entries, and lists the variables in the order of their first occurrence.
\<close>

theorem mergeEnv_is_override:
  "envOf (mergeEnv base extra) = envOf base ++ envOf extra \<and>
   envNormal (mergeEnv base extra) \<and>
   map fst (envPairs (mergeEnv base extra)) = foldl addKey [] (map fst (envPairs (base @ extra)))"
  using mergeEnv_envOf mergeEnv_normal mergeEnv_keys by blast

text \<open>
  The environment of an exec carries a terminal type for which the guest has a description: TERM
  is always set, never to a kitty, ghostty, alacritty, tmux or screen type, and every other
  variable except COLORTERM is the one of the merged container and caller environment.
\<close>

theorem tty_env_sets_known_terminal:
  "\<exists>t. envOf (ensureTTYEnv os base) ''TERM'' = Some t \<and> t \<noteq> [] \<and>
     \<not> Contains t ''kitty'' \<and> \<not> Contains t ''ghostty'' \<and> \<not> Contains t ''alacritty'' \<and>
     \<not> HasPrefix t ''tmux'' \<and> \<not> HasPrefix t ''screen'' \<and>
     (\<forall>k. k = ''TERM'' \<or> k = ''COLORTERM'' \<or> envOf (ensureTTYEnv os base) k = envOf base k)"
proof -
  let ?t = "guestTerm (Getenv os ''TERM'')"
  have kv: "envOf [''TERM='' @ ?t] = [''TERM'' \<mapsto> ?t]" "envOf [''COLORTERM=truecolor''] = [''COLORTERM'' \<mapsto> ''truecolor'']"
    by (simp_all add: envOf_def env_simps envKV_def Cut_def)
  have x: "\<not> Contains ''xterm-256color'' ''kitty'' \<and> \<not> Contains ''xterm-256color'' ''ghostty'' \<and>
      \<not> Contains ''xterm-256color'' ''alacritty'' \<and> \<not> HasPrefix ''xterm-256color'' ''tmux'' \<and>
      \<not> HasPrefix ''xterm-256color'' ''screen''"
    by code_simp
  have t: "?t \<noteq> [] \<and> \<not> Contains ?t ''kitty'' \<and> \<not> Contains ?t ''ghostty'' \<and> \<not> Contains ?t ''alacritty'' \<and>
      \<not> HasPrefix ?t ''tmux'' \<and> \<not> HasPrefix ?t ''screen''"
    using x by (simp add: guestTerm_def Let_def)
  have "envOf (ensureTTYEnv os base) ''TERM'' = Some ?t"
    by (simp add: ensureTTYEnv_def Let_def mergeEnv_envOf kv [simplified] map_add_def)
  moreover have "envOf (ensureTTYEnv os base) k = envOf base k" if "k \<noteq> ''TERM''" "k \<noteq> ''COLORTERM''" for k
    using that by (simp add: ensureTTYEnv_def Let_def mergeEnv_envOf kv [simplified] map_add_def)
  ultimately show ?thesis using t by blast
qed

end
