(* ===== verification/Go_Net.thy ===== *)
theory Go_Net
  imports Go_Strings
begin

text \<open>
  Which strings \<^verbatim>\<open>net.ParseIP\<close> accepts. The parser of the standard library is followed step by
  step: the first dot or colon selects the family, an IPv4 address has four decimal fields of at
  most 255 without leading zeros, and an IPv6 address is read field by field with at most one double
  colon and an optional IPv4 tail. Zones are not accepted.
\<close>

definition validIPv4Field :: "string \<Rightarrow> bool" where
  "validIPv4Field f \<longleftrightarrow>
     f \<noteq> [] \<and> list_all isDigit f \<and> (1 < length f \<longrightarrow> hd f \<noteq> CHR ''0'') \<and> decVal f \<le> 255"

definition parseIPv4 :: "string \<Rightarrow> bool" where
  "parseIPv4 s \<longleftrightarrow> (let fs = splitChar (CHR ''.'') s in length fs = 4 \<and> list_all validIPv4Field fs)"

definition isHex :: "char \<Rightarrow> bool" where
  "isHex c \<longleftrightarrow> isDigit c \<or> (let n = (of_char (lowerChar c) :: nat) in 97 \<le> n \<and> n \<le> 102)"

text \<open>\<open>i\<close> counts the bytes read so far; \<open>ell\<close> holds once a double colon has been seen.\<close>

function parseIPv6 :: "nat \<Rightarrow> bool \<Rightarrow> string \<Rightarrow> bool" where
  "parseIPv6 i ell s =
     (if 16 \<le> i then s = [] \<and> \<not> ell
      else
        (let ds = takeWhile isHex s; rest = drop (length ds) s in
         if ds = [] \<or> 4 < length ds then False
         else (case rest of
                 [] \<Rightarrow> (if i + 2 < 16 then ell else \<not> ell)
               | c # rest' \<Rightarrow>
                   if c = CHR ''.'' then
                     (if \<not> ell \<and> i \<noteq> 12 \<or> 16 < i + 4 then False
                      else parseIPv4 s \<and> (if i + 4 < 16 then ell else \<not> ell))
                   else if c \<noteq> CHR '':'' \<or> rest' = [] then False
                   else if hd rest' = CHR '':'' then
                     (if ell then False
                      else if tl rest' = [] then i + 2 < 16
                      else parseIPv6 (i + 2) True (tl rest'))
                   else parseIPv6 (i + 2) ell rest')))"
  by pat_completeness auto
termination by (relation "measure (\<lambda>(i, _). 16 - i)") auto

declare parseIPv6.simps [simp del]

definition ParseIP :: "string \<Rightarrow> bool" where
  "ParseIP s =
     (case find (\<lambda>c. c = CHR ''.'' \<or> c = CHR '':'' \<or> c = CHR ''%'') s of
        None \<Rightarrow> False
      | Some c \<Rightarrow>
          if c = CHR ''.'' then parseIPv4 s
          else if c = CHR ''%'' then False
          else if CHR ''%'' \<in> set s then False
          else if s = ''::'' then True
          else if HasPrefix s ''::'' then parseIPv6 0 True (drop 2 s)
          else parseIPv6 0 False s)"

lemma ParseIP_ne: "ParseIP s \<Longrightarrow> s \<noteq> []"
  by (auto simp: ParseIP_def)

lemma ParseIP_examples:
  "ParseIP ''127.0.0.1''" "\<not> ParseIP ''1.2.3.04''" "\<not> ParseIP ''1.2.3.256''" "ParseIP ''::1''"
  "ParseIP ''fe80::1:2''" "ParseIP ''::ffff:10.0.0.1''" "\<not> ParseIP ''1:2:3:4:5:6:7::8:9''"
  "\<not> ParseIP ''fe80::1%eth0''" "ParseIP ''1:2:3:4:5:6:7:8''" "\<not> ParseIP ''1::2::3''"
  "ParseIP ''1:2:3:4:5:6:7::''" "\<not> ParseIP ''host-gateway''" "\<not> ParseIP ''1:2:3:4:5:6:7:''"
  by code_simp+

end
