(* ===== verification/Runtime.thy ===== *)
theory Runtime
  imports Env Go_Net "HOL-Library.Word"
begin

text \<open>
  The helpers of \<^verbatim>\<open>internal/docker\<close> that derive settings without talking to the engine:
  \<^verbatim>\<open>resources.go\<close>, \<^verbatim>\<open>logconfig.go\<close>, \<^verbatim>\<open>runtime_config.go\<close>, \<^verbatim>\<open>gpu.go\<close>, and from \<^verbatim>\<open>docker.go\<close> the data
  part of \<^verbatim>\<open>RuntimeConfig\<close>, the label names, \<^verbatim>\<open>sanitizeName\<close> and the image tests.

  The lemmas show the ranges of the derived values: names, process limits, log rotation and GPU
  device lists.
\<close>

section \<open>docker.go: constants and configuration\<close>

definition labelSandbox :: string where "labelSandbox = ''cauteum.sandbox''"
definition labelName :: string where "labelName = ''cauteum.name''"
definition labelNetwork :: string where "labelNetwork = ''cauteum.network''"
definition labelRole :: string where "labelRole = ''cauteum.role''"
definition labelInit :: string where "labelInit = ''cauteum.init''"
definition labelVolume :: string where "labelVolume = ''cauteum.volume''"
definition labelSSH :: string where "labelSSH = ''cauteum.ssh''"
definition labelSSHVol :: string where "labelSSHVol = ''cauteum.ssh_volume''"
definition labelPolicy :: string where "labelPolicy = ''cauteum.policy_path''"
definition roleSandbox :: string where "roleSandbox = ''sandbox''"
definition roleProxy :: string where "roleProxy = ''proxy''"
definition labelCAVol :: string where "labelCAVol = ''cauteum.ca_volume''"

record RuntimeConfig =
  RuntimeContext :: string
  EnableBindMounts :: bool
  DefaultImage :: string
  NetworkName :: string
  HostGatewayIP :: string
  ImagePullPolicy :: string
  StopTimeoutSecs :: int
  PidsLimit :: int
  ProviderSPIFFEWorkloadAPISocket :: string
  GatewayGRPCEndpoint :: string
  GatewayGRPCPort :: int
  SandboxSSHSocketPath :: string
  HealthCheckIntervalSecs :: int
  UsernsMode :: string
  SandboxNamespace :: string
  DefaultCPU :: gofloat
  DefaultMemoryBytes :: int
  GuestTLSCA :: string
  GuestTLSCert :: string
  GuestTLSKey :: string
  UpstreamProxyURL :: string
  UpstreamProxyNoProxy :: string
  UpstreamProxyAuthFile :: string
  UpstreamProxyAuthAllowInsecure :: bool
  UpstreamProxyCABundle :: string
  UpstreamProxyConnectByHostname :: bool
  EgressCABundle :: string
  ReconcileDataOwnership :: bool
  Capabilities :: "string list"

definition zeroConfig :: RuntimeConfig where
  "zeroConfig =
     \<lparr>RuntimeContext = [], EnableBindMounts = False, DefaultImage = [], NetworkName = [],
      HostGatewayIP = [], ImagePullPolicy = [], StopTimeoutSecs = 0, PidsLimit = 0,
      ProviderSPIFFEWorkloadAPISocket = [], GatewayGRPCEndpoint = [], GatewayGRPCPort = 0,
      SandboxSSHSocketPath = [], HealthCheckIntervalSecs = 0, UsernsMode = [],
      SandboxNamespace = [], DefaultCPU = FFin 0 0, DefaultMemoryBytes = 0, GuestTLSCA = [],
      GuestTLSCert = [], GuestTLSKey = [], UpstreamProxyURL = [], UpstreamProxyNoProxy = [],
      UpstreamProxyAuthFile = [], UpstreamProxyAuthAllowInsecure = False,
      UpstreamProxyCABundle = [], UpstreamProxyConnectByHostname = False, EgressCABundle = [],
      ReconcileDataOwnership = False, Capabilities = []\<rparr>"

definition usesEmbeddedInit :: "core_defaults \<Rightarrow> string \<Rightarrow> bool" where
  "usesEmbeddedInit D img0 =
     (let img = TrimSpace (ToLower img0) in
      img = ImageLocal D \<or> img = ImageGUI D \<or> HasPrefix img ''cauteum-sandbox:'')"

definition imageHasGUI :: "core_defaults \<Rightarrow> string \<Rightarrow> bool" where
  "imageHasGUI D img0 =
     (let img = TrimSpace (ToLower img0) in img = ImageGUI D \<or> Contains img '':gui'')"

definition nameChar :: "char \<Rightarrow> string" where
  "nameChar c =
     (if isLower c \<or> isDigit c then [c]
      else if c = CHR ''-'' \<or> c = CHR ''_'' then ''-'' else [])"

definition sanitizeName :: "string \<Rightarrow> string" where
  "sanitizeName name0 =
     (let name = TrimSpace (ToLower name0);
          s = trimChar (CHR ''-'') (concat (map nameChar name))
      in if 63 < length s then take 63 s else s)"

section \<open>resources.go\<close>

definition envProxyImage :: string where "envProxyImage = ''CAUTEUM_PROXY_IMAGE''"
definition envSandboxPidsLimit :: string where "envSandboxPidsLimit = ''CAUTEUM_SANDBOX_PIDS_LIMIT''"

definition resolveProxyImage :: "core_defaults \<Rightarrow> host_os \<Rightarrow> string \<Rightarrow> string" where
  "resolveProxyImage D os explicit =
     (if TrimSpace explicit \<noteq> [] then TrimSpace explicit
      else if TrimSpace (Getenv os envProxyImage) \<noteq> [] then TrimSpace (Getenv os envProxyImage)
      else ImageProxy D)"

text \<open>\<open>None\<close> is the nil pointer: no limit.\<close>

definition resolvePidsLimit :: "core_defaults \<Rightarrow> host_os \<Rightarrow> int \<Rightarrow> int option" where
  "resolvePidsLimit D os specLimit =
     (if specLimit < 0 then None
      else if 0 < specLimit then Some specLimit
      else
        (let raw = TrimSpace (Getenv os envSandboxPidsLimit) in
         if raw = [] then Some (SandboxPidsLimit D)
         else (case ParseInt64 raw of
                 None \<Rightarrow> Some (SandboxPidsLimit D)
               | Some n \<Rightarrow>
                   if n < 0 then Some (SandboxPidsLimit D)
                   else if n = 0 then None
                   else Some n)))"

section \<open>logconfig.go\<close>

record LogConfig =
  lcType :: string
  lcConfig :: "(string \<times> string) list"

definition defaultLogDriver :: string where "defaultLogDriver = ''json-file''"
definition defaultLogMaxSize :: string where "defaultLogMaxSize = ''10m''"
definition defaultLogMaxFile :: string where "defaultLogMaxFile = ''3''"

definition sandboxLogConfig :: "host_os \<Rightarrow> LogConfig" where
  "sandboxLogConfig os =
     (let driver0 = ToLower (TrimSpace (Getenv os ''CAUTEUM_DOCKER_LOG_DRIVER''));
          driver = (if driver0 = [] then defaultLogDriver else driver0) in
      if driver = ''none'' then \<lparr>lcType = ''none'', lcConfig = []\<rparr>
      else if driver = ''json-file'' then
        (let maxSize0 = TrimSpace (Getenv os ''CAUTEUM_DOCKER_LOG_MAX_SIZE'');
             maxSize = (if maxSize0 = [] then defaultLogMaxSize else maxSize0);
             maxFile0 = TrimSpace (Getenv os ''CAUTEUM_DOCKER_LOG_MAX_FILE'');
             maxFile1 = (if maxFile0 = [] then defaultLogMaxFile else maxFile0);
             maxFile = (case ParseInt64 maxFile1 of
                          None \<Rightarrow> defaultLogMaxFile
                        | Some n \<Rightarrow> if n < 1 then defaultLogMaxFile else maxFile1) in
         \<lparr>lcType = ''json-file'', lcConfig = [(''max-size'', maxSize), (''max-file'', maxFile)]\<rparr>)
      else \<lparr>lcType = defaultLogDriver,
             lcConfig = [(''max-size'', defaultLogMaxSize), (''max-file'', defaultLogMaxFile)]\<rparr>)"

section \<open>runtime_config.go\<close>

datatype socket_error =
  SocketPathEmpty | SocketPathNotCleanAbs | SocketUnavailable | NotAUnixSocket

fun providerWorkloadSocket :: "host_os \<Rightarrow> string list \<Rightarrow> socket_error + string" where
  "providerWorkloadSocket os [] = Inr []"
| "providerWorkloadSocket os (entry # env) =
     (case Cut entry (CHR ''='') of (key, value0, ok) \<Rightarrow>
        if \<not> ok \<or> key \<noteq> ''CAUTEUM_PROVIDER_SPIFFE_WORKLOAD_API_SOCKET'' then providerWorkloadSocket os env
        else
          (let value = TrimSpace (TrimPrefix value0 ''unix://'') in
           if value = [] then Inl SocketPathEmpty
           else if \<not> IsAbs value \<or> Clean value \<noteq> value then Inl SocketPathNotCleanAbs
           else (case Stat os value of
                   Inl _ \<Rightarrow> Inl SocketUnavailable
                 | Inr info \<Rightarrow> if \<not> fiIsSocket info then Inl NotAUnixSocket else Inr value)))"

definition hostGatewayExtraHosts :: "core_defaults \<Rightarrow> RuntimeConfig \<Rightarrow> string list" where
  "hostGatewayExtraHosts D cfg =
     (let ip = TrimSpace (HostGatewayIP cfg) in
      if \<not> ParseIP ip then HostGatewayExtraHosts D
      else [''host.cauteum.internal:'' @ ip, ''host.docker.internal:'' @ ip])"

definition configuredPidsLimit :: "RuntimeConfig \<Rightarrow> int \<Rightarrow> int" where
  "configuredPidsLimit cfg spec =
     (if spec \<noteq> 0 then spec else if PidsLimit cfg \<noteq> 0 then PidsLimit cfg else 0)"

definition stopTimeoutSecs :: "RuntimeConfig \<Rightarrow> int" where
  "stopTimeoutSecs cfg = (if 0 < StopTimeoutSecs cfg then StopTimeoutSecs cfg else 10)"

definition sandboxSSHSocketPath :: "core_defaults \<Rightarrow> RuntimeConfig \<Rightarrow> string" where
  "sandboxSSHSocketPath D cfg =
     (if TrimSpace (SandboxSSHSocketPath cfg) \<noteq> [] then TrimSpace (SandboxSSHSocketPath cfg)
      else GuestSSHSocket D)"

definition FormatBool :: "bool \<Rightarrow> string" where
  "FormatBool b = (if b then ''true'' else ''false'')"

definition upstreamProxyEnv :: "RuntimeConfig \<Rightarrow> string list" where
  "upstreamProxyEnv cfg =
     (if TrimSpace (UpstreamProxyURL cfg) = [] then []
      else
        [''HTTPS_PROXY='' @ UpstreamProxyURL cfg, ''https_proxy='' @ UpstreamProxyURL cfg,
         ''HTTP_PROXY='' @ UpstreamProxyURL cfg, ''http_proxy='' @ UpstreamProxyURL cfg,
         ''NO_PROXY='' @ UpstreamProxyNoProxy cfg, ''no_proxy='' @ UpstreamProxyNoProxy cfg,
         ''CAUTEUM_PROXY_CONNECT_BY_HOSTNAME='' @ FormatBool (UpstreamProxyConnectByHostname cfg)]
        @ (if UpstreamProxyAuthFile cfg \<noteq> []
           then [''CAUTEUM_PROXY_AUTH_FILE=/run/cauteum/upstream-proxy/auth''] else [])
        @ (if UpstreamProxyCABundle cfg \<noteq> []
           then [''CAUTEUM_PROXY_CA_BUNDLE=/run/cauteum/upstream-proxy/ca.pem''] else []))"

definition egressTrustEnv :: "RuntimeConfig \<Rightarrow> string list" where
  "egressTrustEnv cfg =
     (if TrimSpace (EgressCABundle cfg) = [] then []
      else [''CAUTEUM_EGRESS_CA_BUNDLE=/run/cauteum/egress-ca/ca.pem''])"

definition shellQuote :: "string \<Rightarrow> string" where
  "shellQuote value =
     [CHR 0x27] @ ReplaceAllChar value (CHR 0x27) [CHR 0x27, CHR 0x5C, CHR 0x27, CHR 0x27] @ [CHR 0x27]"

section \<open>gpu.go\<close>

definition defaultCDIDevice :: string where "defaultCDIDevice = ''nvidia.com/gpu=all''"
definition labelGPU :: string where "labelGPU = ''cauteum.gpu''"

definition normalizedCDIDevices :: "string list \<Rightarrow> string list" where
  "normalizedCDIDevices values = filter (\<lambda>id. id \<noteq> []) (map TrimSpace values)"

definition envCDIDevices :: "host_os \<Rightarrow> string list" where
  "envCDIDevices os = normalizedCDIDevices (splitChar (CHR '','') (TrimSpace (Getenv os ''CAUTEUM_GPU_CDI'')))"

definition allDigits :: "string \<Rightarrow> bool" where
  "allDigits value \<longleftrightarrow> list_all isDigit value \<and> value \<noteq> []"

text \<open>\<^verbatim>\<open>int\<close> has 64 bits and wraps around.\<close>

definition numericIndex :: "string \<Rightarrow> 64 word" where
  "numericIndex value = foldl (\<lambda>r c. r * 10 + (of_nat (of_char c) - 48)) 0 value"

text \<open>Indexes are compared as signed integers. Equal keys keep the order of the directory.\<close>

definition nvidiaIndexes :: "string list \<Rightarrow> string list" where
  "nvidiaIndexes entries =
     sort_key (\<lambda>i. sint (numericIndex i))
       (map (\<lambda>name. TrimPrefix name ''nvidia'')
         (filter (\<lambda>name. let index = TrimPrefix name ''nvidia'' in
                    \<not> (index = [] \<or> index = name \<or> \<not> allDigits index)) entries))"

definition localCDIDevices :: "host_os \<Rightarrow> string \<Rightarrow> string list" where
  "localCDIDevices os devRoot =
     (case ReadDir os devRoot of
        Inl _ \<Rightarrow> []
      | Inr entries \<Rightarrow>
          (let devices = map (\<lambda>index. ''nvidia.com/gpu='' @ index) (nvidiaIndexes entries) in
           if devices = [] \<and> isOk (Stat os (trimRightChar slash devRoot @ ''/dxg''))
           then [defaultCDIDevice] else devices))"

datatype gpu_error =
    GPUCountNegative
  | CDIDevicesRequireGPU
  | GPUCountNeedsDevices int
  | GPUCountExceedsInventory int nat

definition gpuInventory :: "host_os \<Rightarrow> string list \<Rightarrow> string list \<times> bool" where
  "gpuInventory os cdi =
     (let devices = normalizedCDIDevices cdi in
      if devices \<noteq> [] then (devices, True)
      else if envCDIDevices os \<noteq> [] then (envCDIDevices os, True)
      else (localCDIDevices os ''/dev'', False))"

definition ValidateGPURequest :: "host_os \<Rightarrow> Spec \<Rightarrow> gpu_error + unit" where
  "ValidateGPURequest os spec =
     (if spGPUCount spec < 0 then Inl GPUCountNegative
      else
        (let hasDevices = normalizedCDIDevices (spCDIDevices spec) \<noteq> [] \<or> envCDIDevices os \<noteq> [];
             requested = spGPU spec \<or> 0 < spGPUCount spec in
         if hasDevices \<and> \<not> requested then Inl CDIDevicesRequireGPU
         else if spGPUCount spec = 0 then Inr ()
         else
           (case gpuInventory os (spCDIDevices spec) of (devices, explicit) \<Rightarrow>
              if devices = [] then Inl (GPUCountNeedsDevices (spGPUCount spec))
              else if explicit \<and> int (length devices) \<noteq> spGPUCount spec \<or>
                      \<not> explicit \<and> int (length devices) < spGPUCount spec
                   then Inl (GPUCountExceedsInventory (spGPUCount spec) (length devices))
              else Inr ())))"

record DeviceRequest =
  drDriver :: string
  drDeviceIDs :: "string list"

definition DeviceRequestsForGPU :: "host_os \<Rightarrow> Spec \<Rightarrow> DeviceRequest list" where
  "DeviceRequestsForGPU os spec =
     (if \<not> spGPU spec \<and> spCDIDevices spec = [] then []
      else
        (let ids0 = normalizedCDIDevices (spCDIDevices spec);
             ids1 = (if ids0 = [] then envCDIDevices os else ids0);
             ids2 = (if 0 < spGPUCount spec \<and> ids1 = [] then localCDIDevices os ''/dev'' else ids1);
             ids3 = (if 0 < spGPUCount spec \<and> spGPUCount spec < int (length ids2)
                     then take (nat (spGPUCount spec)) ids2 else ids2);
             ids = (if ids3 = [] then [defaultCDIDevice] else ids3) in
         [\<lparr>drDriver = ''cdi'', drDeviceIDs = ids\<rparr>]))"

section \<open>Names\<close>

definition nameOK :: "char \<Rightarrow> bool" where
  "nameOK c \<longleftrightarrow> isLower c \<or> isDigit c \<or> c = CHR ''-''"

lemma nameOK_ascii: "nameOK c \<Longrightarrow> isAscii c \<and> isGraph c \<and> lowerChar c = c \<and> nameChar c = [c]"
  by (auto simp: nameOK_def isAscii_def isGraph_def lowerChar_def isLower_def isDigit_def nameChar_def Let_def)

lemma nameChar_ok: "list_all nameOK (nameChar c)"
  by (simp add: nameChar_def nameOK_def)

lemma concat_nameChar_ok: "list_all nameOK (concat (map nameChar s))"
  by (induction s) (simp_all add: nameChar_ok)

lemma list_all_subset: "list_all P xs \<Longrightarrow> set ys \<subseteq> set xs \<Longrightarrow> list_all P ys"
  by (auto simp: list_all_iff)

lemma sanitizeName_ok: "list_all nameOK (sanitizeName n)"
proof -
  let ?b = "concat (map nameChar (TrimSpace (ToLower n)))"
  have "list_all nameOK (trimChar (CHR ''-'') ?b)"
    using list_all_subset [OF concat_nameChar_ok set_trimChar] .
  then show ?thesis
    using list_all_subset [OF _ set_take_subset [of 63], of nameOK "trimChar (CHR ''-'') ?b"]
    by (simp add: sanitizeName_def Let_def)
qed

lemma sanitizeName_length: "length (sanitizeName n) \<le> 63"
  by (simp add: sanitizeName_def Let_def)

lemma sanitizeName_hd: "\<not> HasPrefix (sanitizeName n) ''-''"
proof -
  let ?t = "trimChar (CHR ''-'') (concat (map nameChar (TrimSpace (ToLower n))))"
  have "hd (sanitizeName n) \<noteq> CHR ''-''" if "sanitizeName n \<noteq> []"
    using that trimChar_hd [of "CHR ''-''" "concat (map nameChar (TrimSpace (ToLower n)))"]
    by (cases "?t = []") (auto simp: sanitizeName_def Let_def)
  then show ?thesis by (cases "sanitizeName n") (auto simp: HasPrefix_def)
qed

text \<open>On a string over the name alphabet only the trimming is left to do.\<close>

lemma ToLower_nameOK: "list_all nameOK s \<Longrightarrow> ToLower s = s"
  using ToLower_ascii [of s] nameOK_ascii by (auto simp: list_all_iff intro: map_idI)

lemma concat_nameChar_id: "list_all nameOK s \<Longrightarrow> concat (map nameChar s) = s"
  by (induction s) (auto simp: nameOK_ascii)

lemma sanitizeName_nameOK:
  assumes "list_all nameOK s" "length s \<le> 63"
  shows "sanitizeName s = trimChar (CHR ''-'') s"
proof -
  have "TrimSpace s = s"
  proof (cases "s = []")
    case False
    then show ?thesis
      using assms(1) nameOK_ascii by (intro TrimSpace_graph) (auto simp: list_all_iff)
  qed simp
  moreover have "length (trimChar (CHR ''-'') s) \<le> length s"
    by (metis dual_order.trans length_dropWhile_le length_rev prefix_length_le trimChar_def trimRightChar_prefix)
  ultimately show ?thesis
    using assms by (simp add: sanitizeName_def ToLower_nameOK concat_nameChar_id)
qed

text \<open>
  C34. A sanitized sandbox name consists of at most 63 lower-case letters, digits and dashes and does
  not start with a dash. Sanitizing it again changes it exactly when it ends with a dash, which the
  truncation after the trimming can produce.
\<close>

theorem sanitizeName_shape:
  "length (sanitizeName n) \<le> 63 \<and>
   list_all (\<lambda>c. isLower c \<or> isDigit c \<or> c = CHR ''-'') (sanitizeName n) \<and>
   \<not> HasPrefix (sanitizeName n) ''-'' \<and>
   (sanitizeName (sanitizeName n) = sanitizeName n) = (\<not> HasSuffix (sanitizeName n) ''-'') \<and>
   HasSuffix (sanitizeName (replicate 62 (CHR ''a'') @ ''-b'')) ''-''"
proof -
  let ?s = "sanitizeName n"
  have e: "sanitizeName ?s = trimChar (CHR ''-'') ?s"
    by (rule sanitizeName_nameOK [OF sanitizeName_ok sanitizeName_length])
  have "(trimChar (CHR ''-'') ?s = ?s) = (\<not> HasSuffix ?s ''-'')"
  proof (cases "?s = []")
    case False
    have h: "hd ?s \<noteq> CHR ''-''" using sanitizeName_hd [of n] False by (cases ?s) (auto simp: HasPrefix_def)
    have l: "HasSuffix ?s ''-'' \<longleftrightarrow> last ?s = CHR ''-''"
      using False last_eq_suffix [OF False] by (auto simp: HasSuffix_def suffix_def)
    show ?thesis
      using trimChar_unchanged [of ?s "CHR ''-''"] trimChar_last [of "CHR ''-''" ?s] h l False by auto
  qed (simp add: trimChar_def trimRightChar_def HasSuffix_def)
  moreover have "HasSuffix (sanitizeName (replicate 62 (CHR ''a'') @ ''-b'')) ''-''" by code_simp
  ultimately show ?thesis
    using e sanitizeName_ok [of n, unfolded nameOK_def [abs_def]] sanitizeName_length sanitizeName_hd by simp
qed

section \<open>Limits\<close>

text \<open>
  The process limit of a container is absent exactly when it was disabled: the effective
  setting (the request, or else the configuration) is negative, or it is unset and the environment
  variable is the number 0. Every other input, malformed values included, gives a positive limit.
\<close>

theorem pids_limit_disabled_iff:
  assumes "0 < SandboxPidsLimit D"
  shows "(resolvePidsLimit D os (configuredPidsLimit cfg spec) = None \<longleftrightarrow>
      configuredPidsLimit cfg spec < 0 \<or>
      spec = 0 \<and> PidsLimit cfg = 0 \<and> ParseInt64 (TrimSpace (Getenv os envSandboxPidsLimit)) = Some 0) \<and>
    (\<forall>n. resolvePidsLimit D os (configuredPidsLimit cfg spec) = Some n \<longrightarrow> 0 < n)"
proof -
  have "ParseInt64 [] = None" by code_simp
  then show ?thesis
    using assms by (auto simp: resolvePidsLimit_def configuredPidsLimit_def Let_def split: option.splits)
qed

theorem pids_limit_disabled_iff_witness:
  "0 < SandboxPidsLimit exampleDefaults \<and>
   resolvePidsLimit exampleDefaults exampleOS (configuredPidsLimit zeroConfig (- 1)) = None \<and>
   resolvePidsLimit exampleDefaults exampleOS (configuredPidsLimit zeroConfig 0) = Some 2048"
proof -
  have d: "0 < SandboxPidsLimit exampleDefaults" by (simp add: exampleDefaults_def)
  moreover have "configuredPidsLimit zeroConfig (- 1) = - 1" by code_simp
  moreover have "resolvePidsLimit exampleDefaults exampleOS (configuredPidsLimit zeroConfig 0) = Some 2048"
    by code_simp
  ultimately show ?thesis using pids_limit_disabled_iff [OF d, of exampleOS zeroConfig "- 1"] by simp
qed

text \<open>
  Container logs are never unbounded by accident: whatever the environment holds, the log
  configuration is either the driver none or json-file with a maximal size and a file count
  that is a number of at least one.
\<close>

theorem log_rotation_bounded:
  "sandboxLogConfig os = \<lparr>lcType = ''none'', lcConfig = []\<rparr> \<or>
   (\<exists>size file n. sandboxLogConfig os =
      \<lparr>lcType = ''json-file'', lcConfig = [(''max-size'', size), (''max-file'', file)]\<rparr> \<and>
      0 < length size \<and> ParseInt64 file = Some n \<and> 1 \<le> n)"
proof -
  have d: "ParseInt64 defaultLogMaxFile = Some 3" by code_simp
  have ne: "0 < length defaultLogMaxSize" by (simp add: defaultLogMaxSize_def)
  show ?thesis
    unfolding sandboxLogConfig_def Let_def
    using d ne by (auto simp: defaultLogDriver_def split: option.splits)
qed

section \<open>Quoting\<close>

text \<open>The words of a POSIX shell as far as quoting is concerned: a single quote opens a literal
  part that ends at the next single quote, a backslash outside quotes takes the next character
  literally, a blank ends the word.\<close>

fun shWord :: "bool \<Rightarrow> string \<Rightarrow> (string \<times> string) option" where
  "shWord True [] = None"
| "shWord False [] = Some ([], [])"
| "shWord True (c # cs) =
     (if c = CHR 0x27 then shWord False cs
      else (case shWord True cs of None \<Rightarrow> None | Some (w, r) \<Rightarrow> Some (c # w, r)))"
| "shWord False (c # cs) =
     (if c = CHR 0x27 then shWord True cs
      else if c = CHR 0x5C then
        (case cs of [] \<Rightarrow> None
         | d # ds \<Rightarrow> (case shWord False ds of None \<Rightarrow> None | Some (w, r) \<Rightarrow> Some (d # w, r)))
      else if c = CHR '' '' then Some ([], c # cs)
      else (case shWord False cs of None \<Rightarrow> None | Some (w, r) \<Rightarrow> Some (c # w, r)))"

lemma shWord_quoted:
  "shWord True (ReplaceAllChar v (CHR 0x27) [CHR 0x27, CHR 0x5C, CHR 0x27, CHR 0x27] @ CHR 0x27 # CHR '' '' # rest) =
   Some (v, CHR '' '' # rest)"
  by (induction v) (auto simp: ReplaceAllChar_def)

text \<open>
  C33. Shell quoting round-trips: a shell that reads the quoted string followed by a blank sees one
  word, and that word is the original string, whatever characters it contains.
\<close>

theorem shellQuote_roundtrip:
  "shWord False (shellQuote v @ '' '' @ rest) = Some (v, '' '' @ rest)"
  using shWord_quoted [of v rest] by (simp add: shellQuote_def)

section \<open>GPU requests\<close>

lemma gpuInventory_ids:
  "fst (gpuInventory os cdi) =
     (let ids1 = (if normalizedCDIDevices cdi = [] then envCDIDevices os else normalizedCDIDevices cdi) in
      if ids1 = [] then localCDIDevices os ''/dev'' else ids1)"
  by (simp add: gpuInventory_def Let_def)

lemma validated_inventory:
  assumes "ValidateGPURequest os spec = Inr ()" "0 < spGPUCount spec"
  shows "spGPUCount spec \<le> int (length (fst (gpuInventory os (spCDIDevices spec))))"
    "fst (gpuInventory os (spCDIDevices spec)) \<noteq> []"
  using assms by (auto simp: ValidateGPURequest_def Let_def split: prod.splits if_splits)

text \<open>
  C35. An accepted GPU request with a count, made by the GPU flag or by naming devices, hands the engine
  exactly that many devices, all from the inventory that was validated: the requested devices, or
  those of the environment, or the local NVIDIA nodes. (A count alone is accepted and dropped, see
  \<open>gpu_count_without_flag_dropped\<close>.)
\<close>

theorem gpu_request_exact_count:
  assumes "ValidateGPURequest os spec = Inr ()" "0 < spGPUCount spec"
    and "spGPU spec \<or> spCDIDevices spec \<noteq> []"
  shows "\<exists>ids. DeviceRequestsForGPU os spec = [\<lparr>drDriver = ''cdi'', drDeviceIDs = ids\<rparr>] \<and>
    int (length ids) = spGPUCount spec \<and> set ids \<subseteq> set (fst (gpuInventory os (spCDIDevices spec)))"
proof -
  let ?inv = "fst (gpuInventory os (spCDIDevices spec))" and ?n = "nat (spGPUCount spec)"
  note V = validated_inventory [OF assms(1,2)]
  have "DeviceRequestsForGPU os spec = [\<lparr>drDriver = ''cdi'', drDeviceIDs = take ?n ?inv\<rparr>]"
    using V assms(2,3) unfolding gpuInventory_ids by (auto simp: DeviceRequestsForGPU_def Let_def)
  moreover have "int (length (take ?n ?inv)) = spGPUCount spec" using V assms(2) by simp
  ultimately show ?thesis using set_take_subset by fast
qed

definition gpuOS :: host_os where
  "gpuOS = exampleOS\<lparr>ReadDir := (\<lambda>_. Inr [''null'', ''nvidia0'', ''nvidia1'', ''nvidia10'', ''nvidia2'', ''nvidiactl''])\<rparr>"

theorem gpu_request_exact_count_witness:
  "ValidateGPURequest gpuOS (zeroSpec\<lparr>spGPU := True, spGPUCount := 2\<rparr>) = Inr () \<and>
   (\<exists>ids. DeviceRequestsForGPU gpuOS (zeroSpec\<lparr>spGPU := True, spGPUCount := 2\<rparr>) =
      [\<lparr>drDriver = ''cdi'', drDeviceIDs = ids\<rparr>] \<and> int (length ids) = 2)"
proof -
  let ?s = "zeroSpec\<lparr>spGPU := True, spGPUCount := 2\<rparr>"
  have v: "ValidateGPURequest gpuOS ?s = Inr ()" by code_simp
  have "0 < spGPUCount ?s" "spGPU ?s \<or> spCDIDevices ?s \<noteq> []" by simp_all
  from gpu_request_exact_count [OF v this] v show ?thesis by auto
qed

text \<open>
  A GPU count without the GPU flag passes validation and is then dropped: with a local inventory
  that is large enough the request is accepted, and no device is requested from the engine.
\<close>

theorem gpu_count_without_flag_dropped:
  assumes "0 < spGPUCount spec" "\<not> spGPU spec" "spCDIDevices spec = []" "envCDIDevices os = []"
    and "spGPUCount spec \<le> int (length (localCDIDevices os ''/dev''))"
  shows "ValidateGPURequest os spec = Inr () \<and> DeviceRequestsForGPU os spec = []"
  using assms
  by (auto simp: ValidateGPURequest_def DeviceRequestsForGPU_def gpuInventory_def normalizedCDIDevices_def Let_def)

theorem gpu_count_without_flag_dropped_witness:
  "ValidateGPURequest gpuOS (zeroSpec\<lparr>spGPUCount := 2\<rparr>) = Inr () \<and>
   DeviceRequestsForGPU gpuOS (zeroSpec\<lparr>spGPUCount := 2\<rparr>) = []"
proof -
  have "envCDIDevices gpuOS = []" by code_simp
  moreover have "2 \<le> int (length (localCDIDevices gpuOS ''/dev''))" by code_simp
  ultimately show ?thesis
    using gpu_count_without_flag_dropped [of "zeroSpec\<lparr>spGPUCount := 2\<rparr>" gpuOS]
    by (simp add: zeroSpec_def)
qed

lemma numericIndex_decVal: "list_all isDigit v \<Longrightarrow> numericIndex v = of_nat (decVal v)"
proof (induction v rule: rev_induct)
  case (snoc c v)
  then have "48 \<le> (of_char c :: nat)" by (simp add: isDigit_def Let_def)
  then have "(of_nat (of_char c) - 48 :: 64 word) = of_nat (digitVal c)"
    by (simp add: digitVal_def of_nat_diff)
  with snoc show ?case by (simp add: numericIndex_def decVal_def)
qed (simp add: numericIndex_def decVal_def)

lemma sint_numericIndex:
  assumes "list_all isDigit v" "decVal v < 2 ^ 63"
  shows "sint (numericIndex v) = int (decVal v)"
proof -
  have "take_bit 64 (decVal v) = decVal v" using assms(2) by (intro take_bit_nat_eq_self) simp
  moreover have "signed_take_bit 63 (int (decVal v)) = int (decVal v)"
    using assms(2) by (intro signed_take_bit_int_eq_self) simp_all
  ultimately show ?thesis
    using assms(1) by (simp add: numericIndex_decVal sint_uint unsigned_of_nat)
qed

lemma TrimPrefix_append [simp]: "TrimPrefix (p @ i) p = i"
  by (simp add: TrimPrefix_def HasPrefix_def)

lemma numbered_iff:
  assumes "p \<noteq> []"
  shows "\<not> (TrimPrefix name p = [] \<or> TrimPrefix name p = name \<or> \<not> allDigits (TrimPrefix name p)) \<longleftrightarrow>
    (\<exists>i. name = p @ i \<and> allDigits i)"
proof (cases "prefix p name")
  case True
  then obtain i where "name = p @ i" by (auto simp: prefix_def)
  with assms show ?thesis by (auto simp: allDigits_def)
next
  case False
  then show ?thesis by (auto simp: TrimPrefix_def HasPrefix_def)
qed

lemma numbered_image: "(\<lambda>n. TrimPrefix n p) ` {n \<in> S. \<exists>i. n = p @ i \<and> A i} = {i. p @ i \<in> S \<and> A i}"
  by (auto intro: rev_image_eqI)

text \<open>
  The local GPU inventory lists exactly the device nodes named nvidia followed by a number, each
  as its own CDI device, in increasing numeric order (not in the lexical order of the directory).
\<close>

theorem local_devices_numeric_order:
  assumes "\<forall>i. ''nvidia'' @ i \<in> set entries \<longrightarrow> allDigits i \<longrightarrow> decVal i < 2 ^ 63"
  shows "sorted (map decVal (nvidiaIndexes entries)) \<and>
    set (nvidiaIndexes entries) = {i. ''nvidia'' @ i \<in> set entries \<and> allDigits i}"
proof -
  have s: "set (nvidiaIndexes entries) = {i. ''nvidia'' @ i \<in> set entries \<and> allDigits i}"
  proof -
    have "set (nvidiaIndexes entries) =
        (\<lambda>name. TrimPrefix name ''nvidia'') ` {name \<in> set entries. \<exists>i. name = ''nvidia'' @ i \<and> allDigits i}"
      by (simp only: nvidiaIndexes_def Let_def set_sort set_map set_filter
          numbered_iff [of "''nvidia''", OF list.distinct(2)])
    then show ?thesis by (simp only: numbered_image)
  qed
  have "sint (numericIndex i) = int (decVal i)" if "i \<in> set (nvidiaIndexes entries)" for i
    using that assms unfolding s by (intro sint_numericIndex) (auto simp: allDigits_def)
  then have "map (\<lambda>i. sint (numericIndex i)) (nvidiaIndexes entries) = map (\<lambda>i. int (decVal i)) (nvidiaIndexes entries)"
    by (rule map_cong [OF refl])
  moreover have "sorted (map (\<lambda>i. sint (numericIndex i)) (nvidiaIndexes entries))"
    by (simp add: nvidiaIndexes_def)
  ultimately have "sorted (map int (map decVal (nvidiaIndexes entries)))" by (simp only: map_map comp_def)
  then have "sorted (map decVal (nvidiaIndexes entries))" by (simp add: sorted_map sorted_wrt_map)
  with s show ?thesis by blast
qed

theorem local_devices_numeric_order_witness:
  "sorted (map decVal (nvidiaIndexes [''null'', ''nvidia0'', ''nvidia10'', ''nvidia2'', ''nvidiactl''])) \<and>
   nvidiaIndexes [''null'', ''nvidia0'', ''nvidia10'', ''nvidia2'', ''nvidiactl''] = [''0'', ''2'', ''10'']"
proof -
  let ?e = "[''null'', ''nvidia0'', ''nvidia10'', ''nvidia2'', ''nvidiactl'']"
  have "\<forall>i. ''nvidia'' @ i \<in> set ?e \<longrightarrow> allDigits i \<longrightarrow> decVal i < 2 ^ 63"
    by (auto simp: decVal_def digitVal_def)
  from local_devices_numeric_order [OF this]
  have "sorted (map decVal (nvidiaIndexes ?e))" ..
  moreover have "nvidiaIndexes ?e = [''0'', ''2'', ''10'']" by code_simp
  ultimately show ?thesis by blast
qed

end
