(* ===== verification/Go_URL.thy ===== *)
theory Go_URL
  imports Go_Net
begin

text \<open>
  \<^verbatim>\<open>url.Parse\<close> as far as the driver looks at its result: whether it fails, the scheme, whether the
  authority carries user information, and the host with its port. Paths, queries and fragments are
  only checked for malformed percent escapes.
\<close>

definition lastIndex :: "char \<Rightarrow> string \<Rightarrow> nat option" where
  "lastIndex c s =
     (if c \<in> set s then Some (length s - 1 - length (takeWhile (\<lambda>x. x \<noteq> c) (rev s))) else None)"

fun validEscapes :: "string \<Rightarrow> bool" where
  "validEscapes [] = True"
| "validEscapes (c # cs) =
     (if c = CHR ''%'' then
        (case cs of a # b # rest \<Rightarrow> isHex a \<and> isHex b \<and> validEscapes rest | _ \<Rightarrow> False)
      else validEscapes cs)"

definition hostPunct :: string where
  "hostPunct = ''-_.~!$&'' @ [CHR 0x27] @ ''()*+,;=:[]<>'' @ [CHR 0x22]"

definition hexVal :: "char \<Rightarrow> nat" where
  "hexVal c = (if isDigit c then digitVal c else of_char (lowerChar c) - 87)"

definition hostChar :: "char \<Rightarrow> bool" where
  "hostChar c \<longleftrightarrow> isDigit c \<or> isLower (lowerChar c) \<or> \<not> isAscii c \<or> c \<in> set hostPunct"

text \<open>A host may carry escapes of non-ASCII bytes, and the escaped percent sign.\<close>

fun unescapeHost :: "string \<Rightarrow> string option" where
  "unescapeHost [] = Some []"
| "unescapeHost (c # cs) =
     (if c = CHR ''%'' then
        (case cs of
           a # b # rest \<Rightarrow>
             if isHex a \<and> isHex b \<and> (8 \<le> hexVal a \<or> a = CHR ''2'' \<and> b = CHR ''5'')
             then map_option (\<lambda>h. char_of (16 * hexVal a + hexVal b) # h) (unescapeHost rest)
             else None
         | _ \<Rightarrow> None)
      else if hostChar c then map_option (\<lambda>h. c # h) (unescapeHost cs)
      else None)"

definition validOptionalPort :: "string \<Rightarrow> bool" where
  "validOptionalPort p = (case p of [] \<Rightarrow> True | c # ds \<Rightarrow> c = CHR '':'' \<and> list_all isDigit ds)"

definition parseHost :: "string \<Rightarrow> string option" where
  "parseHost host =
     (if HasPrefix host ''['' then
        (case lastIndex (CHR '']'') host of
           None \<Rightarrow> None
         | Some i \<Rightarrow> if validOptionalPort (drop (i + 1) host) then unescapeHost host else None)
      else
        (case lastIndex (CHR '':'') host of
           Some i \<Rightarrow> if validOptionalPort (drop i host) then unescapeHost host else None
         | None \<Rightarrow> unescapeHost host))"

definition splitHostPort :: "string \<Rightarrow> string \<times> string" where
  "splitHostPort hostPort =
     (let (host, port) =
        (case lastIndex (CHR '':'') hostPort of
           Some i \<Rightarrow> if validOptionalPort (drop i hostPort) then (take i hostPort, drop (i + 1) hostPort)
                    else (hostPort, [])
         | None \<Rightarrow> (hostPort, []))
      in if HasPrefix host ''['' \<and> HasSuffix host '']'' then (tl (butlast host), port) else (host, port))"

definition isAlpha :: "char \<Rightarrow> bool" where
  "isAlpha c \<longleftrightarrow> isLower (lowerChar c)"

fun getSchemeAt :: "bool \<Rightarrow> string \<Rightarrow> string \<Rightarrow> string \<Rightarrow> (string \<times> string) option" where
  "getSchemeAt first acc raw [] = Some ([], raw)"
| "getSchemeAt first acc raw (c # cs) =
     (if isAlpha c then getSchemeAt False (acc @ [c]) raw cs
      else if isDigit c \<or> c \<in> set ''+-.'' then
        (if first then Some ([], raw) else getSchemeAt False (acc @ [c]) raw cs)
      else if c = CHR '':'' then (if first then None else Some (acc, cs))
      else Some ([], raw))"

record parsed_url =
  uScheme :: string
  uHasUser :: bool
  uHost :: string

definition userinfoChar :: "char \<Rightarrow> bool" where
  "userinfoChar c \<longleftrightarrow> isAlpha c \<or> isDigit c \<or> c \<in> set (''-._:~!$&'' @ [CHR 0x27] @ ''()*+,;=%@'')"

definition validUserinfo :: "string \<Rightarrow> bool" where
  "validUserinfo s = list_all userinfoChar s"

definition parseAuthority :: "string \<Rightarrow> (bool \<times> string) option" where
  "parseAuthority authority =
     (case lastIndex (CHR ''@'') authority of
        None \<Rightarrow> map_option (\<lambda>h. (False, h)) (parseHost authority)
      | Some i \<Rightarrow>
          (case parseHost (drop (i + 1) authority) of
             None \<Rightarrow> None
           | Some h \<Rightarrow>
               if validUserinfo (take i authority) \<and> validEscapes (take i authority) then Some (True, h) else None))"

definition noHost :: "string \<Rightarrow> string \<Rightarrow> string \<Rightarrow> parsed_url option" where
  "noHost scheme path frag =
     (if validEscapes path \<and> validEscapes frag
      then Some \<lparr>uScheme = scheme, uHasUser = False, uHost = []\<rparr> else None)"

definition withAuthority :: "string \<Rightarrow> string \<Rightarrow> string \<Rightarrow> string \<Rightarrow> parsed_url option" where
  "withAuthority scheme authority path frag =
     (case parseAuthority authority of
        None \<Rightarrow> None
      | Some (user, host) \<Rightarrow>
          if validEscapes path \<and> validEscapes frag
          then Some \<lparr>uScheme = scheme, uHasUser = user, uHost = host\<rparr> else None)"

definition urlRest :: "string \<Rightarrow> string \<Rightarrow> string \<Rightarrow> parsed_url option" where
  "urlRest scheme rest frag =
     (if \<not> HasPrefix rest ''/'' \<and> scheme \<noteq> [] then noHost scheme [] frag
      else if \<not> HasPrefix rest ''/'' \<and> CHR '':'' \<in> set (fst (Cut rest (CHR ''/''))) then None
      else if (scheme \<noteq> [] \<or> \<not> HasPrefix rest ''///'') \<and> HasPrefix rest ''//'' then
        withAuthority scheme (takeWhile (\<lambda>c. c \<noteq> CHR ''/'') (drop 2 rest))
          (dropWhile (\<lambda>c. c \<noteq> CHR ''/'') (drop 2 rest)) frag
      else noHost scheme rest frag)"

definition urlNoFragment :: "string \<Rightarrow> string \<Rightarrow> parsed_url option" where
  "urlNoFragment u frag =
     (if list_ex (\<lambda>c. (of_char c :: nat) < 32 \<or> (of_char c :: nat) = 127) u then None
      else if u = ''*'' then noHost [] [] frag
      else (case getSchemeAt True [] u u of
              None \<Rightarrow> None
            | Some (scheme, rest) \<Rightarrow> urlRest (ToLower scheme) (fst (Cut rest (CHR ''?''))) frag))"

definition urlParse :: "string \<Rightarrow> parsed_url option" where
  "urlParse rawURL = urlNoFragment (fst (Cut rawURL (CHR ''#''))) (fst (snd (Cut rawURL (CHR ''#''))))"

definition Hostname :: "parsed_url \<Rightarrow> string" where
  "Hostname u = fst (splitHostPort (uHost u))"

definition Port :: "parsed_url \<Rightarrow> string" where
  "Port u = snd (splitHostPort (uHost u))"

lemma url_examples:
  "urlParse ''http://proxy.corp:3128'' = Some \<lparr>uScheme = ''http'', uHasUser = False, uHost = ''proxy.corp:3128''\<rparr>"
  "map_option uHasUser (urlParse ''https://u:p@h:1/x'') = Some True"
  "map_option Hostname (urlParse ''https://[::1]:8080'') = Some ''::1''"
  "map_option Port (urlParse ''https://[::1]:8080'') = Some ''8080''"
  "map_option Port (urlParse ''HTTPS://host'') = Some []"
  "urlParse ''http://h:80x'' = None"
  "map_option Hostname (urlParse ''http:h:80'') = Some []"
  by code_simp+

end
