(* ===== verification/Docker_Config.thy ===== *)
theory Docker_Config
  imports Runtime Go_URL "HOL-Library.Multiset"
begin

text \<open>
  \<^verbatim>\<open>internal/docker/config.go\<close> and \<^verbatim>\<open>internal/certbundle\<close>: decoding the operator's configuration map
  into a \<^verbatim>\<open>RuntimeConfig\<close>.

  The map is an association list in iteration order. A value of type \<^verbatim>\<open>any\<close> is an \<open>anyval\<close>; \<open>AOther\<close>
  stands for the dynamic types no branch of the code accepts. Decoding PEM and X.509 needs the
  cryptographic libraries: the record \<open>crypto_lib\<close> holds the functions the code calls.

  The lemmas show that the loop over the map computes one decoded value per field whatever order
  Go visits the map in, that nothing is dropped silently, which invariants an accepted
  configuration has, and what the verdict on a certificate bundle is.
\<close>

section \<open>certbundle.go\<close>

record pem_block =
  pbType :: string
  pbHeaders :: "(string \<times> string) list"
  pbBytes :: string

record crypto_lib =
  pemDecode :: "string \<Rightarrow> (pem_block \<times> string) option"
  parseCertificates :: "string \<Rightarrow> nat option"
  appendCertsFromPEM :: "string \<Rightarrow> bool"

datatype pem_error = InvalidBlock | InvalidCertificate | NoCertificates

text \<open>The loop of \<^verbatim>\<open>AppendPEM\<close>; \<open>pem.Decode\<close> consumes input, so the length of the bundle is enough
  fuel (\<open>None\<close> marks exhausted fuel). The state is the number of certificates added.\<close>

fun appendLoop :: "crypto_lib \<Rightarrow> nat \<Rightarrow> string \<Rightarrow> nat \<Rightarrow> (pem_error + nat) option" where
  "appendLoop L fuel remaining added =
     (if remaining = [] then Some (Inr added)
      else (case fuel of
              0 \<Rightarrow> None
            | Suc fuel' \<Rightarrow>
                (case pemDecode L remaining of
                   None \<Rightarrow> Some (Inl InvalidBlock)
                 | Some (block, rest) \<Rightarrow>
                     if pbType block \<noteq> ''CERTIFICATE'' \<or> pbHeaders block \<noteq> [] then Some (Inl InvalidBlock)
                     else (case parseCertificates L (pbBytes block) of
                             None \<Rightarrow> Some (Inl InvalidCertificate)
                           | Some n \<Rightarrow>
                               if n = 0 then Some (Inl InvalidCertificate)
                               else appendLoop L fuel' (TrimSpace rest) (added + n)))))"

declare appendLoop.simps [simp del]

definition AppendPEM :: "crypto_lib \<Rightarrow> string \<Rightarrow> pem_error + nat" where
  "AppendPEM L bundle =
     (case appendLoop L (length bundle) (TrimSpace bundle) 0 of
        Some (Inl e) \<Rightarrow> Inl e
      | Some (Inr added) \<Rightarrow> if added = 0 then Inl NoCertificates else Inr added
      | None \<Rightarrow> Inl InvalidBlock)"

section \<open>config.go\<close>

datatype anyval =
    AInt int | AInt64 int | AUint64 int | AFloat gofloat | AString string | ABool bool
  | AStrings "string list" | AList "anyval list" | AOther

datatype tls_error = TLSPathNotClean | TLSIncomplete

datatype proxy_error =
    BadProxyURL | NoProxyNeedsProxy | AuthFileNotClean | AuthFileNeedsProxy | AuthFileInsecure
  | AuthFileUnreadable | AuthFileMalformed | InsecureNeedsAuthFile | ByHostnameNeedsProxy
  | CABundleNotClean | CABundleNeedsProxy | CABundleUnreadable | CABundleEmpty

datatype egress_error = EgressNotClean | EgressNotRegular | EgressUnreadable | EgressInvalid pem_error

datatype config_error =
    UnsupportedField string
  | InvalidField string
  | HostGatewayNotIP
  | NamespaceEmpty
  | GuestTLS tls_error
  | UpstreamProxy proxy_error
  | EgressCA egress_error
  | OutOfRange
  | BadPullPolicy

fun configString :: "anyval \<Rightarrow> unit + string" where
  "configString (AString s) = Inr (TrimSpace s)"
| "configString _ = Inl ()"

definition nonEmptyProxyString :: "anyval \<Rightarrow> unit + string" where
  "nonEmptyProxyString v = bindR (configString v) (\<lambda>s. if s = [] then Inl () else Inr s)"

fun configBool :: "anyval \<Rightarrow> unit + bool" where
  "configBool (ABool b) = Inr b"
| "configBool _ = Inl ()"

text \<open>A float is accepted when it is whole and lies between the bounds as rounded to \<^verbatim>\<open>float64\<close>:
  the upper bound is then \<open>2 ^ 63\<close> itself.\<close>

fun fWhole :: "gofloat \<Rightarrow> bool" where
  "fWhole FNaN = False"
| "fWhole (FInf _) = True"
| "fWhole (FFin m e) = (0 \<le> e \<or> m mod 2 ^ nat (- e) = 0)"

fun fExceedsInt64 :: "gofloat \<Rightarrow> bool" where
  "fExceedsInt64 FNaN = False"
| "fExceedsInt64 (FInf _) = True"
| "fExceedsInt64 (FFin m e) =
     (if 0 \<le> e then 2 ^ 63 < m * 2 ^ nat e \<or> m * 2 ^ nat e < - (2 ^ 63)
      else 2 ^ 63 * 2 ^ nat (- e) < m \<or> m < - (2 ^ 63 * 2 ^ nat (- e)))"

fun configInt64 :: "anyval \<Rightarrow> unit + int" where
  "configInt64 (AInt n) = Inr n"
| "configInt64 (AInt64 n) = Inr n"
| "configInt64 (AUint64 n) = (if maxInt64 < n then Inl () else Inr n)"
| "configInt64 (AFloat f) = (if \<not> fWhole f \<or> fExceedsInt64 f then Inl () else Inr (toInt64 f))"
| "configInt64 _ = Inl ()"

definition configInt :: "anyval \<Rightarrow> unit + int" where
  "configInt v =
     (case configInt64 v of
        Inl _ \<Rightarrow> Inl ()
      | Inr n \<Rightarrow> if maxInt64 < n \<or> n < minInt64 then Inl () else Inr n)"

definition NormalizeImagePullPolicy :: "string \<Rightarrow> unit + string" where
  "NormalizeImagePullPolicy value =
     (let policy = ToLower (TrimSpace value) in
      if policy = [] then Inr []
      else if policy = ''missing'' \<or> policy = ''ifnotpresent'' \<or> policy = ''if-not-present'' \<or>
              policy = ''if_not_present'' then Inr ''missing''
      else if policy = ''always'' \<or> policy = ''never'' \<or> policy = ''newer'' then Inr policy
      else Inl ())"

definition cleanAbs :: "string \<Rightarrow> bool" where
  "cleanAbs p \<longleftrightarrow> \<not> (\<not> IsAbs p \<or> Clean p \<noteq> p)"

fun countTLS :: "string list \<Rightarrow> nat \<Rightarrow> tls_error + nat" where
  "countTLS [] configured = Inr configured"
| "countTLS (p # ps) configured =
     (if TrimSpace p \<noteq> [] then
        (if \<not> cleanAbs p then Inl TLSPathNotClean else countTLS ps (configured + 1))
      else countTLS ps configured)"

definition validateGuestTLSPaths :: "string \<Rightarrow> string \<Rightarrow> string \<Rightarrow> tls_error + unit" where
  "validateGuestTLSPaths ca cert key =
     bindR (countTLS [ca, cert, key] 0) (\<lambda>configured.
       if configured \<noteq> 0 \<and> configured \<noteq> 3 then Inl TLSIncomplete else Inr ())"

definition validateEgressCABundle :: "host_os \<Rightarrow> crypto_lib \<Rightarrow> string \<Rightarrow> egress_error + unit" where
  "validateEgressCABundle os L path =
     (if path = [] then Inr ()
      else if \<not> cleanAbs path then Inl EgressNotClean
      else (case Stat os path of
              Inl _ \<Rightarrow> Inl EgressNotRegular
            | Inr info \<Rightarrow>
                if \<not> fiIsRegular info \<or> 1048576 < fiSize info then Inl EgressNotRegular
                else (case ReadFile os path of
                        Inl _ \<Rightarrow> Inl EgressUnreadable
                      | Inr body \<Rightarrow> bindR (wrapE EgressInvalid (AppendPEM L body)) (\<lambda>_. Inr ()))))"

definition proxySecure :: "RuntimeConfig \<Rightarrow> proxy_error + bool" where
  "proxySecure cfg =
     (if UpstreamProxyURL cfg = [] then Inr False
      else (case urlParse (UpstreamProxyURL cfg) of
              None \<Rightarrow> Inl BadProxyURL
            | Some u \<Rightarrow>
                if Hostname u = [] \<or> Port u = [] \<or> uHasUser u \<or>
                   uScheme u \<noteq> ''http'' \<and> uScheme u \<noteq> ''https'' then Inl BadProxyURL
                else Inr (uScheme u = ''https'')))"

definition checkProxyAuth :: "host_os \<Rightarrow> RuntimeConfig \<Rightarrow> bool \<Rightarrow> proxy_error + unit" where
  "checkProxyAuth os cfg secure =
     (if UpstreamProxyAuthFile cfg \<noteq> [] then
        (if \<not> cleanAbs (UpstreamProxyAuthFile cfg) then Inl AuthFileNotClean
         else if UpstreamProxyURL cfg = [] then Inl AuthFileNeedsProxy
         else if \<not> secure \<and> \<not> UpstreamProxyAuthAllowInsecure cfg then Inl AuthFileInsecure
         else (case ReadFile os (UpstreamProxyAuthFile cfg) of
                 Inl _ \<Rightarrow> Inl AuthFileUnreadable
               | Inr body \<Rightarrow>
                   if 65536 < length body then Inl AuthFileUnreadable
                   else (case Cut (TrimSpace body) (CHR '':'') of (username, password, ok) \<Rightarrow>
                           if \<not> ok \<or> TrimSpace username = [] \<or> password = [] then Inl AuthFileMalformed
                           else Inr ())))
      else if UpstreamProxyAuthAllowInsecure cfg then Inl InsecureNeedsAuthFile
      else Inr ())"

definition checkProxyCA :: "host_os \<Rightarrow> crypto_lib \<Rightarrow> RuntimeConfig \<Rightarrow> proxy_error + unit" where
  "checkProxyCA os L cfg =
     (if UpstreamProxyCABundle cfg \<noteq> [] then
        (if \<not> cleanAbs (UpstreamProxyCABundle cfg) then Inl CABundleNotClean
         else if UpstreamProxyURL cfg = [] then Inl CABundleNeedsProxy
         else (case ReadFile os (UpstreamProxyCABundle cfg) of
                 Inl _ \<Rightarrow> Inl CABundleUnreadable
               | Inr body \<Rightarrow> if \<not> appendCertsFromPEM L body then Inl CABundleEmpty else Inr ()))
      else Inr ())"

definition validateUpstreamProxyConfig :: "host_os \<Rightarrow> crypto_lib \<Rightarrow> RuntimeConfig \<Rightarrow> proxy_error + unit" where
  "validateUpstreamProxyConfig os L cfg =
     bindR (proxySecure cfg) (\<lambda>secure.
     bindR (failIf (UpstreamProxyNoProxy cfg \<noteq> [] \<and> UpstreamProxyURL cfg = []) NoProxyNeedsProxy) (\<lambda>_.
     bindR (checkProxyAuth os cfg secure) (\<lambda>_.
     bindR (failIf (UpstreamProxyConnectByHostname cfg \<and> UpstreamProxyURL cfg = []) ByHostnameNeedsProxy) (\<lambda>_.
     checkProxyCA os L cfg))))"

text \<open>One round of the loop over the map. The state is the configuration and the socket.\<close>

definition setStr :: "string \<Rightarrow> unit + string \<Rightarrow> (string \<Rightarrow> 's) \<Rightarrow> config_error + 's" where
  "setStr key r f = bindR (wrapE (\<lambda>_. InvalidField key) r) (\<lambda>v. Inr (f v))"

definition setInt :: "string \<Rightarrow> unit + int \<Rightarrow> (int \<Rightarrow> 's) \<Rightarrow> config_error + 's" where
  "setInt key r f = bindR (wrapE (\<lambda>_. InvalidField key) r) (\<lambda>v. Inr (f v))"

definition setBool :: "string \<Rightarrow> unit + bool \<Rightarrow> (bool \<Rightarrow> 's) \<Rightarrow> config_error + 's" where
  "setBool key r f = bindR (wrapE (\<lambda>_. InvalidField key) r) (\<lambda>v. Inr (f v))"

definition configField :: "RuntimeConfig \<times> string \<Rightarrow> string \<times> anyval \<Rightarrow> config_error + RuntimeConfig \<times> string" where
  "configField st kv =
     (let cfg = fst st; socket = snd st; key = fst kv; value = snd kv in
      if key = ''socket_path'' then setStr key (configString value) (\<lambda>v. (cfg, v))
      else if key = ''default_image'' then setStr key (configString value) (\<lambda>v. (cfg\<lparr>DefaultImage := v\<rparr>, socket))
      else if key = ''sandbox_namespace'' then setStr key (configString value) (\<lambda>v. (cfg\<lparr>SandboxNamespace := v\<rparr>, socket))
      else if key = ''guest_tls_ca'' then setStr key (configString value) (\<lambda>v. (cfg\<lparr>GuestTLSCA := v\<rparr>, socket))
      else if key = ''guest_tls_cert'' then setStr key (configString value) (\<lambda>v. (cfg\<lparr>GuestTLSCert := v\<rparr>, socket))
      else if key = ''guest_tls_key'' then setStr key (configString value) (\<lambda>v. (cfg\<lparr>GuestTLSKey := v\<rparr>, socket))
      else if key = ''network_name'' then setStr key (configString value) (\<lambda>v. (cfg\<lparr>NetworkName := v\<rparr>, socket))
      else if key = ''host_gateway_ip'' then setStr key (configString value) (\<lambda>v. (cfg\<lparr>HostGatewayIP := v\<rparr>, socket))
      else if key = ''grpc_endpoint'' then setStr key (configString value) (\<lambda>v. (cfg\<lparr>GatewayGRPCEndpoint := v\<rparr>, socket))
      else if key = ''ssh_socket_path'' then setStr key (configString value) (\<lambda>v. (cfg\<lparr>SandboxSSHSocketPath := v\<rparr>, socket))
      else if key = ''sandbox_pids_limit'' then setInt key (configInt64 value) (\<lambda>v. (cfg\<lparr>PidsLimit := v\<rparr>, socket))
      else if key = ''stop_timeout_secs'' then setInt key (configInt value) (\<lambda>v. (cfg\<lparr>StopTimeoutSecs := v\<rparr>, socket))
      else if key = ''gateway_port'' then setInt key (configInt value) (\<lambda>v. (cfg\<lparr>GatewayGRPCPort := v\<rparr>, socket))
      else if key = ''enable_bind_mounts'' then setBool key (configBool value) (\<lambda>v. (cfg\<lparr>EnableBindMounts := v\<rparr>, socket))
      else if key = ''provider_spiffe_workload_api_socket'' then
        setStr key (configString value) (\<lambda>v. (cfg\<lparr>ProviderSPIFFEWorkloadAPISocket := v\<rparr>, socket))
      else if key = ''image_pull_policy'' then setStr key (configString value) (\<lambda>v. (cfg\<lparr>ImagePullPolicy := v\<rparr>, socket))
      else if key = ''https_proxy'' then setStr key (nonEmptyProxyString value) (\<lambda>v. (cfg\<lparr>UpstreamProxyURL := v\<rparr>, socket))
      else if key = ''no_proxy'' then setStr key (nonEmptyProxyString value) (\<lambda>v. (cfg\<lparr>UpstreamProxyNoProxy := v\<rparr>, socket))
      else if key = ''proxy_auth_file'' then setStr key (nonEmptyProxyString value) (\<lambda>v. (cfg\<lparr>UpstreamProxyAuthFile := v\<rparr>, socket))
      else if key = ''proxy_auth_allow_insecure'' then
        setBool key (configBool value) (\<lambda>v. (cfg\<lparr>UpstreamProxyAuthAllowInsecure := v\<rparr>, socket))
      else if key = ''proxy_connect_by_hostname'' then
        setBool key (configBool value) (\<lambda>v. (cfg\<lparr>UpstreamProxyConnectByHostname := v\<rparr>, socket))
      else if key = ''proxy_ca_bundle'' then setStr key (nonEmptyProxyString value) (\<lambda>v. (cfg\<lparr>UpstreamProxyCABundle := v\<rparr>, socket))
      else if key = ''egress_ca_bundle'' then setStr key (configString value) (\<lambda>v. (cfg\<lparr>EgressCABundle := v\<rparr>, socket))
      else if key = ''reconcile_data_ownership'' then
        setBool key (configBool value) (\<lambda>v. (cfg\<lparr>ReconcileDataOwnership := v\<rparr>, socket))
      else Inl (UnsupportedField key))"

definition configLoop :: "RuntimeConfig \<times> string \<Rightarrow> (string \<times> anyval) list \<Rightarrow> config_error + RuntimeConfig \<times> string" where
  "configLoop = foldR configField"

definition configCheck ::
  "host_os \<Rightarrow> crypto_lib \<Rightarrow> RuntimeConfig \<Rightarrow> string \<Rightarrow> config_error + RuntimeConfig \<times> string" where
  "configCheck os L cfg socket =
     bindR (failIf (HostGatewayIP cfg \<noteq> [] \<and> \<not> ParseIP (HostGatewayIP cfg)) HostGatewayNotIP) (\<lambda>_.
     bindR (failIf (TrimSpace (SandboxNamespace cfg) = []) NamespaceEmpty) (\<lambda>_.
     bindR (wrapE GuestTLS (validateGuestTLSPaths (GuestTLSCA cfg) (GuestTLSCert cfg) (GuestTLSKey cfg))) (\<lambda>_.
     bindR (wrapE UpstreamProxy (validateUpstreamProxyConfig os L cfg)) (\<lambda>_.
     bindR (wrapE EgressCA (validateEgressCABundle os L (EgressCABundle cfg))) (\<lambda>_.
     bindR (failIf (PidsLimit cfg < 0 \<or> StopTimeoutSecs cfg < 0 \<or> GatewayGRPCPort cfg < 0 \<or>
              65535 < GatewayGRPCPort cfg) OutOfRange) (\<lambda>_.
     bindR (wrapE (\<lambda>_. BadPullPolicy) (NormalizeImagePullPolicy (ImagePullPolicy cfg))) (\<lambda>policy.
     Inr (cfg\<lparr>ImagePullPolicy := policy\<rparr>,
          if socket \<noteq> [] \<and> \<not> Contains socket ''://'' then ''unix://'' @ socket else socket))))))))"

definition ConfigFromMap ::
  "host_os \<Rightarrow> crypto_lib \<Rightarrow> (string \<times> anyval) list \<Rightarrow> config_error + RuntimeConfig \<times> string" where
  "ConfigFromMap os L values =
     bindR (configLoop (zeroConfig\<lparr>SandboxNamespace := ''default''\<rparr>, []) values) (\<lambda>st.
     configCheck os L (fst st) (snd st))"

section \<open>The loop reads one value per field\<close>

text \<open>The configuration a map of values stands for: every field holds the decoded value of its key,
  or its default.\<close>

definition strAt :: "(string \<Rightarrow> anyval option) \<Rightarrow> string \<Rightarrow> string \<Rightarrow> string" where
  "strAt m key dflt = (case m key of Some v \<Rightarrow> (case configString v of Inr s \<Rightarrow> s | Inl _ \<Rightarrow> dflt) | None \<Rightarrow> dflt)"

definition intAt :: "(string \<Rightarrow> anyval option) \<Rightarrow> string \<Rightarrow> int" where
  "intAt m key = (case m key of Some v \<Rightarrow> (case configInt64 v of Inr i \<Rightarrow> i | Inl _ \<Rightarrow> 0) | None \<Rightarrow> 0)"

definition boolAt :: "(string \<Rightarrow> anyval option) \<Rightarrow> string \<Rightarrow> bool" where
  "boolAt m key = (case m key of Some v \<Rightarrow> v = ABool True | None \<Rightarrow> False)"

definition specConfig :: "(string \<Rightarrow> anyval option) \<Rightarrow> RuntimeConfig \<times> string" where
  "specConfig m =
     (\<lparr>RuntimeContext = [],
        EnableBindMounts = boolAt m ''enable_bind_mounts'',
        DefaultImage = strAt m ''default_image'' [],
        NetworkName = strAt m ''network_name'' [],
        HostGatewayIP = strAt m ''host_gateway_ip'' [],
        ImagePullPolicy = strAt m ''image_pull_policy'' [],
        StopTimeoutSecs = intAt m ''stop_timeout_secs'',
        PidsLimit = intAt m ''sandbox_pids_limit'',
        ProviderSPIFFEWorkloadAPISocket = strAt m ''provider_spiffe_workload_api_socket'' [],
        GatewayGRPCEndpoint = strAt m ''grpc_endpoint'' [],
        GatewayGRPCPort = intAt m ''gateway_port'',
        SandboxSSHSocketPath = strAt m ''ssh_socket_path'' [],
        HealthCheckIntervalSecs = 0, UsernsMode = [],
        SandboxNamespace = strAt m ''sandbox_namespace'' ''default'',
        DefaultCPU = FFin 0 0, DefaultMemoryBytes = 0,
        GuestTLSCA = strAt m ''guest_tls_ca'' [],
        GuestTLSCert = strAt m ''guest_tls_cert'' [],
        GuestTLSKey = strAt m ''guest_tls_key'' [],
        UpstreamProxyURL = strAt m ''https_proxy'' [],
        UpstreamProxyNoProxy = strAt m ''no_proxy'' [],
        UpstreamProxyAuthFile = strAt m ''proxy_auth_file'' [],
        UpstreamProxyAuthAllowInsecure = boolAt m ''proxy_auth_allow_insecure'',
        UpstreamProxyCABundle = strAt m ''proxy_ca_bundle'' [],
        UpstreamProxyConnectByHostname = boolAt m ''proxy_connect_by_hostname'',
        EgressCABundle = strAt m ''egress_ca_bundle'' [],
        ReconcileDataOwnership = boolAt m ''reconcile_data_ownership'',
        Capabilities = []\<rparr>,
      strAt m ''socket_path'' [])"

lemma strAt_upd: "strAt (m(k \<mapsto> v)) key d = (if key = k then (case configString v of Inr s \<Rightarrow> s | Inl _ \<Rightarrow> d) else strAt m key d)"
  by (simp add: strAt_def)

lemma intAt_upd: "intAt (m(k \<mapsto> v)) key = (if key = k then (case configInt64 v of Inr i \<Rightarrow> i | Inl _ \<Rightarrow> 0) else intAt m key)"
  by (simp add: intAt_def)

lemma boolAt_upd: "boolAt (m(k \<mapsto> v)) key = (if key = k then v = ABool True else boolAt m key)"
  by (simp add: boolAt_def)

lemma setStr_Inr: "setStr key r f = Inr st \<longleftrightarrow> (\<exists>v. r = Inr v \<and> st = f v)"
  by (auto simp: setStr_def result_iff)

lemma setInt_Inr: "setInt key r f = Inr st \<longleftrightarrow> (\<exists>v. r = Inr v \<and> st = f v)"
  by (auto simp: setInt_def result_iff)

lemma setBool_Inr: "setBool key r f = Inr st \<longleftrightarrow> (\<exists>v. r = Inr v \<and> st = f v)"
  by (auto simp: setBool_def result_iff)

lemma configBool_Inr: "configBool v = Inr b \<longleftrightarrow> v = ABool b"
  by (cases v) auto

lemma configInt_Inr: "configInt v = Inr n \<Longrightarrow> configInt64 v = Inr n"
  by (auto simp: configInt_def split: sum.splits if_splits)

lemma nonEmptyProxyString_Inr: "nonEmptyProxyString v = Inr s \<longleftrightarrow> configString v = Inr s \<and> s \<noteq> []"
  by (auto simp: nonEmptyProxyString_def result_iff split: if_splits)

definition supportedKeys :: "string list" where
  "supportedKeys =
     [''socket_path'', ''default_image'', ''sandbox_namespace'', ''guest_tls_ca'', ''guest_tls_cert'',
      ''guest_tls_key'', ''network_name'', ''host_gateway_ip'', ''grpc_endpoint'', ''ssh_socket_path'',
      ''sandbox_pids_limit'', ''stop_timeout_secs'', ''gateway_port'', ''enable_bind_mounts'',
      ''provider_spiffe_workload_api_socket'', ''image_pull_policy'', ''https_proxy'', ''no_proxy'',
      ''proxy_auth_file'', ''proxy_auth_allow_insecure'', ''proxy_connect_by_hostname'',
      ''proxy_ca_bundle'', ''egress_ca_bundle'', ''reconcile_data_ownership'']"

lemma configField_unsupported: "k \<notin> set supportedKeys \<Longrightarrow> configField st (k, v) = Inl (UnsupportedField k)"
  by (simp add: configField_def supportedKeys_def)

lemma configField_spec:
  assumes "configField (specConfig m) (k, v) = Inr st"
  shows "st = specConfig (m(k \<mapsto> v))"
proof -
  have "k \<in> set supportedKeys" 
    using assms configField_unsupported [of k "specConfig m" v] by (cases "k \<in> set supportedKeys") simp_all
  then show ?thesis
    using assms unfolding supportedKeys_def list.set insert_iff empty_iff configField_def Let_def fst_conv snd_conv
    by (elim disjE FalseE, simp_all only: string_neq setStr_Inr setInt_Inr setBool_Inr configBool_Inr nonEmptyProxyString_Inr)
      (auto simp only: specConfig_def strAt_upd intAt_upd boolAt_upd string_neq sum.case RuntimeConfig.update_convs
        anyval.inject fst_conv snd_conv prod.inject dest!: configInt_Inr)
qed

definition fieldOK :: "string \<times> anyval \<Rightarrow> bool" where
  "fieldOK kv = isOk (configField (zeroConfig, []) kv)"

lemma isOk_setters:
  "isOk (setStr key rs fs) = isOk rs" "isOk (setInt key ri fi) = isOk ri" "isOk (setBool key rb fb) = isOk rb"
  by (simp_all add: isOk_iff setStr_Inr setInt_Inr setBool_Inr)

lemma configField_ok: "isOk (configField st kv) = fieldOK kv"
  unfolding fieldOK_def configField_def Let_def by (simp only: if_distrib [of isOk] isOk_setters isOk.simps)

lemma fieldOK_supported: "fieldOK (k, v) \<Longrightarrow> k \<in> set supportedKeys"
  using configField_unsupported [of k "(zeroConfig, [])" v]
  by (cases "k \<in> set supportedKeys") (simp_all add: fieldOK_def)

interpretation docker_fields: map_reader configField specConfig fieldOK
  by unfold_locales (rule configField_ok, rule configField_spec)

lemma specConfig_empty: "specConfig Map.empty = (zeroConfig\<lparr>SandboxNamespace := ''default''\<rparr>, [])"
  by (simp add: specConfig_def strAt_def intAt_def boolAt_def zeroConfig_def)

lemma ConfigFromMap_Inr:
  "ConfigFromMap os L vs = Inr r \<longleftrightarrow> list_all fieldOK vs \<and>
     configCheck os L (fst (specConfig (map_of (rev vs)))) (snd (specConfig (map_of (rev vs)))) = Inr r"
  unfolding ConfigFromMap_def configLoop_def specConfig_empty [symmetric] by (simp add: result_iff docker_fields.read_all)

section \<open>Properties\<close>

text \<open>
  C14. Decoding a configuration map does not depend on the order in which Go visits it: a map is
  accepted exactly when every entry has a supported key and a value of its type and the resulting
  configuration passes the checks, and the configuration holds for every key the decoded value or
  the default. Any permutation of the entries gives the same result.
\<close>

theorem config_independent_of_map_order:
  assumes "distinct (map fst vs)" "mset vs' = mset vs"
  shows "(ConfigFromMap os L vs = Inr r \<longleftrightarrow> (\<forall>(k, v) \<in> set vs. k \<in> set supportedKeys \<and> fieldOK (k, v)) \<and>
      configCheck os L (fst (specConfig (map_of vs))) (snd (specConfig (map_of vs))) = Inr r) \<and>
    (ConfigFromMap os L vs' = Inr r \<longleftrightarrow> ConfigFromMap os L vs = Inr r)"
proof -
  have s: "set vs' = set vs" using assms(2) by (metis set_mset_mset)
  have "mset (map fst vs') = mset (map fst vs)" using assms(2) by simp
  then have d': "distinct (map fst vs')" using assms(1) by (metis mset_eq_imp_distinct_iff)
  have "map_of (rev vs') = map_of vs" "map_of (rev vs) = map_of vs"
    using assms(1) d' s by (simp_all add: map_of_inject_set rev_map [symmetric])
  then show ?thesis
    using s fieldOK_supported by (auto simp: ConfigFromMap_Inr list_all_iff)
qed

definition exampleLib :: crypto_lib where
  "exampleLib =
     \<lparr>pemDecode = (\<lambda>s. case s of
          c # rest \<Rightarrow> if c = CHR ''C'' then Some (\<lparr>pbType = ''CERTIFICATE'', pbHeaders = [], pbBytes = ''x''\<rparr>, rest) else None
        | [] \<Rightarrow> None),
      parseCertificates = (\<lambda>_. Some 1), appendCertsFromPEM = (\<lambda>_. True)\<rparr>"

theorem config_independent_of_map_order_witness:
  "ConfigFromMap exampleOS exampleLib [(''gateway_port'', AInt 80), (''default_image'', AString '' img '')] =
   ConfigFromMap exampleOS exampleLib [(''default_image'', AString '' img ''), (''gateway_port'', AInt 80)] \<and>
   isOk (ConfigFromMap exampleOS exampleLib [(''default_image'', AString '' img ''), (''gateway_port'', AInt 80)])"
proof -
  let ?vs = "[(''default_image'', AString '' img ''), (''gateway_port'', AInt 80)]"
  have ok: "isOk (ConfigFromMap exampleOS exampleLib ?vs)" by code_simp
  then obtain r where r: "ConfigFromMap exampleOS exampleLib ?vs = Inr r" by (auto simp: isOk_iff)
  have "ConfigFromMap exampleOS exampleLib (rev ?vs) = Inr r"
    using config_independent_of_map_order [of ?vs "rev ?vs" exampleOS exampleLib r] r by simp
  with r ok show ?thesis by simp
qed

lemma NormalizeImagePullPolicy_Inr:
  "NormalizeImagePullPolicy v = Inr p \<Longrightarrow>
   p = [] \<or> p = ''missing'' \<or> p = ''always'' \<or> p = ''never'' \<or> p = ''newer''"
  by (auto simp: NormalizeImagePullPolicy_def Let_def split: if_splits)

lemma proxySecure_Inr:
  assumes "proxySecure cfg = Inr secure"
  shows "UpstreamProxyURL cfg = [] \<or>
    (\<exists>u. urlParse (UpstreamProxyURL cfg) = Some u \<and> \<not> uHasUser u \<and> Hostname u \<noteq> [] \<and> Port u \<noteq> [] \<and>
       (uScheme u = ''https'' \<and> secure \<or> uScheme u = ''http'' \<and> \<not> secure))"
  using assms by (auto simp: proxySecure_def split: if_splits option.splits)

lemma countTLS_Inr: "countTLS ps n = Inr c \<Longrightarrow> c = n + length (filter (\<lambda>p. TrimSpace p \<noteq> []) ps)"
proof (induction ps arbitrary: n)
  case (Cons p ps)
  show ?case
    using Cons.IH [of n] Cons.IH [of "Suc n"] Cons.prems by (cases "TrimSpace p = []"; cases "cleanAbs p") simp_all
qed simp

lemma configCheck_Inr:
  assumes "configCheck os L c s = Inr (cfg, socket)"
  shows "\<exists>policy. NormalizeImagePullPolicy (ImagePullPolicy c) = Inr policy \<and> cfg = c\<lparr>ImagePullPolicy := policy\<rparr>"
    "validateUpstreamProxyConfig os L c = Inr ()"
    "validateGuestTLSPaths (GuestTLSCA c) (GuestTLSCert c) (GuestTLSKey c) = Inr ()"
    "HostGatewayIP c = [] \<or> ParseIP (HostGatewayIP c)" "TrimSpace (SandboxNamespace c) \<noteq> []"
    "0 \<le> PidsLimit c \<and> 0 \<le> StopTimeoutSecs c \<and> 0 \<le> GatewayGRPCPort c \<and> GatewayGRPCPort c \<le> 65535"
    "socket = (if s \<noteq> [] \<and> \<not> Contains s ''://'' then ''unix://'' @ s else s)"
proof -
  note c = assms [unfolded configCheck_def result_iff, simplified]
  from c show "\<exists>policy. NormalizeImagePullPolicy (ImagePullPolicy c) = Inr policy \<and> cfg = c\<lparr>ImagePullPolicy := policy\<rparr>"
    by blast
  from c show "validateUpstreamProxyConfig os L c = Inr ()"
    "validateGuestTLSPaths (GuestTLSCA c) (GuestTLSCert c) (GuestTLSKey c) = Inr ()"
    "HostGatewayIP c = [] \<or> ParseIP (HostGatewayIP c)" "TrimSpace (SandboxNamespace c) \<noteq> []"
    "0 \<le> PidsLimit c \<and> 0 \<le> StopTimeoutSecs c \<and> 0 \<le> GatewayGRPCPort c \<and> GatewayGRPCPort c \<le> 65535"
    by (simp_all add: not_less)
  from c show "socket = (if s \<noteq> [] \<and> \<not> Contains s ''://'' then ''unix://'' @ s else s)" by blast
qed

text \<open>
  C18. An accepted configuration is usable as it is: limits and ports are in range, the pull policy is
  canonical, the gateway address is an address, the namespace is not blank, the guest TLS files are
  all set or all unset, the proxy URL has a host and a port and carries no credentials, and proxy
  credentials are used with an https proxy or after an explicit opt-in only.
\<close>

theorem accepted_config_invariants:
  assumes "ConfigFromMap os L vs = Inr (cfg, socket)"
  shows "0 \<le> PidsLimit cfg \<and> 0 \<le> StopTimeoutSecs cfg \<and> 0 \<le> GatewayGRPCPort cfg \<and>
    GatewayGRPCPort cfg \<le> 65535 \<and>
    ImagePullPolicy cfg \<in> {[], ''missing'', ''always'', ''never'', ''newer''} \<and>
    (HostGatewayIP cfg = [] \<or> ParseIP (HostGatewayIP cfg)) \<and> TrimSpace (SandboxNamespace cfg) \<noteq> [] \<and>
    length (filter (\<lambda>p. TrimSpace p \<noteq> []) [GuestTLSCA cfg, GuestTLSCert cfg, GuestTLSKey cfg]) \<in> {0, 3} \<and>
    (UpstreamProxyURL cfg = [] \<or>
      (\<exists>u. urlParse (UpstreamProxyURL cfg) = Some u \<and> \<not> uHasUser u \<and> Hostname u \<noteq> [] \<and> Port u \<noteq> [] \<and>
        (UpstreamProxyAuthFile cfg = [] \<or> uScheme u = ''https'' \<or> UpstreamProxyAuthAllowInsecure cfg))) \<and>
    (socket = [] \<or> Contains socket ''://'')"
proof -
  obtain c s where c: "configCheck os L c s = Inr (cfg, socket)"
    using assms by (auto simp: ConfigFromMap_def result_iff)
  note C = configCheck_Inr [OF c]
  from C(1) obtain policy where cfg: "cfg = c\<lparr>ImagePullPolicy := policy\<rparr>"
    and pol: "NormalizeImagePullPolicy (ImagePullPolicy c) = Inr policy" by blast
  from C(2) obtain secure where sec: "proxySecure c = Inr secure" and auth: "checkProxyAuth os c secure = Inr ()"
    unfolding validateUpstreamProxyConfig_def result_iff by (metis (full_types) old.unit.exhaust)
  from C(3) obtain tls where tls: "countTLS [GuestTLSCA c, GuestTLSCert c, GuestTLSKey c] 0 = Inr tls" "tls \<in> {0, 3}"
    unfolding validateGuestTLSPaths_def result_iff
    by (metis Inl_Inr_False insertCI)
  have "Contains (''unix://'' @ s) ''://''"
    unfolding Contains_def sublist_def by (intro exI [of _ "''unix''"] exI [of _ s]) simp
  then have sock: "socket = [] \<or> Contains socket ''://''" using C(7) by (cases "s = []") auto
  have "UpstreamProxyAuthFile c = [] \<or> secure \<or> UpstreamProxyAuthAllowInsecure c"
    using auth by (auto simp: checkProxyAuth_def split: if_splits)
  then have "UpstreamProxyURL cfg = [] \<or>
      (\<exists>u. urlParse (UpstreamProxyURL cfg) = Some u \<and> \<not> uHasUser u \<and> Hostname u \<noteq> [] \<and> Port u \<noteq> [] \<and>
        (UpstreamProxyAuthFile cfg = [] \<or> uScheme u = ''https'' \<or> UpstreamProxyAuthAllowInsecure cfg))"
    using proxySecure_Inr [OF sec] by (auto simp: cfg)
  moreover have "length (filter (\<lambda>p. TrimSpace p \<noteq> []) [GuestTLSCA cfg, GuestTLSCert cfg, GuestTLSKey cfg]) \<in> {0, 3}"
    using countTLS_Inr [OF tls(1)] tls(2) by (simp add: cfg del: filter.simps)
  moreover have "ImagePullPolicy cfg \<in> {[], ''missing'', ''always'', ''never'', ''newer''}"
  proof -
    have "ImagePullPolicy cfg = policy" by (simp add: cfg)
    with NormalizeImagePullPolicy_Inr [OF pol] show ?thesis by blast
  qed
  ultimately show ?thesis
    using C(4-6) sock by (simp add: cfg)
qed

theorem accepted_config_invariants_witness:
  "\<exists>cfg socket. ConfigFromMap exampleOS exampleLib
       [(''socket_path'', AString ''/run/docker.sock''), (''gateway_port'', AInt 80)] = Inr (cfg, socket) \<and>
     (socket = [] \<or> Contains socket ''://'')"
proof -
  have "isOk (ConfigFromMap exampleOS exampleLib
       [(''socket_path'', AString ''/run/docker.sock''), (''gateway_port'', AInt 80)])"
    by code_simp
  then obtain cfg socket where r: "ConfigFromMap exampleOS exampleLib
       [(''socket_path'', AString ''/run/docker.sock''), (''gateway_port'', AInt 80)] = Inr (cfg, socket)"
    by (auto simp: isOk_iff)
  from accepted_config_invariants [OF r] r show ?thesis by blast
qed

section \<open>PEM bundles\<close>

text \<open>
  How a bundle decomposes, whatever the code makes of it: the blocks that \<^verbatim>\<open>pem.Decode\<close> finds one after
  the other, white space being trimmed between them, and the rest in which it finds none.
\<close>

inductive decomposed :: "crypto_lib \<Rightarrow> string \<Rightarrow> pem_block list \<Rightarrow> string \<Rightarrow> bool" for L where
  finished: "decomposed L [] [] []"
| undecodable: "s \<noteq> [] \<Longrightarrow> pemDecode L s = None \<Longrightarrow> decomposed L s [] s"
| block: "s \<noteq> [] \<Longrightarrow> pemDecode L s = Some (b, r) \<Longrightarrow> decomposed L (TrimSpace r) bs rest \<Longrightarrow> decomposed L s (b # bs) rest"

definition certificateBlock :: "pem_block \<Rightarrow> bool" where
  "certificateBlock b \<longleftrightarrow> pbType b = ''CERTIFICATE'' \<and> pbHeaders b = []"

definition certCount :: "crypto_lib \<Rightarrow> pem_block \<Rightarrow> nat" where
  "certCount L b = (case parseCertificates L (pbBytes b) of None \<Rightarrow> 0 | Some n \<Rightarrow> n)"

text \<open>The verdict on a decomposed bundle: the first bad block decides, then the rest, then the number.\<close>

definition bundleVerdict :: "crypto_lib \<Rightarrow> pem_block list \<Rightarrow> string \<Rightarrow> pem_error + nat" where
  "bundleVerdict L bs rest =
     (case find (\<lambda>b. \<not> certificateBlock b \<or> certCount L b = 0) bs of
        Some b \<Rightarrow> Inl (if certificateBlock b then InvalidCertificate else InvalidBlock)
      | None \<Rightarrow> if rest \<noteq> [] then Inl InvalidBlock
               else if bs = [] then Inl NoCertificates else Inr (sum_list (map (certCount L) bs)))"

inductive_cases decomposed_NilE: "decomposed L [] bs rest"
inductive_cases decomposed_neE: "decomposed L s bs rest"

lemma decomposed_det: "decomposed L s bs rest \<Longrightarrow> decomposed L s bs' rest' \<Longrightarrow> bs' = bs \<and> rest' = rest"
proof (induction arbitrary: bs' rest' rule: decomposed.induct)
  case finished
  then show ?case by (rule decomposed_NilE) simp_all
next
  case (undecodable s)
  from undecodable.prems show ?case by (rule decomposed_neE) (use undecodable.hyps in simp_all)
next
  case (block s b r bs rest)
  from block.prems show ?case
  proof (rule decomposed_neE)
    fix b' r' cs
    assume "pemDecode L s = Some (b', r')" "decomposed L (TrimSpace r') cs rest'" "bs' = b' # cs"
    with block.hyps block.IH show ?thesis by simp
  qed (use block.hyps in simp_all)
qed

lemma length_TrimSpace: "length (TrimSpace s) \<le> length s"
  using TrimSpace_sublist [of s] by (auto simp: sublist_def) (metis length_append trans_le_add1 trans_le_add2 le_add1)

lemma appendLoop_total:
  assumes "\<And>s b r. pemDecode L s = Some (b, r) \<Longrightarrow> length r < length s"
  shows "length s \<le> fuel \<Longrightarrow> \<exists>res. appendLoop L fuel s n = Some res"
proof (induction fuel arbitrary: s n)
  case 0
  then show ?case by (subst appendLoop.simps) simp
next
  case (Suc fuel)
  have "\<exists>res. appendLoop L fuel (TrimSpace r) (n + k) = Some res" if "pemDecode L s = Some (b, r)" for b r k
    using Suc.IH [of "TrimSpace r"] assms [OF that] length_TrimSpace [of r] Suc.prems by simp
  then show ?case by (subst appendLoop.simps) (auto split: option.splits)
qed

lemma decomposed_total:
  assumes "\<And>s b r. pemDecode L s = Some (b, r) \<Longrightarrow> length r < length s"
  shows "\<exists>bs rest. decomposed L s bs rest"
proof (induction s rule: length_induct)
  case (1 s)
  show ?case
  proof (cases "pemDecode L s")
    case None
    then show ?thesis by (cases "s = []") (auto intro: decomposed.intros)
  next
    case (Some br)
    then obtain b r where br: "pemDecode L s = Some (b, r)" by (cases br) auto
    then have "length (TrimSpace r) < length s" using assms length_TrimSpace le_less_trans by blast
    with 1 br show ?thesis by (cases "s = []") (blast intro: decomposed.intros)+
  qed
qed

text \<open>The loop of the code computes the verdict, the certificates added so far included.\<close>

lemma appendLoop_verdict:
  "decomposed L s bs rest \<Longrightarrow> appendLoop L fuel s n = Some res \<Longrightarrow>
   res = (case find (\<lambda>b. \<not> certificateBlock b \<or> certCount L b = 0) bs of
        Some b \<Rightarrow> Inl (if certificateBlock b then InvalidCertificate else InvalidBlock)
      | None \<Rightarrow> if rest \<noteq> [] then Inl InvalidBlock else Inr (n + sum_list (map (certCount L) bs)))"
proof (induction arbitrary: fuel n rule: decomposed.induct)
  case finished
  then show ?case by (subst (asm) appendLoop.simps) simp
next
  case (undecodable s)
  then show ?case by (subst (asm) appendLoop.simps) (auto split: nat.splits)
next
  case (block s b r bs rest)
  then obtain f where f: "fuel = Suc f" by (subst (asm) (2) appendLoop.simps) (auto split: nat.splits)
  note step = block.prems [unfolded f appendLoop.simps [of L "Suc f" s n]]
  show ?case
  proof (cases "certificateBlock b \<and> certCount L b \<noteq> 0")
    case True
    then obtain k where k: "parseCertificates L (pbBytes b) = Some k" "k \<noteq> 0" "certCount L b = k"
      by (auto simp: certCount_def split: option.splits)
    then have "appendLoop L f (TrimSpace r) (n + k) = Some res"
      using step block.hyps True by (simp add: certificateBlock_def)
    from block.IH [OF this] True k show ?thesis by (simp add: add.assoc split: option.splits)
  next
    case False
    then show ?thesis using step block.hyps by (auto simp: certificateBlock_def certCount_def split: option.splits if_splits)
  qed
qed

text \<open>
  C21. The verdict on a certificate bundle. Let \<^verbatim>\<open>pem.Decode\<close>, a parameter, consume what it decodes. Then
  reading ends for every input, the input decomposes in one way into the blocks it finds and a rest,
  and \<open>AppendPEM\<close> adds the certificates of all blocks exactly when every block is a certificate block
  without headers that contains a certificate, the rest is empty, and there is a block; otherwise the
  first bad block, or else the rest, or else the emptiness decides the error. (What \<^verbatim>\<open>pem.Decode\<close> skips
  in front of a block it finds, any text, is not seen by the code and does not matter.)
\<close>

theorem append_pem_verdict:
  assumes "\<And>s b r. pemDecode L s = Some (b, r) \<Longrightarrow> length r < length s"
  shows "\<exists>bs rest. decomposed L (TrimSpace bundle) bs rest \<and>
    (\<forall>bs' rest'. decomposed L (TrimSpace bundle) bs' rest' \<longrightarrow> bs' = bs \<and> rest' = rest) \<and>
    (\<exists>res. appendLoop L (length bundle) (TrimSpace bundle) 0 = Some res) \<and>
    AppendPEM L bundle = bundleVerdict L bs rest \<and>
    (\<forall>n. AppendPEM L bundle = Inr n \<longleftrightarrow> rest = [] \<and> bs \<noteq> [] \<and>
       (\<forall>b \<in> set bs. certificateBlock b \<and> 0 < certCount L b) \<and> n = sum_list (map (certCount L) bs))"
proof -
  obtain bs rest where d: "decomposed L (TrimSpace bundle) bs rest" using decomposed_total assms by meson
  obtain res where res: "appendLoop L (length bundle) (TrimSpace bundle) 0 = Some res"
    using appendLoop_total [of L "TrimSpace bundle" "length bundle" 0] assms length_TrimSpace by blast
  have v: "AppendPEM L bundle = bundleVerdict L bs rest"
  proof (cases bs)
    case Nil
    then show ?thesis using appendLoop_verdict [OF d res] by (simp add: AppendPEM_def res bundleVerdict_def)
  next
    case (Cons b bs')
    then have "sum_list (map (certCount L) bs) = 0 \<Longrightarrow> certCount L b = 0" by simp
    then show ?thesis using appendLoop_verdict [OF d res] Cons
      by (auto simp: AppendPEM_def res bundleVerdict_def split: option.splits)
  qed
  have "bundleVerdict L bs rest = Inr n \<longleftrightarrow> rest = [] \<and> bs \<noteq> [] \<and>
       (\<forall>b \<in> set bs. certificateBlock b \<and> 0 < certCount L b) \<and> n = sum_list (map (certCount L) bs)" for n
    by (auto simp: bundleVerdict_def find_None_iff find_Some_iff split: option.splits) 
  with v d res decomposed_det show ?thesis by (metis (no_types, lifting))
qed

theorem append_pem_verdict_witness:
  "AppendPEM exampleLib ''C C '' = Inr 2 \<and> AppendPEM exampleLib ''C x'' = Inl InvalidBlock \<and>
   (\<exists>bs. decomposed exampleLib (TrimSpace ''C C '') bs [] \<and> sum_list (map (certCount exampleLib) bs) = 2)"
proof -
  have h: "length r < length s" if "pemDecode exampleLib s = Some (b, r)" for s b r
    using that by (auto simp: exampleLib_def split: list.splits if_splits)
  have a: "AppendPEM exampleLib ''C C '' = Inr 2" by code_simp
  moreover have "AppendPEM exampleLib ''C x'' = Inl InvalidBlock" by code_simp
  ultimately show ?thesis
    using append_pem_verdict [of exampleLib "''C C ''"] h by (metis (no_types, lifting))
qed

end
