(* ===== verification/Mounts.thy ===== *)
theory Mounts
  imports Host
begin

text \<open>
  \<^verbatim>\<open>internal/mounts\<close>: which guest paths a user mount or an upload may target
  (\<^verbatim>\<open>reserved.go\<close>) and which host directory may become the workspace (\<^verbatim>\<open>mounts.go\<close>).

  The lemmas relate the string tests of the code to containment of paths: on clean absolute
  paths \<^verbatim>\<open>pathsOverlap\<close> holds exactly when one element list is a prefix of the other, so an
  accepted target shares no directory subtree with a reserved root.
\<close>

datatype path_error =
    MustNotBeEmpty string
  | SurroundingWhitespace string
  | ControlCharacters string
  | NotAbsolute string
  | DotSegments string
  | EmptySegments string
  | ContainerRoot string

datatype mount_error = BadPath path_error | ConflictsWithReserved string string

datatype workspace_error =
    WorkspaceOS os_error
  | ResolvePath os_error
  | NotADirectory string
  | NoHomeDirectory os_error
  | RefuseHome string
  | RefuseBasename string string
  | RefuseUnder string string

section \<open>reserved.go\<close>

definition controlRoots :: "core_defaults \<Rightarrow> string list" where
  "controlRoots D =
     [GuestRoot D, GuestEtcOSG D, ''/run/cauteum'', ''/run/netns'', ''/var/run/netns'',
      ''/var/run/cauteum'']"

definition ociRuntimeMountRoots :: "string list" where
  "ociRuntimeMountRoots = [''/proc'', ''/sys'', ''/dev'']"

definition pathsOverlap :: "string \<Rightarrow> string \<Rightarrow> bool" where
  "pathsOverlap a b =
     (if a = b then True
      else if a = ''/'' \<or> b = ''/'' then True
      else HasPrefix a (b @ ''/'') \<or> HasPrefix b (a @ ''/''))"

definition PathsOverlap :: "string \<Rightarrow> string \<Rightarrow> bool" where
  "PathsOverlap a b = pathsOverlap (Clean a) (Clean b)"

fun scanSegs :: "string \<Rightarrow> string list \<Rightarrow> path_error + unit" where
  "scanSegs field [] = Inr ()"
| "scanSegs field (s # rest) =
     (if s = ''.'' \<or> s = ''..'' then Inl (DotSegments field)
      else if s = [] \<and> rest \<noteq> [] then Inl (EmptySegments field)
      else scanSegs field rest)"

definition normalizeAbsoluteContainerPath :: "string \<Rightarrow> string \<Rightarrow> path_error + string" where
  "normalizeAbsoluteContainerPath value0 field =
     (let value = TrimSpace value0 in
      if value = [] then Inl (MustNotBeEmpty field)
      else if value \<noteq> TrimSpace value then Inl (SurroundingWhitespace field)
      else if list_ex (\<lambda>c. (of_char c :: nat) < 32) value then Inl (ControlCharacters field)
      else if \<not> HasPrefix value ''/'' then Inl (NotAbsolute field)
      else bindR (scanSegs field (splitChar slash (TrimPrefix value ''/''))) (\<lambda>_.
           let normalized = trimRightChar slash value in
           if normalized = [] then Inl (ContainerRoot field) else Inr normalized))"

fun firstConflict :: "string \<Rightarrow> string \<Rightarrow> string list \<Rightarrow> mount_error + unit" where
  "firstConflict target p [] = Inr ()"
| "firstConflict target p (reserved # rest) =
     (if pathsOverlap p (Clean reserved) then Inl (ConflictsWithReserved target reserved)
      else firstConflict target p rest)"

definition ValidateContainerMountTarget :: "core_defaults \<Rightarrow> string \<Rightarrow> mount_error + unit" where
  "ValidateContainerMountTarget D target =
     bindR (wrapE BadPath (normalizeAbsoluteContainerPath target ''mount target'')) (\<lambda>normalized.
     firstConflict target (Clean normalized) (controlRoots D @ ociRuntimeMountRoots))"

definition ValidateUploadDest :: "core_defaults \<Rightarrow> string \<Rightarrow> mount_error + unit" where
  "ValidateUploadDest D dest =
     bindR (wrapE BadPath (normalizeAbsoluteContainerPath dest ''upload dest'')) (\<lambda>normalized.
     let p = Clean normalized; ws = Clean (GuestWorkspace D) in
     if p = ws \<or> HasPrefix p (ws @ ''/'') then Inr ()
     else ValidateContainerMountTarget D dest)"

section \<open>mounts.go\<close>

definition denyBasenames :: "string list" where
  "denyBasenames =
     [''.ssh'', ''.aws'', ''.gnupg'', ''.kube'', ''.docker'', ''.config'', ''.cursor'', ''.codex'',
      ''.claude'']"

definition checkDeny :: "host_os \<Rightarrow> string \<Rightarrow> workspace_error + unit" where
  "checkDeny os abs0 =
     (case UserHomeDir os of
        Inl e \<Rightarrow> Inl (NoHomeDirectory e)
      | Inr home0 \<Rightarrow>
          (let home = Clean home0; abs = Clean abs0 in
           if home \<noteq> [] \<and> abs = home then Inl (RefuseHome abs)
           else (case find (\<lambda>d. EqualFold (Base abs) d) denyBasenames of
                   Some d \<Rightarrow> Inl (RefuseBasename d abs)
                 | None \<Rightarrow>
                     (if home \<noteq> []
                      then (case find (\<lambda>d. let pre = Join [home, d] in
                                     abs = pre \<or> HasPrefix abs (pre @ ''/'')) denyBasenames of
                              Some d \<Rightarrow> Inl (RefuseUnder d abs)
                            | None \<Rightarrow> Inr ())
                      else Inr ()))))"

definition ResolveWorkspace :: "host_os \<Rightarrow> string \<Rightarrow> bool \<Rightarrow> workspace_error + string" where
  "ResolveWorkspace os path0 iKnow =
     (let path = (if TrimSpace path0 = [] then ''.'' else path0) in
      bindR (wrapE WorkspaceOS (Abs os path)) (\<lambda>abs.
      bindR (wrapE ResolvePath (EvalSymlinks os abs)) (\<lambda>canonical.
      bindR (wrapE WorkspaceOS (Stat os canonical)) (\<lambda>fi.
      if \<not> fiIsDir fi then Inl (NotADirectory abs)
      else if \<not> iKnow then bindR (checkDeny os canonical) (\<lambda>_. Inr canonical)
      else Inr canonical))))"

section \<open>Normalisation\<close>

lemma scanSegs_Inr_iff:
  "scanSegs f segs = Inr () \<longleftrightarrow>
   (\<forall>s \<in> set segs. s \<noteq> ''.'' \<and> s \<noteq> ''..'') \<and> (\<forall>s \<in> set (butlast segs). s \<noteq> [])"
  by (induction f segs rule: scanSegs.induct) auto

lemma trimRight_join:
  assumes "es \<noteq> []" "list_all okElem es"
  shows "trimRightChar slash (slash # joinWith slash es) = slash # joinWith slash es"
    and "trimRightChar slash (slash # joinWith slash es @ [slash]) = slash # joinWith slash es"
proof -
  obtain ini e where es: "es = ini @ [e]" using assms(1) by (metis rev_exhaust)
  then have e: "e \<noteq> []" "slash \<notin> set e" using assms(2) by (auto simp: okElem_def)
  then have l: "last (joinWith slash es) = last e" "joinWith slash es \<noteq> []"
    by (cases "ini = []"; simp add: es joinWith_append)+
  then have n: "last (slash # joinWith slash es) \<noteq> slash" using e by (metis last_ConsR last_in_set)
  then show *: "trimRightChar slash (slash # joinWith slash es) = slash # joinWith slash es"
    by (intro trimRightChar_unchanged) simp
  show "trimRightChar slash (slash # joinWith slash es @ [slash]) = slash # joinWith slash es"
    using * by (simp add: trimRightChar_def)
qed

text \<open>An accepted path is absolute, clean, not the root, and free of dot elements.\<close>

lemma normalize_accepts:
  assumes "normalizeAbsoluteContainerPath v f = Inr p"
  shows "IsAbs p" "Clean p = p" "elems p \<noteq> []" "''..'' \<notin> set (elems p)"
    and "prefix p (TrimSpace v)" "list_all (\<lambda>c. 32 \<le> (of_char c :: nat)) p"
proof -
  let ?trimmed = "TrimSpace v"
  from assms have ctl: "\<not> list_ex (\<lambda>c. (of_char c :: nat) < 32) ?trimmed"
    and pre: "HasPrefix ?trimmed ''/''"
    and scan: "scanSegs f (splitChar slash (TrimPrefix ?trimmed ''/'')) = Inr ()"
    and p: "p = trimRightChar slash ?trimmed" "p \<noteq> []"
    by (auto simp: normalizeAbsoluteContainerPath_def Let_def result_iff split: if_splits)
  show "prefix p ?trimmed" by (simp add: p(1) trimRightChar_prefix)
  then have "set p \<subseteq> set ?trimmed" by (rule set_mono_prefix)
  with ctl show "list_all (\<lambda>c. 32 \<le> (of_char c :: nat)) p"
    by (auto simp: list_ex_iff list_all_iff not_less)
  from pre obtain rest where v: "?trimmed = slash # rest" and "TrimPrefix ?trimmed ''/'' = rest"
    by (auto simp: HasPrefix_def TrimPrefix_def prefix_def slash_def)
  let ?segs = "splitChar slash rest"
  from scan \<open>TrimPrefix ?trimmed ''/'' = rest\<close>
  have dots: "\<And>s. s \<in> set ?segs \<Longrightarrow> s \<noteq> ''.'' \<and> s \<noteq> ''..''"
    and ne: "\<And>s. s \<in> set (butlast ?segs) \<Longrightarrow> s \<noteq> []"
    by (auto simp: scanSegs_Inr_iff)
  have ini: "list_all okElem (butlast ?segs)"
    unfolding list_all_iff okElem_def
  proof
    fix s assume s: "s \<in> set (butlast ?segs)"
    then have "s \<in> set ?segs" by (rule in_set_butlastD)
    with ne [OF s] dots splitChar_no_sep show "s \<noteq> [] \<and> s \<noteq> ''.'' \<and> slash \<notin> set s" by blast
  qed
  have rest: "rest = joinWith slash (butlast ?segs @ [last ?segs])" by simp
  obtain es where es: "es \<noteq> []" "list_all okElem es" "''..'' \<notin> set es"
    and pe: "p = slash # joinWith slash es"
  proof (cases "last ?segs = []")
    case True
    have b: "butlast ?segs \<noteq> []"
    proof
      assume "butlast ?segs = []"
      with rest True have "rest = []" by simp
      with v p show False by (simp add: trimRightChar_def)
    qed
    then have "rest = joinWith slash (butlast ?segs) @ [slash]"
      using rest True by (simp add: joinWith_append)
    then have "p = slash # joinWith slash (butlast ?segs)"
      using p v trimRight_join(2) [OF b ini] by simp
    with b ini dots show ?thesis by (intro that) (auto dest: in_set_butlastD)
  next
    case False
    have "last ?segs \<in> set ?segs" by simp
    with False dots splitChar_no_sep have "okElem (last ?segs)" unfolding okElem_def by blast
    with ini have ok: "list_all okElem ?segs"
      using list_all_append [of okElem "butlast ?segs" "[last ?segs]"]
      by (simp del: list_all_append)
    have "p = slash # joinWith slash ?segs"
      using p v trimRight_join(1) [OF splitChar_ne ok] by simp
    with ok dots show ?thesis by (intro that) auto
  qed
  have pr: "p = render True es" using pe by (simp add: render_def)
  have c: "cleanList True es" using es by (simp add: cleanList_def)
  show "IsAbs p" by (simp add: pe)
  show "Clean p = p" unfolding pr by (rule Clean_render [OF c])
  show "elems p \<noteq> []" "''..'' \<notin> set (elems p)"
    using es by (simp_all add: pr elems_render)
qed

section \<open>Overlap is containment\<close>

lemma pathsOverlap_sym: "pathsOverlap a b = pathsOverlap b a"
  by (auto simp: pathsOverlap_def)

lemma clean_abs_inj:
  "IsAbs a \<Longrightarrow> Clean a = a \<Longrightarrow> IsAbs b \<Longrightarrow> Clean b = b \<Longrightarrow> elems a = elems b \<Longrightarrow> a = b"
  by (metis clean_abs_render(1))

lemma pathsOverlap_iff:
  assumes "IsAbs a" "Clean a = a" "IsAbs b" "Clean b = b"
  shows "pathsOverlap a b \<longleftrightarrow> prefix (elems a) (elems b) \<or> prefix (elems b) (elems a)"
proof (cases "elems a = [] \<or> elems b = []")
  case True
  with assms clean_abs_root show ?thesis by (auto simp: pathsOverlap_def)
next
  case False
  have s: "''/'' = [slash]" by (simp add: slash_def)
  have "a \<noteq> ''/''" "b \<noteq> ''/''" using False assms clean_abs_root by blast+
  then have "pathsOverlap a b \<longleftrightarrow>
      a = b \<or> strict_prefix (elems b) (elems a) \<or> strict_prefix (elems a) (elems b)"
    using False assms by (simp add: pathsOverlap_def HasPrefix_def s below_iff)
  then show ?thesis using clean_abs_inj [OF assms] by (auto simp: strict_prefix_def)
qed

lemma firstConflict_Inr_iff:
  "firstConflict t p rs = Inr () \<longleftrightarrow> (\<forall>r \<in> set rs. \<not> pathsOverlap p (Clean r))"
  by (induction t p rs rule: firstConflict.induct) auto

text \<open>The field name only labels the error: acceptance and the result do not depend on it.\<close>

lemma scanSegs_field: "scanSegs f segs = Inr () \<longleftrightarrow> scanSegs g segs = Inr ()"
  by (simp add: scanSegs_Inr_iff)

lemma normalize_field:
  "normalizeAbsoluteContainerPath v f = Inr p \<longleftrightarrow> normalizeAbsoluteContainerPath v g = Inr p"
  using scanSegs_field [of f _ g]
  by (auto simp: normalizeAbsoluteContainerPath_def Let_def result_iff split: if_splits)

lemma elems_append_slash: "elems (a @ slash # b) = elems a @ elems b"
proof -
  have "splitChar c (a @ c # b) = splitChar c a @ splitChar c b" for c
  proof (induction a)
    case (Cons x xs)
    then show ?case by (cases "splitChar c xs") auto
  qed simp
  then show ?thesis by (simp add: elems_def)
qed

lemma Clean_abs_elems: "IsAbs p \<Longrightarrow> ''..'' \<notin> set (elems p) \<Longrightarrow> elems (Clean p) = elems p"
  by (simp add: path_simps cleanElems_id cleanList_def elems_ok)

section \<open>The contract of a guest path guard\<close>

text \<open>
  A guard decides whether a user-supplied guest path may be used. The contract: what it accepts
  normalises to a clean absolute path that shares no subtree with a reserved root. Clients that
  rely on a guard are proved against the contract.
\<close>

definition sharesSubtree :: "string list \<Rightarrow> string list \<Rightarrow> bool" where
  "sharesSubtree a b \<longleftrightarrow> prefix a b \<or> prefix b a"

definition reservedRoots :: "core_defaults \<Rightarrow> string list" where
  "reservedRoots D = controlRoots D @ ociRuntimeMountRoots"

locale path_guard =
  fixes accepts :: "string \<Rightarrow> bool"
    and norm :: "string \<Rightarrow> string"
    and roots :: "string list"
  assumes norm_clean: "accepts t \<Longrightarrow> IsAbs (norm t) \<and> Clean (norm t) = norm t"
    and roots_abs: "r \<in> set roots \<Longrightarrow> IsAbs r"
    and disjoint: "accepts t \<Longrightarrow> r \<in> set roots \<Longrightarrow> \<not> sharesSubtree (elems (norm t)) (elems (Clean r))"
begin

text \<open>No path at or below an accepted target is at or below a reserved root.\<close>

lemma below_accepted_disjoint:
  assumes "accepts t" "r \<in> set roots" "prefix (elems (norm t)) q"
  shows "\<not> prefix (elems (Clean r)) q"
proof
  assume "prefix (elems (Clean r)) q"
  with assms(3) have "sharesSubtree (elems (norm t)) (elems (Clean r))"
    unfolding sharesSubtree_def by (metis prefix_same_cases)
  with disjoint [OF assms(1,2)] show False by simp
qed

lemma reserved_below_accepted_rejected:
  assumes "r \<in> set roots" "IsAbs (norm t)" "Clean (norm t) = norm t"
    and "prefix (elems (Clean r)) (elems (norm t))"
  shows "\<not> accepts t"
  using assms disjoint by (auto simp: sharesSubtree_def)

end

definition absDefaults :: "core_defaults \<Rightarrow> bool" where
  "absDefaults D \<longleftrightarrow> IsAbs (GuestRoot D) \<and> IsAbs (GuestEtcOSG D) \<and> IsAbs (GuestWorkspace D)"

definition guestPath :: "string \<Rightarrow> string" where
  "guestPath t = (case normalizeAbsoluteContainerPath t ''mount target'' of Inl _ \<Rightarrow> [] | Inr p \<Rightarrow> p)"

lemma reservedRoots_abs: "absDefaults D \<Longrightarrow> r \<in> set (reservedRoots D) \<Longrightarrow> IsAbs r"
  by (auto simp: absDefaults_def reservedRoots_def controlRoots_def ociRuntimeMountRoots_def
      IsAbs_def slash_def)

lemma ValidateContainerMountTarget_iff:
  assumes "absDefaults D"
  shows "ValidateContainerMountTarget D t = Inr () \<longleftrightarrow>
    (\<exists>p. normalizeAbsoluteContainerPath t ''mount target'' = Inr p \<and>
         (\<forall>r \<in> set (reservedRoots D). \<not> sharesSubtree (elems p) (elems (Clean r))))"
proof -
  have "pathsOverlap p (Clean r) \<longleftrightarrow> sharesSubtree (elems p) (elems (Clean r))"
    if "normalizeAbsoluteContainerPath t f = Inr p" "r \<in> set (reservedRoots D)" for p r f
    using normalize_accepts(1,2) [OF that(1)] reservedRoots_abs [OF assms that(2)]
    by (simp add: pathsOverlap_iff sharesSubtree_def path_simps)
  then show ?thesis
    using normalize_accepts(2)
    by (auto simp: ValidateContainerMountTarget_def result_iff firstConflict_Inr_iff
        reservedRoots_def [symmetric])
qed

text \<open>The mount-target check satisfies the contract whenever the configured roots are absolute
  (checked roots are those of the default layout as soon as \<open>absDefaults\<close> holds).\<close>

definition mountAccepts :: "core_defaults \<Rightarrow> string \<Rightarrow> bool" where
  "mountAccepts D t \<longleftrightarrow> absDefaults D \<and> ValidateContainerMountTarget D t = Inr ()"

definition guardedRoots :: "core_defaults \<Rightarrow> string list" where
  "guardedRoots D = (if absDefaults D then reservedRoots D else [])"

interpretation mount_guard: path_guard "mountAccepts D" guestPath "guardedRoots D" for D
proof unfold_locales
  fix t r
  show "mountAccepts D t \<Longrightarrow> IsAbs (guestPath t) \<and> Clean (guestPath t) = guestPath t"
    using normalize_accepts(1,2)
    by (auto simp: mountAccepts_def guestPath_def ValidateContainerMountTarget_iff)
  show "r \<in> set (guardedRoots D) \<Longrightarrow> IsAbs r"
    by (auto simp: guardedRoots_def reservedRoots_abs split: if_splits)
  show "mountAccepts D t \<Longrightarrow> r \<in> set (guardedRoots D) \<Longrightarrow>
      \<not> sharesSubtree (elems (guestPath t)) (elems (Clean r))"
    by (auto simp: mountAccepts_def guestPath_def ValidateContainerMountTarget_iff guardedRoots_def
        split: if_splits)
qed

section \<open>Properties of the guest path checks\<close>

text \<open>
  C8. A mount target is accepted exactly when it normalises (absolute, no dot or empty elements, no
  control characters, not the root) and the normalised path shares no directory subtree with any
  reserved root: it is neither below a reserved root nor above one.
\<close>

theorem mount_target_accepted_iff_disjoint:
  assumes "absDefaults D"
  shows "ValidateContainerMountTarget D t = Inr () \<longleftrightarrow>
    (\<exists>p. normalizeAbsoluteContainerPath t ''mount target'' = Inr p \<and>
         IsAbs p \<and> Clean p = p \<and> elems p \<noteq> [] \<and>
         (\<forall>r \<in> set (controlRoots D @ ociRuntimeMountRoots).
            \<not> prefix (elems p) (elems (Clean r)) \<and> \<not> prefix (elems (Clean r)) (elems p)))"
  using ValidateContainerMountTarget_iff [OF assms, of t] normalize_accepts(1-3)
  by (auto simp: reservedRoots_def sharesSubtree_def)

lemma absDefaults_example: "absDefaults exampleDefaults"
  by (simp add: absDefaults_def exampleDefaults_def IsAbs_def slash_def)

theorem mount_target_accepted_iff_disjoint_witness:
  "absDefaults exampleDefaults \<and> ValidateContainerMountTarget exampleDefaults ''/srv/x/'' = Inr () \<and>
   (\<exists>p. normalizeAbsoluteContainerPath ''/srv/x/'' ''mount target'' = Inr p \<and> Clean p = p)"
proof -
  have "ValidateContainerMountTarget exampleDefaults ''/srv/x/'' = Inr ()" by code_simp
  then show ?thesis
    using mount_target_accepted_iff_disjoint [OF absDefaults_example, of "''/srv/x/''"]
      absDefaults_example by blast
qed

text \<open>
  C36. An upload destination is accepted exactly when it normalises and either lies at or below the
  workspace directory or is an acceptable mount target.
\<close>

theorem upload_dest_accepted_iff:
  assumes "absDefaults D" "elems (Clean (GuestWorkspace D)) \<noteq> []"
  shows "ValidateUploadDest D d = Inr () \<longleftrightarrow>
    (\<exists>p. normalizeAbsoluteContainerPath d ''upload dest'' = Inr p \<and>
         (prefix (elems (Clean (GuestWorkspace D))) (elems p) \<or>
          (\<forall>r \<in> set (controlRoots D @ ociRuntimeMountRoots).
            \<not> prefix (elems p) (elems (Clean r)) \<and> \<not> prefix (elems (Clean r)) (elems p))))"
proof -
  let ?ws = "Clean (GuestWorkspace D)"
  have s: "''/'' = [slash]" by (simp add: slash_def)
  have ws: "IsAbs ?ws" using assms(1) by (simp add: path_simps absDefaults_def)
  have "p = ?ws \<or> HasPrefix p (?ws @ ''/'') \<longleftrightarrow> prefix (elems ?ws) (elems p)"
    if "normalizeAbsoluteContainerPath d ''upload dest'' = Inr p" for p
    using normalize_accepts(1,2) [OF that] ws assms(2) clean_abs_inj [of p ?ws]
    by (auto simp: HasPrefix_def s below_iff strict_prefix_def)
  then show ?thesis
    using normalize_accepts(2) [of d] normalize_field [of d "''mount target''" _ "''upload dest''"]
    by (auto simp: ValidateUploadDest_def result_iff Let_def sharesSubtree_def reservedRoots_def
        ValidateContainerMountTarget_iff [OF assms(1)] split: if_splits)
qed

theorem upload_dest_accepted_iff_witness:
  "elems (Clean (GuestWorkspace exampleDefaults)) \<noteq> [] \<and>
   ValidateUploadDest exampleDefaults ''/workspace/a'' = Inr () \<and>
   ValidateUploadDest exampleDefaults ''/cauteum/data/x'' \<noteq> Inr () \<and>
   (\<exists>p. normalizeAbsoluteContainerPath ''/workspace/a'' ''upload dest'' = Inr p)"
proof -
  have ws: "elems (Clean (GuestWorkspace exampleDefaults)) \<noteq> []" by code_simp
  have "ValidateUploadDest exampleDefaults ''/workspace/a'' = Inr ()" by code_simp
  moreover have "ValidateUploadDest exampleDefaults ''/cauteum/data/x'' \<noteq> Inr ()" by code_simp
  ultimately show ?thesis
    using ws upload_dest_accepted_iff [OF absDefaults_example ws, of "''/workspace/a''"] by blast
qed

text \<open>
  The check for surrounding white space is dead: the value has been trimmed before it is
  compared with its own trimming, so that error is never returned and a padded path is treated like
  the path without the padding.
\<close>

theorem surrounding_whitespace_never_rejected:
  "normalizeAbsoluteContainerPath v f \<noteq> Inl (SurroundingWhitespace g) \<and>
   normalizeAbsoluteContainerPath v f = normalizeAbsoluteContainerPath (TrimSpace v) f"
proof -
  have "scanSegs f segs \<noteq> Inl (SurroundingWhitespace g)" for segs
    by (induction f segs rule: scanSegs.induct) auto
  then show ?thesis
    by (auto simp: normalizeAbsoluteContainerPath_def Let_def split: bindR_split)
qed

section \<open>Properties of the workspace check\<close>

lemma Join_home:
  assumes "IsAbs home" "Clean home = home" "d \<in> set denyBasenames"
  shows "elems (Join [home, d]) = elems home @ [d]" "IsAbs (Join [home, d])"
    "Clean (Join [home, d]) = Join [home, d]"
proof -
  have "elems d = [d]" "d \<noteq> ''..''"
    using assms(3) by (auto simp: denyBasenames_def elems_def slash_def)
  moreover have "''..'' \<notin> set (elems home)" using clean_abs_render(2) assms by blast
  moreover have "home \<noteq> []" using assms(1) by auto
  moreover have "IsAbs (home @ slash # d)" using assms(1) by (cases home) auto
  moreover from calculation have "elems (Clean (home @ slash # d)) = elems home @ [d]"
    by (subst Clean_abs_elems) (auto simp: elems_append_slash)
  ultimately show "elems (Join [home, d]) = elems home @ [d]" "IsAbs (Join [home, d])"
    "Clean (Join [home, d]) = Join [home, d]"
    by (simp_all add: Join_def IsAbs_Clean)
qed

lemma under_home_iff:
  assumes "IsAbs home" "Clean home = home" "IsAbs p" "Clean p = p" "d \<in> set denyBasenames"
  shows "p = Join [home, d] \<or> HasPrefix p (Join [home, d] @ ''/'') \<longleftrightarrow>
    prefix (elems home @ [d]) (elems p)"
proof -
  have s: "''/'' = [slash]" by (simp add: slash_def)
  note J = Join_home [OF assms(1,2,5)]
  show ?thesis
    using J assms(3,4) clean_abs_inj [of p "Join [home, d]"]
    by (auto simp: HasPrefix_def s below_iff strict_prefix_def)
qed

lemma checkDeny_Inr_iff:
  assumes "UserHomeDir os = Inr home" "IsAbs home" "IsAbs p"
  shows "checkDeny os p = Inr () \<longleftrightarrow>
    Clean p \<noteq> Clean home \<and>
    (\<forall>d \<in> set denyBasenames. \<not> EqualFold (Base (Clean p)) d \<and>
       \<not> prefix (elems (Clean home) @ [d]) (elems (Clean p)))"
proof -
  have under: "Clean p = Join [Clean home, d] \<or> HasPrefix (Clean p) (Join [Clean home, d] @ ''/'') \<longleftrightarrow>
      prefix (elems (Clean home) @ [d]) (elems (Clean p))" if "d \<in> set denyBasenames" for d
    using assms that by (intro under_home_iff) (simp_all add: path_simps)
  then have "find (\<lambda>d. let pre = Join [Clean home, d] in
        Clean p = pre \<or> HasPrefix (Clean p) (pre @ ''/'')) denyBasenames = None \<longleftrightarrow>
      (\<forall>d \<in> set denyBasenames. \<not> prefix (elems (Clean home) @ [d]) (elems (Clean p)))"
    by (auto simp: find_None_iff Let_def)
  then show ?thesis
    using assms(1) find_None_iff [of "\<lambda>d. EqualFold (Base (Clean p)) d" denyBasenames]
    by (auto simp: checkDeny_def Let_def split: option.splits)
qed

lemma ResolveWorkspace_Inr_iff:
  "ResolveWorkspace os path iKnow = Inr c \<longleftrightarrow>
   (\<exists>a fi. Abs os (if TrimSpace path = [] then ''.'' else path) = Inr a \<and>
      EvalSymlinks os a = Inr c \<and> Stat os c = Inr fi \<and> fiIsDir fi \<and>
      (iKnow \<or> checkDeny os c = Inr ()))"
  by (auto simp: ResolveWorkspace_def Let_def result_iff split: if_splits)

text \<open>
  C22. Without the override, the workspace that is mounted is a directory different from the home
  directory, its last element is no denied name in any capitalisation, and it does not lie in a
  denied directory below the home directory. This holds for the path after symbolic links have
  been resolved.
\<close>

theorem workspace_avoids_denied:
  assumes "ResolveWorkspace os path False = Inr c" "UserHomeDir os = Inr home"
    and "IsAbs home" "IsAbs c"
  shows "(\<exists>fi. Stat os c = Inr fi \<and> fiIsDir fi) \<and> Clean c \<noteq> Clean home \<and>
    (\<forall>d \<in> set denyBasenames. \<not> EqualFold (Base (Clean c)) d \<and>
       \<not> prefix (elems (Clean home) @ [d]) (elems (Clean c)))"
  using assms checkDeny_Inr_iff [OF assms(2-4)] by (auto simp: ResolveWorkspace_Inr_iff)

theorem workspace_avoids_denied_witness:
  "ResolveWorkspace exampleOS ''/home/u/p'' False = Inr ''/home/u/p'' \<and>
   UserHomeDir exampleOS = Inr ''/home/u'' \<and> IsAbs ''/home/u'' \<and> Clean ''/home/u/p'' \<noteq> Clean ''/home/u''"
proof -
  have r: "ResolveWorkspace exampleOS ''/home/u/p'' False = Inr ''/home/u/p''" by code_simp
  have h: "UserHomeDir exampleOS = Inr ''/home/u''" by (simp add: exampleOS_def)
  have a: "IsAbs ''/home/u''" "IsAbs ''/home/u/p''" by (simp_all add: slash_def)
  show ?thesis using workspace_avoids_denied [OF r h a] r h a by simp
qed

text \<open>
  The deny-list does not look upwards: a directory that contains the home directory, and with
  it every denied directory below it, is accepted as workspace.
\<close>

theorem workspace_ancestor_of_home_accepted:
  assumes "IsAbs path" "Clean path = path" "EvalSymlinks os path = Inr path"
    and "Stat os path = Inr fi" "fiIsDir fi"
    and "UserHomeDir os = Inr home" "IsAbs home"
    and "strict_prefix (elems path) (elems (Clean home))"
    and "\<forall>d \<in> set denyBasenames. \<not> EqualFold (Base path) d"
  shows "ResolveWorkspace os path False = Inr path"
proof -
  have "slash \<in> set path" using assms(1) by (cases path) auto
  then have "TrimSpace path \<noteq> []"
    using TrimSpace_keeps_graph [of slash path] by (auto simp: isGraph_def slash_def)
  then have a: "Abs os (if TrimSpace path = [] then ''.'' else path) = Inr path"
    using assms(1,2) by (simp add: Abs_def)
  have "\<not> prefix (elems (Clean home) @ [d]) (elems path)" for d
    using prefix_length_less [OF assms(8)] prefix_length_le [of "elems (Clean home) @ [d]" "elems path"]
    by auto
  then have "checkDeny os path = Inr ()"
    using checkDeny_Inr_iff [OF assms(6,7,1)] assms(2,8,9) by (auto simp: strict_prefix_def)
  with a assms(3-5) show ?thesis by (auto simp: ResolveWorkspace_Inr_iff)
qed

theorem workspace_ancestor_of_home_accepted_witness:
  "UserHomeDir exampleOS = Inr ''/home/u'' \<and> ResolveWorkspace exampleOS ''/home'' False = Inr ''/home''"
proof -
  have 1: "IsAbs ''/home''" "IsAbs ''/home/u''" by (simp_all add: slash_def)
  have 2: "Clean ''/home'' = ''/home''" by code_simp
  have 3: "EvalSymlinks exampleOS ''/home'' = Inr ''/home''" "Stat exampleOS ''/home'' = Inr dirInfo"
    "fiIsDir dirInfo" "UserHomeDir exampleOS = Inr ''/home/u''"
    by (simp_all add: exampleOS_def dirInfo_def)
  have 4: "strict_prefix (elems ''/home'') (elems (Clean ''/home/u''))" by code_simp
  have 5: "\<forall>d \<in> set denyBasenames. \<not> EqualFold (Base ''/home'') d" by code_simp
  show ?thesis
    using workspace_ancestor_of_home_accepted [OF 1(1) 2 3 1(2) 4 5] 3(4) by simp
qed

end
