(* ===== verification/Go_JSON.thy ===== *)
theory Go_JSON
  imports Go_Net
begin

text \<open>
  \<^verbatim>\<open>encoding/json\<close> as the driver uses it. A document is parsed to a syntax tree that keeps the
  members of objects in order with duplicates, and numbers as their text. \<open>jsonParse\<close> follows the
  grammar the Go scanner accepts, nesting limit included; string contents are unquoted as Go does,
  with surrogate pairs combined and malformed UTF-8 replaced. The functions \<open>unString\<close> and so on decode a tree into
  the Go types the driver unmarshals into, where null leaves the zero value.
\<close>

datatype json =
    JNull
  | JBool bool
  | JNum string
  | JStr string
  | JArr "json list"
  | JObj "(string \<times> json) list"

section \<open>Strings\<close>

definition byteIn :: "nat \<Rightarrow> nat \<Rightarrow> char \<Rightarrow> bool" where
  "byteIn lo hi c \<longleftrightarrow> lo \<le> (of_char c :: nat) \<and> (of_char c :: nat) \<le> hi"

definition contByte :: "char \<Rightarrow> bool" where
  "contByte c = byteIn 128 191 c"

text \<open>The length of the well-formed multi-byte sequence a string starts with, or 0.\<close>

definition utf8Len :: "string \<Rightarrow> nat" where
  "utf8Len s =
     (case s of
        a # b # r \<Rightarrow>
          if byteIn 194 223 a then (if contByte b then 2 else 0)
          else (case r of
                  [] \<Rightarrow> 0
                | c # r' \<Rightarrow>
                    if byteIn 224 239 a then
                      (if byteIn (if a = CHR 0xE0 then 160 else 128) (if a = CHR 0xED then 159 else 191) b \<and> contByte c
                       then 3 else 0)
                    else (case r' of
                            [] \<Rightarrow> 0
                          | d # _ \<Rightarrow>
                              if byteIn 240 244 a \<and>
                                 byteIn (if a = CHR 0xF0 then 144 else 128) (if a = CHR 0xF4 then 143 else 191) b \<and>
                                 contByte c \<and> contByte d then 4 else 0))
      | _ \<Rightarrow> 0)"

definition runeError :: string where
  "runeError = [CHR 0xEF, CHR 0xBF, CHR 0xBD]"

definition utf8Encode :: "nat \<Rightarrow> string" where
  "utf8Encode n =
     (if n < 128 then [char_of n]
      else if n < 2048 then [char_of (192 + n div 64), char_of (128 + n mod 64)]
      else if n < 65536 then
        [char_of (224 + n div 4096), char_of (128 + n div 64 mod 64), char_of (128 + n mod 64)]
      else [char_of (240 + n div 262144), char_of (128 + n div 4096 mod 64),
            char_of (128 + n div 64 mod 64), char_of (128 + n mod 64)])"

definition hexDigitVal :: "char \<Rightarrow> nat" where
  "hexDigitVal c = (if isDigit c then digitVal c else of_char (lowerChar c) - 87)"

definition getu4 :: "string \<Rightarrow> nat option" where
  "getu4 s =
     (case s of
        a # b # c # d # _ \<Rightarrow>
          if isHex a \<and> isHex b \<and> isHex c \<and> isHex d
          then Some (4096 * hexDigitVal a + 256 * hexDigitVal b + 16 * hexDigitVal c + hexDigitVal d) else None
      | _ \<Rightarrow> None)"

definition simpleEscape :: "char \<Rightarrow> char option" where
  "simpleEscape e =
     (if e = CHR 0x22 then Some (CHR 0x22) else if e = CHR 0x5C then Some (CHR 0x5C)
      else if e = CHR ''/'' then Some (CHR ''/'') else if e = CHR ''b'' then Some (CHR 0x08)
      else if e = CHR ''f'' then Some (CHR 0x0C) else if e = CHR ''n'' then Some (CHR 0x0A)
      else if e = CHR ''r'' then Some (CHR 0x0D) else if e = CHR ''t'' then Some (CHR 0x09) else None)"

text \<open>A low surrogate escape that completes the high surrogate \<open>n\<close>.\<close>

definition lowSurrogate :: "nat \<Rightarrow> string \<Rightarrow> nat option" where
  "lowSurrogate n s =
     (case s of
        x # y # r \<Rightarrow>
          if x = CHR 0x5C \<and> y = CHR ''u'' \<and> 55296 \<le> n \<and> n < 56320 then
            (case getu4 r of
               Some n2 \<Rightarrow> if 56320 \<le> n2 \<and> n2 < 57344 then Some n2 else None
             | None \<Rightarrow> None)
          else None
      | _ \<Rightarrow> None)"

definition addStr :: "string \<Rightarrow> (string \<times> string) option \<Rightarrow> (string \<times> string) option" where
  "addStr u r = map_option (\<lambda>p. (u @ fst p, snd p)) r"

text \<open>The rest of a string after its opening quote: its content, and what follows the closing one.\<close>

function parseStr :: "string \<Rightarrow> (string \<times> string) option" where
  "parseStr [] = None"
| "parseStr (c # cs) =
     (if c = CHR 0x22 then Some ([], cs)
      else if (of_char c :: nat) < 32 then None
      else if c = CHR 0x5C then
        (case cs of
           [] \<Rightarrow> None
         | e # r \<Rightarrow>
             (case simpleEscape e of
                Some d \<Rightarrow> addStr [d] (parseStr r)
              | None \<Rightarrow>
                  if e = CHR ''u'' then
                    (case getu4 r of
                       None \<Rightarrow> None
                     | Some n \<Rightarrow>
                         if 55296 \<le> n \<and> n < 57344 then
                           (case lowSurrogate n (drop 4 r) of
                              Some n2 \<Rightarrow>
                                addStr (utf8Encode (65536 + (n - 55296) * 1024 + (n2 - 56320))) (parseStr (drop 10 r))
                            | None \<Rightarrow> addStr runeError (parseStr (drop 4 r)))
                         else addStr (utf8Encode n) (parseStr (drop 4 r)))
                  else None))
      else if isAscii c then addStr [c] (parseStr cs)
      else if utf8Len (c # cs) = 0 then addStr runeError (parseStr cs)
      else addStr (take (utf8Len (c # cs)) (c # cs)) (parseStr (drop (utf8Len (c # cs) - 1) cs)))"
  by pat_completeness auto
termination by (relation "measure length") auto

section \<open>Numbers and values\<close>

definition isWS :: "char \<Rightarrow> bool" where
  "isWS c \<longleftrightarrow> c = CHR 0x20 \<or> c = CHR 0x09 \<or> c = CHR 0x0A \<or> c = CHR 0x0D"

definition skipWS :: "string \<Rightarrow> string" where
  "skipWS s = dropWhile isWS s"

definition digits :: "string \<Rightarrow> string" where
  "digits s = takeWhile isDigit s"

definition parseFraction :: "string \<Rightarrow> (string \<times> string) option" where
  "parseFraction s =
     (case s of
        c # r \<Rightarrow>
          if c = CHR ''.'' then
            (if digits r = [] then None else Some (CHR ''.'' # digits r, drop (length (digits r)) r))
          else Some ([], s)
      | [] \<Rightarrow> Some ([], s))"

definition parseExponent :: "string \<Rightarrow> (string \<times> string) option" where
  "parseExponent s =
     (case s of
        c # r \<Rightarrow>
          if c = CHR ''e'' \<or> c = CHR ''E'' then
            (let sg = (case r of x # _ \<Rightarrow> if x = CHR ''+'' \<or> x = CHR ''-'' then [x] else [] | [] \<Rightarrow> []);
                 r' = drop (length sg) r in
             if digits r' = [] then None
             else Some (c # sg @ digits r', drop (length (digits r')) r'))
          else Some ([], s)
      | [] \<Rightarrow> Some ([], s))"

definition parseIntPart :: "string \<Rightarrow> (string \<times> string) option" where
  "parseIntPart s =
     (let neg = (case s of c # _ \<Rightarrow> if c = CHR ''-'' then [c] else [] | [] \<Rightarrow> []);
          r = drop (length neg) s in
      (case digits r of
         [] \<Rightarrow> None
       | d # ds \<Rightarrow> if d = CHR ''0'' then Some (neg @ [d], drop 1 r)
                  else Some (neg @ d # ds, drop (length (d # ds)) r)))"

definition parseNum :: "string \<Rightarrow> (string \<times> string) option" where
  "parseNum s =
     (case parseIntPart s of
        None \<Rightarrow> None
      | Some (i, r1) \<Rightarrow>
          (case parseFraction r1 of
             None \<Rightarrow> None
           | Some (f, r2) \<Rightarrow>
               (case parseExponent r2 of
                  None \<Rightarrow> None
                | Some (e, r3) \<Rightarrow> Some (i @ f @ e, r3))))"

definition maxNestingDepth :: nat where
  "maxNestingDepth = 10000"

text \<open>The fuel bounds the nesting of calls; every value takes at least one character, so twice the
  length of the document is enough (\<open>JSON_Rules\<close>).\<close>

fun parseV :: "nat \<Rightarrow> nat \<Rightarrow> string \<Rightarrow> (json \<times> string) option"
and parseElems :: "nat \<Rightarrow> nat \<Rightarrow> string \<Rightarrow> (json list \<times> string) option"
and parseMembers :: "nat \<Rightarrow> nat \<Rightarrow> string \<Rightarrow> ((string \<times> json) list \<times> string) option" where
  "parseV 0 depth s = None"
| "parseV (Suc fuel) depth s =
     (case skipWS s of
        [] \<Rightarrow> None
      | c # r \<Rightarrow>
          if c = CHR 0x22 then map_option (\<lambda>p. (JStr (fst p), snd p)) (parseStr r)
          else if c = CHR ''{'' then
            (if maxNestingDepth < depth + 1 then None
             else (case skipWS r of
                     [] \<Rightarrow> None
                   | d # r' \<Rightarrow>
                       if d = CHR ''}'' then Some (JObj [], r')
                       else map_option (\<lambda>p. (JObj (fst p), snd p)) (parseMembers fuel (depth + 1) (d # r'))))
          else if c = CHR ''['' then
            (if maxNestingDepth < depth + 1 then None
             else (case skipWS r of
                     [] \<Rightarrow> None
                   | d # r' \<Rightarrow>
                       if d = CHR '']'' then Some (JArr [], r')
                       else map_option (\<lambda>p. (JArr (fst p), snd p)) (parseElems fuel (depth + 1) (d # r'))))
          else if HasPrefix (c # r) ''true'' then Some (JBool True, drop 4 (c # r))
          else if HasPrefix (c # r) ''false'' then Some (JBool False, drop 5 (c # r))
          else if HasPrefix (c # r) ''null'' then Some (JNull, drop 4 (c # r))
          else map_option (\<lambda>p. (JNum (fst p), snd p)) (parseNum (c # r)))"
| "parseElems 0 depth s = None"
| "parseElems (Suc fuel) depth s =
     (case parseV fuel depth s of
        None \<Rightarrow> None
      | Some (v, r) \<Rightarrow>
          (case skipWS r of
             [] \<Rightarrow> None
           | c # r' \<Rightarrow>
               if c = CHR '','' then map_option (\<lambda>p. (v # fst p, snd p)) (parseElems fuel depth r')
               else if c = CHR '']'' then Some ([v], r') else None))"
| "parseMembers 0 depth s = None"
| "parseMembers (Suc fuel) depth s =
     (case skipWS s of
        [] \<Rightarrow> None
      | c # r \<Rightarrow>
          if c \<noteq> CHR 0x22 then None
          else (case parseStr r of
                  None \<Rightarrow> None
                | Some (key, r1) \<Rightarrow>
                    (case skipWS r1 of
                       [] \<Rightarrow> None
                     | d # r2 \<Rightarrow>
                         if d \<noteq> CHR '':'' then None
                         else (case parseV fuel depth r2 of
                                 None \<Rightarrow> None
                               | Some (v, r3) \<Rightarrow>
                                   (case skipWS r3 of
                                      [] \<Rightarrow> None
                                    | e # r4 \<Rightarrow>
                                        if e = CHR '','' then map_option (\<lambda>p. ((key, v) # fst p, snd p)) (parseMembers fuel depth r4)
                                        else if e = CHR ''}'' then Some ([(key, v)], r4) else None)))))"

definition jsonParse :: "string \<Rightarrow> json option" where
  "jsonParse s =
     (case parseV (2 * length s + 2) 0 s of
        None \<Rightarrow> None
      | Some (v, r) \<Rightarrow> if skipWS r = [] then Some v else None)"

section \<open>Unmarshalling\<close>

fun unString :: "json \<Rightarrow> string option" where
  "unString JNull = Some []"
| "unString (JStr s) = Some s"
| "unString _ = None"

fun unBool :: "json \<Rightarrow> bool option" where
  "unBool JNull = Some False"
| "unBool (JBool b) = Some b"
| "unBool _ = None"

fun unInt64 :: "json \<Rightarrow> int option" where
  "unInt64 JNull = Some 0"
| "unInt64 (JNum s) = ParseInt64 s"
| "unInt64 _ = None"

fun sequence :: "'a option list \<Rightarrow> 'a list option" where
  "sequence [] = Some []"
| "sequence (x # xs) = (case x of None \<Rightarrow> None | Some y \<Rightarrow> map_option (\<lambda>ys. y # ys) (sequence xs))"

fun unStrings :: "json \<Rightarrow> string list option" where
  "unStrings JNull = Some []"
| "unStrings (JArr vs) = sequence (map unString vs)"
| "unStrings _ = None"

text \<open>A map of raw members; \<open>Unmarshal\<close> lets the last of several members with one key win.\<close>

fun unMap :: "json \<Rightarrow> (string \<times> json) list option" where
  "unMap JNull = Some []"
| "unMap (JObj ms) = Some ms"
| "unMap _ = None"

definition field :: "(string \<times> json) list \<Rightarrow> string \<Rightarrow> json option" where
  "field ms key = map_of (rev ms) key"

lemma json_examples:
  "jsonParse ('' {'' @ [CHR 0x22] @ ''a'' @ [CHR 0x22] @ '': [1, -2.5e3 , true,null]} '') =
     Some (JObj [(''a'', JArr [JNum ''1'', JNum ''-2.5e3'', JBool True, JNull])])"
  "jsonParse ''[01]'' = None" "jsonParse ''[1,]'' = None" "jsonParse ''{} x'' = None"
  by code_simp+

end
