(* ===== verification/Driver_Config.thy ===== *)
theory Driver_Config
  imports Mounts Go_JSON "HOL-Library.Word"
begin

text \<open>
  \<^verbatim>\<open>internal/docker/driver_config.go\<close>: the per-sandbox \<^verbatim>\<open>driver_config\<close> JSON with CDI devices and extra
  mounts.

  The token walk of \<^verbatim>\<open>rejectDuplicateJSONKeys\<close> visits the members of the document in order; it is the
  recursion \<open>dupCheck\<close> over the syntax tree. A raw message is a subtree. Once duplicates are
  excluded, Go's map of members is the member list itself.
\<close>

section \<open>Data\<close>

datatype mount_kind = TypeVolume | TypeTmpfs

record TmpfsOptions =
  toOptions :: "string list list"
  toSizeBytes :: int
  toMode :: "32 word"

record Mount =
  mType :: mount_kind
  mSource :: string
  mTarget :: string
  mReadOnly :: bool
  mSubpath :: string
  mTmpfs :: "TmpfsOptions option"

datatype dmount_error =
    TypeRequired
  | UnknownField string
  | TargetRequired
  | TargetNotNormalized
  | TargetTraversal
  | TargetReserved mount_error
  | TargetProtected string
  | ReadOnlyNotBool
  | FieldRequired string
  | FieldInvalid string
  | BindMountsDisabled
  | BindSourceNotAbs
  | BindSourceUnavailable os_error
  | BadSELinuxLabel
  | BadSubpath
  | OptionsNotStrings
  | OptionEmpty
  | OptionInvalid string
  | BadSize
  | BadMode
  | ImageUnsupported
  | UnknownMountType string

datatype dconfig_error =
    NotAJSONObject
  | DuplicateField string
  | UnknownConfigField string
  | CDIDevicesNotStrings
  | CDIDeviceBlank nat
  | MountsNotArray
  | MountInvalid nat dmount_error
  | DuplicateTarget nat string

section \<open>rejectDuplicateJSONKeys\<close>

fun dupCheck :: "json \<Rightarrow> dconfig_error + unit"
and dupMembers :: "string list \<Rightarrow> (string \<times> json) list \<Rightarrow> dconfig_error + unit"
and dupElems :: "json list \<Rightarrow> dconfig_error + unit" where
  "dupCheck JNull = Inr ()"
| "dupCheck (JBool b) = Inr ()"
| "dupCheck (JNum n) = Inr ()"
| "dupCheck (JStr s) = Inr ()"
| "dupCheck (JArr vs) = dupElems vs"
| "dupCheck (JObj ms) = dupMembers [] ms"
| "dupMembers seen [] = Inr ()"
| "dupMembers seen ((key, v) # ms) =
     (if key \<in> set seen then Inl (DuplicateField key)
      else bindR (dupCheck v) (\<lambda>_. dupMembers (key # seen) ms))"
| "dupElems [] = Inr ()"
| "dupElems (v # vs) = bindR (dupCheck v) (\<lambda>_. dupElems vs)"

section \<open>parseDockerMount\<close>

definition allowedMountFields :: "string list" where
  "allowedMountFields =
     [''type'', ''target'', ''read_only'', ''source'', ''selinux_label'', ''subpath'', ''options'',
      ''size_bytes'', ''mode'']"

definition protectedTargets :: "string list" where
  "protectedTargets =
     [''/opt/openshell'', ''/etc/openshell'', ''/etc/openshell-tls'', ''/run/openshell'',
      ''/run/openshell-sidecar'', ''/run/netns'', ''/var/run/netns'']"

text \<open>\<^verbatim>\<open>json.Unmarshal\<close> of a missing member fails: its input is empty.\<close>

definition unmarshalField :: "(json \<Rightarrow> 'a option) \<Rightarrow> (string \<times> json) list \<Rightarrow> string \<Rightarrow> 'a option" where
  "unmarshalField un fs key = (case field fs key of None \<Rightarrow> None | Some v \<Rightarrow> un v)"

definition underProtected :: "string \<Rightarrow> string \<Rightarrow> bool" where
  "underProtected target p \<longleftrightarrow> target = p \<or> HasPrefix target (p @ ''/'')"

definition mountTarget :: "core_defaults \<Rightarrow> (string \<times> json) list \<Rightarrow> dmount_error + string" where
  "mountTarget D fs =
     (case unmarshalField unString fs ''target'' of
        None \<Rightarrow> Inl TargetRequired
      | Some target0 \<Rightarrow>
          (let target = TrimSuffix target0 ''/'' in
           if \<not> IsAbs target \<or> target = ''/'' \<or> Clean target \<noteq> target \<or>
              ContainsAny target [CHR 0x00, CHR 0x5C] \<or> TrimSpace target \<noteq> target
           then Inl TargetNotNormalized
           else if ''.'' \<in> set (splitChar slash target) \<or> ''..'' \<in> set (splitChar slash target)
           then Inl TargetTraversal
           else bindR (wrapE TargetReserved (ValidateContainerMountTarget D target)) (\<lambda>_.
                (case find (underProtected target) protectedTargets of
                   Some p \<Rightarrow> Inl (TargetProtected p)
                 | None \<Rightarrow> Inr target))))"

definition mountReadOnly :: "(string \<times> json) list \<Rightarrow> dmount_error + bool" where
  "mountReadOnly fs =
     (case field fs ''read_only'' of
        Some v \<Rightarrow> (case unBool v of None \<Rightarrow> Inl ReadOnlyNotBool | Some b \<Rightarrow> Inr b)
      | None \<Rightarrow> Inr True)"

definition mountStr :: "(string \<times> json) list \<Rightarrow> string \<Rightarrow> bool \<Rightarrow> dmount_error + string" where
  "mountStr fs k required =
     (case field fs k of
        None \<Rightarrow> if required then Inl (FieldRequired k) else Inr []
      | Some b \<Rightarrow>
          (case unString b of
             None \<Rightarrow> Inl (FieldInvalid k)
           | Some v \<Rightarrow>
               if TrimSpace v \<noteq> v \<or> CHR 0x00 \<in> set v \<or> required \<and> v = [] then Inl (FieldInvalid k)
               else Inr v))"

definition bindSuffix :: "bool \<Rightarrow> string \<Rightarrow> string" where
  "bindSuffix readOnly label =
     (if readOnly then '':ro'' else '':rw'') @
     (if label = ''shared'' then '',z'' else []) @ (if label = ''private'' then '',Z'' else [])"

definition parseBindMount ::
  "host_os \<Rightarrow> bool \<Rightarrow> (string \<times> json) list \<Rightarrow> string \<Rightarrow> bool \<Rightarrow> dmount_error + string" where
  "parseBindMount os enableBindMounts fs target readOnly =
     bindR (failIf (\<not> enableBindMounts) BindMountsDisabled) (\<lambda>_.
     bindR (mountStr fs ''source'' True) (\<lambda>source.
     bindR (failIf (\<not> IsAbs source) BindSourceNotAbs) (\<lambda>_.
     bindR (wrapE BindSourceUnavailable (Stat os source)) (\<lambda>_.
     bindR (mountStr fs ''selinux_label'' False) (\<lambda>label.
     bindR (failIf (label \<noteq> [] \<and> label \<noteq> ''shared'' \<and> label \<noteq> ''private'') BadSELinuxLabel) (\<lambda>_.
     Inr (source @ '':'' @ target @ bindSuffix readOnly label)))))))"

definition badSubpath :: "string \<Rightarrow> bool" where
  "badSubpath subpath \<longleftrightarrow>
     subpath \<noteq> [] \<and>
     (IsAbs subpath \<or> Clean subpath \<noteq> subpath \<or> ContainsAny subpath [CHR 0x5C, CHR 0x20])"

definition parseVolumeMount :: "(string \<times> json) list \<Rightarrow> string \<Rightarrow> bool \<Rightarrow> dmount_error + Mount" where
  "parseVolumeMount fs target readOnly =
     bindR (mountStr fs ''source'' True) (\<lambda>source.
     bindR (mountStr fs ''subpath'' False) (\<lambda>subpath.
     bindR (failIf (badSubpath subpath) BadSubpath) (\<lambda>_.
     Inr \<lparr>mType = TypeVolume, mSource = source, mTarget = target, mReadOnly = readOnly,
          mSubpath = subpath, mTmpfs = None\<rparr>)))"

text \<open>\<^verbatim>\<open>strings.SplitN(option, "=", 2)\<close>.\<close>

definition splitOption :: "string \<Rightarrow> string list" where
  "splitOption option = (case Cut option (CHR ''='') of (k, v, ok) \<Rightarrow> if ok then [k, v] else [option])"

fun parseTmpfsOptions :: "string list \<Rightarrow> dmount_error + string list list" where
  "parseTmpfsOptions [] = Inr []"
| "parseTmpfsOptions (option # rest) =
     (if option = [] then Inl OptionEmpty
      else if (case splitOption option of [k, v] \<Rightarrow> k = [] \<or> v = [] | _ \<Rightarrow> False) then Inl (OptionInvalid option)
      else bindR (parseTmpfsOptions rest) (\<lambda>ps. Inr (splitOption option # ps)))"

definition optionalInt :: "(string \<times> json) list \<Rightarrow> string \<Rightarrow> dmount_error \<Rightarrow> dmount_error + int" where
  "optionalInt fs key e =
     (case field fs key of
        None \<Rightarrow> Inr 0
      | Some v \<Rightarrow> (case unInt64 v of None \<Rightarrow> Inl e | Some n \<Rightarrow> if n < 0 then Inl e else Inr n))"

definition parseTmpfsMount :: "(string \<times> json) list \<Rightarrow> string \<Rightarrow> bool \<Rightarrow> dmount_error + Mount" where
  "parseTmpfsMount fs target readOnly =
     bindR (case field fs ''options'' of
              None \<Rightarrow> Inr []
            | Some v \<Rightarrow> (case unStrings v of None \<Rightarrow> Inl OptionsNotStrings | Some os \<Rightarrow> Inr os)) (\<lambda>options.
     bindR (parseTmpfsOptions options) (\<lambda>parsed.
     bindR (optionalInt fs ''size_bytes'' BadSize) (\<lambda>size.
     bindR (optionalInt fs ''mode'' BadMode) (\<lambda>mode.
     Inr \<lparr>mType = TypeTmpfs, mSource = [], mTarget = target, mReadOnly = readOnly, mSubpath = [],
          mTmpfs = Some \<lparr>toOptions = parsed, toSizeBytes = size, toMode = of_int mode\<rparr>\<rparr>))))"

text \<open>The result is the engine mount or the bind string, with the target.\<close>

definition parseDockerMount ::
  "core_defaults \<Rightarrow> host_os \<Rightarrow> bool \<Rightarrow> (string \<times> json) list \<Rightarrow> dmount_error + (Mount + string) \<times> string" where
  "parseDockerMount D os enableBindMounts fs =
     (case unmarshalField unString fs ''type'' of
        None \<Rightarrow> Inl TypeRequired
      | Some kind \<Rightarrow>
          (case find (\<lambda>m. fst m \<notin> set allowedMountFields) fs of
             Some m \<Rightarrow> Inl (UnknownField (fst m))
           | None \<Rightarrow>
               bindR (mountTarget D fs) (\<lambda>target.
               bindR (mountReadOnly fs) (\<lambda>readOnly.
               if kind = ''bind'' then
                 bindR (parseBindMount os enableBindMounts fs target readOnly) (\<lambda>b. Inr (Inr b, target))
               else if kind = ''volume'' then
                 bindR (parseVolumeMount fs target readOnly) (\<lambda>m. Inr (Inl m, target))
               else if kind = ''tmpfs'' then
                 bindR (parseTmpfsMount fs target readOnly) (\<lambda>m. Inr (Inl m, target))
               else if kind = ''image'' then Inl ImageUnsupported
               else Inl (UnknownMountType kind)))))"

section \<open>parseDockerSandboxDriverConfig\<close>

text \<open>The loop over the mounts: the targets seen, the engine mounts and the binds.\<close>

fun mountLoop ::
  "core_defaults \<Rightarrow> host_os \<Rightarrow> bool \<Rightarrow> nat \<Rightarrow> string list \<Rightarrow> (string \<times> json) list list \<Rightarrow>
   dconfig_error + Mount list \<times> string list" where
  "mountLoop D os en i seen [] = Inr ([], [])"
| "mountLoop D os en i seen (cfg # cfgs) =
     bindR (wrapE (MountInvalid i) (parseDockerMount D os en cfg)) (\<lambda>mt.
     if snd mt \<in> set seen then Inl (DuplicateTarget i (snd mt))
     else bindR (mountLoop D os en (i + 1) (snd mt # seen) cfgs) (\<lambda>r.
       Inr (case fst mt of
              Inr b \<Rightarrow> (fst r, b # snd r)
            | Inl m \<Rightarrow> (m # fst r, snd r))))"

fun blankDevice :: "nat \<Rightarrow> string list \<Rightarrow> dconfig_error + unit" where
  "blankDevice i [] = Inr ()"
| "blankDevice i (d # ds) = (if TrimSpace d = [] then Inl (CDIDeviceBlank i) else blankDevice (i + 1) ds)"

record sandbox_config =
  scDevices :: "string list option"
  scMounts :: "Mount list"
  scBinds :: "string list"

definition configDevices :: "(string \<times> json) list \<Rightarrow> dconfig_error + string list option" where
  "configDevices fs =
     (case field fs ''cdi_devices'' of
        None \<Rightarrow> Inr None
      | Some v \<Rightarrow>
          (case unStrings v of
             None \<Rightarrow> Inl CDIDevicesNotStrings
           | Some devices \<Rightarrow>
               if v = JNull \<or> devices = [] then Inl CDIDevicesNotStrings
               else bindR (blankDevice 0 devices) (\<lambda>_. Inr (Some devices))))"

definition configMounts ::
  "core_defaults \<Rightarrow> host_os \<Rightarrow> bool \<Rightarrow> (string \<times> json) list \<Rightarrow> dconfig_error + Mount list \<times> string list" where
  "configMounts D os enableBindMounts fs =
     (case field fs ''mounts'' of
        None \<Rightarrow> Inr ([], [])
      | Some v \<Rightarrow>
          (case v of
             JArr vs \<Rightarrow>
               (case sequence (map unMap vs) of
                  None \<Rightarrow> Inl MountsNotArray
                | Some configs \<Rightarrow> mountLoop D os enableBindMounts 0 [] configs)
           | _ \<Rightarrow> Inl MountsNotArray))"

definition configTree ::
  "core_defaults \<Rightarrow> host_os \<Rightarrow> bool \<Rightarrow> json \<Rightarrow> dconfig_error + sandbox_config" where
  "configTree D os enableBindMounts tree =
     (case tree of
        JObj fs \<Rightarrow>
          bindR (dupCheck tree) (\<lambda>_.
          (case find (\<lambda>m. fst m \<noteq> ''cdi_devices'' \<and> fst m \<noteq> ''mounts'') fs of
             Some m \<Rightarrow> Inl (UnknownConfigField (fst m))
           | None \<Rightarrow>
               bindR (configDevices fs) (\<lambda>devices.
               bindR (configMounts D os enableBindMounts fs) (\<lambda>mb.
               Inr \<lparr>scDevices = devices, scMounts = fst mb, scBinds = snd mb\<rparr>))))
      | _ \<Rightarrow> Inl NotAJSONObject)"

definition parseDockerSandboxDriverConfig ::
  "core_defaults \<Rightarrow> host_os \<Rightarrow> string \<Rightarrow> bool \<Rightarrow> dconfig_error + sandbox_config" where
  "parseDockerSandboxDriverConfig D os raw0 enableBindMounts =
     (if TrimSpace raw0 = [] then Inr \<lparr>scDevices = None, scMounts = [], scBinds = []\<rparr>
      else (case jsonParse (TrimSpace raw0) of
              None \<Rightarrow> Inl NotAJSONObject
            | Some tree \<Rightarrow> configTree D os enableBindMounts tree))"

section \<open>Duplicate keys\<close>

text \<open>All objects of a document, at any depth.\<close>

fun objects :: "json \<Rightarrow> (string \<times> json) list list" where
  "objects (JArr vs) = concat (map objects vs)"
| "objects (JObj ms) = ms # concat (map (\<lambda>m. objects (snd m)) ms)"
| "objects _ = []"

definition dupFree :: "json \<Rightarrow> bool" where
  "dupFree v \<longleftrightarrow> list_all (\<lambda>ms. distinct (map fst ms)) (objects v)"

lemma dupFree_simps [simp]:
  "dupFree (JArr vs) = list_all dupFree vs"
  "dupFree (JObj ms) = (distinct (map fst ms) \<and> list_all (\<lambda>m. dupFree (snd m)) ms)"
  "dupFree JNull" "dupFree (JBool b)" "dupFree (JNum n)" "dupFree (JStr t)"
  by (auto simp: dupFree_def list_all_iff)

lemma dupCheck_iff:
  "dupCheck v = Inr () \<longleftrightarrow> dupFree v"
  "dupMembers seen ms = Inr () \<longleftrightarrow>
     distinct (map fst ms) \<and> set (map fst ms) \<inter> set seen = {} \<and> list_all (\<lambda>m. dupFree (snd m)) ms"
  "dupElems vs = Inr () \<longleftrightarrow> list_all dupFree vs"
proof (induction v and seen ms and vs rule: dupCheck_dupMembers_dupElems.induct)
  case (8 seen key v ms)
  then show ?case by (auto simp: result_iff)
next
  case (10 v vs)
  then show ?case by (auto simp: result_iff)
qed simp_all

section \<open>Targets\<close>

definition safeTarget :: "core_defaults \<Rightarrow> string \<Rightarrow> bool" where
  "safeTarget D t \<longleftrightarrow>
     IsAbs t \<and> Clean t = t \<and> elems t \<noteq> [] \<and>
     list_all (\<lambda>r. \<not> sharesSubtree (elems t) (elems (Clean r))) (reservedRoots D) \<and>
     list_all (\<lambda>p. \<not> underProtected t p) protectedTargets"

text \<open>A target that is clean already is its own normal form.\<close>

lemma normalize_clean:
  assumes "normalizeAbsoluteContainerPath t f = Inr p" "TrimSpace t = t" "\<not> HasSuffix t ''/'' \<or> t = ''/''"
  shows "p = t"
proof -
  have p: "p = trimRightChar slash t" "p \<noteq> []"
    using assms(1,2) by (auto simp: normalizeAbsoluteContainerPath_def Let_def result_iff split: if_splits)
  have "t \<noteq> ''/''"
  proof
    assume "t = ''/''"
    then have "trimRightChar slash t = []" by (simp add: trimRightChar_def slash_def)
    with p show False by simp
  qed
  with assms(3) have "\<not> HasSuffix t ''/''" by blast
  then have "t \<noteq> [] \<Longrightarrow> last t \<noteq> slash"
    using last_eq_suffix [of t] by (auto simp: HasSuffix_def slash_def)
  with p show ?thesis by (simp add: trimRightChar_unchanged)
qed

lemma clean_no_trailing_slash:
  assumes "IsAbs t" "Clean t = t" "t \<noteq> ''/''"
  shows "\<not> HasSuffix t ''/''"
proof
  assume "HasSuffix t ''/''"
  then have l: "last t = slash" by (auto simp: HasSuffix_def suffix_def slash_def)
  have t: "t = slash # joinWith slash (elems t)" by (rule clean_abs_render(1) [OF assms(1,2)])
  have "elems t \<noteq> []" using clean_abs_root [OF assms(1,2)] assms(3) by blast
  then have "trimRightChar slash t = t" using trimRight_join(1) [OF _ elems_ok, of t] t by simp
  with l trimRightChar_last [of slash t] t show False by fastforce
qed

lemma mountTarget_safe:
  assumes "absDefaults D" "mountTarget D fs = Inr t"
  shows "safeTarget D t"
proof -
  from assms(2) have t: "IsAbs t" "t \<noteq> ''/''" "Clean t = t" "TrimSpace t = t"
    "ValidateContainerMountTarget D t = Inr ()" "find (underProtected t) protectedTargets = None"
    by (auto simp: mountTarget_def Let_def result_iff split: option.splits if_splits)
  then obtain p where p: "normalizeAbsoluteContainerPath t ''mount target'' = Inr p"
    "\<forall>r \<in> set (reservedRoots D). \<not> sharesSubtree (elems p) (elems (Clean r))"
    using ValidateContainerMountTarget_iff [OF assms(1)] by blast
  have "p = t" using normalize_clean [OF p(1) t(4)] clean_no_trailing_slash [OF t(1,3,2)] by blast
  with p normalize_accepts(3) [OF p(1)] t show ?thesis
    unfolding safeTarget_def list_all_iff by (auto simp: find_None_iff)
qed

lemma parseDockerMount_safe:
  assumes "absDefaults D" "parseDockerMount D os en fs = Inr (mb, t)"
  shows "safeTarget D t"
    and "case mb of
           Inl m \<Rightarrow> mTarget m = t
         | Inr b \<Rightarrow> en \<and> (\<exists>src ro lab. b = src @ '':'' @ t @ bindSuffix ro lab \<and> IsAbs src)"
proof -
  from assms(2) obtain ro where tgt: "mountTarget D fs = Inr t" and
    cs: "(\<exists>b. mb = Inr b \<and> parseBindMount os en fs t ro = Inr b) \<or>
      (\<exists>m. mb = Inl m \<and> (parseVolumeMount fs t ro = Inr m \<or> parseTmpfsMount fs t ro = Inr m))"
    by (auto simp: parseDockerMount_def result_iff split: option.splits if_splits)
  show "safeTarget D t" by (rule mountTarget_safe [OF assms(1) tgt])
  have v: "parseVolumeMount fs t ro = Inr m \<Longrightarrow> mTarget m = t" for m
    by (auto simp: parseVolumeMount_def result_iff)
  have tm: "parseTmpfsMount fs t ro = Inr m \<Longrightarrow> mTarget m = t" for m
    by (auto simp: parseTmpfsMount_def result_iff)
  have b: "parseBindMount os en fs t ro = Inr b \<Longrightarrow>
      en \<and> (\<exists>src ro lab. b = src @ '':'' @ t @ bindSuffix ro lab \<and> IsAbs src)" for b
    by (auto simp: parseBindMount_def result_iff)
  show "case mb of
           Inl m \<Rightarrow> mTarget m = t
         | Inr b \<Rightarrow> en \<and> (\<exists>src ro lab. b = src @ '':'' @ t @ bindSuffix ro lab \<and> IsAbs src)"
    using cs
  proof (elim disjE exE conjE)
    fix b' assume "mb = Inr b'" "parseBindMount os en fs t ro = Inr b'"
    with b [of b'] show ?thesis by simp
  qed (simp_all add: v tm)
qed

text \<open>A bind that mounts onto target \<open>t\<close>.\<close>

definition bindsTo :: "string \<Rightarrow> string \<Rightarrow> bool" where
  "bindsTo t b \<longleftrightarrow> (\<exists>src ro lab. b = src @ '':'' @ t @ bindSuffix ro lab \<and> IsAbs src)"

text \<open>The targets of the engine mounts and of the binds, split apart by the loop.\<close>

lemma mountLoop_safe:
  "absDefaults D \<Longrightarrow> mountLoop D os en i seen cfgs = Inr (ms, bs) \<Longrightarrow>
   \<exists>bt. distinct (map mTarget ms @ bt) \<and> set (map mTarget ms @ bt) \<inter> set seen = {} \<and>
     list_all (safeTarget D) (map mTarget ms @ bt) \<and> list_all2 bindsTo bt bs \<and> (bs = [] \<or> en)"
proof (induction cfgs arbitrary: i seen ms bs)
  case (Cons cfg cfgs)
  obtain mt r where mt: "parseDockerMount D os en cfg = Inr mt" "snd mt \<notin> set seen"
    "mountLoop D os en (i + 1) (snd mt # seen) cfgs = Inr r"
    "(ms, bs) = (case fst mt of Inr b \<Rightarrow> (fst r, b # snd r) | Inl m \<Rightarrow> (m # fst r, snd r))"
    using Cons.prems(2) by (auto simp: result_iff split: if_splits)
  obtain mb t ms' bs' where eq: "mt = (mb, t)" "r = (ms', bs')" by (cases mt; cases r)
  have pm: "parseDockerMount D os en cfg = Inr (mb, t)" and t: "t \<notin> set seen"
    and rec: "mountLoop D os en (i + 1) (t # seen) cfgs = Inr (ms', bs')"
    and out: "(ms, bs) = (case mb of Inr b \<Rightarrow> (ms', b # bs') | Inl m \<Rightarrow> (m # ms', bs'))"
    using mt unfolding eq fst_conv snd_conv by simp_all
  from Cons.IH [OF Cons.prems(1) rec] obtain bt where IH: "distinct (map mTarget ms' @ bt)"
    "set (map mTarget ms' @ bt) \<inter> set (t # seen) = {}" "list_all (safeTarget D) (map mTarget ms' @ bt)"
    "list_all2 bindsTo bt bs'" "bs' = [] \<or> en" by blast
  note S = parseDockerMount_safe [OF Cons.prems(1) pm]
  show ?case
  proof (cases mb)
    case (Inl m)
    then have m: "ms = m # ms'" "bs = bs'" "mTarget m = t" using out S(2) by simp_all
    have "distinct (map mTarget ms @ bt)" "set (map mTarget ms @ bt) \<inter> set seen = {}"
      "list_all (safeTarget D) (map mTarget ms @ bt)" "list_all2 bindsTo bt bs" "bs = [] \<or> en"
      using IH S(1) t m by auto
    then show ?thesis by blast
  next
    case (Inr b)
    then have m: "ms = ms'" "bs = b # bs'" "en" "bindsTo t b" using out S(2) by (simp_all add: bindsTo_def)
    have "distinct (map mTarget ms @ t # bt)" "set (map mTarget ms @ t # bt) \<inter> set seen = {}"
      "list_all (safeTarget D) (map mTarget ms @ t # bt)" "list_all2 bindsTo (t # bt) bs" "bs = [] \<or> en"
      using IH S(1) t m by auto
    then show ?thesis by blast
  qed
qed simp

lemma configMounts_Inr:
  assumes "configMounts D os en fs = Inr (ms, bs)"
  shows "ms = [] \<and> bs = [] \<or> (\<exists>cfgs. mountLoop D os en 0 [] cfgs = Inr (ms, bs))"
proof (cases "field fs ''mounts''")
  case (Some v)
  with assms show ?thesis by (cases v) (auto simp: configMounts_def split: option.splits)
qed (use assms in \<open>simp add: configMounts_def\<close>)

lemma configTree_Inr:
  assumes "configTree D os en tree = Inr sc"
  shows "\<exists>fs. configMounts D os en fs = Inr (scMounts sc, scBinds sc)"
proof (cases tree)
  case (JObj fs)
  with assms obtain mb where "configMounts D os en fs = Inr mb" "scMounts sc = fst mb" "scBinds sc = snd mb"
    by (auto simp: configTree_def result_iff split: option.splits)
  then show ?thesis by (intro exI [of _ fs]) simp
qed (use assms in \<open>simp_all add: configTree_def\<close>)

section \<open>Properties\<close>

text \<open>
  C10. The mounts of an accepted sandbox configuration are safe: all targets, of engine mounts and of
  binds together, are pairwise different, each is a clean absolute path that shares no subtree with
  a reserved root and does not lie in a protected directory, and host binds occur only if the
  operator has enabled them.
\<close>

theorem driver_config_mounts_safe:
  assumes "absDefaults D" "parseDockerSandboxDriverConfig D os raw en = Inr sc"
  shows "\<exists>bt. distinct (map mTarget (scMounts sc) @ bt) \<and>
    list_all (safeTarget D) (map mTarget (scMounts sc) @ bt) \<and> list_all2 bindsTo bt (scBinds sc) \<and>
    (scBinds sc = [] \<or> en)"
proof (cases "TrimSpace raw = []")
  case True
  with assms(2) show ?thesis by (auto simp: parseDockerSandboxDriverConfig_def)
next
  case False
  with assms(2) obtain tree where "configTree D os en tree = Inr sc"
    by (auto simp: parseDockerSandboxDriverConfig_def split: option.splits)
  then obtain fs where "configMounts D os en fs = Inr (scMounts sc, scBinds sc)" using configTree_Inr by blast
  then consider "scMounts sc = []" "scBinds sc = []"
    | cfgs where "mountLoop D os en 0 [] cfgs = Inr (scMounts sc, scBinds sc)"
    using configMounts_Inr by blast
  then show ?thesis
  proof cases
    case 1
    then show ?thesis by simp
  next
    case 2
    from mountLoop_safe [OF assms(1) this] show ?thesis by blast
  qed
qed

definition dq :: string where
  "dq = [CHR 0x22]"

definition exampleDriverConfig :: string where
  "exampleDriverConfig =
     ''{'' @ dq @ ''mounts'' @ dq @ '':[{'' @ dq @ ''type'' @ dq @ '':'' @ dq @ ''tmpfs'' @ dq @ '','' @
     dq @ ''target'' @ dq @ '':'' @ dq @ ''/srv/t'' @ dq @ ''}]}''"

theorem driver_config_mounts_safe_witness:
  "\<exists>sc. parseDockerSandboxDriverConfig exampleDefaults exampleOS exampleDriverConfig False = Inr sc \<and>
     length (scMounts sc) = 1 \<and> list_all (safeTarget exampleDefaults) (map mTarget (scMounts sc))"
proof -
  let ?r = "parseDockerSandboxDriverConfig exampleDefaults exampleOS exampleDriverConfig False"
  have "case ?r of Inr sc \<Rightarrow> length (scMounts sc) = 1 | Inl _ \<Rightarrow> False" by code_simp
  then obtain sc where sc: "?r = Inr sc" "length (scMounts sc) = 1" by (auto split: sum.splits)
  from driver_config_mounts_safe [OF absDefaults_example sc(1)] sc show ?thesis by auto
qed

text \<open>
  C37. The duplicate-key check passes exactly when no object of the document, at any depth,
  repeats a key.
\<close>

theorem duplicate_keys_rejected_iff:
  "dupCheck v = Inr () \<longleftrightarrow> list_all (\<lambda>ms. distinct (map fst ms)) (objects v)"
  by (simp add: dupCheck_iff dupFree_def [symmetric])

definition volumeFields :: "(string \<times> json) list" where
  "volumeFields = [(''type'', JStr ''volume''), (''source'', JStr ''data'')]"

text \<open>
  The check for a safe relative sub-path does not stop traversal: a sub-path that climbs out of
  the volume with leading dot-dot elements is in clean form and is passed on to the engine.
\<close>

theorem volume_subpath_traversal_accepted:
  "\<exists>m. parseDockerMount exampleDefaults exampleOS False
       (volumeFields @ [(''target'', JStr ''/srv''), (''subpath'', JStr ''../../etc'')]) = Inr (Inl m, ''/srv'') \<and>
     mSubpath m = ''../../etc''"
proof -
  have "(case parseDockerMount exampleDefaults exampleOS False
       (volumeFields @ [(''target'', JStr ''/srv''), (''subpath'', JStr ''../../etc'')]) of
     Inr (Inl m, t) \<Rightarrow> t = ''/srv'' \<and> mSubpath m = ''../../etc'' | _ \<Rightarrow> False)"
    by code_simp
  then show ?thesis by (auto split: sum.splits) (metis sum.exhaust)
qed

text \<open>
  The protected directories are guarded from below only: a mount onto /opt is accepted and hides
  the protected /opt/openshell, although a mount onto any path inside it is refused.
\<close>

theorem mount_above_protected_accepted:
  "isOk (parseDockerMount exampleDefaults exampleOS False (volumeFields @ [(''target'', JStr ''/opt'')])) \<and>
   parseDockerMount exampleDefaults exampleOS False (volumeFields @ [(''target'', JStr ''/opt/openshell/x'')]) =
     Inl (TargetProtected ''/opt/openshell'')"
  by code_simp

text \<open>
  An explicit null for the read-only flag makes a mount writable, while leaving the flag out
  makes it read-only.
\<close>

theorem read_only_null_is_writable:
  assumes "parseVolumeMount fs t True = Inr m" "field fs ''read_only'' = None"
    and "mountTarget D fs = Inr t" "unmarshalField unString fs ''type'' = Some ''volume''"
    and "list_all (\<lambda>f. fst f \<in> set allowedMountFields) fs"
  shows "parseDockerMount D os en fs = Inr (Inl (m\<lparr>mReadOnly := True\<rparr>), t) \<and>
    parseDockerMount D os en (fs @ [(''read_only'', JNull)]) = Inr (Inl (m\<lparr>mReadOnly := False\<rparr>), t)"
proof -
  let ?fs = "fs @ [(''read_only'', JNull)]"
  have f: "field ?fs k = field fs k" if "k \<noteq> ''read_only''" for k using that by (simp add: field_def)
  have "mountTarget D ?fs = Inr t" "unmarshalField unString ?fs ''type'' = Some ''volume''"
    using assms(3,4) by (simp_all add: mountTarget_def unmarshalField_def f)
  moreover have "mountStr ?fs k req = mountStr fs k req" if "k \<noteq> ''read_only''" for k req
    using that by (simp add: mountStr_def f)
  then have "parseVolumeMount ?fs t False = Inr (m\<lparr>mReadOnly := False\<rparr>)" "m = m\<lparr>mReadOnly := True\<rparr>"
    using assms(1) by (auto simp: parseVolumeMount_def result_iff)
  moreover have "find (\<lambda>f. fst f \<notin> set allowedMountFields) fs = None"
    "find (\<lambda>f. fst f \<notin> set allowedMountFields) ?fs = None"
    using assms(5) by (auto simp: find_None_iff list_all_iff allowedMountFields_def)
  moreover have "mountReadOnly ?fs = Inr False" "mountReadOnly fs = Inr True"
    using assms(2) by (simp_all add: mountReadOnly_def field_def)
  ultimately show ?thesis using assms(1,3,4) by (simp add: parseDockerMount_def)
qed

theorem read_only_null_is_writable_witness:
  "\<exists>m. parseDockerMount exampleDefaults exampleOS False (volumeFields @ [(''target'', JStr ''/srv'')]) =
        Inr (Inl (m\<lparr>mReadOnly := True\<rparr>), ''/srv'') \<and>
     parseDockerMount exampleDefaults exampleOS False
       ((volumeFields @ [(''target'', JStr ''/srv'')]) @ [(''read_only'', JNull)]) =
        Inr (Inl (m\<lparr>mReadOnly := False\<rparr>), ''/srv'')"
proof -
  let ?fs = "volumeFields @ [(''target'', JStr ''/srv'')]"
  have 1: "isOk (parseVolumeMount ?fs ''/srv'' True)" by code_simp
  then obtain m where m: "parseVolumeMount ?fs ''/srv'' True = Inr m" by (auto simp: isOk_iff)
  have 2: "field ?fs ''read_only'' = None" "mountTarget exampleDefaults ?fs = Inr ''/srv''"
    "unmarshalField unString ?fs ''type'' = Some ''volume''" "list_all (\<lambda>f. fst f \<in> set allowedMountFields) ?fs"
    by (code_simp, code_simp, code_simp, simp add: volumeFields_def allowedMountFields_def)
  from read_only_null_is_writable [OF m 2] show ?thesis by blast
qed

end
