(* ===== verification/Engine.thy ===== *)
theory Engine
  imports Docker_Config Driver_Config
begin

text \<open>
  The Docker Engine as the driver sees it. The moby client and the daemon behind it are not part of
  this repository: the record \<open>engine\<close> holds the answer to each request as a function of the requests
  made before, so every behaviour of a daemon that answers call by call is an instance.

  The state of the world is the trace of requests the driver has issued. Each request carries the
  context it was issued with: the caller's context, which may be cancelled, or the driver's own
  cleanup context. Operations are functions from the trace to a result and the longer trace.

  \<open>docker_driver\<close> is \<^verbatim>\<open>docker.Driver\<close> with its runtime configuration; the function-valued fields of
  \<^verbatim>\<open>RuntimeConfig\<close>, which a backend adapter may set, are options.
\<close>

section \<open>Engine API data\<close>

record HealthConfig =
  hcTest :: "string list"
  hcInterval :: int
  hcTimeout :: int
  hcRetries :: int
  hcStartPeriod :: int

record container_config =
  ccImage :: string
  ccCmd :: "string list"
  ccEntrypoint :: "string list"
  ccEnv :: "string list"
  ccLabels :: "string \<Rightarrow> string option"
  ccWorkingDir :: string
  ccUser :: string
  ccHealthcheck :: "HealthConfig option"
  ccExposedPorts :: "16 word list"

record PortBinding =
  pbHostIP :: string
  pbHostPort :: string

record host_config =
  hcBinds :: "string list"
  hcMounts :: "Mount list"
  hcNetworkMode :: string
  hcSecurityOpt :: "string list"
  hcCapDrop :: "string list"
  hcExtraHosts :: "string list"
  hcLogConfig :: LogConfig
  hcPidsLimit :: "int option"
  hcNanoCPUs :: int
  hcMemory :: int
  hcUsernsMode :: string
  hcDeviceRequests :: "DeviceRequest list"
  hcPortBindings :: "(16 word \<times> PortBinding list) list"
  hcShmSize :: int

record create_options =
  coConfig :: container_config
  coHost :: host_config
  coNetwork :: "(string \<times> string list) list"
  coName :: string

record exec_options =
  eoCmd :: "string list"
  eoEnv :: "string list"
  eoUser :: string
  eoWorkingDir :: string
  eoAttachStdout :: bool
  eoAttachStderr :: bool
  eoAttachStdin :: bool
  eoTTY :: bool
  eoConsoleSize :: "int \<times> int"

record network_options =
  noDriver :: string
  noInternal :: bool
  noOptions :: "(string \<times> string) list"
  noLabels :: "(string \<times> string) list"

record network_info =
  niInternal :: bool
  niOptions :: "string \<Rightarrow> string option"

text \<open>\<open>iiUser\<close> is \<^verbatim>\<open>Config.User\<close>, or absent when the image has no configuration.\<close>

record image_info =
  iiID :: string
  iiUser :: "string option"

record container_summary =
  csID :: string
  csNames :: "string list"
  csImage :: string
  csStatus :: string
  csLabels :: "string \<Rightarrow> string option"

record container_state =
  stStatus :: string
  stRunning :: bool
  stError :: string

record inspected_config =
  icImage :: string
  icEnv :: "string list"
  icLabels :: "string \<Rightarrow> string option"

record container_info =
  ciID :: string
  ciName :: string
  ciConfig :: "inspected_config option"
  ciState :: "container_state option"
  ciMounts :: "(string \<times> string) list"
  ciNetworks :: "(string \<times> string option) list option"

record server_version =
  svVersion :: string
  svAPIVersion :: string
  svOs :: string
  svArch :: string

record system_info =
  siOperatingSystem :: string
  siArchitecture :: string
  siOSType :: string
  siSecurityOptions :: "string list"

text \<open>A missing key of a Go map reads as the empty string.\<close>

definition at :: "(string \<Rightarrow> string option) \<Rightarrow> string \<Rightarrow> string" where
  "at m k = (case m k of None \<Rightarrow> [] | Some v \<Rightarrow> v)"

section \<open>Requests and answers\<close>

type_synonym engine_error = string

datatype ctx = ReqCtx | CleanupCtx

datatype request =
    ContainerListReq "string list"
  | ContainerInspectReq string
  | ContainerCreateReq create_options
  | ContainerStartReq string
  | ContainerStopReq string int
  | ContainerRemoveReq string
  | ContainerLogsReq string bool string
  | ContainerWaitReq string
  | ExecCreateReq string exec_options
  | ExecAttachReq string
  | ExecStartReq string
  | ExecInspectReq string
  | ExecResizeReq string "int \<times> int"
  | NetworkInspectReq string
  | NetworkCreateReq string network_options
  | NetworkRemoveReq string
  | NetworkConnectReq string string
  | VolumeInspectReq string
  | VolumeCreateReq string
  | VolumeRemoveReq string
  | ImageInspectReq string
  | ImagePullReq string string
  | ImageTagReq string string
  | PingReq
  | ServerVersionReq
  | InfoReq
  | CopyToContainerReq string string
  | CopyFromContainerReq string string
  | NativeContainerCreateReq create_options
  | NativeNetworkCreateReq string bool "(string \<times> string) list"
  | NativeNetworkVerifyReq string bool

text \<open>
  A log request names the container, whether to follow, and how many lines to start from; its answer
  is the text that was delivered and the error that ended the stream, if any. Waiting for a container
  ends with an error (possibly nil) on the error channel, with a result, or with the context.
\<close>

datatype wait_outcome = WaitError "engine_error option" | WaitResult | WaitDone engine_error

type_synonym trace = "(ctx \<times> request) list"

record engine =
  ansContainerList :: "trace \<Rightarrow> engine_error + container_summary list"
  ansContainerInspect :: "trace \<Rightarrow> engine_error + container_info"
  ansContainerCreate :: "trace \<Rightarrow> engine_error + string"
  ansUnit :: "trace \<Rightarrow> engine_error + unit"
  ansLogs :: "trace \<Rightarrow> engine_error + string \<times> engine_error option"
  ansWait :: "trace \<Rightarrow> wait_outcome"
  ansVersion :: "trace \<Rightarrow> engine_error + server_version"
  ansInfo :: "trace \<Rightarrow> engine_error + system_info"
  ansExecCreate :: "trace \<Rightarrow> engine_error + string"
  ansExecAttach :: "trace \<Rightarrow> engine_error + unit"
  ansExecInspect :: "trace \<Rightarrow> engine_error + int"
  ansNetworkInspect :: "trace \<Rightarrow> engine_error + network_info"
  ansImageInspect :: "trace \<Rightarrow> engine_error + image_info"
  ansPullStream :: "trace \<Rightarrow> engine_error + unit"
  ctxDone :: "trace \<Rightarrow> engine_error option"
  pollRounds :: "trace \<Rightarrow> nat"

section \<open>The driver\<close>

record docker_driver =
  cliPresent :: bool
  runtimeConfig :: RuntimeConfig
  enableBindMounts :: bool
  registryAuthResolver :: "(string \<Rightarrow> engine_error + string) option"
  nativeContainerCreate :: bool
  nativeNetworkCreate :: bool
  nativeNetworkVerify :: bool

text \<open>The terminal of the process: which standard streams are terminals, the size (width and height)
  of the one used for sizing, and whether raw mode can be entered.\<close>

record terminal =
  stdinIsTerminal :: bool
  stdoutIsTerminal :: bool
  termSize :: "(int \<times> int) option"
  makeRaw :: "engine_error + unit"

text \<open>Everything an operation can read.\<close>

record env =
  eDefaults :: core_defaults
  eOS :: host_os
  eEngine :: engine
  eDriver :: docker_driver
  eTerm :: terminal
  eGOOS :: string
  eParsePort :: "string \<Rightarrow> engine_error + 16 word"
  eDockerAuth :: "string \<Rightarrow> engine_error + string"

section \<open>Operations on the trace\<close>

type_synonym ('e, 'a) op = "(trace, 'e, 'a) stateful"

text \<open>Issue a request: it is appended to the trace, and the answer may depend on all of it.\<close>

definition call :: "ctx \<Rightarrow> request \<Rightarrow> (trace \<Rightarrow> engine_error + 'a) \<Rightarrow> (engine_error, 'a) op" where
  "call c req ans w = (ans (w @ [(c, req)]), w @ [(c, req)])"

definition ContainerList :: "env \<Rightarrow> string list \<Rightarrow> (engine_error, container_summary list) op" where
  "ContainerList E labels = call ReqCtx (ContainerListReq labels) (ansContainerList (eEngine E))"

definition ContainerInspect :: "env \<Rightarrow> string \<Rightarrow> (engine_error, container_info) op" where
  "ContainerInspect E cid = call ReqCtx (ContainerInspectReq cid) (ansContainerInspect (eEngine E))"

definition ContainerRemove :: "env \<Rightarrow> ctx \<Rightarrow> string \<Rightarrow> (engine_error, unit) op" where
  "ContainerRemove E c cid = call c (ContainerRemoveReq cid) (ansUnit (eEngine E))"

definition NetworkRemove :: "env \<Rightarrow> ctx \<Rightarrow> string \<Rightarrow> (engine_error, unit) op" where
  "NetworkRemove E c name = call c (NetworkRemoveReq name) (ansUnit (eEngine E))"

definition VolumeRemove :: "env \<Rightarrow> ctx \<Rightarrow> string \<Rightarrow> (engine_error, unit) op" where
  "VolumeRemove E c name = call c (VolumeRemoveReq name) (ansUnit (eEngine E))"

definition ImageInspect :: "env \<Rightarrow> string \<Rightarrow> (engine_error, image_info) op" where
  "ImageInspect E ref = call ReqCtx (ImageInspectReq ref) (ansImageInspect (eEngine E))"

abbreviation cfgOf :: "env \<Rightarrow> RuntimeConfig" where
  "cfgOf E \<equiv> runtimeConfig (eDriver E)"

section \<open>Reasoning about operations\<close>

text \<open>An operation only ever extends the trace. \<open>emits P m\<close>: every request it issues satisfies \<open>P\<close>.\<close>

definition emits :: "(ctx \<times> request \<Rightarrow> bool) \<Rightarrow> ('e, 'a) op \<Rightarrow> bool" where
  "emits P m \<longleftrightarrow> (\<forall>w. \<exists>new. snd (m w) = w @ new \<and> list_all P new)"

lemma emitsD: "emits P m \<Longrightarrow> m w = (r, w') \<Longrightarrow> \<exists>new. w' = w @ new \<and> list_all P new"
  unfolding emits_def by (metis snd_conv)

lemma emits_mono: "emits P m \<Longrightarrow> (\<And>e. P e \<Longrightarrow> Q e) \<Longrightarrow> emits Q m"
  unfolding emits_def by (metis (mono_tags, lifting) list.pred_mono_strong)

lemma emits_returnW [trace_simps]: "emits P (returnW x)"
  by (simp add: emits_def returnW_def)

lemma emits_liftW [trace_simps]: "emits P (liftW r)"
  by (simp add: emits_def liftW_def)

lemma emits_call [trace_simps]: "emits P (call c req ans) \<longleftrightarrow> P (c, req)"
  by (auto simp: emits_def call_def)

lemma emits_wrapW [trace_simps]: "emits P (wrapW g m) \<longleftrightarrow> emits P m"
  by (simp add: emits_def wrapW_def case_prod_beta)

lemma emits_tryW [trace_simps]: "emits P (tryW m) \<longleftrightarrow> emits P m"
  by (simp add: emits_def tryW_def case_prod_beta)

lemma emits_bindW:
  assumes "emits P m" "\<And>x. emits P (f x)"
  shows "emits P (bindW m f)"
  unfolding emits_def
proof
  fix w
  obtain r w1 where m: "m w = (r, w1)" by force
  then obtain n1 where n1: "w1 = w @ n1" "list_all P n1" using assms(1) emitsD by blast
  show "\<exists>new. snd (bindW m f w) = w @ new \<and> list_all P new"
  proof (cases r)
    case (Inr x)
    obtain r2 w2 where "f x w1 = (r2, w2)" by force
    moreover from this obtain n2 where "w2 = w1 @ n2" "list_all P n2" using assms(2) emitsD by blast
    ultimately show ?thesis using n1 m Inr by (auto simp: bindW_def)
  qed (use m n1 in \<open>auto simp: bindW_def\<close>)
qed

lemma emits_if [trace_simps]: "emits P (if b then m1 else m2) \<longleftrightarrow> (if b then emits P m1 else emits P m2)"
  by simp

lemma call_Inr [result_iff]:
  "call c req ans w = (y, w') \<longleftrightarrow> w' = w @ [(c, req)] \<and> y = ans w'"
  by (auto simp: call_def)

end
