(* ===== verification/Docker_Resources.thy ===== *)
theory Docker_Resources
  imports Engine
begin

text \<open>
  Images, networks and volumes: \<^verbatim>\<open>ensureImage\<close>, \<^verbatim>\<open>pullImage\<close>, \<^verbatim>\<open>pullAs\<close>, \<^verbatim>\<open>defaultSandboxImage\<close>,
  \<^verbatim>\<open>ImagePresent\<close>, \<^verbatim>\<open>ensureNetwork\<close>, \<^verbatim>\<open>ensureVolume\<close> and \<^verbatim>\<open>removeProxySidecar\<close> of \<^verbatim>\<open>docker.go\<close>.

  The lemmas show what an image pull policy allows, and that a sandbox behind a proxy only ever
  gets a network that is internal and cut off from the host gateway.
\<close>

datatype pull_error = RegistryAuthError engine_error | PullFailed string engine_error

datatype image_error =
    PullError pull_error
  | ImageNeverPulled string
  | ImageNotFound string string "pull_error option" bool

datatype network_error =
    NetworkUnverifiable string
  | NetworkNotInternal string
  | NetworkNotIsolated string
  | NetworkVerifyFailed string engine_error
  | NativeNetworkCreateFailed string engine_error
  | NetworkCreateFailed string engine_error

datatype volume_error = VolumeCreateFailed string engine_error

section \<open>Images\<close>

definition registryAuth :: "env \<Rightarrow> string \<Rightarrow> engine_error + string" where
  "registryAuth E imageRef =
     (case registryAuthResolver (eDriver E) of
        Some resolve \<Rightarrow> resolve imageRef
      | None \<Rightarrow> eDockerAuth E imageRef)"

definition ImagePresent :: "env \<Rightarrow> string \<Rightarrow> trace \<Rightarrow> bool \<times> trace" where
  "ImagePresent E ref w =
     (if \<not> cliPresent (eDriver E) \<or> TrimSpace ref = [] then (False, w)
      else (case ImageInspect E ref w of (r, w') \<Rightarrow> (isOk r, w')))"

definition pullImage :: "env \<Rightarrow> string \<Rightarrow> (pull_error, unit) op" where
  "pullImage E ref =
     bindW (wrapW RegistryAuthError (liftW (registryAuth E ref))) (\<lambda>auth.
     bindW (wrapW (PullFailed ref) (call ReqCtx (ImagePullReq ref auth) (ansUnit (eEngine E)))) (\<lambda>_ w.
     wrapW (PullFailed ref) (liftW (ansPullStream (eEngine E) w)) w))"

definition pullAs :: "env \<Rightarrow> string \<Rightarrow> string \<Rightarrow> (pull_error, unit) op" where
  "pullAs E remote local =
     bindW (wrapW RegistryAuthError (liftW (registryAuth E remote))) (\<lambda>auth.
     bindW (wrapW (PullFailed remote) (call ReqCtx (ImagePullReq remote auth) (ansUnit (eEngine E)))) (\<lambda>_.
     wrapW (PullFailed remote) (call ReqCtx (ImageTagReq remote local) (ansUnit (eEngine E)))))"

definition imageHint :: "core_defaults \<Rightarrow> string \<Rightarrow> string" where
  "imageHint D low =
     (if Contains low ''cursor'' then ''task docker:agent:cursor''
      else if Contains low ''claude'' then ''task docker:agent:claude''
      else if Contains low ''codex'' then ''task docker:agent:codex''
      else if low = ImageGUI D \<or> Contains low ''gui'' then ''task runtime:image:gui''
      else if low = ImageGPU D \<or> Contains low ''gpu'' then ''task runtime:image:gpu''
      else ''task runtime:image:cli'')"

definition isLocalImage :: "core_defaults \<Rightarrow> string \<Rightarrow> bool" where
  "isLocalImage D low \<longleftrightarrow>
     low = ImageLocal D \<or> low = ImageGUI D \<or> low = ImageGPU D \<or> HasPrefix low ''cauteum-sandbox:''"

text \<open>A missing local image: pull its published counterpart unless that is switched off.\<close>

definition pullPublished :: "env \<Rightarrow> string \<Rightarrow> (image_error, unit) op" where
  "pullPublished E ref =
     (let D = eDefaults E; low = ToLower ref; remote = fst (PublishedImage D low);
          published = snd (PublishedImage D low) in
      if published \<and> \<not> EqualFold (Getenv (eOS E) (EnvImagePull D)) ''never'' then
        bindW (tryW (pullAs E remote ref)) (\<lambda>r.
          (case r of
             Inr _ \<Rightarrow> returnW ()
           | Inl pullErr \<Rightarrow> liftW (Inl (ImageNotFound ref (imageHint D low) (Some pullErr) published))))
      else liftW (Inl (ImageNotFound ref (imageHint D low) None published)))"

definition ensureImage :: "env \<Rightarrow> string \<Rightarrow> (image_error, unit) op" where
  "ensureImage E ref =
     (let policy = ToLower (TrimSpace (ImagePullPolicy (cfgOf E))) in
      if policy = ''always'' \<or> policy = ''newer'' then wrapW PullError (pullImage E ref)
      else
        bindW (tryW (ImageInspect E ref)) (\<lambda>r.
          if isOk r then returnW ()
          else if policy = ''never'' then liftW (Inl (ImageNeverPulled ref))
          else if isLocalImage (eDefaults E) (ToLower ref) then pullPublished E ref
          else wrapW PullError (pullImage E ref)))"

definition defaultSandboxImage :: "env \<Rightarrow> string \<Rightarrow> bool \<Rightarrow> trace \<Rightarrow> string \<times> trace" where
  "defaultSandboxImage E displayMode gpu w =
     (let D = eDefaults E in
      if \<not> cliPresent (eDriver E) then (ImageDebian D, w)
      else if EqualFold (TrimSpace displayMode) ''novnc'' then (ImageGUI D, snd (ImageInspect E (ImageGUI D) w))
      else if gpu then (ImageGPU D, snd (ImageInspect E (ImageGPU D) w))
      else (case ImageInspect E (ImageLocal D) w of (r, w') \<Rightarrow>
              (if isOk r then ImageLocal D else ImageDebian D, w')))"

section \<open>Networks\<close>

definition gatewayMode4 :: string where
  "gatewayMode4 = ''com.docker.network.bridge.gateway_mode_ipv4''"

definition gatewayMode6 :: string where
  "gatewayMode6 = ''com.docker.network.bridge.gateway_mode_ipv6''"

definition nativeVerify :: "env \<Rightarrow> string \<Rightarrow> (engine_error, unit) op" where
  "nativeVerify E netName = call ReqCtx (NativeNetworkVerifyReq netName True) (ansUnit (eEngine E))"

definition networkLabels :: "string \<Rightarrow> (string \<times> string) list" where
  "networkLabels sandboxName = [(labelSandbox, ''1''), (labelName, sandboxName)]"

definition reuseNetwork :: "env \<Rightarrow> string \<Rightarrow> bool \<Rightarrow> network_info \<Rightarrow> (network_error, bool) op" where
  "reuseNetwork E netName internal inspected =
     (if internal \<and> \<not> niInternal inspected then liftW (Inl (NetworkNotInternal netName))
      else if internal \<and> \<not> nativeNetworkVerify (eDriver E) \<and>
           (at (niOptions inspected) gatewayMode4 \<noteq> ''isolated'' \<or>
            at (niOptions inspected) gatewayMode6 \<noteq> ''isolated'')
      then liftW (Inl (NetworkNotIsolated netName))
      else if internal \<and> nativeNetworkVerify (eDriver E) then
        bindW (wrapW (NetworkVerifyFailed netName) (nativeVerify E netName)) (\<lambda>_. returnW False)
      else returnW False)"

definition createNativeNetwork :: "env \<Rightarrow> string \<Rightarrow> string \<Rightarrow> bool \<Rightarrow> (network_error, bool) op" where
  "createNativeNetwork E netName sandboxName internal =
     bindW (wrapW (NativeNetworkCreateFailed netName)
       (call ReqCtx (NativeNetworkCreateReq netName internal (networkLabels sandboxName)) (ansUnit (eEngine E)))) (\<lambda>_.
     if internal \<and> nativeNetworkVerify (eDriver E) then
       bindW (tryW (nativeVerify E netName)) (\<lambda>r.
         (case r of
            Inr _ \<Rightarrow> returnW True
          | Inl e \<Rightarrow> bindW (tryW (NetworkRemove E ReqCtx netName)) (\<lambda>_. liftW (Inl (NetworkVerifyFailed netName e)))))
     else returnW True)"

definition bridgeOptions :: "string \<Rightarrow> bool \<Rightarrow> network_options" where
  "bridgeOptions sandboxName internal =
     \<lparr>noDriver = ''bridge'', noInternal = internal,
      noOptions = (if internal then [(gatewayMode4, ''isolated''), (gatewayMode6, ''isolated'')] else []),
      noLabels = networkLabels sandboxName\<rparr>"

definition createBridgeNetwork :: "env \<Rightarrow> string \<Rightarrow> string \<Rightarrow> bool \<Rightarrow> (network_error, bool) op" where
  "createBridgeNetwork E netName sandboxName internal =
     bindW (wrapW (NetworkCreateFailed netName)
       (call ReqCtx (NetworkCreateReq netName (bridgeOptions sandboxName internal)) (ansUnit (eEngine E)))) (\<lambda>_.
     returnW True)"

definition ensureNetwork :: "env \<Rightarrow> string \<Rightarrow> string \<Rightarrow> bool \<Rightarrow> (network_error, bool) op" where
  "ensureNetwork E netName sandboxName internal =
     (if internal \<and> nativeNetworkCreate (eDriver E) \<and> \<not> nativeNetworkVerify (eDriver E)
      then liftW (Inl (NetworkUnverifiable netName))
      else
        bindW (tryW (call ReqCtx (NetworkInspectReq netName) (ansNetworkInspect (eEngine E)))) (\<lambda>r.
          (case r of
             Inr inspected \<Rightarrow> reuseNetwork E netName internal inspected
           | Inl _ \<Rightarrow>
               if nativeNetworkCreate (eDriver E) then createNativeNetwork E netName sandboxName internal
               else createBridgeNetwork E netName sandboxName internal)))"

section \<open>Volumes and the sidecar container\<close>

definition ensureVolume :: "env \<Rightarrow> string \<Rightarrow> (volume_error, bool) op" where
  "ensureVolume E name =
     bindW (tryW (call ReqCtx (VolumeInspectReq name) (ansUnit (eEngine E)))) (\<lambda>r.
       if isOk r then returnW False
       else bindW (wrapW (VolumeCreateFailed name) (call ReqCtx (VolumeCreateReq name) (ansUnit (eEngine E)))) (\<lambda>_.
            returnW True))"

definition removeProxySidecar :: "env \<Rightarrow> ctx \<Rightarrow> string \<Rightarrow> ('e, unit) op" where
  "removeProxySidecar E c name =
     bindW (tryW (ContainerRemove E c (''cauteum-proxy-'' @ name))) (\<lambda>_. returnW ())"

end
