(* ===== verification/Docker_Exec.thy ===== *)
theory Docker_Exec
  imports Docker_Resources
begin

text \<open>
  Commands inside containers: \<^verbatim>\<open>Exec\<close>, \<^verbatim>\<open>rawExec\<close>, \<^verbatim>\<open>resizeExecOnce\<close>, and the polling loops
  \<^verbatim>\<open>waitProxyCA\<close>, \<^verbatim>\<open>waitProxyListening\<close> and the one of \<^verbatim>\<open>EnsureSSHDaemon\<close> of \<^verbatim>\<open>docker.go\<close>.

  The streams of an attached exec are not modelled: they carry no control flow; the goroutine that resizes
  its terminal sends resize requests only (\<open>Docker_Terminal\<close>). A polling loop runs
  until its deadline; the number of rounds that start before the deadline is a function of the
  trace (\<open>pollRounds\<close>), which bounds the recursion. After each failed round the loop looks at the
  caller's context (\<open>ctxDone\<close>).
\<close>

datatype exec_error =
    ExecEmptyArgv
  | ExecInspectContainer engine_error
  | ExecNoConfig
  | ExecCreateFailed engine_error
  | ExecAttachFailed engine_error
  | ExecRawTerminal engine_error
  | ExecInspectFailed engine_error

definition execArgv :: "inspected_config \<Rightarrow> string list \<Rightarrow> string list" where
  "execArgv cfg argv =
     (if at (icLabels cfg) labelInit = ''1'' then [''/cauteum-haven/cauteum-init'', ''--''] @ argv else argv)"

definition execWorkdir :: "core_defaults \<Rightarrow> inspected_config \<Rightarrow> string \<Rightarrow> string" where
  "execWorkdir D cfg workDir =
     (if at (icLabels cfg) labelRole = roleProxy then ''/''
      else if TrimSpace workDir \<noteq> [] then TrimSpace workDir
      else GuestWorkspace D)"

definition consoleSize :: "terminal \<Rightarrow> bool \<Rightarrow> int \<times> int" where
  "consoleSize t tty =
     (let hostTTY = tty \<and> stdinIsTerminal t;
          sizeIsTerminal = stdoutIsTerminal t \<or> stdinIsTerminal t in
      if tty \<and> (hostTTY \<or> sizeIsTerminal) then
        (case termSize t of
           Some (width, height) \<Rightarrow> if 0 < width \<and> 0 < height then (height, width) else (0, 0)
         | None \<Rightarrow> (0, 0))
      else (0, 0))"

definition execOptions :: "env \<Rightarrow> inspected_config \<Rightarrow> ExecRequest \<Rightarrow> exec_options" where
  "execOptions E cfg req =
     \<lparr>eoCmd = execArgv cfg (erArgv req),
      eoEnv = ensureTTYEnv (eOS E) (mergeEnv (icEnv cfg) (erEnv req)),
      eoUser = [], eoWorkingDir = execWorkdir (eDefaults E) cfg (erWorkDir req),
      eoAttachStdout = True, eoAttachStderr = True, eoAttachStdin = erTTY req, eoTTY = erTTY req,
      eoConsoleSize = consoleSize (eTerm E) (erTTY req)\<rparr>"

definition resizeExecOnce :: "env \<Rightarrow> string \<Rightarrow> (exec_error, unit) op" where
  "resizeExecOnce E execID =
     (case termSize (eTerm E) of
        None \<Rightarrow> returnW ()
      | Some (width, height) \<Rightarrow>
          if width \<le> 0 \<or> height \<le> 0 then returnW ()
          else bindW (tryW (call ReqCtx (ExecResizeReq execID (height, width)) (ansUnit (eEngine E)))) (\<lambda>_. returnW ()))"

definition execAttached :: "env \<Rightarrow> string \<Rightarrow> bool \<Rightarrow> (exec_error, unit) op" where
  "execAttached E execID tty =
     (if tty \<and> stdinIsTerminal (eTerm E) then
        bindW (wrapW ExecRawTerminal (liftW (makeRaw (eTerm E)))) (\<lambda>_. resizeExecOnce E execID)
      else returnW ())"

definition Exec :: "env \<Rightarrow> string \<Rightarrow> ExecRequest \<Rightarrow> (exec_error, ExecResult) op" where
  "Exec E cid req =
     (if erArgv req = [] then liftW (Inl ExecEmptyArgv)
      else
        bindW (wrapW ExecInspectContainer (ContainerInspect E cid)) (\<lambda>info.
        (case ciConfig info of
           None \<Rightarrow> liftW (Inl ExecNoConfig)
         | Some cfg \<Rightarrow>
             bindW (wrapW ExecCreateFailed
               (call ReqCtx (ExecCreateReq cid (execOptions E cfg req)) (ansExecCreate (eEngine E)))) (\<lambda>execID.
             bindW (wrapW ExecAttachFailed (call ReqCtx (ExecAttachReq execID) (ansExecAttach (eEngine E)))) (\<lambda>_.
             bindW (execAttached E execID (erTTY req)) (\<lambda>_.
             bindW (wrapW ExecInspectFailed (call ReqCtx (ExecInspectReq execID) (ansExecInspect (eEngine E)))) (\<lambda>code.
             returnW \<lparr>ExitCode = code\<rparr>)))))))"

definition rawExec :: "env \<Rightarrow> string \<Rightarrow> string list \<Rightarrow> (engine_error, int) op" where
  "rawExec E cid argv =
     bindW (call ReqCtx (ExecCreateReq cid
       \<lparr>eoCmd = argv, eoEnv = [], eoUser = ''0'', eoWorkingDir = ''/'', eoAttachStdout = True,
        eoAttachStderr = True, eoAttachStdin = False, eoTTY = False, eoConsoleSize = (0, 0)\<rparr>)
       (ansExecCreate (eEngine E))) (\<lambda>execID.
     bindW (call ReqCtx (ExecAttachReq execID) (ansExecAttach (eEngine E))) (\<lambda>_.
     call ReqCtx (ExecInspectReq execID) (ansExecInspect (eEngine E))))"

section \<open>Polling\<close>

datatype poll_result = Ready | Cancelled engine_error | TimedOut

text \<open>Rounds until the probe succeeds, the context ends or the deadline has passed.\<close>

fun pollLoop :: "env \<Rightarrow> (trace \<Rightarrow> bool \<times> trace) \<Rightarrow> nat \<Rightarrow> trace \<Rightarrow> poll_result \<times> trace" where
  "pollLoop E probe 0 w = (TimedOut, w)"
| "pollLoop E probe (Suc n) w =
     (case probe w of (ok, w') \<Rightarrow>
        if ok then (Ready, w')
        else (case ctxDone (eEngine E) w' of
                Some e \<Rightarrow> (Cancelled e, w')
              | None \<Rightarrow> pollLoop E probe n w'))"

definition probeReq :: "string list \<Rightarrow> ExecRequest" where
  "probeReq argv = \<lparr>erArgv = argv, erTTY = False, erEnv = [], erWorkDir = []\<rparr>"

definition execProbe :: "env \<Rightarrow> string \<Rightarrow> string list \<Rightarrow> trace \<Rightarrow> bool \<times> trace" where
  "execProbe E cid argv w =
     (case Exec E cid (probeReq argv) w of
        (Inr res, w') \<Rightarrow> (ExitCode res = 0, w')
      | (Inl _, w') \<Rightarrow> (False, w'))"

datatype wait_error = WaitContext engine_error | CATimeout | ListenTimeout int

text \<open>A timed-out wait fetches the logs for its message.\<close>

definition pollWait ::
  "env \<Rightarrow> string \<Rightarrow> string list \<Rightarrow> string \<Rightarrow> wait_error \<Rightarrow> (wait_error, unit) op" where
  "pollWait E cid argv tail timeoutErr w =
     (case pollLoop E (execProbe E cid argv) (pollRounds (eEngine E) w) w of
        (Ready, w') \<Rightarrow> (Inr (), w')
      | (Cancelled e, w') \<Rightarrow> (Inl (WaitContext e), w')
      | (TimedOut, w') \<Rightarrow> (Inl timeoutErr, snd (call ReqCtx (ContainerLogsReq cid False tail) (ansLogs (eEngine E)) w')))"

definition waitProxyCA :: "env \<Rightarrow> string \<Rightarrow> (wait_error, unit) op" where
  "waitProxyCA E proxyID = pollWait E proxyID [''test'', ''-s'', ''/cauteum/ca/ca.pem''] ''40'' CATimeout"

definition waitProxyListening :: "env \<Rightarrow> string \<Rightarrow> int \<Rightarrow> (wait_error, unit) op" where
  "waitProxyListening E proxyID port =
     pollWait E proxyID [''bash'', ''-c'', ''exec 3<>/dev/tcp/127.0.0.1/'' @ Itoa port] ''60'' (ListenTimeout port)"

section \<open>The SSH daemon\<close>

datatype ssh_error =
    SSHInspect engine_error
  | SSHDisabled
  | SandboxNotRunning
  | SSHDExecCreate engine_error
  | SSHDExecStart engine_error
  | SSHContext engine_error
  | SSHSocketTimeout string

definition sshdScript :: "env \<Rightarrow> string" where
  "sshdScript E =
     ''exec '' @ GuestSSHD (eDefaults E) @ '' --socket '' @
     shellQuote (sandboxSSHSocketPath (eDefaults E) (cfgOf E)) @ '' >>'' @ GuestSSHLog (eDefaults E) @ '' 2>&1''"

definition socketProbe :: "env \<Rightarrow> string \<Rightarrow> string \<Rightarrow> trace \<Rightarrow> bool \<times> trace" where
  "socketProbe E cid sock w =
     (case rawExec E cid [''test'', ''-S'', sock] w of
        (Inr code, w') \<Rightarrow> (code = 0, w')
      | (Inl _, w') \<Rightarrow> (False, w'))"

definition EnsureSSHDaemon :: "env \<Rightarrow> string \<Rightarrow> (ssh_error, unit) op" where
  "EnsureSSHDaemon E cid =
     bindW (wrapW SSHInspect (ContainerInspect E cid)) (\<lambda>info.
     if (case ciConfig info of None \<Rightarrow> True | Some cfg \<Rightarrow> at (icLabels cfg) labelSSH \<noteq> ''1'') then liftW (Inl SSHDisabled)
     else if (case ciState info of None \<Rightarrow> True | Some st \<Rightarrow> \<not> stRunning st) then liftW (Inl SandboxNotRunning)
     else
       bindW (wrapW SSHDExecCreate (call ReqCtx (ExecCreateReq cid
         \<lparr>eoCmd = [''/bin/sh'', ''-c'', sshdScript E], eoEnv = [], eoUser = ''0'', eoWorkingDir = ''/'',
          eoAttachStdout = False, eoAttachStderr = False, eoAttachStdin = False, eoTTY = False,
          eoConsoleSize = (0, 0)\<rparr>) (ansExecCreate (eEngine E)))) (\<lambda>execID.
       bindW (wrapW SSHDExecStart (call ReqCtx (ExecStartReq execID) (ansUnit (eEngine E)))) (\<lambda>_ w.
       (case pollLoop E (socketProbe E cid (sandboxSSHSocketPath (eDefaults E) (cfgOf E)))
               (pollRounds (eEngine E) w) w of
          (Ready, w') \<Rightarrow> (Inr (), w')
        | (Cancelled e, w') \<Rightarrow> (Inl (SSHContext e), w')
        | (TimedOut, w') \<Rightarrow> (Inl (SSHSocketTimeout (sandboxSSHSocketPath (eDefaults E) (cfgOf E))), w')))))"

end
