(* ===== verification/Docker_Sidecar.thy ===== *)
theory Docker_Sidecar
  imports Docker_Exec
begin

text \<open>
  \<^verbatim>\<open>createProxySidecar\<close> of \<^verbatim>\<open>docker.go\<close>: the egress proxy container beside a sandbox. The definition
  follows the function in stages: the checks on the host, the mounts, the environment, the
  container that is requested, and the start-up that removes the container again when it fails.
\<close>

datatype sidecar_error =
    ProxyPortInvalid engine_error
  | ProxyBinMissing os_error
  | ProxyPolicyRequired
  | ProxyPolicyMissing os_error
  | UpstreamFileUnavailable
  | UpstreamFileNotRegular
  | GuestTLSFileUnavailable
  | GuestTLSFileNotRegular
  | SPIFFESocket socket_error
  | ProxyCreateFailed string engine_error
  | ProxyBridgeConnect engine_error
  | ProxyStartFailed engine_error
  | ProxyNotReady wait_error

record sidecar_args =
  saName :: string
  saNetName :: string
  saImg :: string
  saBinPath :: string
  saPolicyPath :: string
  saPort :: int
  saCAVol :: string
  saSSHVol :: string
  saTCPDialSocket :: string
  saProxyEnv :: "string list"
  saPidsLimit :: int

definition regularFile :: "host_os \<Rightarrow> string \<Rightarrow> 'e \<Rightarrow> 'e \<Rightarrow> 'e + unit" where
  "regularFile os path unavailable notRegular =
     (case OpenFile os path of
        Inl _ \<Rightarrow> Inl unavailable
      | Inr None \<Rightarrow> Inl notRegular
      | Inr (Some info) \<Rightarrow> if fiIsRegular info then Inr () else Inl notRegular)"

fun upstreamBinds :: "host_os \<Rightarrow> (string \<times> string) list \<Rightarrow> sidecar_error + string list" where
  "upstreamBinds os [] = Inr []"
| "upstreamBinds os ((source, target) # rest) =
     (if source = [] then upstreamBinds os rest
      else bindR (regularFile os source UpstreamFileUnavailable UpstreamFileNotRegular) (\<lambda>_.
           bindR (upstreamBinds os rest) (\<lambda>bs. Inr ((source @ '':'' @ target @ '':ro'') # bs))))"

definition upstreamFiles :: "RuntimeConfig \<Rightarrow> (string \<times> string) list" where
  "upstreamFiles cfg =
     [(UpstreamProxyAuthFile cfg, ''/run/cauteum/upstream-proxy/auth''),
      (UpstreamProxyCABundle cfg, ''/run/cauteum/upstream-proxy/ca.pem''),
      (EgressCABundle cfg, ''/run/cauteum/egress-ca/ca.pem'')]"

definition guestTLSBinds :: "host_os \<Rightarrow> RuntimeConfig \<Rightarrow> sidecar_error + string list" where
  "guestTLSBinds os cfg =
     (if GuestTLSCA cfg = [] then Inr []
      else
        bindR (mapR (\<lambda>p. regularFile os p GuestTLSFileUnavailable GuestTLSFileNotRegular)
          [GuestTLSCA cfg, GuestTLSCert cfg, GuestTLSKey cfg]) (\<lambda>_.
        Inr [GuestTLSCA cfg @ '':/run/cauteum/gateway-tls/ca.pem:ro'',
             GuestTLSCert cfg @ '':/run/cauteum/gateway-tls/cert.pem:ro'',
             GuestTLSKey cfg @ '':/run/cauteum/gateway-tls/key.pem:ro'']))"

definition sidecarHostChecks :: "env \<Rightarrow> sidecar_args \<Rightarrow> sidecar_error + 16 word" where
  "sidecarHostChecks E a =
     bindR (wrapE ProxyPortInvalid (eParsePort E (Itoa (saPort a) @ ''/tcp''))) (\<lambda>port.
     bindR (wrapE ProxyBinMissing (Stat (eOS E) (saBinPath a))) (\<lambda>_.
     bindR (failIf (saPolicyPath a = []) ProxyPolicyRequired) (\<lambda>_.
     bindR (wrapE ProxyPolicyMissing (Stat (eOS E) (saPolicyPath a))) (\<lambda>_.
     Inr port))))"

definition sidecarCmd :: "sidecar_args \<Rightarrow> string list" where
  "sidecarCmd a =
     [''proxy'', ''--listen'', ''0.0.0.0:'' @ Itoa (saPort a), ''--policy'', ''/cauteum/policy.yaml''] @
     (if saCAVol a \<noteq> [] then [''--ca-out'', ''/cauteum/ca/ca.pem''] else [])"

text \<open>The environment before the relay settings: lines 1530 to 1548.\<close>

definition sidecarEnvLayers :: "RuntimeConfig \<Rightarrow> string list list" where
  "sidecarEnvLayers cfg =
     [upstreamProxyEnv cfg, egressTrustEnv cfg] @
     (if GuestTLSCA cfg \<noteq> []
      then [[''CAUTEUM_GUEST_TLS_CA=/run/cauteum/gateway-tls/ca.pem'',
             ''CAUTEUM_GUEST_TLS_CERT=/run/cauteum/gateway-tls/cert.pem'',
             ''CAUTEUM_GUEST_TLS_KEY=/run/cauteum/gateway-tls/key.pem'']] else []) @
     (if ProviderSPIFFEWorkloadAPISocket cfg \<noteq> []
      then [[''CAUTEUM_PROVIDER_SPIFFE_WORKLOAD_API_SOCKET='' @ ProviderSPIFFEWorkloadAPISocket cfg]] else []) @
     (if GatewayGRPCEndpoint cfg \<noteq> []
      then [[''CAUTEUM_GATEWAY_GRPC_ENDPOINT='' @ GatewayGRPCEndpoint cfg]] else []) @
     (if 0 < GatewayGRPCPort cfg
      then [[''CAUTEUM_GATEWAY_GRPC_PORT='' @ Itoa (GatewayGRPCPort cfg)]] else [])"

definition sidecarEnv :: "RuntimeConfig \<Rightarrow> string list \<Rightarrow> string list" where
  "sidecarEnv cfg proxyEnv = foldl mergeEnv proxyEnv (sidecarEnvLayers cfg)"

definition relayEnv :: "env \<Rightarrow> sidecar_args \<Rightarrow> string list \<Rightarrow> string list" where
  "relayEnv E a env0 =
     (if saSSHVol a = [] then env0
      else
        (let cfg = cfgOf E; sshSocket = sandboxSSHSocketPath (eDefaults E) cfg; sshDir = Dir sshSocket;
             env1 = mergeEnv env0 [''CAUTEUM_SSH_SOCKET='' @ sshSocket, ''CAUTEUM_SANDBOX='' @ saName a];
             env2 = (if TrimSpace (GatewayGRPCEndpoint cfg) \<noteq> []
                     then mergeEnv env1 [''CAUTEUM_SUPERVISOR_CONTROL_SOCKET='' @ Join [sshDir, SupervisorControlSocketName]]
                     else env1) in
         if saTCPDialSocket a \<noteq> [] then mergeEnv env2 [''CAUTEUM_TCP_DIAL_SOCKET='' @ saTCPDialSocket a] else env2))"

definition sidecarBinds :: "env \<Rightarrow> sidecar_args \<Rightarrow> string list \<Rightarrow> string list \<Rightarrow> string \<Rightarrow> string list" where
  "sidecarBinds E a upstream tls spiffe =
     [saBinPath a @ '':/cauteum/cauteum:ro'', saPolicyPath a @ '':/cauteum/policy.yaml:ro''] @ upstream @ tls @
     (if saCAVol a \<noteq> [] then [saCAVol a @ '':/cauteum/ca:rw''] else []) @
     (if spiffe \<noteq> [] then [spiffe @ '':'' @ spiffe] else []) @
     (if saSSHVol a \<noteq> []
      then [saSSHVol a @ '':'' @ Dir (sandboxSSHSocketPath (eDefaults E) (cfgOf E)) @ '':rw''] else [])"

definition absOr :: "host_os \<Rightarrow> string \<Rightarrow> string" where
  "absOr os p = (case Abs os p of Inr a \<Rightarrow> a | Inl _ \<Rightarrow> p)"

definition sidecarOptions ::
  "env \<Rightarrow> sidecar_args \<Rightarrow> 16 word \<Rightarrow> string list \<Rightarrow> string list \<Rightarrow> create_options" where
  "sidecarOptions E a port binds envs =
     \<lparr>coConfig =
        \<lparr>ccImage = saImg a, ccCmd = sidecarCmd a, ccEntrypoint = [''/cauteum/cauteum''], ccEnv = envs,
         ccLabels = [labelSandbox \<mapsto> ''1'', labelName \<mapsto> saName a, labelNetwork \<mapsto> saNetName a,
                     labelRole \<mapsto> roleProxy, labelPolicy \<mapsto> absOr (eOS E) (saPolicyPath a)],
         ccWorkingDir = [], ccUser = [], ccHealthcheck = None, ccExposedPorts = [port]\<rparr>,
      coHost =
        \<lparr>hcBinds = binds, hcMounts = [], hcNetworkMode = saNetName a, hcSecurityOpt = [], hcCapDrop = [],
         hcExtraHosts = hostGatewayExtraHosts (eDefaults E) (cfgOf E), hcLogConfig = sandboxLogConfig (eOS E),
         hcPidsLimit = resolvePidsLimit (eDefaults E) (eOS E) (configuredPidsLimit (cfgOf E) (saPidsLimit a)),
         hcNanoCPUs = 0, hcMemory = 0, hcUsernsMode = [], hcDeviceRequests = [], hcPortBindings = [],
         hcShmSize = 0\<rparr>,
      coNetwork = [(saNetName a, [''cauteum-proxy'', ''cauteum-proxy-'' @ saName a])],
      coName = ''cauteum-proxy-'' @ saName a\<rparr>"

text \<open>Everything that happens before the container is requested.\<close>

definition sidecarPlan :: "env \<Rightarrow> sidecar_args \<Rightarrow> sidecar_error + create_options" where
  "sidecarPlan E a =
     bindR (sidecarHostChecks E a) (\<lambda>port.
     bindR (upstreamBinds (eOS E) (upstreamFiles (cfgOf E))) (\<lambda>upstream.
     bindR (guestTLSBinds (eOS E) (cfgOf E)) (\<lambda>tls.
     bindR (wrapE SPIFFESocket (providerWorkloadSocket (eOS E) (sidecarEnv (cfgOf E) (saProxyEnv a)))) (\<lambda>spiffe.
     Inr (sidecarOptions E a port (sidecarBinds E a upstream tls spiffe)
           (relayEnv E a (sidecarEnv (cfgOf E) (saProxyEnv a))))))))"

text \<open>A start-up step that removes the container when it fails.\<close>

definition orRemove :: "env \<Rightarrow> string \<Rightarrow> (sidecar_error, unit) op \<Rightarrow> (sidecar_error, unit) op" where
  "orRemove E cid m =
     bindW (tryW m) (\<lambda>r.
       (case r of
          Inr _ \<Rightarrow> returnW ()
        | Inl e \<Rightarrow> bindW (tryW (ContainerRemove E ReqCtx cid)) (\<lambda>_. liftW (Inl e))))"

definition sidecarStart :: "env \<Rightarrow> sidecar_args \<Rightarrow> string \<Rightarrow> (sidecar_error, unit) op" where
  "sidecarStart E a cid =
     bindW (orRemove E cid (wrapW ProxyBridgeConnect
       (call ReqCtx (NetworkConnectReq ''bridge'' cid) (ansUnit (eEngine E))))) (\<lambda>_.
     bindW (orRemove E cid (wrapW ProxyStartFailed
       (call ReqCtx (ContainerStartReq cid) (ansUnit (eEngine E))))) (\<lambda>_.
     bindW (if saCAVol a \<noteq> [] then orRemove E cid (wrapW ProxyNotReady (waitProxyCA E cid)) else returnW ()) (\<lambda>_.
     orRemove E cid (wrapW ProxyNotReady (waitProxyListening E cid (saPort a))))))"

definition createProxySidecar :: "env \<Rightarrow> sidecar_args \<Rightarrow> (sidecar_error, unit) op" where
  "createProxySidecar E a =
     bindW (liftW (sidecarPlan E a)) (\<lambda>opts.
     bindW (wrapW (ProxyCreateFailed (coName opts))
       (call ReqCtx (ContainerCreateReq opts) (ansContainerCreate (eEngine E)))) (\<lambda>cid.
     sidecarStart E a cid))"

end
