(* ===== verification/Docker_Create.thy ===== *)
theory Docker_Create
  imports Docker_Sidecar
begin

text \<open>
  \<^verbatim>\<open>Create\<close> of \<^verbatim>\<open>docker.go\<close>, the central operation of the driver: it validates a specification,
  provides image, network, volumes and the proxy sidecar, and requests the sandbox container. The
  definitions follow the function in the order of its text; each stage is a definition with its
  own line range.

  The variables the deferred cleanup reads (\<open>networkCreated\<close>, \<open>proxyCreated\<close>, \<open>createdVolumes\<close>) form
  the record \<open>ledger\<close>; a stage that changes them is an operation on the trace and the ledger.
\<close>

datatype create_error =
    ClientNotInitialized
  | GPUError gpu_error
  | DriverConfigError dconfig_error
  | NameRequired
  | InspectExisting string engine_error
  | AlreadyManaged string
  | PortsTooLarge
  | PublishedPortsRange
  | WorkspaceError workspace_error
  | SupervisorNeedsInitAndPolicy
  | SupervisorBinaryUnavailable
  | SSHNeedsProxy
  | SSHBinRequired
  | SSHBinMissing os_error
  | ImageError image_error
  | InspectImage string engine_error
  | NoImageID string
  | NetworkError network_error
  | VolumeError volume_error
  | SidecarError sidecar_error
  | InitBinMissing os_error
  | DisplayNeedsGUI string
  | CreateFailed string engine_error bool

section \<open>Validation: lines 168 to 206\<close>

definition filterLabels :: "string \<Rightarrow> string list" where
  "filterLabels name = [labelSandbox @ ''=1'', labelName @ ''='' @ name]"

definition portOK :: "PortPublish \<Rightarrow> bool" where
  "portOK p \<longleftrightarrow> \<not> (ppGuest p < 1 \<or> 65535 < ppGuest p \<or> ppHost p < 1 \<or> 65535 < ppHost p)"

definition createParse :: "env \<Rightarrow> Spec \<Rightarrow> create_error + Spec \<times> sandbox_config" where
  "createParse E spec =
     bindR (failIf (\<not> cliPresent (eDriver E)) ClientNotInitialized) (\<lambda>_.
     bindR (wrapE GPUError (ValidateGPURequest (eOS E) spec)) (\<lambda>_.
     bindR (wrapE DriverConfigError
       (parseDockerSandboxDriverConfig (eDefaults E) (eOS E) (spDriverConfigJSON spec) (enableBindMounts (eDriver E)))) (\<lambda>sc.
     Inr (case scDevices sc of None \<Rightarrow> spec | Some ds \<Rightarrow> spec\<lparr>spCDIDevices := ds\<rparr>, sc))))"

definition createValidate :: "env \<Rightarrow> Spec \<Rightarrow> (create_error, Spec \<times> sandbox_config \<times> string) op" where
  "createValidate E spec0 =
     bindW (liftW (createParse E spec0)) (\<lambda>p.
     let spec = fst p; name = sanitizeName (spName spec) in
     bindW (liftW (failIf (name = []) NameRequired)) (\<lambda>_.
     bindW (wrapW (InspectExisting name) (ContainerList E (filterLabels name))) (\<lambda>existing.
     bindW (liftW (failIf (0 < length existing) (AlreadyManaged name))) (\<lambda>_.
     bindW (liftW (failIf (65535 < spProxyPort spec \<or> 65535 < spDisplayPort spec) PortsTooLarge)) (\<lambda>_.
     bindW (liftW (failIf (\<not> list_all portOK (spPublishPorts spec)) PublishedPortsRange)) (\<lambda>_.
     returnW (spec, snd p, name)))))))"

section \<open>Names and requirements: lines 207 to 253\<close>

record plan =
  pSpec :: Spec
  pConfig :: sandbox_config
  pName :: string
  pImg :: string
  pWs :: string
  pNetName :: string
  pCtrName :: string
  pWithProxy :: bool
  pWithSupervisor :: bool
  pSSHVol :: string
  pTCPDialSocket :: string

definition chooseImage :: "env \<Rightarrow> Spec \<Rightarrow> (create_error, string) op" where
  "chooseImage E spec w =
     (if TrimSpace (spImage spec) \<noteq> [] then (Inr (TrimSpace (spImage spec)), w)
      else if TrimSpace (DefaultImage (cfgOf E)) \<noteq> [] then (Inr (TrimSpace (DefaultImage (cfgOf E))), w)
      else (case defaultSandboxImage E (spDisplayMode spec) (spGPU spec) w of (img, w') \<Rightarrow> (Inr img, w')))"

definition supervisorBinaryExecutable :: "file_info \<Rightarrow> bool" where
  "supervisorBinaryExecutable info \<longleftrightarrow> fiIsRegular info \<and> and (fiPerm info) 73 \<noteq> 0"

definition checkSupervisor :: "env \<Rightarrow> Spec \<Rightarrow> create_error + unit" where
  "checkSupervisor E spec =
     (if TrimSpace (spSupervisorBin spec) = [] then Inr ()
      else if TrimSpace (spInitBin spec) = [] \<or> spPolicyPath spec = [] then Inl SupervisorNeedsInitAndPolicy
      else (case Stat (eOS E) (spSupervisorBin spec) of
              Inl _ \<Rightarrow> Inl SupervisorBinaryUnavailable
            | Inr info \<Rightarrow> if supervisorBinaryExecutable info then Inr () else Inl SupervisorBinaryUnavailable))"

text \<open>The SSH volume and the socket for TCP dialling.\<close>

definition planSSH :: "env \<Rightarrow> Spec \<Rightarrow> string \<Rightarrow> create_error + string \<times> string" where
  "planSSH E spec name =
     (if \<not> spEnableSSH spec then Inr ([], [])
      else if TrimSpace (spProxyBin spec) = [] then Inl SSHNeedsProxy
      else if TrimSpace (spSSHBin spec) = [] then Inl SSHBinRequired
      else bindR (wrapE SSHBinMissing (Stat (eOS E) (spSSHBin spec))) (\<lambda>_.
           Inr (''cauteum-ssh-'' @ name,
                if TrimSpace (spSupervisorBin spec) \<noteq> []
                then Join [Dir (sandboxSSHSocketPath (eDefaults E) (cfgOf E)), ''tcp-forward.sock''] else [])))"

definition netPrefix :: "env \<Rightarrow> string" where
  "netPrefix E = (if TrimSpace (NetworkName (cfgOf E)) = [] then ''cauteum-net'' else TrimSpace (NetworkName (cfgOf E)))"

definition createPlan :: "env \<Rightarrow> Spec \<times> sandbox_config \<times> string \<Rightarrow> (create_error, plan) op" where
  "createPlan E v =
     (let spec = fst v; sc = fst (snd v); name = snd (snd v) in
      bindW (chooseImage E spec) (\<lambda>img.
      bindW (liftW (wrapE WorkspaceError (ResolveWorkspace (eOS E) (spWorkspace spec) (spIKnow spec)))) (\<lambda>ws.
      bindW (liftW (checkSupervisor E spec)) (\<lambda>_.
      bindW (liftW (planSSH E spec name)) (\<lambda>ssh.
      returnW
        \<lparr>pSpec = spec, pConfig = sc, pName = name, pImg = img, pWs = ws,
         pNetName = netPrefix E @ ''-'' @ name, pCtrName = ''cauteum-'' @ name,
         pWithProxy = (TrimSpace (spProxyBin spec) \<noteq> []),
         pWithSupervisor = (TrimSpace (spSupervisorBin spec) \<noteq> []),
         pSSHVol = fst ssh, pTCPDialSocket = snd ssh\<rparr>)))))"

section \<open>Images: lines 255 to 273\<close>

definition createImages :: "env \<Rightarrow> plan \<Rightarrow> (create_error, image_info \<times> string) op" where
  "createImages E p =
     bindW (wrapW ImageError (ensureImage E (pImg p))) (\<lambda>_.
     bindW (wrapW (InspectImage (pImg p)) (ImageInspect E (pImg p))) (\<lambda>info.
     bindW (liftW (failIf (TrimSpace (iiID info) = []) (NoImageID (pImg p)))) (\<lambda>_.
     if \<not> pWithProxy p then returnW (info, [])
     else
       (let proxyImg = resolveProxyImage (eDefaults E) (eOS E) (spProxyImage (pSpec p)) in
        if proxyImg = pImg p then returnW (info, proxyImg)
        else bindW (wrapW ImageError (ensureImage E proxyImg)) (\<lambda>_. returnW (info, proxyImg))))))"

section \<open>The ledger and its cleanup: lines 278 to 296\<close>

record ledger =
  networkCreated :: bool
  proxyCreated :: bool
  createdVolumes :: "string list"

type_synonym 'a lop = "ledger \<Rightarrow> trace \<Rightarrow> ((create_error + 'a) \<times> ledger) \<times> trace"

definition bindL :: "'a lop \<Rightarrow> ('a \<Rightarrow> 'b lop) \<Rightarrow> 'b lop" where
  "bindL m f l w =
     (case m l w of ((r, l'), w') \<Rightarrow> (case r of Inl e \<Rightarrow> ((Inl e, l'), w') | Inr x \<Rightarrow> f x l' w'))"

definition returnL :: "'a \<Rightarrow> 'a lop" where
  "returnL x l w = ((Inr x, l), w)"

definition liftL :: "(create_error, 'a) op \<Rightarrow> 'a lop" where
  "liftL m l w = (case m w of (r, w') \<Rightarrow> ((r, l), w'))"

definition updL :: "(ledger \<Rightarrow> ledger) \<Rightarrow> unit lop" where
  "updL f l w = ((Inr (), f l), w)"

fun removeVolumes :: "env \<Rightarrow> string list \<Rightarrow> trace \<Rightarrow> trace" where
  "removeVolumes E [] w = w"
| "removeVolumes E (v # vs) w = removeVolumes E vs (snd (VolumeRemove E CleanupCtx v w))"

definition cleanup :: "env \<Rightarrow> plan \<Rightarrow> ledger \<Rightarrow> trace \<Rightarrow> trace" where
  "cleanup E p l w =
     (let w1 = (if proxyCreated l then snd (removeProxySidecar E CleanupCtx (pName p) w :: (unit + unit) \<times> trace) else w);
          w2 = removeVolumes E (createdVolumes l) w1 in
      if networkCreated l then snd (NetworkRemove E CleanupCtx (pNetName p) w2) else w2)"

section \<open>The proxy: lines 300 to 335\<close>

definition ensureTracked :: "env \<Rightarrow> string \<Rightarrow> unit lop" where
  "ensureTracked E vol =
     bindL (liftL (wrapW VolumeError (ensureVolume E vol))) (\<lambda>created.
     if created then updL (\<lambda>l. l\<lparr>createdVolumes := createdVolumes l @ [vol]\<rparr>) else returnL ())"

definition proxyPortOf :: "env \<Rightarrow> Spec \<Rightarrow> int" where
  "proxyPortOf E spec = (if spProxyPort spec \<le> 0 then ProxyPort (eDefaults E) else spProxyPort spec)"

definition caVolOf :: "plan \<Rightarrow> string" where
  "caVolOf p = (if pWithProxy p then ''cauteum-ca-'' @ pName p else [])"

definition identityEnv :: "Spec \<Rightarrow> image_info \<Rightarrow> string list" where
  "identityEnv spec info =
     mergeEnv (filterIdentityEnv (spEnv spec))
       [''OPENSHELL_OCI_IMAGE_USER='' @ (case iiUser info of None \<Rightarrow> [] | Some u \<Rightarrow> u)]"

definition sidecarArgs :: "env \<Rightarrow> plan \<Rightarrow> string \<Rightarrow> sidecar_args" where
  "sidecarArgs E p proxyImg =
     \<lparr>saName = pName p, saNetName = pNetName p, saImg = proxyImg, saBinPath = spProxyBin (pSpec p),
      saPolicyPath = spPolicyPath (pSpec p), saPort = proxyPortOf E (pSpec p), saCAVol = caVolOf p,
      saSSHVol = pSSHVol p, saTCPDialSocket = pTCPDialSocket p, saProxyEnv = spProxyEnv (pSpec p),
      saPidsLimit = spPidsLimit (pSpec p)\<rparr>"

definition provisionProxy :: "env \<Rightarrow> plan \<Rightarrow> image_info \<Rightarrow> string \<Rightarrow> string list lop" where
  "provisionProxy E p info proxyImg =
     (let env0 = identityEnv (pSpec p) info in
      if \<not> pWithProxy p then returnL env0
      else
        bindL (ensureTracked E (caVolOf p)) (\<lambda>_.
        bindL (if pSSHVol p \<noteq> [] then ensureTracked E (pSSHVol p) else returnL ()) (\<lambda>_.
        bindL (liftL (wrapW SidecarError (createProxySidecar E (sidecarArgs E p proxyImg)))) (\<lambda>_.
        bindL (updL (\<lambda>l. l\<lparr>proxyCreated := True\<rparr>)) (\<lambda>_.
        returnL (mergeEnv (mergeEnv env0
            (ProxyEnv (eDefaults E) (''cauteum-proxy-'' @ pName p) (proxyPortOf E (pSpec p))))
            (CABundleEnv (eDefaults E) (GuestCAFile (eDefaults E)))))))))"

section \<open>Mounts, labels and environment: lines 337 to 436\<close>

record build =
  bEnv :: "string list"
  bBinds :: "string list"
  bLabels :: "string \<Rightarrow> string option"

definition addEnv :: "string list \<Rightarrow> build \<Rightarrow> build" where
  "addEnv extra b = b\<lparr>bEnv := mergeEnv (bEnv b) extra\<rparr>"

definition addBinds :: "string list \<Rightarrow> build \<Rightarrow> build" where
  "addBinds bs b = b\<lparr>bBinds := bBinds b @ bs\<rparr>"

definition setLabel :: "string \<Rightarrow> string \<Rightarrow> build \<Rightarrow> build" where
  "setLabel k v b = b\<lparr>bLabels := (bLabels b)(k \<mapsto> v)\<rparr>"

fun userLabels :: "(string \<times> string) list \<Rightarrow> build \<Rightarrow> build" where
  "userLabels [] b = b"
| "userLabels ((k, v) # ls) b = userLabels ls (if TrimSpace k = [] then b else setLabel (TrimSpace k) v b)"

definition buildBase :: "env \<Rightarrow> plan \<Rightarrow> string list \<Rightarrow> build" where
  "buildBase E p env0 =
     (let b0 = \<lparr>bEnv = env0,
                bBinds = [pWs p @ '':'' @ GuestWorkspace (eDefaults E) @ '':rw''] @ scBinds (pConfig p),
                bLabels = [labelSandbox \<mapsto> ''1'', labelName \<mapsto> pName p, labelNetwork \<mapsto> pNetName p,
                           labelRole \<mapsto> roleSandbox]\<rparr>;
          b1 = (if caVolOf p \<noteq> []
                then setLabel labelCAVol (caVolOf p) (addBinds [caVolOf p @ '':'' @ GuestCADir (eDefaults E) @ '':ro''] b0)
                else b0);
          b2 = userLabels (spLabels (pSpec p)) b1 in
      if TrimSpace (SandboxNamespace (cfgOf E)) \<noteq> []
      then setLabel ''openshell.ai/sandbox-namespace'' (TrimSpace (SandboxNamespace (cfgOf E))) b2 else b2)"

definition dataVolOf :: "plan \<Rightarrow> string" where
  "dataVolOf p = ''cauteum-data-'' @ pName p"

definition persistBuild :: "env \<Rightarrow> plan \<Rightarrow> build \<Rightarrow> build" where
  "persistBuild E p b =
     (let D = eDefaults E;
          b1 = addEnv [''CAUTEUM_DATA='' @ GuestData D, ''HOME='' @ GuestHome D, ''PATH='' @ GuestPath D]
                 (setLabel labelVolume (dataVolOf p) (addBinds [dataVolOf p @ '':'' @ GuestData D @ '':rw''] b)) in
      if ReconcileDataOwnership (cfgOf E) then addEnv [''CAUTEUM_RECONCILE_DATA_OWNERSHIP=1''] b1 else b1)"

definition addPersist :: "env \<Rightarrow> plan \<Rightarrow> build \<Rightarrow> (create_error, build) op" where
  "addPersist E p b =
     (if spPersistVolume (pSpec p) then
        bindW (wrapW VolumeError (ensureVolume E (dataVolOf p))) (\<lambda>_. returnW (persistBuild E p b))
      else returnW b)"

definition hardened :: "Spec \<Rightarrow> bool" where
  "hardened spec \<longleftrightarrow> \<not> spNoHarden spec \<and> TrimSpace (spInitBin spec) \<noteq> []"

definition addInit :: "env \<Rightarrow> Spec \<Rightarrow> build \<Rightarrow> create_error + build" where
  "addInit E spec b =
     (if hardened spec then
        bindR (wrapE InitBinMissing (Stat (eOS E) (spInitBin spec))) (\<lambda>_.
        let b1 = addBinds [spInitBin spec @ '':/cauteum-haven/cauteum-init:ro''] b;
            b2 = (if spPolicyPath spec \<noteq> []
                  then setLabel labelPolicy (absOr (eOS E) (spPolicyPath spec))
                         (addEnv [''CAUTEUM_POLICY=/cauteum/policy.yaml'']
                           (addBinds [spPolicyPath spec @ '':/cauteum/policy.yaml:ro''] b1))
                  else b1) in
        Inr (setLabel labelInit ''1'' b2))
      else Inr b)"

definition addSupervisor :: "plan \<Rightarrow> build \<Rightarrow> build" where
  "addSupervisor p b =
     (if pWithSupervisor p
      then setLabel ''cauteum.supervisor'' ''go''
             (addBinds [spSupervisorBin (pSpec p) @ '':/cauteum-haven/cauteum-supervisor:ro''] b)
      else b)"

definition addSSH :: "env \<Rightarrow> plan \<Rightarrow> build \<Rightarrow> build" where
  "addSSH E p b =
     (if pSSHVol p = [] then b
      else
        (let D = eDefaults E; dir = Dir (sandboxSSHSocketPath D (cfgOf E));
             b1 = setLabel labelSSHVol (pSSHVol p) (setLabel labelSSH ''1''
                    (addBinds [spSSHBin (pSpec p) @ '':'' @ GuestSSHD D @ '':ro'', pSSHVol p @ '':'' @ dir @ '':rw''] b));
             b2 = (if pTCPDialSocket p \<noteq> []
                   then addEnv [''CAUTEUM_RELAY_TARGET_SOCKET='' @ pTCPDialSocket p] b1 else b1) in
         if pWithSupervisor p \<and> TrimSpace (GatewayGRPCEndpoint (cfgOf E)) \<noteq> []
         then addEnv [''CAUTEUM_SUPERVISOR_CONTROL_SOCKET='' @ Join [dir, SupervisorControlSocketName]] b2 else b2))"

definition withDisplay :: "Spec \<Rightarrow> bool" where
  "withDisplay spec \<longleftrightarrow> ToLower (TrimSpace (spDisplayMode spec)) = ''novnc''"

definition displayHostPort :: "env \<Rightarrow> Spec \<Rightarrow> int" where
  "displayHostPort E spec = (if spDisplayPort spec \<le> 0 then NoVNCPort (eDefaults E) else spDisplayPort spec)"

definition addDisplay :: "env \<Rightarrow> plan \<Rightarrow> build \<Rightarrow> create_error + build" where
  "addDisplay E p b =
     (if \<not> withDisplay (pSpec p) then Inr b
      else if \<not> imageHasGUI (eDefaults E) (pImg p) then Inl (DisplayNeedsGUI (pImg p))
      else
        (let pass = (if TrimSpace (spDisplayPassword (pSpec p)) = [] then ''cauteum''
                     else TrimSpace (spDisplayPassword (pSpec p))) in
         Inr (setLabel ''cauteum.display.port'' (Itoa (displayHostPort E (pSpec p)))
               (setLabel ''cauteum.display'' ''novnc''
                 (addEnv [''DISPLAY_MODE=novnc'', ''DISPLAY=:99'', ''CAUTEUM_VNC_PASSWORD='' @ pass,
                          ''CAUTEUM_NOVNC_PORT='' @ Itoa (NoVNCPort (eDefaults E))] b)))))"

section \<open>Command and entrypoint: lines 438 to 486\<close>

definition guiBoot :: string where
  "guiBoot = ''/usr/local/bin/cauteum-gui-boot''"

definition baseCmd :: "core_defaults \<Rightarrow> Spec \<Rightarrow> string \<Rightarrow> string list" where
  "baseCmd D spec img =
     (if spCommand spec \<noteq> [] then spCommand spec
      else if withDisplay spec \<and> usesEmbeddedInit D img then [''--'', guiBoot]
      else if usesEmbeddedInit D img then [''--'', ''sleep'', ''infinity'']
      else if withDisplay spec then [guiBoot]
      else [''sleep'', ''infinity''])"

definition workloadCmd :: "string list \<Rightarrow> string list" where
  "workloadCmd cmd = (case cmd of c # cs \<Rightarrow> if c = ''--'' then cs else cmd | [] \<Rightarrow> [])"

record entry =
  enEntrypoint :: "string list"
  enCmd :: "string list"
  enUser :: string

definition entryPoint :: "core_defaults \<Rightarrow> Spec \<Rightarrow> string \<Rightarrow> entry" where
  "entryPoint D spec img =
     (let cmd = baseCmd D spec img;
          user0 = (if \<not> spNoHarden spec \<and> (TrimSpace (spInitBin spec) \<noteq> [] \<or> usesEmbeddedInit D img) then ''0'' else []);
          cmd1 = (if hardened spec \<and> spCommand spec = [] \<and> \<not> usesEmbeddedInit D img
                  then (if withDisplay spec then [''--'', guiBoot] else ''--'' # cmd) else cmd) in
      if TrimSpace (spSupervisorBin spec) \<noteq> [] then
        \<lparr>enEntrypoint = [''/cauteum-haven/cauteum-supervisor''],
         enCmd = [''--'', ''/cauteum-haven/cauteum-init'', ''--policy'', ''/cauteum/policy.yaml'', ''--''] @ workloadCmd cmd,
         enUser = ''0''\<rparr>
      else
        \<lparr>enEntrypoint = (if hardened spec then [''/cauteum-haven/cauteum-init''] else []),
         enCmd = cmd1, enUser = user0\<rparr>)"

section \<open>Container options: lines 455 to 571\<close>

definition wrap64 :: "int \<Rightarrow> int" where
  "wrap64 i = sint (of_int i :: 64 word)"

definition healthcheckOf :: "env \<Rightarrow> HealthConfig option" where
  "healthcheckOf E =
     (let interval = HealthCheckIntervalSecs (cfgOf E); socket = sandboxSSHSocketPath (eDefaults E) (cfgOf E) in
      if 0 < interval then
        Some \<lparr>hcTest = [''CMD-SHELL'',
                ''test -e /var/run/openshell-ssh-ready || test -S '' @ shellQuote socket @ '' || ss -tlnp | grep -q :22''],
              hcInterval = wrap64 (interval * 1000000000), hcTimeout = 2000000000, hcRetries = 10,
              hcStartPeriod = 5000000000\<rparr>
      else None)"

definition loopback :: string where
  "loopback = ''127.0.0.1''"

definition publish :: "int \<Rightarrow> int \<Rightarrow> (16 word \<times> PortBinding list) list \<Rightarrow> (16 word \<times> PortBinding list) list" where
  "publish guest host pm =
     AList.update (of_int guest) [\<lparr>pbHostIP = loopback, pbHostPort = Itoa host\<rparr>] pm"

text \<open>All published ports in the order in which they are entered.\<close>

definition publishedPorts :: "env \<Rightarrow> Spec \<Rightarrow> (int \<times> int) list" where
  "publishedPorts E spec =
     (if withDisplay spec then [(NoVNCPort (eDefaults E), displayHostPort E spec)] else []) @
     map (\<lambda>p. (ppGuest p, ppHost p)) (spPublishPorts spec)"

definition portBindings :: "env \<Rightarrow> Spec \<Rightarrow> (16 word \<times> PortBinding list) list" where
  "portBindings E spec = foldl (\<lambda>pm gh. publish (fst gh) (snd gh) pm) [] (publishedPorts E spec)"

definition exposedPorts :: "env \<Rightarrow> Spec \<Rightarrow> 16 word list" where
  "exposedPorts E spec = foldl addKey [] (map (\<lambda>gh. of_int (fst gh)) (publishedPorts E spec))"

definition cpuLimit :: "RuntimeConfig \<Rightarrow> Spec \<Rightarrow> int" where
  "cpuLimit cfg spec =
     (let cpu = (if fZero (spCPU spec) then DefaultCPU cfg else spCPU spec);
          n1 = (if fPositive cpu then nanoCPUs cpu else 0) in
      if fPositive (spCPU spec) then nanoCPUs (spCPU spec) else n1)"

definition memoryLimit :: "RuntimeConfig \<Rightarrow> Spec \<Rightarrow> int" where
  "memoryLimit cfg spec =
     (let memory = (if spMemoryBytes spec = 0 then DefaultMemoryBytes cfg else spMemoryBytes spec);
          m1 = (if 0 < memory then memory else 0) in
      if 0 < spMemoryBytes spec then spMemoryBytes spec else m1)"

definition gpuLabels :: "DeviceRequest list \<Rightarrow> build \<Rightarrow> build" where
  "gpuLabels reqs b = (if reqs \<noteq> [] then setLabel labelGPU ''1'' b else b)"

definition containerConfig :: "env \<Rightarrow> plan \<Rightarrow> image_info \<Rightarrow> build \<Rightarrow> container_config" where
  "containerConfig E p info b =
     (let e = entryPoint (eDefaults E) (pSpec p) (pImg p) in
      \<lparr>ccImage = iiID info, ccCmd = enCmd e, ccEntrypoint = enEntrypoint e, ccEnv = bEnv b,
       ccLabels = bLabels (gpuLabels (DeviceRequestsForGPU (eOS E) (pSpec p)) b),
       ccWorkingDir = GuestWorkspace (eDefaults E), ccUser = enUser e, ccHealthcheck = healthcheckOf E,
       ccExposedPorts = exposedPorts E (pSpec p)\<rparr>)"

definition hostConfig :: "env \<Rightarrow> plan \<Rightarrow> build \<Rightarrow> host_config" where
  "hostConfig E p b =
     \<lparr>hcBinds = bBinds b, hcMounts = scMounts (pConfig p), hcNetworkMode = pNetName p,
      hcSecurityOpt = [''no-new-privileges:true''], hcCapDrop = [''NET_RAW''],
      hcExtraHosts = spExtraHosts (pSpec p), hcLogConfig = sandboxLogConfig (eOS E),
      hcPidsLimit = resolvePidsLimit (eDefaults E) (eOS E) (configuredPidsLimit (cfgOf E) (spPidsLimit (pSpec p))),
      hcNanoCPUs = cpuLimit (cfgOf E) (pSpec p), hcMemory = memoryLimit (cfgOf E) (pSpec p),
      hcUsernsMode = UsernsMode (cfgOf E), hcDeviceRequests = DeviceRequestsForGPU (eOS E) (pSpec p),
      hcPortBindings = portBindings E (pSpec p), hcShmSize = (if withDisplay (pSpec p) then 1073741824 else 0)\<rparr>"

definition createOptions :: "env \<Rightarrow> plan \<Rightarrow> image_info \<Rightarrow> build \<Rightarrow> create_options" where
  "createOptions E p info b =
     \<lparr>coConfig = containerConfig E p info b, coHost = hostConfig E p b,
      coNetwork = [(pNetName p, [])], coName = pCtrName p\<rparr>"

section \<open>The request: lines 566 to 591, and Create\<close>

definition requestContainer :: "env \<Rightarrow> plan \<Rightarrow> create_options \<Rightarrow> (create_error, Handle) op" where
  "requestContainer E p opts =
     bindW (wrapW (\<lambda>e. CreateFailed (pCtrName p) e (hcDeviceRequests (coHost opts) \<noteq> []))
       (if nativeContainerCreate (eDriver E)
        then call ReqCtx (NativeContainerCreateReq opts) (ansContainerCreate (eEngine E))
        else call ReqCtx (ContainerCreateReq opts) (ansContainerCreate (eEngine E)))) (\<lambda>cid.
     returnW \<lparr>hID = cid, hName = pName p, hNetwork = pNetName p, hImage = pImg p\<rparr>)"

definition finishCreate :: "env \<Rightarrow> plan \<Rightarrow> image_info \<Rightarrow> string list \<Rightarrow> (create_error, Handle) op" where
  "finishCreate E p info env0 =
     bindW (addPersist E p (buildBase E p env0)) (\<lambda>b1.
     bindW (liftW (addInit E (pSpec p) b1)) (\<lambda>b2.
     bindW (liftW (addDisplay E p (addSSH E p (addSupervisor p b2)))) (\<lambda>b3.
     requestContainer E p (createOptions E p info b3))))"

definition withCleanup :: "env \<Rightarrow> plan \<Rightarrow> 'a lop \<Rightarrow> bool \<Rightarrow> (create_error, 'a) op" where
  "withCleanup E p body netCreated w =
     (case body \<lparr>networkCreated = netCreated, proxyCreated = False, createdVolumes = []\<rparr> w of
        ((Inr h, l), w') \<Rightarrow> (Inr h, w')
      | ((Inl e, l), w') \<Rightarrow> (Inl e, cleanup E p l w'))"

definition Create :: "env \<Rightarrow> Spec \<Rightarrow> (create_error, Handle) op" where
  "Create E spec =
     bindW (createValidate E spec) (\<lambda>v.
     bindW (createPlan E v) (\<lambda>p.
     bindW (createImages E p) (\<lambda>i.
     bindW (wrapW NetworkError (ensureNetwork E (pNetName p) (pName p) (pWithProxy p))) (\<lambda>netCreated.
     withCleanup E p
       (bindL (provisionProxy E p (fst i) (snd i)) (\<lambda>env0. liftL (finishCreate E p (fst i) env0))) netCreated))))"

end
