(* ===== verification/Live_Resources.thy ===== *)
theory Live_Resources
  imports Docker_Create
begin

text \<open>
  Which resources of the engine a driver operation leaves behind, read off the trace. A network,
  volume or container is \<open>live\<close> after a creation the engine has acknowledged, until the engine has
  acknowledged its removal; the removals the engine answers with an error, because the context has
  ended or for any other reason, are collected in \<open>refused\<close>. The proofs go through the resources
  \<open>owed\<close>, those created and not yet asked to be removed: they are what the code of the driver
  controls. \<open>live_bound\<close> carries a bound on \<open>owed\<close> over to \<open>live\<close>.
\<close>

datatype resource = RNet string | RVol string | RCtr string string

definition owedStep :: "engine \<Rightarrow> resource set \<times> trace \<Rightarrow> ctx \<times> request \<Rightarrow> resource set \<times> trace" where
  "owedStep G st e =
     (let w = snd st @ [e]; S = fst st in
      (case snd e of
         NetworkCreateReq n _ \<Rightarrow> if isOk (ansUnit G w) then insert (RNet n) S else S
       | NativeNetworkCreateReq n _ _ \<Rightarrow> if isOk (ansUnit G w) then insert (RNet n) S else S
       | NetworkRemoveReq n \<Rightarrow> S - {RNet n}
       | VolumeCreateReq v \<Rightarrow> if isOk (ansUnit G w) then insert (RVol v) S else S
       | VolumeRemoveReq v \<Rightarrow> S - {RVol v}
       | ContainerCreateReq opts \<Rightarrow>
           (case ansContainerCreate G w of Inr cid \<Rightarrow> insert (RCtr (coName opts) cid) S | Inl _ \<Rightarrow> S)
       | NativeContainerCreateReq opts \<Rightarrow>
           (case ansContainerCreate G w of Inr cid \<Rightarrow> insert (RCtr (coName opts) cid) S | Inl _ \<Rightarrow> S)
       | ContainerRemoveReq x \<Rightarrow> S - {r. \<exists>n i. r = RCtr n i \<and> (n = x \<or> i = x)}
       | _ \<Rightarrow> S, w))"

definition owed :: "engine \<Rightarrow> trace \<Rightarrow> resource set" where
  "owed G w = fst (foldl (owedStep G) ({}, []) w)"

lemma foldl_owedStep_snd: "snd (foldl (owedStep G) (S, pre) w) = pre @ w"
  by (induction w arbitrary: S pre) (auto simp: owedStep_def Let_def)

lemma owed_snoc: "owed G (w @ [e]) = fst (owedStep G (owed G w, w) e)"
proof -
  have "foldl (owedStep G) ({}, []) w = (owed G w, w)"
    using foldl_owedStep_snd [of G "{}" "[]" w] by (metis append_Nil owed_def prod.collapse)
  then show ?thesis by (simp add: owed_def)
qed

definition neutral :: "ctx \<times> request \<Rightarrow> bool" where
  "neutral e \<longleftrightarrow>
     (case snd e of
        NetworkCreateReq _ _ \<Rightarrow> False
      | NativeNetworkCreateReq _ _ _ \<Rightarrow> False
      | VolumeCreateReq _ \<Rightarrow> False
      | ContainerCreateReq _ \<Rightarrow> False
      | NativeContainerCreateReq _ \<Rightarrow> False
      | _ \<Rightarrow> True)"

lemma owed_neutral: "neutral e \<Longrightarrow> owed G (w @ [e]) \<subseteq> owed G w"
  by (auto simp: owed_snoc owedStep_def neutral_def Let_def split: request.splits)

lemma owed_neutrals: "list_all neutral new \<Longrightarrow> owed G (w @ new) \<subseteq> owed G w"
proof (induction new rule: rev_induct)
  case (snoc e new)
  then show ?case using owed_neutral [of e G "w @ new"] by (simp add: subset_trans)
qed simp

lemma emits_neutral: "emits neutral m \<Longrightarrow> m w = (r, w') \<Longrightarrow> owed G w' \<subseteq> owed G w"
  using emitsD owed_neutrals by metis

lemma owed_requests [trace_simps]:
  "owed G (w @ [(c, NetworkRemoveReq n)]) = owed G w - {RNet n}"
  "owed G (w @ [(c, VolumeRemoveReq v)]) = owed G w - {RVol v}"
  "owed G (w @ [(c, ContainerRemoveReq x)]) = owed G w - {r. \<exists>n i. r = RCtr n i \<and> (n = x \<or> i = x)}"
  "owed G (w @ [(c, NetworkInspectReq n)]) = owed G w"
  "owed G (w @ [(c, VolumeInspectReq n)]) = owed G w"
  "owed G (w @ [(c, NativeNetworkVerifyReq n b)]) = owed G w"
  "owed G (w @ [(c, VolumeCreateReq v)]) =
     (if isOk (ansUnit G (w @ [(c, VolumeCreateReq v)])) then insert (RVol v) (owed G w) else owed G w)"
  "owed G (w @ [(c, NetworkCreateReq n opts)]) =
     (if isOk (ansUnit G (w @ [(c, NetworkCreateReq n opts)])) then insert (RNet n) (owed G w) else owed G w)"
  "owed G (w @ [(c, NativeNetworkCreateReq n b ls)]) =
     (if isOk (ansUnit G (w @ [(c, NativeNetworkCreateReq n b ls)])) then insert (RNet n) (owed G w) else owed G w)"
  by (simp_all add: owed_snoc owedStep_def Let_def)

section \<open>Operations that create nothing\<close>

lemma emits_bindW_neutral: "emits neutral m \<Longrightarrow> (\<And>x. emits neutral (f x)) \<Longrightarrow> emits neutral (bindW m f)"
  by (rule emits_bindW)

lemma emits_eqI: "emits P m \<Longrightarrow> (\<And>w. snd (m' w) = snd (m w)) \<Longrightarrow> emits P m'"
  by (simp add: emits_def)

lemma emits_case_option [intro]:
  "(x = None \<Longrightarrow> emits P m) \<Longrightarrow> (\<And>y. x = Some y \<Longrightarrow> emits P (f y)) \<Longrightarrow> emits P (case x of None \<Rightarrow> m | Some y \<Rightarrow> f y)"
  by (cases x) auto

lemma emits_case_sum [intro]:
  "(\<And>y. x = Inl y \<Longrightarrow> emits P (f y)) \<Longrightarrow> (\<And>y. x = Inr y \<Longrightarrow> emits P (g y)) \<Longrightarrow>
   emits P (case x of Inl y \<Rightarrow> f y | Inr y \<Rightarrow> g y)"
  by (cases x) auto

lemma emits_if_cases [intro]: "(b \<Longrightarrow> emits P m1) \<Longrightarrow> (\<not> b \<Longrightarrow> emits P m2) \<Longrightarrow> emits P (if b then m1 else m2)"
  by simp

lemmas emits_rules = emits_bindW emits_case_option emits_case_sum emits_if_cases

lemma neutral_simps [simp]:
  "neutral (c, ContainerListReq l)" "neutral (c, ContainerInspectReq x)" "neutral (c, ContainerStartReq x)"
  "neutral (c, ContainerRemoveReq x)" "neutral (c, ContainerLogsReq x b lines)" "neutral (c, ContainerWaitReq x)" "neutral (c, PingReq)"
  "neutral (c, ServerVersionReq)" "neutral (c, InfoReq)" "neutral (c, CopyToContainerReq x y)" "neutral (c, CopyFromContainerReq x y)" "neutral (c, ExecCreateReq x eo)"
  "neutral (c, ExecAttachReq x)" "neutral (c, ExecStartReq x)" "neutral (c, ExecInspectReq x)"
  "neutral (c, ExecResizeReq x z)" "neutral (c, NetworkInspectReq x)" "neutral (c, NetworkRemoveReq x)"
  "neutral (c, NetworkConnectReq x y)" "neutral (c, VolumeInspectReq x)" "neutral (c, VolumeRemoveReq x)"
  "neutral (c, ImageInspectReq x)" "neutral (c, ImagePullReq x y)" "neutral (c, ImageTagReq x y)"
  "neutral (c, NativeNetworkVerifyReq x b)" "neutral (c, ContainerStopReq x t)"
  by (simp_all add: neutral_def)

lemma neutral_pull: "emits neutral (pullImage E ref)" "emits neutral (pullAs E remote local)"
proof -
  have "emits neutral (\<lambda>w. wrapW g (liftW (ansPullStream (eEngine E) w)) w)" for g :: "engine_error \<Rightarrow> pull_error"
    by (simp add: emits_def wrapW_def liftW_def)
  then show "emits neutral (pullImage E ref)"
    unfolding pullImage_def by (intro emits_rules) (simp_all add: trace_simps)
  show "emits neutral (pullAs E remote local)"
    unfolding pullAs_def by (intro emits_rules) (simp_all add: trace_simps)
qed

lemma neutral_ensureImage: "emits neutral (ensureImage E ref)"
  unfolding ensureImage_def pullPublished_def Let_def
  by (intro emits_rules) (simp_all add: trace_simps ImageInspect_def neutral_pull)

lemma neutral_Exec: "emits neutral (Exec E cid req)"
  unfolding Exec_def execAttached_def resizeExecOnce_def
  by (intro emits_rules) (auto simp: trace_simps ContainerInspect_def intro!: emits_rules split: prod.splits)

lemma pollLoop_neutral:
  assumes "\<And>w. \<exists>new. snd (probe w) = w @ new \<and> list_all neutral new"
  shows "\<exists>new. snd (pollLoop E probe n w) = w @ new \<and> list_all neutral new"
proof (induction n arbitrary: w)
  case (Suc n)
  obtain ok w1 where p: "probe w = (ok, w1)" by force
  then obtain n1 where n1: "w1 = w @ n1" "list_all neutral n1" using assms [of w] by auto
  from Suc.IH [of w1] obtain n2 where n2: "snd (pollLoop E probe n w1) = w1 @ n2" "list_all neutral n2" by blast
  show ?case
    using n1 n2 p by (cases ok; cases "ctxDone (eEngine E) w1") auto
qed simp

lemma execProbe_neutral: "\<exists>new. snd (execProbe E cid argv w) = w @ new \<and> list_all neutral new"
proof -
  obtain r w' where "Exec E cid (probeReq argv) w = (r, w')" by force
  with emitsD [OF neutral_Exec this] show ?thesis by (cases r) (auto simp: execProbe_def)
qed

lemma neutral_pollWait: "emits neutral (pollWait E cid argv t e)"
  unfolding emits_def
proof
  fix w
  obtain r w1 where l: "pollLoop E (execProbe E cid argv) (pollRounds (eEngine E) w) w = (r, w1)" by force
  then obtain n1 where "w1 = w @ n1" "list_all neutral n1"
    using pollLoop_neutral [where probe = "execProbe E cid argv" and E = E and w = w, OF execProbe_neutral]
    by (metis snd_conv)
  with l show "\<exists>new. snd (pollWait E cid argv t e w) = w @ new \<and> list_all neutral new"
    by (cases r) (auto simp: pollWait_def call_def)
qed

lemma neutral_waits: "emits neutral (waitProxyCA E cid)" "emits neutral (waitProxyListening E cid port)"
  by (simp_all add: waitProxyCA_def waitProxyListening_def neutral_pollWait)

lemma neutral_validate: "emits neutral (createValidate E spec)"
  unfolding createValidate_def Let_def
  by (intro emits_rules) (simp_all add: trace_simps ContainerList_def)

lemma neutral_chooseImage: "emits neutral (chooseImage E spec)"
  unfolding emits_def chooseImage_def defaultSandboxImage_def Let_def ImageInspect_def
  by (auto simp: call_def)

lemma neutral_plan: "emits neutral (createPlan E v)"
  unfolding createPlan_def Let_def
  by (intro emits_rules) (simp_all add: trace_simps neutral_chooseImage)

lemma neutral_images: "emits neutral (createImages E p)"
  unfolding createImages_def Let_def
  by (intro emits_rules) (simp_all add: trace_simps neutral_ensureImage ImageInspect_def)

section \<open>What the creating operations add\<close>

lemma bindW_cases:
  assumes "bindW m f w = (r, w')"
  obtains e where "m w = (Inl e, w')" "r = Inl e" | x w1 where "m w = (Inr x, w1)" "f x w1 = (r, w')"
  using assms by (auto simp: bindW_def split: prod.splits sum.splits)

lemma call_step: "call c req ans w = (r, w') \<Longrightarrow> w' = w @ [(c, req)] \<and> r = ans w'"
  by (auto simp: call_def)

lemma wrapW_step: "wrapW g m w = (r, w') \<Longrightarrow> \<exists>r0. m w = (r0, w') \<and> r = wrapE g r0 \<and> isOk r = isOk r0"
  by (auto simp: wrapW_def wrapE_def split: prod.splits sum.splits)

lemma tryW_step: "tryW m w = (r, w') \<Longrightarrow> \<exists>r0. m w = (r0, w') \<and> r = Inr r0"
  by (auto simp: tryW_def split: prod.splits)

lemma ensureVolume_adds:
  assumes "ensureVolume E v w = (r, w')"
  shows "owed (eEngine E) w' \<subseteq> owed (eEngine E) w \<union> (if r = Inr True then {RVol v} else {})"
proof -
  define w1 where "w1 = w @ [(ReqCtx, VolumeInspectReq v)]"
  have l: "owed (eEngine E) w1 = owed (eEngine E) w" by (simp add: w1_def trace_simps)
  define w2 where "w2 = w1 @ [(ReqCtx, VolumeCreateReq v)]"
  have l2: "owed (eEngine E) w2 = (if isOk (ansUnit (eEngine E) w2) then insert (RVol v) (owed (eEngine E) w1) else owed (eEngine E) w1)"
    by (simp add: w2_def trace_simps del: append_assoc)
  show ?thesis
  proof (cases "isOk (ansUnit (eEngine E) w1)")
    case True
    with assms l show ?thesis
      by (auto simp: ensureVolume_def bindW_def tryW_def call_def returnW_def w1_def)
  next
    case False
    with assms have "(r, w') = (case ansUnit (eEngine E) w2 of Inl e \<Rightarrow> (Inl (VolumeCreateFailed v e), w2) | Inr _ \<Rightarrow> (Inr True, w2))"
      by (auto simp: ensureVolume_def bindW_def tryW_def call_def returnW_def wrapW_def w2_def w1_def split: sum.splits)
    with l l2 show ?thesis by (auto split: sum.splits)
  qed
qed

lemma reuseNetwork_adds:
  assumes "reuseNetwork E n internal info w = (r, w')"
  shows "owed (eEngine E) w' \<subseteq> owed (eEngine E) w \<and> r \<noteq> Inr True"
  using assms
  by (auto simp: reuseNetwork_def bindW_def wrapW_def liftW_def call_def returnW_def nativeVerify_def trace_simps
      split: sum.splits if_splits)

lemma createNativeNetwork_adds:
  assumes "createNativeNetwork E n sb internal w = (r, w')"
  shows "owed (eEngine E) w' \<subseteq> owed (eEngine E) w \<union> (if r = Inr True then {RNet n} else {})"
proof -
  define w1 where "w1 = w @ [(ReqCtx, NativeNetworkCreateReq n internal (networkLabels sb))]"
  have l1: "owed (eEngine E) w1 = (if isOk (ansUnit (eEngine E) w1) then insert (RNet n) (owed (eEngine E) w) else owed (eEngine E) w)"
    by (simp add: w1_def trace_simps)
  define w2 where "w2 = w1 @ [(ReqCtx, NativeNetworkVerifyReq n True)]"
  have l2: "owed (eEngine E) w2 = owed (eEngine E) w1" by (simp add: w2_def trace_simps)
  define w3 where "w3 = w2 @ [(ReqCtx, NetworkRemoveReq n)]"
  have l3: "owed (eEngine E) w3 = owed (eEngine E) w2 - {RNet n}" by (simp add: w3_def trace_simps)
  have "(r, w') = (case ansUnit (eEngine E) w1 of
      Inl e \<Rightarrow> (Inl (NativeNetworkCreateFailed n e), w1)
    | Inr _ \<Rightarrow> if internal \<and> nativeNetworkVerify (eDriver E) then
        (case ansUnit (eEngine E) w2 of Inr _ \<Rightarrow> (Inr True, w2) | Inl e \<Rightarrow> (Inl (NetworkVerifyFailed n e), w3))
      else (Inr True, w1))"
    using assms
    by (auto simp: createNativeNetwork_def bindW_def wrapW_def tryW_def liftW_def call_def returnW_def nativeVerify_def
        NetworkRemove_def w1_def w2_def w3_def split: sum.splits)
  with l1 l2 l3 show ?thesis by (auto split: sum.splits if_splits)
qed

lemma createBridgeNetwork_adds:
  assumes "createBridgeNetwork E n sb internal w = (r, w')"
  shows "owed (eEngine E) w' \<subseteq> owed (eEngine E) w \<union> (if r = Inr True then {RNet n} else {})"
proof -
  define w1 where "w1 = w @ [(ReqCtx, NetworkCreateReq n (bridgeOptions sb internal))]"
  have l1: "owed (eEngine E) w1 = (if isOk (ansUnit (eEngine E) w1) then insert (RNet n) (owed (eEngine E) w) else owed (eEngine E) w)"
    by (simp add: w1_def trace_simps)
  have "(r, w') = (case ansUnit (eEngine E) w1 of Inl e \<Rightarrow> (Inl (NetworkCreateFailed n e), w1) | Inr _ \<Rightarrow> (Inr True, w1))"
    using assms by (auto simp: createBridgeNetwork_def bindW_def wrapW_def call_def returnW_def w1_def split: sum.splits)
  with l1 show ?thesis by (auto split: sum.splits if_splits)
qed

lemma ensureNetwork_adds:
  assumes "ensureNetwork E n sb internal w = (r, w')"
  shows "owed (eEngine E) w' \<subseteq> owed (eEngine E) w \<union> (if r = Inr True then {RNet n} else {})"
proof (cases "internal \<and> nativeNetworkCreate (eDriver E) \<and> \<not> nativeNetworkVerify (eDriver E)")
  case True
  with assms show ?thesis by (simp add: ensureNetwork_def liftW_def)
next
  case False
  let ?w1 = "w @ [(ReqCtx, NetworkInspectReq n)]"
  have l: "owed (eEngine E) ?w1 = owed (eEngine E) w" by (simp add: trace_simps)
  show ?thesis
  proof (cases "ansNetworkInspect (eEngine E) ?w1")
    case (Inr info)
    then have "reuseNetwork E n internal info ?w1 = (r, w')"
      using assms False by (simp add: ensureNetwork_def bindW_def tryW_def call_def)
    from reuseNetwork_adds [OF this] l show ?thesis by auto
  next
    case (Inl e)
    then have "(if nativeNetworkCreate (eDriver E) then createNativeNetwork E n sb internal
        else createBridgeNetwork E n sb internal) ?w1 = (r, w')"
      using assms False by (simp add: ensureNetwork_def bindW_def tryW_def call_def)
    then show ?thesis
      using createNativeNetwork_adds [of E n sb internal ?w1 r w'] createBridgeNetwork_adds [of E n sb internal ?w1 r w'] l
      by (cases "nativeNetworkCreate (eDriver E)") simp_all
  qed
qed

section \<open>Live resources and refused removals\<close>

fun removes :: "request \<Rightarrow> resource \<Rightarrow> bool" where
  "removes (NetworkRemoveReq n) r = (r = RNet n)"
| "removes (VolumeRemoveReq v) r = (r = RVol v)"
| "removes (ContainerRemoveReq x) r = (\<exists>n i. r = RCtr n i \<and> (n = x \<or> i = x))"
| "removes _ r = False"

definition createdRes :: "engine \<Rightarrow> trace \<Rightarrow> request \<Rightarrow> resource set" where
  "createdRes G w q =
     (case q of
        NetworkCreateReq n _ \<Rightarrow> if isOk (ansUnit G w) then {RNet n} else {}
      | NativeNetworkCreateReq n _ _ \<Rightarrow> if isOk (ansUnit G w) then {RNet n} else {}
      | VolumeCreateReq v \<Rightarrow> if isOk (ansUnit G w) then {RVol v} else {}
      | ContainerCreateReq opts \<Rightarrow> (case ansContainerCreate G w of Inr cid \<Rightarrow> {RCtr (coName opts) cid} | Inl _ \<Rightarrow> {})
      | NativeContainerCreateReq opts \<Rightarrow> (case ansContainerCreate G w of Inr cid \<Rightarrow> {RCtr (coName opts) cid} | Inl _ \<Rightarrow> {})
      | _ \<Rightarrow> {})"

text \<open>One request: what it creates becomes live, what it removes ceases to be if the engine agrees.\<close>

definition liveStep :: "engine \<Rightarrow> resource set \<times> trace \<Rightarrow> ctx \<times> request \<Rightarrow> resource set \<times> trace" where
  "liveStep G st e =
     (let w = snd st @ [e] in
      (fst st \<union> createdRes G w (snd e) - (if isOk (ansUnit G w) then Collect (removes (snd e)) else {}), w))"

definition live :: "engine \<Rightarrow> trace \<Rightarrow> resource set" where
  "live G w = fst (foldl (liveStep G) ({}, []) w)"

text \<open>
  The resources whose removal is requested after \<open>w\<close> and at the latest with the last request of \<open>w'\<close>,
  and answered by an error.
\<close>

definition refused :: "engine \<Rightarrow> trace \<Rightarrow> trace \<Rightarrow> resource set" where
  "refused G w w' =
     {r. \<exists>i. length w \<le> i \<and> i < length w' \<and> removes (snd (w' ! i)) r \<and> \<not> isOk (ansUnit G (take (Suc i) w'))}"

lemma live_Nil [simp]: "live G [] = {}"
  by (simp add: live_def)

lemma owed_Nil [simp]: "owed G [] = {}"
  by (simp add: owed_def)

lemma foldl_liveStep_snd: "snd (foldl (liveStep G) (S, pre) w) = pre @ w"
  by (induction w arbitrary: S pre) (auto simp: liveStep_def Let_def)

lemma live_snoc:
  "live G (w @ [e]) = live G w \<union> createdRes G (w @ [e]) (snd e) -
     (if isOk (ansUnit G (w @ [e])) then Collect (removes (snd e)) else {})"
  using foldl_liveStep_snd [of G "{}" "[]" w] by (simp add: live_def liveStep_def Let_def)

lemma owed_created: "owed G (w @ [e]) = owed G w \<union> createdRes G (w @ [e]) (snd e) - Collect (removes (snd e))"
  by (cases "snd e") (auto simp: owed_snoc owedStep_def createdRes_def Let_def split: sum.splits)

lemma owed_live: "owed G w \<subseteq> live G w"
proof (induction w rule: rev_induct)
  case (snoc e w)
  then show ?case unfolding owed_created live_snoc by auto
qed simp

lemma refused_snoc:
  "refused G w (w @ new @ [e]) = refused G w (w @ new) \<union>
     (if isOk (ansUnit G (w @ new @ [e])) then {} else Collect (removes (snd e)))"
proof (rule set_eqI)
  fix r
  define n where "n = length w + length new"
  define P where "P v i \<longleftrightarrow> length w \<le> i \<and> removes (snd (v ! i)) r \<and> \<not> isOk (ansUnit G (take (Suc i) v))" for v i
  have old: "P (w @ new @ [e]) i = P (w @ new) i" if "i < n" for i
    using that by (auto simp: P_def n_def nth_append take_append)
  have last: "P (w @ new @ [e]) n \<longleftrightarrow> removes (snd e) r \<and> \<not> isOk (ansUnit G (w @ new @ [e]))"
    by (simp add: P_def n_def nth_append)
  have "r \<in> refused G w (w @ new @ [e]) \<longleftrightarrow> (\<exists>i < Suc n. P (w @ new @ [e]) i)"
    by (auto simp: refused_def P_def n_def)
  also have "\<dots> \<longleftrightarrow> (\<exists>i < n. P (w @ new) i) \<or> P (w @ new @ [e]) n"
    using old by (auto simp: less_Suc_eq)
  also have "(\<exists>i < n. P (w @ new) i) \<longleftrightarrow> r \<in> refused G w (w @ new)"
    by (auto simp: refused_def P_def n_def)
  finally show "r \<in> refused G w (w @ new @ [e]) \<longleftrightarrow> r \<in> refused G w (w @ new) \<union>
     (if isOk (ansUnit G (w @ new @ [e])) then {} else Collect (removes (snd e)))"
    using last by auto
qed

lemma live_step_bound: "live G (w @ new) \<subseteq> live G w \<union> owed G (w @ new) \<union> refused G w (w @ new)"
proof (induction new rule: rev_induct)
  case (snoc e new)
  then show ?case
    using owed_created [of G "w @ new" e] live_snoc [of G "w @ new" e] refused_snoc [of G w new e] by auto
qed auto

text \<open>
  What an operation owes at most is live at most, but for what the engine refuses to remove.
\<close>

lemma live_bound:
  assumes "owed G w' \<subseteq> owed G w \<union> D" and "w' = w @ new"
  shows "live G w' \<subseteq> live G w \<union> D \<union> refused G w w'"
  using live_step_bound [of G w new] owed_live [of G w] assms by auto

text \<open>Nothing is refused by an engine that acknowledges every removal.\<close>

lemma refused_none:
  assumes "\<And>u c q r. removes q r \<Longrightarrow> isOk (ansUnit G (u @ [(c, q)]))"
  shows "refused G w w' = {}"
proof -
  have "isOk (ansUnit G (take (Suc i) w'))" if "i < length w'" "removes (snd (w' ! i)) r" for i r
    using assms [OF that(2), of "take i w'" "fst (w' ! i)"] that(1) by (simp add: take_Suc_conv_app_nth)
  then show ?thesis unfolding refused_def by blast
qed

section \<open>Creating a proxy\<close>

text \<open>The containers with a name.\<close>

definition named :: "string \<Rightarrow> resource set" where
  "named n = {r. \<exists>i. r = RCtr n i}"

lemma orRemove_adds:
  assumes "emits neutral m" "orRemove E cid m w = (r, w')"
  shows "case r of Inr _ \<Rightarrow> owed (eEngine E) w' \<subseteq> owed (eEngine E) w
    | Inl _ \<Rightarrow> owed (eEngine E) w' \<subseteq> owed (eEngine E) w - {RCtr n cid}"
proof -
  obtain r1 w1 where m: "m w = (r1, w1)" by force
  have "owed (eEngine E) w1 \<subseteq> owed (eEngine E) w" by (rule emits_neutral [OF assms(1) m])
  with m assms(2) show ?thesis
    by (cases r1)
      (auto simp: orRemove_def bindW_def tryW_def returnW_def liftW_def ContainerRemove_def call_def trace_simps)
qed

text \<open>A start-up sequence of guarded steps: either all succeed, or the container is gone.\<close>

definition guarded :: "env \<Rightarrow> string \<Rightarrow> (sidecar_error, unit) op \<Rightarrow> bool" where
  "guarded E cid m \<longleftrightarrow>
     (\<forall>w r w' n. m w = (r, w') \<longrightarrow>
       owed (eEngine E) w' \<subseteq> owed (eEngine E) w - (if isOk r then {} else {RCtr n cid}))"

lemma guarded_orRemove: "emits neutral m \<Longrightarrow> guarded E cid (orRemove E cid m)"
  unfolding guarded_def
proof (intro allI impI)
  fix w r w' n
  assume "emits neutral m" "orRemove E cid m w = (r, w')"
  from orRemove_adds [OF this, of n]
  show "owed (eEngine E) w' \<subseteq> owed (eEngine E) w - (if isOk r then {} else {RCtr n cid})"
    by (cases r) auto
qed

lemma guarded_returnW: "guarded E cid (returnW ())"
  by (auto simp: guarded_def returnW_def)

lemma guarded_bindW:
  assumes "guarded E cid m" "\<And>x. guarded E cid (f x)"
  shows "guarded E cid (bindW m f)"
  unfolding guarded_def
proof (intro allI impI)
  fix w r w' n
  assume b: "bindW m f w = (r, w')"
  show "owed (eEngine E) w' \<subseteq> owed (eEngine E) w - (if isOk r then {} else {RCtr n cid})"
  proof (cases rule: bindW_cases [OF b])
    case (1 e)
    with assms(1) show ?thesis unfolding guarded_def by fastforce
  next
    case (2 x w1)
    then have "owed (eEngine E) w1 \<subseteq> owed (eEngine E) w"
      using assms(1) unfolding guarded_def by fastforce
    moreover have "owed (eEngine E) w' \<subseteq> owed (eEngine E) w1 - (if isOk r then {} else {RCtr n cid})"
      using assms(2) [of x] 2(2) unfolding guarded_def by blast
    ultimately show ?thesis by blast
  qed
qed

lemma guarded_sidecarStart: "guarded E cid (sidecarStart E a cid)"
  unfolding sidecarStart_def
  by (intro guarded_bindW) (auto simp: trace_simps intro!: guarded_orRemove guarded_returnW neutral_waits)

lemma createProxySidecar_adds:
  assumes "createProxySidecar E a w = (r, w')"
  shows "owed (eEngine E) w' \<subseteq> owed (eEngine E) w \<union> (if isOk r then named (''cauteum-proxy-'' @ saName a) else {})"
proof (cases "sidecarPlan E a")
  case (Inl e)
  with assms show ?thesis by (simp add: createProxySidecar_def bindW_def liftW_def)
next
  case (Inr opts)
  have n: "coName opts = ''cauteum-proxy-'' @ saName a"
    using Inr by (auto simp: sidecarPlan_def sidecarOptions_def result_iff)
  let ?w1 = "w @ [(ReqCtx, ContainerCreateReq opts)]"
  show ?thesis
  proof (cases "ansContainerCreate (eEngine E) ?w1")
    case (Inl e)
    with assms \<open>sidecarPlan E a = Inr opts\<close> show ?thesis
      by (auto simp: createProxySidecar_def bindW_def liftW_def wrapW_def call_def owed_snoc owedStep_def Let_def)
  next
    case (Inr cid)
    then have s: "sidecarStart E a cid ?w1 = (r, w')"
      using assms \<open>sidecarPlan E a = Inr opts\<close> by (simp add: createProxySidecar_def bindW_def liftW_def wrapW_def call_def)
    have "owed (eEngine E) ?w1 = insert (RCtr (coName opts) cid) (owed (eEngine E) w)"
      using Inr by (simp add: owed_snoc owedStep_def Let_def)
    moreover have "owed (eEngine E) w' \<subseteq> owed (eEngine E) ?w1 - (if isOk r then {} else {RCtr (coName opts) cid})"
      using guarded_sidecarStart [of E cid a] s unfolding guarded_def by blast
    ultimately show ?thesis unfolding n by (auto simp: named_def split: if_splits)
  qed
qed

end
