(* ===== verification/Sample.thy ===== *)
theory Sample
  imports Docker_Create
begin

text \<open>
  A concrete engine, host and specification on which the operations are evaluated. The engine knows
  no network and no volume, acknowledges every creation and reports the probes of the proxy as
  successful; a requested container is answered by the parameter \<open>ans\<close>, by name. No operation depends
  on these values.
\<close>

definition sampleConfig :: inspected_config where
  "sampleConfig = \<lparr>icImage = ''debian:bookworm'', icEnv = [], icLabels = [labelSandbox \<mapsto> ''1'', labelInit \<mapsto> ''1'']\<rparr>"

definition sampleContainer :: container_info where
  "sampleContainer =
     \<lparr>ciID = ''c1'', ciName = ''/cauteum-box'', ciConfig = Some sampleConfig,
      ciState = Some \<lparr>stStatus = ''running'', stRunning = True, stError = []\<rparr>,
      ciMounts = [], ciNetworks = None\<rparr>"

text \<open>An inspected container carries the labels of the newest creation request.\<close>

fun newestLabels :: "trace \<Rightarrow> string \<Rightarrow> string option" where
  "newestLabels [] = icLabels sampleConfig"
| "newestLabels ((c, r) # w) = (case r of ContainerCreateReq opts \<Rightarrow> ccLabels (coConfig opts) | _ \<Rightarrow> newestLabels w)"

definition inspected :: "trace \<Rightarrow> container_info" where
  "inspected w = sampleContainer\<lparr>ciConfig := Some (sampleConfig\<lparr>icLabels := newestLabels (rev w)\<rparr>)\<rparr>"

fun lastUnit :: "request \<Rightarrow> engine_error + unit" where
  "lastUnit (VolumeInspectReq v) = Inl ''no such volume''"
| "lastUnit _ = Inr ()"

text \<open>The name of a requested container.\<close>

fun requestedName :: "request \<Rightarrow> string" where
  "requestedName (ContainerCreateReq opts) = coName opts"
| "requestedName _ = []"

definition sampleEngine :: "(string \<Rightarrow> engine_error + string) \<Rightarrow> engine" where
  "sampleEngine ans =
     \<lparr>ansContainerList = (\<lambda>w. Inr []), ansContainerInspect = (\<lambda>w. Inr (inspected w)),
      ansContainerCreate = (\<lambda>w. ans (requestedName (snd (last w)))),
      ansUnit = (\<lambda>w. lastUnit (snd (last w))), ansLogs = (\<lambda>w. Inr ([], None)), ansWait = (\<lambda>w. WaitResult),
      ansVersion = (\<lambda>w. Inr \<lparr>svVersion = ''28'', svAPIVersion = ''1.48'', svOs = ''linux'', svArch = ''amd64''\<rparr>),
      ansInfo = (\<lambda>w. Inl ''forbidden''),
      ansExecCreate = (\<lambda>w. Inr ''e1''), ansExecAttach = (\<lambda>w. Inr ()), ansExecInspect = (\<lambda>w. Inr 0),
      ansNetworkInspect = (\<lambda>w. Inl ''no such network''),
      ansImageInspect = (\<lambda>w. Inr \<lparr>iiID = ''sha256:1'', iiUser = Some ''dev''\<rparr>),
      ansPullStream = (\<lambda>w. Inr ()), ctxDone = (\<lambda>w. None), pollRounds = (\<lambda>w. 3)\<rparr>"

definition sampleDriver :: docker_driver where
  "sampleDriver =
     \<lparr>cliPresent = True, runtimeConfig = zeroConfig, enableBindMounts = False, registryAuthResolver = None,
      nativeContainerCreate = False, nativeNetworkCreate = False, nativeNetworkVerify = False\<rparr>"

definition sampleTerminal :: terminal where
  "sampleTerminal = \<lparr>stdinIsTerminal = False, stdoutIsTerminal = False, termSize = None, makeRaw = Inr ()\<rparr>"

definition sampleEnv :: "(string \<Rightarrow> engine_error + string) \<Rightarrow> env" where
  "sampleEnv ans =
     \<lparr>eDefaults = exampleDefaults, eOS = exampleOS, eEngine = sampleEngine ans, eDriver = sampleDriver,
      eTerm = sampleTerminal, eGOOS = ''linux'', eParsePort = (\<lambda>_. Inr 3128), eDockerAuth = (\<lambda>_. Inr [])\<rparr>"

definition sampleSpecOf :: "(string \<times> string) list \<Rightarrow> bool \<Rightarrow> Spec" where
  "sampleSpecOf ls persist =
     zeroSpec\<lparr>spName := ''Box'', spImage := ''debian:bookworm'', spWorkspace := ''/home/u/p'',
       spEnv := [''A=1'', ''OPENSHELL_OCI_IMAGE_USER=root''], spProxyBin := ''/usr/bin/cauteum'',
       spPolicyPath := ''/home/u/policy.yaml'', spInitBin := ''/usr/bin/cauteum-init'', spPersistVolume := persist, spLabels := ls,
       spPublishPorts := [\<lparr>ppHost = 8080, ppGuest = 80\<rparr>]\<rparr>"

abbreviation sampleSpec :: Spec where
  "sampleSpec \<equiv> sampleSpecOf [] True"

section \<open>The sample specification up to the images\<close>

definition sampleSandboxConfig :: sandbox_config where
  "sampleSandboxConfig = \<lparr>scDevices = None, scMounts = [], scBinds = []\<rparr>"

lemma bindW_ok: "m w = (Inr x, w1) \<Longrightarrow> bindW m f w = f x w1"
  by (simp add: bindW_def)

lemma bindW_fails: "m w = (Inl e, w1) \<Longrightarrow> bindW m f w = (Inl e, w1)"
  by (simp add: bindW_def)

lemma sample_name: "sanitizeName (spName (sampleSpecOf ls persist)) = ''box''"
  by code_simp

lemma sample_gpu:
  "ValidateGPURequest exampleOS (sampleSpecOf ls persist) = Inr ()" "DeviceRequestsForGPU exampleOS (sampleSpecOf ls persist) = []"
  by code_simp+

lemma sample_driver_config: "parseDockerSandboxDriverConfig exampleDefaults exampleOS [] False = Inr sampleSandboxConfig"
  by code_simp

lemma sample_fields [simp]:
  "spName (sampleSpecOf ls persist) = ''Box''" "spProxyPort (sampleSpecOf ls persist) = 0" "spDisplayPort (sampleSpecOf ls persist) = 0" "spPublishPorts (sampleSpecOf ls persist) = [\<lparr>ppHost = 8080, ppGuest = 80\<rparr>]"
  "spImage (sampleSpecOf ls persist) = ''debian:bookworm''" "spWorkspace (sampleSpecOf ls persist) = ''/home/u/p''" "spIKnow (sampleSpecOf ls persist) = False"
  "spPersistVolume (sampleSpecOf ls persist) = persist" "spLabels (sampleSpecOf ls persist) = ls"
  "spSupervisorBin (sampleSpecOf ls persist) = []" "spEnableSSH (sampleSpecOf ls persist) = False" "spProxyBin (sampleSpecOf ls persist) = ''/usr/bin/cauteum''"
  by (simp_all add: sampleSpecOf_def zeroSpec_def)

lemma sample_env [simp]:
  "eDefaults (sampleEnv ans) = exampleDefaults" "eOS (sampleEnv ans) = exampleOS" "cliPresent (eDriver (sampleEnv ans)) = True"
  "enableBindMounts (eDriver (sampleEnv ans)) = False"
  "cfgOf (sampleEnv ans) = zeroConfig" "eParsePort (sampleEnv ans) x = Inr 3128"
  "nativeContainerCreate (eDriver (sampleEnv ans)) = False" "nativeNetworkCreate (eDriver (sampleEnv ans)) = False"
  "nativeNetworkVerify (eDriver (sampleEnv ans)) = False"
  "ansContainerList (eEngine (sampleEnv ans)) w = Inr []" "ansContainerInspect (eEngine (sampleEnv ans)) w = Inr (inspected w)"
  "ansContainerCreate (eEngine (sampleEnv ans)) w = ans (requestedName (snd (last w)))" "ansUnit (eEngine (sampleEnv ans)) w = lastUnit (snd (last w))"
  "ansExecCreate (eEngine (sampleEnv ans)) w = Inr ''e1''" "ansExecAttach (eEngine (sampleEnv ans)) w = Inr ()"
  "ansExecInspect (eEngine (sampleEnv ans)) w = Inr 0" "ansNetworkInspect (eEngine (sampleEnv ans)) w = Inl ''no such network''"
  "ansImageInspect (eEngine (sampleEnv ans)) w = Inr \<lparr>iiID = ''sha256:1'', iiUser = Some ''dev''\<rparr>"
  "pollRounds (eEngine (sampleEnv ans)) w = 3"
  by (simp_all add: sampleEnv_def sampleDriver_def sampleEngine_def)

lemmas run_simps = bindW_def liftW_def wrapW_def tryW_def returnW_def call_def failIf_def wrapE_def

lemma sample_workspace: "ResolveWorkspace exampleOS ''/home/u/p'' False = Inr ''/home/u/p''"
  by code_simp

definition samplePlanOf :: "(string \<times> string) list \<Rightarrow> bool \<Rightarrow> plan" where
  "samplePlanOf ls persist =
     \<lparr>pSpec = (sampleSpecOf ls persist), pConfig = sampleSandboxConfig, pName = ''box'', pImg = ''debian:bookworm'',
      pWs = ''/home/u/p'', pNetName = ''cauteum-net-box'', pCtrName = ''cauteum-box'', pWithProxy = True,
      pWithSupervisor = False, pSSHVol = [], pTCPDialSocket = []\<rparr>"

abbreviation samplePlan :: plan where
  "samplePlan \<equiv> samplePlanOf [] True"

lemma sample_plan_fields:
  "pName (samplePlanOf ls persist) = ''box''" "pNetName (samplePlanOf ls persist) = ''cauteum-net-box''" "pCtrName (samplePlanOf ls persist) = ''cauteum-box''"
  "pImg (samplePlanOf ls persist) = ''debian:bookworm''"
  by (simp_all add: samplePlanOf_def)

lemma sample_trims:
  "TrimSpace ''debian:bookworm'' = ''debian:bookworm''" "TrimSpace [] = []" "TrimSpace ''/usr/bin/cauteum'' = ''/usr/bin/cauteum''"
  by code_simp+

definition sampleImage :: image_info where
  "sampleImage = \<lparr>iiID = ''sha256:1'', iiUser = Some ''dev''\<rparr>"

lemma sample_strings:
  "ToLower (TrimSpace (ImagePullPolicy zeroConfig)) = []" "TrimSpace ''sha256:1'' = ''sha256:1''"
  "resolveProxyImage exampleDefaults exampleOS (spProxyImage (sampleSpecOf ls persist)) = ''debian:bookworm-slim''"
  by code_simp+

section \<open>The network and the proxy\<close>

text \<open>An operation that yields a value from every trace.\<close>

definition yields :: "('e, 'a) op \<Rightarrow> 'a \<Rightarrow> bool" where
  "yields m x \<longleftrightarrow> (\<forall>w. \<exists>w'. m w = (Inr x, w'))"

lemma yields_bindW: "yields m x \<Longrightarrow> yields (f x) y \<Longrightarrow> yields (bindW m f) y"
  unfolding yields_def bindW_def by (metis (no_types, lifting) case_prod_conv old.sum.simps(6))

lemma yields_simps:
  "yields (returnW x) x" "yields (wrapW g m) y \<longleftrightarrow> yields m y" "yields (liftW (Inr x)) x"
  by (auto simp: yields_def returnW_def liftW_def wrapW_Inr)

lemma sample_spiffe: "providerWorkloadSocket exampleOS (sidecarEnv zeroConfig []) = Inr []"
  by code_simp

section \<open>The container\<close>

definition sampleProxyEnv :: "string list" where
  "sampleProxyEnv =
     mergeEnv (mergeEnv (identityEnv (sampleSpecOf [] True) sampleImage)
       (ProxyEnv exampleDefaults ''cauteum-proxy-box'' 3128)) (CABundleEnv exampleDefaults (GuestCAFile exampleDefaults))"

lemma sample_identity: "identityEnv (sampleSpecOf ls persist) info = identityEnv (sampleSpecOf [] True) info"
  by (simp add: identityEnv_def sampleSpecOf_def)

lemma sample_display: "\<not> withDisplay (sampleSpecOf ls persist)"
  by code_simp

section \<open>Worlds in which the specification is created\<close>

text \<open>
  What the run depends on: the surroundings above, an engine that knows no volume and acknowledges the
  requests of the sidecar, and a network that can be had. How the network comes about and how the
  request for the sandbox itself is answered is left open.
\<close>

definition plainConfig :: "RuntimeConfig \<Rightarrow> bool" where
  "plainConfig cfg \<longleftrightarrow> cfg = zeroConfig\<lparr>RuntimeContext := RuntimeContext cfg, UsernsMode := UsernsMode cfg,
     DefaultCPU := DefaultCPU cfg, DefaultMemoryBytes := DefaultMemoryBytes cfg, Capabilities := Capabilities cfg\<rparr>"

locale sample_surroundings =
  fixes E :: env
  assumes surroundings [simp]: "eDefaults E = exampleDefaults" "eOS E = exampleOS" "cliPresent (eDriver E)"
      "\<not> enableBindMounts (eDriver E)" "eParsePort E x = Inr 3128" "plainConfig (cfgOf E)"
    and quiet [simp]: "ansContainerList (eEngine E) w = Inr []" "ansContainerInspect (eEngine E) w = Inr (inspected w)"
      "ansImageInspect (eEngine E) w = Inr \<lparr>iiID = ''sha256:1'', iiUser = Some ''dev''\<rparr>"
      "ansExecCreate (eEngine E) w = Inr ''e1''" "ansExecAttach (eEngine E) w = Inr ()" "ansExecInspect (eEngine E) w = Inr 0"
      "pollRounds (eEngine E) w = 3"
    and acknowledged [simp]: "ansUnit (eEngine E) (w @ [(ReqCtx, VolumeInspectReq v)]) = Inl ''no such volume''"
      "ansUnit (eEngine E) (w @ [(ReqCtx, VolumeCreateReq v)]) = Inr ()"
      "ansUnit (eEngine E) (w @ [(ReqCtx, NetworkConnectReq n cid)]) = Inr ()"
      "ansUnit (eEngine E) (w @ [(ReqCtx, ContainerStartReq cid)]) = Inr ()"
begin

lemma world_config [simp]:
  "NetworkName (cfgOf E) = []" "ImagePullPolicy (cfgOf E) = []" "sidecarEnv (cfgOf E) env = sidecarEnv zeroConfig env"
  "upstreamFiles (cfgOf E) = upstreamFiles zeroConfig" "guestTLSBinds os (cfgOf E) = guestTLSBinds os zeroConfig"
proof -
  obtain rc um dc dm caps where "cfgOf E = zeroConfig\<lparr>RuntimeContext := rc, UsernsMode := um, DefaultCPU := dc,
      DefaultMemoryBytes := dm, Capabilities := caps\<rparr>"
    using surroundings(6) unfolding plainConfig_def by blast
  then show "NetworkName (cfgOf E) = []" "ImagePullPolicy (cfgOf E) = []" "sidecarEnv (cfgOf E) env = sidecarEnv zeroConfig env"
    "upstreamFiles (cfgOf E) = upstreamFiles zeroConfig" "guestTLSBinds os (cfgOf E) = guestTLSBinds os zeroConfig"
    by (simp_all add: zeroConfig_def sidecarEnv_def sidecarEnvLayers_def upstreamProxyEnv_def egressTrustEnv_def
        upstreamFiles_def guestTLSBinds_def)
qed

lemma world_parse: "createParse E (sampleSpecOf ls persist) = Inr (sampleSpecOf ls persist, sampleSandboxConfig)"
proof -
  have "spDriverConfigJSON (sampleSpecOf ls persist) = []" "scDevices sampleSandboxConfig = None"
    "eDefaults E = exampleDefaults" "eOS E = exampleOS" "cliPresent (eDriver E)"
    "\<not> enableBindMounts (eDriver E)"
    by (simp_all add: sampleSpecOf_def zeroSpec_def sampleSandboxConfig_def sampleEnv_def sampleDriver_def)
  then show ?thesis by (simp add: createParse_def sample_gpu sample_driver_config)
qed

lemma world_validate:
  "createValidate E (sampleSpecOf ls persist) [] =
     (Inr ((sampleSpecOf ls persist), sampleSandboxConfig, ''box''), [(ReqCtx, ContainerListReq (filterLabels ''box''))])"
  using sample_name
  by (simp add: createValidate_def world_parse run_simps ContainerList_def Let_def portOK_def)

lemma world_plan: "createPlan E ((sampleSpecOf ls persist), sampleSandboxConfig, ''box'') w = (Inr (samplePlanOf ls persist), w)"
  by (simp add: createPlan_def chooseImage_def run_simps sample_trims sample_workspace checkSupervisor_def planSSH_def
      netPrefix_def zeroConfig_def samplePlanOf_def Let_def)

lemma world_images:
  "createImages E (samplePlanOf ls persist) w =
     (Inr (sampleImage, ''debian:bookworm-slim''),
      w @ [(ReqCtx, ImageInspectReq ''debian:bookworm''), (ReqCtx, ImageInspectReq ''debian:bookworm''),
           (ReqCtx, ImageInspectReq ''debian:bookworm-slim'')])"
  by (simp add: createImages_def ensureImage_def run_simps samplePlanOf_def sample_strings ImageInspect_def Let_def sampleImage_def)

lemma world_volume:
  "ensureVolume E v w = (Inr True, w @ [(ReqCtx, VolumeInspectReq v), (ReqCtx, VolumeCreateReq v)])"
  by (simp add: ensureVolume_def run_simps)

lemma world_exec: "yields (Exec E cid (probeReq (a # as))) \<lparr>ExitCode = 0\<rparr>"
  by (simp add: yields_def Exec_def probeReq_def run_simps ContainerInspect_def inspected_def execAttached_def)

lemma world_wait: "yields (pollWait E cid (a # as) t e) ()"
  unfolding yields_def
proof
  fix w
  obtain w' where "Exec E cid (probeReq (a # as)) w = (Inr \<lparr>ExitCode = 0\<rparr>, w')"
    using world_exec unfolding yields_def by blast
  then show "\<exists>w'. pollWait E cid (a # as) t e w = (Inr (), w')"
    by (simp add: pollWait_def execProbe_def numeral_3_eq_3)
qed

lemma world_orRemove: "yields m () \<Longrightarrow> yields (orRemove E cid m) ()"
proof -
  assume "yields m ()"
  show ?thesis unfolding yields_def
  proof
    fix w
    obtain w' where "m w = (Inr (), w')" using \<open>yields m ()\<close> unfolding yields_def by blast
    then show "\<exists>w'. orRemove E cid m w = (Inr (), w')" by (simp add: orRemove_def run_simps)
  qed
qed

lemma world_start: "yields (sidecarStart E a cid) ()"
proof -
  have c: "yields (call ReqCtx (NetworkConnectReq n cid) (ansUnit (eEngine E))) ()"
    "yields (call ReqCtx (ContainerStartReq cid) (ansUnit (eEngine E))) ()" for n
    by (simp_all add: yields_def call_def)
  show ?thesis
    unfolding sidecarStart_def
    by (intro yields_bindW [where x = "()"] world_orRemove)
      (simp_all add: yields_simps c world_wait waitProxyCA_def waitProxyListening_def world_orRemove)
qed

lemma world_sidecarPlan: "isOk (sidecarPlan E (sidecarArgs E (samplePlanOf ls persist) img))"
proof -
  have "sidecarHostChecks E (sidecarArgs E (samplePlanOf ls persist) img) = Inr 3128"
    by (simp add: sidecarHostChecks_def sidecarArgs_def samplePlanOf_def sampleSpecOf_def zeroSpec_def exampleOS_def wrapE_def failIf_def)
  moreover have "upstreamBinds exampleOS (upstreamFiles zeroConfig) = Inr []" "guestTLSBinds exampleOS zeroConfig = Inr []"
    by (simp_all add: upstreamFiles_def zeroConfig_def guestTLSBinds_def)
  moreover have "saProxyEnv (sidecarArgs E (samplePlanOf ls persist) img) = []"
    by (simp add: sidecarArgs_def samplePlanOf_def sampleSpecOf_def zeroSpec_def)
  ultimately show ?thesis by (simp add: sidecarPlan_def sample_spiffe wrapE_def)
qed

end

text \<open>The sidecar is created as \<open>pid\<close>, and the network is created.\<close>

locale sample_world = sample_surroundings +
  fixes pid :: string
  assumes sidecar_created: "coName opts = ''cauteum-proxy-box'' \<Longrightarrow>
      ansContainerCreate (eEngine E) (w @ [(ReqCtx, ContainerCreateReq opts)]) = Inr pid"
    and network: "yields (ensureNetwork E ''cauteum-net-box'' ''box'' True) True"
begin

lemma world_sidecar:
  shows "yields (createProxySidecar E (sidecarArgs E (samplePlanOf ls persist) img)) ()"
proof -
  obtain opts where o: "sidecarPlan E (sidecarArgs E (samplePlanOf ls persist) img) = Inr opts"
    using world_sidecarPlan by (metis isOk.elims(2))
  then have "coName opts = ''cauteum-proxy-box''"
    by (auto simp: sidecarPlan_def sidecarOptions_def result_iff sidecarArgs_def samplePlanOf_def)
  then have "yields (call ReqCtx (ContainerCreateReq opts) (ansContainerCreate (eEngine E))) pid"
    by (simp add: yields_def call_def sidecar_created)
  then show ?thesis unfolding createProxySidecar_def o
    by (intro yields_bindW [where x = opts] yields_bindW [where x = pid]) (simp_all add: yields_simps world_start)
qed

lemma world_provision:
  shows "\<exists>w'. provisionProxy E (samplePlanOf ls persist) sampleImage img l w =
    ((Inr sampleProxyEnv, l\<lparr>createdVolumes := createdVolumes l @ [''cauteum-ca-box''], proxyCreated := True\<rparr>), w')"
proof -
  define w1 where "w1 = w @ [(ReqCtx, VolumeInspectReq ''cauteum-ca-box''), (ReqCtx, VolumeCreateReq ''cauteum-ca-box'')]"
  have v: "ensureVolume E ''cauteum-ca-box'' w = (Inr True, w1)" by (simp add: world_volume w1_def)
  have p: "pName (samplePlanOf ls persist) = ''box''" "pWithProxy (samplePlanOf ls persist)" "pSSHVol (samplePlanOf ls persist) = []" "caVolOf (samplePlanOf ls persist) = ''cauteum-ca-box''"
    "pSpec (samplePlanOf ls persist) = (sampleSpecOf ls persist)" "proxyPortOf E (sampleSpecOf ls persist) = 3128"
    by (simp_all add: samplePlanOf_def caVolOf_def proxyPortOf_def exampleDefaults_def)
  obtain w2 where "createProxySidecar E (sidecarArgs E (samplePlanOf ls persist) img) w1 = (Inr (), w2)"
    using world_sidecar [where ls = ls and persist = persist and img = img] unfolding yields_def by blast
  with v p show ?thesis
    by (simp add: provisionProxy_def Let_def bindL_def ensureTracked_def liftL_def wrapW_def wrapE_def updL_def returnL_def
        sampleProxyEnv_def sample_identity [of ls persist])
qed

lemma world_stages: "\<exists>b. addInit E (sampleSpecOf ls persist) b0 = Inr b"
  by (auto simp: addInit_def exampleOS_def wrapE_def Let_def)

lemma world_finish:
  "\<exists>b1 b2 b3 w'. addPersist E (samplePlanOf ls persist) (buildBase E (samplePlanOf ls persist) env0) w = (Inr b1, w') \<and>
     addInit E (sampleSpecOf ls persist) b1 = Inr b2 \<and>
     addDisplay E (samplePlanOf ls persist) (addSSH E (samplePlanOf ls persist) (addSupervisor (samplePlanOf ls persist) b2)) = Inr b3 \<and>
     finishCreate E (samplePlanOf ls persist) sampleImage env0 w =
       requestContainer E (samplePlanOf ls persist) (createOptions E (samplePlanOf ls persist) sampleImage b3) w'"
proof -
  obtain b1 w1 where a: "addPersist E (samplePlanOf ls persist) (buildBase E (samplePlanOf ls persist) env0) w = (Inr b1, w1)"
    by (cases "spPersistVolume (pSpec (samplePlanOf ls persist))") (simp_all add: addPersist_def world_volume run_simps)
  obtain b2 where i: "addInit E (sampleSpecOf ls persist) b1 = Inr b2" using world_stages by blast
  obtain b3 where d: "addDisplay E (samplePlanOf ls persist) (addSSH E (samplePlanOf ls persist) (addSupervisor (samplePlanOf ls persist) b2)) = Inr b3"
    using sample_gpu sample_display by (simp add: addDisplay_def samplePlanOf_def)
  have "pSpec (samplePlanOf ls persist) = (sampleSpecOf ls persist)" by (simp add: samplePlanOf_def)
  then show ?thesis
    using a i d by (intro exI [of _ b1] exI [of _ b2] exI [of _ b3] exI [of _ w1]) (simp add: finishCreate_def bindW_def liftW_def)
qed

text \<open>The call reaches the request for the sandbox, whose answer is its result.\<close>

lemma world_create:
  obtains b1 b2 b3 w0 w1 w' where
    "addPersist E (samplePlanOf ls persist) (buildBase E (samplePlanOf ls persist) sampleProxyEnv) w0 = (Inr b1, w1)"
    "addInit E (sampleSpecOf ls persist) b1 = Inr b2"
    "addDisplay E (samplePlanOf ls persist) (addSSH E (samplePlanOf ls persist) (addSupervisor (samplePlanOf ls persist) b2)) = Inr b3"
    "Create E (sampleSpecOf ls persist) [] =
       (fst (requestContainer E (samplePlanOf ls persist) (createOptions E (samplePlanOf ls persist) sampleImage b3) w1), w')"
    "\<not> isOk (fst (Create E (sampleSpecOf ls persist) [])) \<Longrightarrow> w' = cleanup E (samplePlanOf ls persist)
       \<lparr>networkCreated = True, proxyCreated = True, createdVolumes = [''cauteum-ca-box'']\<rparr>
       (snd (requestContainer E (samplePlanOf ls persist) (createOptions E (samplePlanOf ls persist) sampleImage b3) w1))"
proof -
  define v1 where "v1 = [(ReqCtx, ContainerListReq (filterLabels ''box''))]"
  define v2 where "v2 = snd (createImages E (samplePlanOf ls persist) v1)"
  have i: "createImages E (samplePlanOf ls persist) v1 = (Inr (sampleImage, ''debian:bookworm-slim''), v2)"
    by (simp add: v2_def world_images)
  obtain v3 where n: "ensureNetwork E ''cauteum-net-box'' ''box'' True v2 = (Inr True, v3)"
    using network unfolding yields_def by blast
  let ?l = "\<lparr>networkCreated = True, proxyCreated = False, createdVolumes = []\<rparr>"
  let ?l' = "\<lparr>networkCreated = True, proxyCreated = True, createdVolumes = [''cauteum-ca-box'']\<rparr>"
  obtain v4 where p: "provisionProxy E (samplePlanOf ls persist) sampleImage ''debian:bookworm-slim'' ?l v3 = ((Inr sampleProxyEnv, ?l'), v4)"
    using world_provision [where l = ?l and w = v3 and ls = ls and persist = persist and img = "''debian:bookworm-slim''"] by auto
  obtain b1 b2 b3 v5 where f: "addPersist E (samplePlanOf ls persist) (buildBase E (samplePlanOf ls persist) sampleProxyEnv) v4 = (Inr b1, v5)"
    "addInit E (sampleSpecOf ls persist) b1 = Inr b2"
    "addDisplay E (samplePlanOf ls persist) (addSSH E (samplePlanOf ls persist) (addSupervisor (samplePlanOf ls persist) b2)) = Inr b3"
    "finishCreate E (samplePlanOf ls persist) sampleImage sampleProxyEnv v4 =
       requestContainer E (samplePlanOf ls persist) (createOptions E (samplePlanOf ls persist) sampleImage b3) v5"
    using world_finish by blast
  have q: "pNetName (samplePlanOf ls persist) = ''cauteum-net-box''" "pName (samplePlanOf ls persist) = ''box''" "pWithProxy (samplePlanOf ls persist)"
    by (simp_all add: samplePlanOf_def)
  have "Create E (sampleSpecOf ls persist) [] = withCleanup E (samplePlanOf ls persist)
      (bindL (provisionProxy E (samplePlanOf ls persist) sampleImage ''debian:bookworm-slim'') (\<lambda>env0. liftL (finishCreate E (samplePlanOf ls persist) sampleImage env0))) True v3"
    using world_validate [where ls = ls and persist = persist, folded v1_def] world_plan [where ls = ls and persist = persist and w = v1] i n q
    by (simp add: Create_def bindW_def wrapW_def wrapE_def)
  moreover obtain r w' where c: "requestContainer E (samplePlanOf ls persist) (createOptions E (samplePlanOf ls persist) sampleImage b3) v5 = (r, w')"
    by force
  ultimately have "Create E (sampleSpecOf ls persist) [] = (r, if isOk r then w' else cleanup E (samplePlanOf ls persist) ?l' w')"
    using p f(4) by (cases r) (simp_all add: withCleanup_def bindL_def liftL_def)
  then show thesis using that [OF f(1-3)] c by simp
qed

end

lemma sample_network:
  "ensureNetwork (sampleEnv ans) ''cauteum-net-box'' ''box'' True w =
     (Inr True, w @ [(ReqCtx, NetworkInspectReq ''cauteum-net-box''),
                     (ReqCtx, NetworkCreateReq ''cauteum-net-box'' (bridgeOptions ''box'' True))])"
  by (simp add: ensureNetwork_def createBridgeNetwork_def run_simps)

interpretation sampled: sample_surroundings "sampleEnv ans" for ans
  by unfold_locales (simp_all add: plainConfig_def zeroConfig_def)

definition answering :: "string \<Rightarrow> (string \<Rightarrow> engine_error + string) \<Rightarrow> string \<Rightarrow> engine_error + string" where
  "answering pid ans = ans(''cauteum-proxy-box'' := Inr pid)"

interpretation sample_run: sample_world "sampleEnv (answering pid ans)" pid for pid ans
  by unfold_locales (simp_all add: answering_def yields_def sample_network)

lemma sample_create:
  assumes "ans ''cauteum-proxy-box'' = Inr pid"
  shows "\<exists>w'. Create (sampleEnv ans) (sampleSpecOf ls persist) [] =
     ((case ans ''cauteum-box'' of
         Inl e \<Rightarrow> Inl (CreateFailed ''cauteum-box'' e False)
       | Inr cid \<Rightarrow> Inr \<lparr>hID = cid, hName = ''box'', hNetwork = ''cauteum-net-box'', hImage = ''debian:bookworm''\<rparr>), w')"
proof -
  have ans: "answering pid ans = ans" using assms by (simp add: answering_def fun_upd_idem)
  show ?thesis
  proof (rule sample_run.world_create [where pid = pid and ans = ans and ls = ls and persist = persist, unfolded ans])
    fix b3 w1 w'
    let ?opts = "createOptions (sampleEnv ans) (samplePlanOf ls persist) sampleImage b3"
    assume c: "Create (sampleEnv ans) (sampleSpecOf ls persist) [] = (fst (requestContainer (sampleEnv ans) (samplePlanOf ls persist) ?opts w1), w')"
    have "coName ?opts = ''cauteum-box''" "hcDeviceRequests (coHost ?opts) = []"
      using sample_gpu by (simp_all add: createOptions_def samplePlanOf_def hostConfig_def)
    then show ?thesis
      unfolding c by (cases "ans ''cauteum-box''") (simp_all add: requestContainer_def run_simps sample_plan_fields)
  qed
qed

end
