(* ===== verification/Create_Failure.thy ===== *)
theory Create_Failure
  imports Live_Resources Sample
begin

text \<open>
  What \<open>Create\<close> leaves behind. The deferred cleanup removes what the ledger names; the lemmas show
  that the ledger names everything a failed call has created, except the data volume, which the
  code never enters into it.
\<close>

section \<open>The ledger and the live resources\<close>

definition ledgerRes :: "plan \<Rightarrow> ledger \<Rightarrow> resource set" where
  "ledgerRes p l =
     (if networkCreated l then {RNet (pNetName p)} else {}) \<union> RVol ` set (createdVolumes l) \<union>
     (if proxyCreated l then named (''cauteum-proxy-'' @ pName p) else {})"

lemma removeVolumes_owed:
  "owed (eEngine E) (removeVolumes E vs w) = owed (eEngine E) w - RVol ` set vs"
  by (induction vs arbitrary: w) (auto simp: VolumeRemove_def call_def trace_simps)

lemma cleanup_owed: "owed (eEngine E) (cleanup E p l w) \<subseteq> owed (eEngine E) w - ledgerRes p l"
proof -
  define w1 where
    "w1 = (if proxyCreated l then snd (removeProxySidecar E CleanupCtx (pName p) w :: (unit + unit) \<times> trace) else w)"
  define w2 where "w2 = removeVolumes E (createdVolumes l) w1"
  have "owed (eEngine E) w1 \<subseteq>
      owed (eEngine E) w - (if proxyCreated l then named (''cauteum-proxy-'' @ pName p) else {})"
    by (auto simp: w1_def removeProxySidecar_def bindW_def tryW_def returnW_def ContainerRemove_def call_def
        trace_simps named_def)
  moreover have "owed (eEngine E) w2 = owed (eEngine E) w1 - RVol ` set (createdVolumes l)"
    by (simp add: w2_def removeVolumes_owed)
  moreover have "cleanup E p l w = (if networkCreated l then w2 @ [(CleanupCtx, NetworkRemoveReq (pNetName p))] else w2)"
    by (simp add: cleanup_def Let_def w1_def w2_def NetworkRemove_def call_def)
  ultimately show ?thesis by (auto simp: ledgerRes_def trace_simps)
qed

text \<open>A stage is accounted for when all it adds is in the ledger it returns, and it forgets nothing.\<close>

definition accounted :: "env \<Rightarrow> plan \<Rightarrow> 'a lop \<Rightarrow> bool" where
  "accounted E p m \<longleftrightarrow>
     (\<forall>l w r l' w'. m l w = ((r, l'), w') \<longrightarrow>
        owed (eEngine E) w' \<subseteq> owed (eEngine E) w \<union> ledgerRes p l' \<and> ledgerRes p l \<subseteq> ledgerRes p l')"

lemma accountedI:
  assumes "\<And>l w r l' w'. m l w = ((r, l'), w') \<Longrightarrow>
    owed (eEngine E) w' \<subseteq> owed (eEngine E) w \<union> ledgerRes p l' \<and> ledgerRes p l \<subseteq> ledgerRes p l'"
  shows "accounted E p m"
  using assms unfolding accounted_def by blast

lemma accountedD:
  "accounted E p m \<Longrightarrow> m l w = ((r, l'), w') \<Longrightarrow>
   owed (eEngine E) w' \<subseteq> owed (eEngine E) w \<union> ledgerRes p l' \<and> ledgerRes p l \<subseteq> ledgerRes p l'"
  unfolding accounted_def by blast

lemma bindL_cases:
  assumes "bindL m f l w = ((r, l'), w')"
  obtains e where "m l w = ((Inl e, l'), w')" "r = Inl e"
  | x l1 w1 where "m l w = ((Inr x, l1), w1)" "f x l1 w1 = ((r, l'), w')"
  using assms by (auto simp: bindL_def split: prod.splits sum.splits)

lemma accounted_returnL: "accounted E p (returnL x)"
  by (auto simp: accounted_def returnL_def)

lemma accounted_bindL:
  assumes "accounted E p m" "\<And>x. accounted E p (f x)"
  shows "accounted E p (bindL m f)"
proof (rule accountedI)
  fix l w r l' w'
  assume "bindL m f l w = ((r, l'), w')"
  then show "owed (eEngine E) w' \<subseteq> owed (eEngine E) w \<union> ledgerRes p l' \<and> ledgerRes p l \<subseteq> ledgerRes p l'"
  proof (cases rule: bindL_cases)
    case (1 e)
    then show ?thesis using accountedD [OF assms(1)] by blast
  next
    case (2 x l1 w1)
    then show ?thesis using accountedD [OF assms(1) 2(1)] accountedD [OF assms(2) 2(2)] by blast
  qed
qed

lemma bindL_assoc: "bindL m (\<lambda>x. bindL (g x) f) = bindL (bindL m g) f"
  by (rule ext)+ (auto simp: bindL_def split: prod.splits sum.splits)

lemma accounted_ensureTracked: "accounted E p (ensureTracked E v)"
proof (rule accountedI)
  fix l w r l' w'
  assume e: "ensureTracked E v l w = ((r, l'), w')"
  obtain r0 w1 where v: "ensureVolume E v w = (r0, w1)" by force
  from e v have "w' = w1 \<and> l' = (if r0 = Inr True then l\<lparr>createdVolumes := createdVolumes l @ [v]\<rparr> else l)"
    by (cases r0) (auto simp: ensureTracked_def bindL_def liftL_def wrapW_def wrapE_def updL_def returnL_def split: if_splits)
  with ensureVolume_adds [OF v]
  show "owed (eEngine E) w' \<subseteq> owed (eEngine E) w \<union> ledgerRes p l' \<and> ledgerRes p l \<subseteq> ledgerRes p l'"
    by (auto simp: ledgerRes_def split: if_splits)
qed

lemma accounted_sidecar:
  assumes "saName a = pName p"
  shows "accounted E p (bindL (liftL (wrapW SidecarError (createProxySidecar E a)))
           (\<lambda>_. updL (\<lambda>l. l\<lparr>proxyCreated := True\<rparr>)))"
proof (rule accountedI)
  fix l w r l' w'
  assume b: "bindL (liftL (wrapW SidecarError (createProxySidecar E a))) (\<lambda>_. updL (\<lambda>l. l\<lparr>proxyCreated := True\<rparr>)) l w
    = ((r, l'), w')"
  obtain r0 w1 where s: "createProxySidecar E a w = (r0, w1)" by force
  from b s have "w' = w1 \<and> l' = (if isOk r0 then l\<lparr>proxyCreated := True\<rparr> else l)"
    by (cases r0) (auto simp: bindL_def liftL_def wrapW_def wrapE_def updL_def)
  with createProxySidecar_adds [OF s] assms
  show "owed (eEngine E) w' \<subseteq> owed (eEngine E) w \<union> ledgerRes p l' \<and> ledgerRes p l \<subseteq> ledgerRes p l'"
    by (auto simp: ledgerRes_def split: if_splits)
qed

lemma accounted_sidecar_then:
  assumes "saName a = pName p" "\<And>x. accounted E p (f x)"
  shows "accounted E p (bindL (liftL (wrapW SidecarError (createProxySidecar E a)))
           (\<lambda>_. bindL (updL (\<lambda>l. l\<lparr>proxyCreated := True\<rparr>)) f))"
  unfolding bindL_assoc using assms by (intro accounted_bindL accounted_sidecar)

lemma accounted_provisionProxy: "accounted E p (provisionProxy E p info img)"
proof (cases "pWithProxy p")
  case True
  have "saName (sidecarArgs E p img) = pName p" by (simp add: sidecarArgs_def)
  then have tail: "accounted E p (bindL (liftL (wrapW SidecarError (createProxySidecar E (sidecarArgs E p img))))
      (\<lambda>_. bindL (updL (\<lambda>l. l\<lparr>proxyCreated := True\<rparr>)) (\<lambda>_. returnL x)))" for x :: "string list"
    by (rule accounted_sidecar_then) (rule accounted_returnL)
  show ?thesis
    using True unfolding provisionProxy_def Let_def
    by (simp add: accounted_bindL accounted_ensureTracked accounted_returnL tail)
qed (simp add: provisionProxy_def accounted_returnL)

section \<open>The last stage\<close>

lemma addPersist_owed:
  assumes "addPersist E p b w = (r, w')"
  shows "owed (eEngine E) w' \<subseteq> owed (eEngine E) w \<union> {RVol (dataVolOf p)}"
proof (cases "spPersistVolume (pSpec p)")
  case True
  obtain r0 w1 where v: "ensureVolume E (dataVolOf p) w = (r0, w1)" by force
  with assms True have "w' = w1"
    by (cases r0) (auto simp: addPersist_def bindW_def wrapW_def wrapE_def returnW_def)
  with ensureVolume_adds [OF v] show ?thesis by (auto split: if_splits)
qed (use assms in \<open>auto simp: addPersist_def returnW_def\<close>)

lemma requestContainer_owed:
  assumes "requestContainer E p opts w = (r, w')"
  shows "owed (eEngine E) w' =
    (case r of Inl _ \<Rightarrow> owed (eEngine E) w | Inr h \<Rightarrow> insert (RCtr (coName opts) (hID h)) (owed (eEngine E) w))"
  using assms
  by (auto simp: requestContainer_def bindW_def wrapW_def wrapE_def returnW_def call_def owed_snoc owedStep_def Let_def
      split: if_splits sum.splits)

lemma finishCreate_owed:
  assumes "finishCreate E p info env0 w = (r, w')"
  shows "owed (eEngine E) w' \<subseteq> owed (eEngine E) w \<union> {RVol (dataVolOf p)} \<union>
    (case r of Inl _ \<Rightarrow> {} | Inr h \<Rightarrow> {RCtr (pCtrName p) (hID h)})"
  using assms unfolding finishCreate_def
proof (cases rule: bindW_cases)
  case (1 e)
  then show ?thesis using addPersist_owed by fastforce
next
  case (2 b1 w1)
  have l1: "owed (eEngine E) w1 \<subseteq> owed (eEngine E) w \<union> {RVol (dataVolOf p)}" by (rule addPersist_owed [OF 2(1)])
  from 2(2) have "(\<exists>e. r = Inl e \<and> w' = w1) \<or> (\<exists>b3. requestContainer E p (createOptions E p info b3) w1 = (r, w'))"
    by (auto simp: bindW_def liftW_def split: sum.splits)
  then show ?thesis
  proof
    assume "\<exists>b3. requestContainer E p (createOptions E p info b3) w1 = (r, w')"
    then obtain b3 where "requestContainer E p (createOptions E p info b3) w1 = (r, w')" by blast
    from requestContainer_owed [OF this] l1 show ?thesis
      by (auto simp: createOptions_def split: sum.splits)
  qed (use l1 in auto)
qed

lemma withCleanup_owed:
  assumes "withCleanup E p (bindL (provisionProxy E p info img) (\<lambda>env0. liftL (finishCreate E p info env0))) net w = (Inl e, w')"
  shows "owed (eEngine E) w' \<subseteq> (owed (eEngine E) w - (if net then {RNet (pNetName p)} else {})) \<union> {RVol (dataVolOf p)}"
proof -
  define l0 where "l0 = \<lparr>networkCreated = net, proxyCreated = False, createdVolumes = []\<rparr>"
  let ?body = "bindL (provisionProxy E p info img) (\<lambda>env0. liftL (finishCreate E p info env0))"
  obtain r l' w1 where b: "?body l0 w = ((r, l'), w1)" by (metis surj_pair)
  with assms have r: "r = Inl e" "w' = cleanup E p l' w1"
    by (auto simp: withCleanup_def l0_def split: sum.splits)
  have "owed (eEngine E) w1 \<subseteq> owed (eEngine E) w \<union> ledgerRes p l' \<union> {RVol (dataVolOf p)} \<and> ledgerRes p l0 \<subseteq> ledgerRes p l'"
    using b
  proof (cases rule: bindL_cases)
    case (1 e)
    then show ?thesis using accountedD [OF accounted_provisionProxy] by blast
  next
    case (2 env0 l1 w0)
    then have "l' = l1" "finishCreate E p info env0 w0 = (Inl e, w1)"
      using r by (auto simp: liftL_def split: prod.splits)
    with accountedD [OF accounted_provisionProxy 2(1)] finishCreate_owed [OF this(2)] show ?thesis by auto
  qed
  moreover have "(if net then {RNet (pNetName p)} else {}) \<subseteq> ledgerRes p l0"
    by (simp add: l0_def ledgerRes_def)
  ultimately show ?thesis using cleanup_owed [of E p l' w1] r(2) by blast
qed

lemma createValidate_name:
  "createValidate E spec w = (Inr v, w') \<Longrightarrow> snd (snd v) = sanitizeName (spName spec) \<and> fst v = spec\<lparr>spCDIDevices := spCDIDevices (fst v)\<rparr>"
  by (auto simp: createValidate_def createParse_def result_iff Let_def split: option.splits)

lemma createPlan_name:
  "createPlan E v w = (Inr p, w') \<Longrightarrow>
     pName p = snd (snd v) \<and> pSpec p = fst v \<and> pConfig p = fst (snd v) \<and> pCtrName p = ''cauteum-'' @ snd (snd v) \<and>
     pNetName p = netPrefix E @ ''-'' @ snd (snd v) \<and>
     pWithProxy p = (TrimSpace (spProxyBin (fst v)) \<noteq> []) \<and> pWithSupervisor p = (TrimSpace (spSupervisorBin (fst v)) \<noteq> [])"
  by (auto simp: createPlan_def Let_def result_iff)

lemma Create_stages:
  assumes "Create E spec w = (r, w')"
  obtains (early) e where "r = Inl e" "owed (eEngine E) w' \<subseteq> owed (eEngine E) w"
  | (late) v p i net w1 w2 w3 w4 where
      "createValidate E spec w = (Inr v, w1)" "createPlan E v w1 = (Inr p, w2)" "createImages E p w2 = (Inr i, w3)"
      "ensureNetwork E (pNetName p) (pName p) (pWithProxy p) w3 = (Inr net, w4)"
      "withCleanup E p (bindL (provisionProxy E p (fst i) (snd i)) (\<lambda>env0. liftL (finishCreate E p (fst i) env0))) net w4 = (r, w')"
      "owed (eEngine E) w3 \<subseteq> owed (eEngine E) w"
  using assms unfolding Create_def
proof (cases rule: bindW_cases)
  case (1 e)
  then show ?thesis using early emits_neutral [OF neutral_validate 1(1)] by blast
next
  case (2 v w1)
  note l1 = emits_neutral [OF neutral_validate 2(1)]
  show ?thesis using 2(2)
  proof (cases rule: bindW_cases)
    case (1 e)
    then show ?thesis using early emits_neutral [OF neutral_plan 1(1)] l1 by blast
  next
    case p: (2 p w2)
    note l2 = emits_neutral [OF neutral_plan p(1)]
    show ?thesis using p(2)
    proof (cases rule: bindW_cases)
      case (1 e)
      then show ?thesis using early emits_neutral [OF neutral_images 1(1)] l1 l2 by blast
    next
      case i: (2 i w3)
      have l3: "owed (eEngine E) w3 \<subseteq> owed (eEngine E) w"
        using emits_neutral [OF neutral_images i(1)] l1 l2 by blast
      show ?thesis using i(2)
      proof (cases rule: bindW_cases)
        case (1 e)
        then obtain r0 where "ensureNetwork E (pNetName p) (pName p) (pWithProxy p) w3 = (r0, w')" "r0 \<noteq> Inr True"
          by (metis Inl_Inr_False isOk.simps(1) isOk.simps(2) wrapW_step)
        from ensureNetwork_adds [OF this(1)] this(2) l3 1 show ?thesis using early by auto
      next
        case n: (2 net w4)
        then have "ensureNetwork E (pNetName p) (pName p) (pWithProxy p) w3 = (Inr net, w4)"
          by (simp add: result_iff)
        with late 2(1) p(1) i(1) n(2) l3 show ?thesis by blast
      qed
    qed
  qed
qed

section \<open>Traces only grow\<close>

abbreviation grows :: "('e, 'a) op \<Rightarrow> bool" where
  "grows m \<equiv> emits (\<lambda>_. True) m"

lemma grows_neutral: "emits neutral m \<Longrightarrow> grows m"
  by (rule emits_mono) simp_all

lemma grows_prefix: "grows m \<Longrightarrow> m w = (r, w') \<Longrightarrow> prefix w w'"
  by (metis emitsD prefixI)

lemma grows_resources:
  "grows (ensureNetwork E n sb internal)" "grows (ensureVolume E v)" "grows (sidecarStart E a cid)" "grows (createProxySidecar E a)"
proof -
  show "grows (ensureNetwork E n sb internal)" "grows (ensureVolume E v)"
    unfolding ensureNetwork_def reuseNetwork_def createNativeNetwork_def createBridgeNetwork_def ensureVolume_def nativeVerify_def NetworkRemove_def
    by (intro emits_rules; simp add: trace_simps)+
  show st: "grows (sidecarStart E a cid)" for cid
    unfolding sidecarStart_def orRemove_def ContainerRemove_def
    by (intro emits_rules) (auto simp: trace_simps intro!: emits_rules grows_neutral [OF neutral_waits(1)] grows_neutral [OF neutral_waits(2)])
  show "grows (createProxySidecar E a)"
    unfolding createProxySidecar_def by (intro emits_rules) (simp_all add: trace_simps st)
qed

lemma grows_finish: "grows (finishCreate E p info env0)"
  unfolding finishCreate_def addPersist_def requestContainer_def
  by (intro emits_rules) (simp_all add: trace_simps grows_resources)

text \<open>The same for operations on the ledger.\<close>

definition growsL :: "'a lop \<Rightarrow> bool" where
  "growsL m \<longleftrightarrow> (\<forall>l w. prefix w (snd (m l w)))"

lemma growsL_simps: "growsL (returnL x)" "growsL (updL f)" "grows m \<Longrightarrow> growsL (liftL m)"
  by (auto simp: growsL_def returnL_def updL_def liftL_def split: prod.splits dest: grows_prefix)

lemma growsL_bindL:
  assumes "growsL m" "\<And>x. growsL (f x)"
  shows "growsL (bindL m f)"
  unfolding growsL_def
proof (intro allI)
  fix l w
  obtain r l1 w1 where m: "m l w = ((r, l1), w1)" by (metis surj_pair)
  then have "prefix w w1" using assms(1) unfolding growsL_def by (metis snd_conv)
  moreover have "prefix w1 (snd (f x l1 w1))" for x using assms(2) unfolding growsL_def by blast
  ultimately show "prefix w (snd (bindL m f l w))"
    using m by (cases r) (auto simp: bindL_def intro: prefix_order.trans)
qed

lemma growsL_provisionProxy: "growsL (provisionProxy E p info img)"
proof -
  have "growsL (ensureTracked E v)" for v
    unfolding ensureTracked_def
    by (intro growsL_bindL) (simp_all add: growsL_simps trace_simps grows_resources)
  then show ?thesis
    unfolding provisionProxy_def Let_def
    by (simp add: growsL_bindL growsL_simps trace_simps grows_resources)
qed

lemma removeVolumes_grows: "prefix w (removeVolumes E vs w)"
proof (induction vs arbitrary: w)
  case (Cons v vs)
  show ?case using Cons.IH [of "w @ [(CleanupCtx, VolumeRemoveReq v)]"]
    by (simp add: VolumeRemove_def call_def append_prefixD)
qed simp

lemma cleanup_grows: "prefix w (cleanup E p l w)"
proof -
  define w1 where
    "w1 = (if proxyCreated l then snd (removeProxySidecar E CleanupCtx (pName p) w :: (unit + unit) \<times> trace) else w)"
  have "prefix w w1"
    by (simp add: w1_def removeProxySidecar_def bindW_def tryW_def returnW_def ContainerRemove_def call_def)
  then have "prefix w (removeVolumes E (createdVolumes l) w1)"
    using removeVolumes_grows by (rule prefix_order.trans)
  then show ?thesis
    by (simp add: cleanup_def Let_def w1_def [symmetric] NetworkRemove_def call_def prefix_append)
qed

lemma grows_withCleanup: "growsL body \<Longrightarrow> grows (withCleanup E p body net)"
  unfolding emits_def growsL_def withCleanup_def
  by (auto simp: list.pred_True split: prod.splits sum.splits)
    (metis cleanup_grows prefixE prefix_order.trans snd_conv)+

lemma Create_grows: "grows (Create E spec)"
proof -
  have "growsL (bindL (provisionProxy E p a b) (\<lambda>env0. liftL (finishCreate E p a env0)))" for p a b
    by (intro growsL_bindL growsL_provisionProxy growsL_simps(3) grows_finish)
  then show ?thesis
    unfolding Create_def
    by (intro emits_bindW)
      (simp_all add: grows_neutral neutral_validate neutral_plan neutral_images trace_simps grows_resources grows_withCleanup)
qed

section \<open>Results\<close>

lemma sample_refused [simp]: "refused (eEngine (sampleEnv ans)) w w' = {}"
proof (rule refused_none)
  show "isOk (ansUnit (eEngine (sampleEnv ans)) (u @ [(c, q)]))" if "removes q r" for u c q r
    using that by (cases q) (simp_all add: sampleEnv_def sampleEngine_def)
qed

lemma create_failure_owed:
  assumes "Create E spec w = (Inl e, w')"
  shows "owed (eEngine E) w' \<subseteq> owed (eEngine E) w \<union> {RVol (''cauteum-data-'' @ sanitizeName (spName spec))}"
  using assms
proof (cases rule: Create_stages)
  case (late v p i net w1 w2 w3 w4)
  have "dataVolOf p = ''cauteum-data-'' @ sanitizeName (spName spec)"
    using createValidate_name [OF late(1)] createPlan_name [OF late(2)] by (simp add: dataVolOf_def)
  with withCleanup_owed [OF late(5)] ensureNetwork_adds [OF late(4)] late(6) show ?thesis
    by (auto split: if_splits)
qed auto

text \<open>
  C1. A failed \<open>Create\<close> leaves nothing behind that the engine agrees to remove: whatever goes wrong,
  on whatever branch and with whatever answers of the engine, a network, volume or container that
  exists after the call existed before, or is the data volume of the sandbox, or is one whose removal
  the call requested and the engine answered with an error. If the engine refuses no removal, all but
  the data volume is gone. (The engine refuses in particular when the context of the caller has ended:
  the proxy of a start-up that failed and a network whose isolation is not verified are removed with
  that context, all others with one of the cleanup.)
\<close>

theorem create_failure_leaves_nothing:
  assumes "Create E spec w = (Inl e, w')"
  shows "live (eEngine E) w' \<subseteq> live (eEngine E) w \<union> {RVol (''cauteum-data-'' @ sanitizeName (spName spec))} \<union>
    refused (eEngine E) w w'"
  using emitsD [OF Create_grows assms] live_bound [OF create_failure_owed [OF assms]] by blast

theorem create_failure_leaves_nothing_witness:
  "\<exists>w'. let E = sampleEnv (\<lambda>n. if n = ''cauteum-box'' then Inl ''no space left'' else Inr ''p1'') in
     Create E sampleSpec [] = (Inl (CreateFailed ''cauteum-box'' ''no space left'' False), w') \<and>
     live (eEngine E) w' \<subseteq> {RVol ''cauteum-data-box''}"
proof -
  let ?E = "sampleEnv (\<lambda>n. if n = ''cauteum-box'' then Inl ''no space left'' else Inr ''p1'')"
  obtain w' where c: "Create ?E sampleSpec [] = (Inl (CreateFailed ''cauteum-box'' ''no space left'' False), w')"
    using sample_create [where ans = "\<lambda>n. if n = ''cauteum-box'' then Inl ''no space left'' else Inr ''p1''" and pid = "''p1''"
        and ls = "[]" and persist = True] by auto
  have "refused (eEngine ?E) [] w' = {}" by (rule sample_refused)
  with create_failure_leaves_nothing [OF c] c show ?thesis
    using sample_name by (auto simp: Let_def)
qed

text \<open>The data volume does stay behind: it is created without an entry in the ledger.\<close>

lemma data_volume_stays_behind:
  "\<exists>w'. let E = sampleEnv (answering ''p1'' (\<lambda>_. Inl ''no space left'')) in
     Create E sampleSpec [] = (Inl (CreateFailed ''cauteum-box'' ''no space left'' False), w') \<and>
     RVol ''cauteum-data-box'' \<in> live (eEngine E) w'"
proof (rule sample_run.world_create [where pid = "''p1''" and ans = "\<lambda>_. Inl ''no space left''" and ls = "[]" and persist = True])
  let ?E = "sampleEnv (answering ''p1'' (\<lambda>_. Inl ''no space left''))"
  fix b1 b3 w0 w1 w'
  let ?opts = "createOptions ?E samplePlan sampleImage b3"
  let ?l = "\<lparr>networkCreated = True, proxyCreated = True, createdVolumes = [''cauteum-ca-box'']\<rparr>"
  assume a: "addPersist ?E samplePlan (buildBase ?E samplePlan sampleProxyEnv) w0 = (Inr b1, w1)"
    and c: "Create ?E sampleSpec [] = (fst (requestContainer ?E samplePlan ?opts w1), w')"
    and cl: "\<not> isOk (fst (Create ?E sampleSpec [])) \<Longrightarrow> w' = cleanup ?E samplePlan ?l (snd (requestContainer ?E samplePlan ?opts w1))"
  have "dataVolOf samplePlan = ''cauteum-data-box''" by (simp add: dataVolOf_def samplePlanOf_def)
  then have "w1 = w0 @ [(ReqCtx, VolumeInspectReq ''cauteum-data-box''), (ReqCtx, VolumeCreateReq ''cauteum-data-box'')]"
    using a sampled.world_volume [where v = "''cauteum-data-box''" and w = w0]
    by (simp add: addPersist_def samplePlanOf_def bindW_def wrapW_def wrapE_def returnW_def)
  then have v: "RVol ''cauteum-data-box'' \<in> owed (eEngine ?E) w1"
    using owed_requests(7) [of "eEngine ?E" "w0 @ [(ReqCtx, VolumeInspectReq ''cauteum-data-box'')]"] by simp
  obtain r w2 where q: "requestContainer ?E samplePlan ?opts w1 = (r, w2)" by force
  have co: "coName ?opts = ''cauteum-box''" "hcDeviceRequests (coHost ?opts) = []"
    using sample_gpu by (simp_all add: createOptions_def samplePlanOf_def hostConfig_def)
  have r: "r = Inl (CreateFailed ''cauteum-box'' ''no space left'' False)"
    using q co by (auto simp: requestContainer_def run_simps answering_def sample_plan_fields)
  have "RVol ''cauteum-data-box'' \<in> owed (eEngine ?E) w2" using requestContainer_owed [OF q] v r by simp
  moreover have "cleanup ?E samplePlan ?l w2 = ((w2 @ [(CleanupCtx, ContainerRemoveReq (''cauteum-proxy-'' @ pName samplePlan))]) @
      [(CleanupCtx, VolumeRemoveReq ''cauteum-ca-box'')]) @ [(CleanupCtx, NetworkRemoveReq (pNetName samplePlan))]"
    by (simp add: cleanup_def Let_def removeProxySidecar_def run_simps ContainerRemove_def NetworkRemove_def VolumeRemove_def)
  ultimately have "RVol ''cauteum-data-box'' \<in> owed (eEngine ?E) (cleanup ?E samplePlan ?l w2)"
    by (simp add: owed_requests(1-3) del: append_assoc)
  moreover have "w' = cleanup ?E samplePlan ?l w2" using cl c q r by simp
  ultimately show ?thesis using c q r owed_live by (auto simp: Let_def)
qed

end
