(* ===== verification/Create_Sandbox.thy ===== *)
theory Create_Sandbox
  imports Create_Failure
begin

text \<open>
  What \<open>Create\<close> asks the engine for when it succeeds: the confinement of the container, the network
  it is attached to, its environment, its ports and its labels.
\<close>

section \<open>The stages of a successful call\<close>

definition proxyEnvOf :: "env \<Rightarrow> plan \<Rightarrow> image_info \<Rightarrow> string list" where
  "proxyEnvOf E p info =
     (if pWithProxy p then
        mergeEnv (mergeEnv (identityEnv (pSpec p) info)
          (ProxyEnv (eDefaults E) (''cauteum-proxy-'' @ pName p) (proxyPortOf E (pSpec p))))
          (CABundleEnv (eDefaults E) (GuestCAFile (eDefaults E)))
      else identityEnv (pSpec p) info)"

lemma liftL_Inr: "liftL m l w = ((Inr x, l'), w') \<longleftrightarrow> m w = (Inr x, w') \<and> l' = l"
  by (auto simp: liftL_def split: prod.splits)

lemma provisionProxy_env:
  assumes "provisionProxy E p info img l w = ((Inr env0, l'), w')"
  shows "env0 = proxyEnvOf E p info"
proof (cases "pWithProxy p")
  case False
  then show ?thesis using assms by (auto simp: provisionProxy_def proxyEnvOf_def returnL_def)
next
  case True
  then show ?thesis using assms
    by (auto simp: provisionProxy_def proxyEnvOf_def Let_def returnL_def updL_def elim!: bindL_cases)
qed

section \<open>The environment of the container\<close>

text \<open>The variables set after the proxy stage.\<close>

definition lateKeys :: "string list" where
  "lateKeys =
     [''CAUTEUM_DATA'', ''HOME'', ''PATH'', ''CAUTEUM_RECONCILE_DATA_OWNERSHIP'', ''CAUTEUM_POLICY'',
      ''CAUTEUM_RELAY_TARGET_SOCKET'', ''CAUTEUM_SUPERVISOR_CONTROL_SOCKET'', ''DISPLAY_MODE'', ''DISPLAY'',
      ''CAUTEUM_VNC_PASSWORD'', ''CAUTEUM_NOVNC_PORT'']"

lemma build_simps [simp]:
  "bEnv (addEnv e b) = mergeEnv (bEnv b) e" "bBinds (addEnv e b) = bBinds b" "bLabels (addEnv e b) = bLabels b"
  "bEnv (addBinds bs b) = bEnv b" "bBinds (addBinds bs b) = bBinds b @ bs" "bLabels (addBinds bs b) = bLabels b"
  "bEnv (setLabel k v b) = bEnv b" "bBinds (setLabel k v b) = bBinds b" "bLabels (setLabel k v b) = (bLabels b)(k \<mapsto> v)"
  by (simp_all add: addEnv_def addBinds_def setLabel_def)

lemma userLabels_simps [simp]: "bEnv (userLabels ls b) = bEnv b" "bBinds (userLabels ls b) = bBinds b"
  by (induction ls b rule: userLabels.induct) simp_all

lemma late_layers:
  assumes "k \<notin> set lateKeys"
  shows "envOf [''CAUTEUM_DATA='' @ v1, ''HOME='' @ v2, ''PATH='' @ v3] k = None"
    "envOf [''CAUTEUM_RECONCILE_DATA_OWNERSHIP=1''] k = None" "envOf [''CAUTEUM_POLICY=/cauteum/policy.yaml''] k = None"
    "envOf [''CAUTEUM_RELAY_TARGET_SOCKET='' @ v1] k = None" "envOf [''CAUTEUM_SUPERVISOR_CONTROL_SOCKET='' @ v1] k = None"
    "envOf [''DISPLAY_MODE=novnc'', ''DISPLAY=:99'', ''CAUTEUM_VNC_PASSWORD='' @ v1, ''CAUTEUM_NOVNC_PORT='' @ v2] k = None"
  using assms by (simp_all add: lateKeys_def envOf_def env_simps envKV_def Cut_def)

lemma buildBase_env: "bEnv (buildBase E p env0) = env0"
  by (simp add: buildBase_def Let_def)

lemma addPersist_env:
  assumes "addPersist E p b w = (Inr b1, w')" "k \<notin> set lateKeys"
  shows "envOf (bEnv b1) k = envOf (bEnv b) k"
  using assms late_layers [OF assms(2)]
  by (auto simp: addPersist_def result_iff persistBuild_def Let_def env_lists.merge_kept simp del: append.simps split: if_splits)

lemma addInit_env:
  assumes "addInit E spec b = Inr b1" "k \<notin> set lateKeys"
  shows "envOf (bEnv b1) k = envOf (bEnv b) k"
  using assms late_layers [OF assms(2)]
  by (auto simp: addInit_def result_iff Let_def env_lists.merge_kept split: if_splits)

lemma addSSH_env:
  assumes "k \<notin> set lateKeys"
  shows "envOf (bEnv (addSSH E p b)) k = envOf (bEnv b) k"
  using late_layers [OF assms] by (simp add: addSSH_def Let_def env_lists.merge_kept del: append.simps)

lemma addDisplay_env:
  assumes "addDisplay E p b = Inr b1" "k \<notin> set lateKeys"
  shows "envOf (bEnv b1) k = envOf (bEnv b) k"
  using assms late_layers [OF assms(2)]
  by (auto simp: addDisplay_def Let_def env_lists.merge_kept simp del: append.simps split: if_splits)

lemma stages_env:
  assumes "addPersist E p (buildBase E p env0) w = (Inr b1, w')" "addInit E (pSpec p) b1 = Inr b2"
    "addDisplay E p (addSSH E p (addSupervisor p b2)) = Inr b3" "k \<notin> set lateKeys"
  shows "envOf (bEnv b3) k = envOf env0 k"
  using addPersist_env [OF assms(1,4)] addInit_env [OF assms(2,4)] addDisplay_env [OF assms(3,4)]
    addSSH_env [OF assms(4), of E p "addSupervisor p b2"]
  by (simp add: buildBase_env addSupervisor_def split: if_splits)

definition proxyKeys :: "string list" where
  "proxyKeys = [''HTTP_PROXY'', ''HTTPS_PROXY'', ''http_proxy'', ''https_proxy'', ''ALL_PROXY'']"

definition noProxyKeys :: "string list" where
  "noProxyKeys = [''NO_PROXY'', ''no_proxy'']"

definition caKeys :: "string list" where
  "caKeys = [''SSL_CERT_FILE'', ''CURL_CA_BUNDLE'', ''REQUESTS_CA_BUNDLE'', ''NODE_EXTRA_CA_CERTS'', ''GIT_SSL_CAINFO'']"

lemma ProxyEnv_value:
  "k \<in> set proxyKeys \<Longrightarrow> host \<noteq> [] \<Longrightarrow>
   envOf (ProxyEnv D host port) k = Some (proxyURL host (if port \<le> 0 then ProxyPort D else port))"
  by (auto simp: proxyKeys_def ProxyEnv_def proxyURL_def Let_def envOf_def env_simps envKV_def Cut_def)

lemma ProxyEnv_exceptions: "k \<in> set noProxyKeys \<Longrightarrow> envOf (ProxyEnv D host port) k = Some (NoProxyValue D)"
  by (auto simp: noProxyKeys_def ProxyEnv_def Let_def envOf_def env_simps envKV_def Cut_def)

lemma CABundleEnv_value: "k \<in> set caKeys \<Longrightarrow> envOf (CABundleEnv D (GuestCAFile D)) k = Some (GuestCAFile D)"
  by (auto simp: caKeys_def CABundleEnv_def Let_def envOf_def env_simps envKV_def Cut_def)

lemma proxy_layers_identity:
  "k \<in> set identityKeys \<Longrightarrow> envOf (ProxyEnv D host port) k = None"
  "k \<in> set identityKeys \<Longrightarrow> envOf (CABundleEnv D ca) k = None"
  "k \<in> set proxyKeys \<Longrightarrow> envOf (CABundleEnv D ca) k = None"
  "k \<in> set noProxyKeys \<Longrightarrow> envOf (CABundleEnv D ca) k = None"
  by (auto simp: identityKeys_def proxyKeys_def noProxyKeys_def ProxyEnv_def CABundleEnv_def Let_def envOf_def env_simps envKV_def Cut_def)

lemma proxyEnvOf_identity:
  assumes "k \<in> set identityKeys"
  shows "envOf (proxyEnvOf E p info) k =
    (if k = ''OPENSHELL_OCI_IMAGE_USER'' then Some (case iiUser info of None \<Rightarrow> [] | Some u \<Rightarrow> u) else None)"
proof -
  have "envOf [''OPENSHELL_OCI_IMAGE_USER='' @ u] = [''OPENSHELL_OCI_IMAGE_USER'' \<mapsto> u]" for u
    by (simp add: envOf_def env_simps envKV_def Cut_def)
  then have "envOf (identityEnv (pSpec p) info) k =
      (if k = ''OPENSHELL_OCI_IMAGE_USER'' then Some (case iiUser info of None \<Rightarrow> [] | Some u \<Rightarrow> u) else None)"
    using envOf_filterIdentity [OF assms, of "spEnv (pSpec p)"]
    by (simp add: identityEnv_def mergeEnv_envOf map_add_def del: append.simps)
  moreover have "envOf (proxyEnvOf E p info) k = envOf (identityEnv (pSpec p) info) k"
    using proxy_layers_identity(1,2) [OF assms] by (simp add: proxyEnvOf_def env_lists.merge_kept)
  ultimately show ?thesis by presburger
qed

lemma proxyEnvOf_proxy:
  assumes "pWithProxy p"
  shows "k \<in> set proxyKeys \<Longrightarrow>
      envOf (proxyEnvOf E p info) k = Some (proxyURL (''cauteum-proxy-'' @ pName p) (proxyPortOf E (pSpec p)))"
    and "k \<in> set noProxyKeys \<Longrightarrow> envOf (proxyEnvOf E p info) k = Some (NoProxyValue (eDefaults E))"
    and "k \<in> set caKeys \<Longrightarrow> envOf (proxyEnvOf E p info) k = Some (GuestCAFile (eDefaults E))"
  using assms ProxyEnv_exceptions [of k "eDefaults E" "''cauteum-proxy-'' @ pName p" "proxyPortOf E (pSpec p)"] ProxyEnv_value [of k "''cauteum-proxy-'' @ pName p" "eDefaults E" "proxyPortOf E (pSpec p)"]
    CABundleEnv_value [of k "eDefaults E"] proxy_layers_identity(3,4) [of k "eDefaults E" "GuestCAFile (eDefaults E)"]
  by (simp_all add: proxyEnvOf_def env_lists.merge_kept env_lists.merge_set proxyPortOf_def del: append.simps split: if_splits)

section \<open>A successful run\<close>

lemma Create_success:
  assumes "Create E spec w = (Inr h, w')"
  obtains v p i net w1 w2 w3 w4 w5 w6 b1 b2 b3 where
      "createValidate E spec w = (Inr v, w1)" "createPlan E v w1 = (Inr p, w2)" "createImages E p w2 = (Inr i, w3)"
      "ensureNetwork E (pNetName p) (pName p) (pWithProxy p) w3 = (Inr net, w4)"
      "addPersist E p (buildBase E p (proxyEnvOf E p (fst i))) w5 = (Inr b1, w6)"
      "addInit E (pSpec p) b1 = Inr b2" "addDisplay E p (addSSH E p (addSupervisor p b2)) = Inr b3"
      "requestContainer E p (createOptions E p (fst i) b3) w6 = (Inr h, w')"
      "prefix w3 w'" "prefix w4 w'"
  using assms
proof (cases rule: Create_stages)
  case (late v p i net w1 w2 w3 w4)
  define l0 where "l0 = \<lparr>networkCreated = net, proxyCreated = False, createdVolumes = []\<rparr>"
  let ?body = "bindL (provisionProxy E p (fst i) (snd i)) (\<lambda>env0. liftL (finishCreate E p (fst i) env0))"
  from late(5) obtain l where b: "?body l0 w4 = ((Inr h, l), w')"
    by (auto simp: withCleanup_def l0_def split: prod.splits sum.splits)
  then show thesis
  proof (cases rule: bindL_cases)
    case (2 env0 l1 w5)
    then have f: "finishCreate E p (fst i) (proxyEnvOf E p (fst i)) w5 = (Inr h, w')"
      using provisionProxy_env by (auto simp: liftL_Inr)
    have "prefix w4 w5" using growsL_provisionProxy 2(1) unfolding growsL_def by (metis snd_conv)
    then have "prefix w4 w'" using grows_prefix [OF grows_finish f] by (rule prefix_order.trans)
    moreover from this have "prefix w3 w'"
      using grows_prefix [OF grows_resources(1) late(4)] by (meson prefix_order.trans)
    ultimately show thesis using that late(1-4) f unfolding finishCreate_def result_iff by blast
  qed simp
qed simp

text \<open>The specification the later stages work on: a device list of the driver configuration replaces its own.\<close>

definition effectiveDevices :: "Spec \<Rightarrow> sandbox_config \<Rightarrow> string list" where
  "effectiveDevices spec sc = (case scDevices sc of None \<Rightarrow> spCDIDevices spec | Some ds \<Rightarrow> ds)"

lemma createValidate_config:
  assumes "createValidate E spec w = (Inr v, w')"
  shows "parseDockerSandboxDriverConfig (eDefaults E) (eOS E) (spDriverConfigJSON spec) (enableBindMounts (eDriver E)) = Inr (fst (snd v)) \<and>
    fst v = spec\<lparr>spCDIDevices := effectiveDevices spec (fst (snd v))\<rparr> \<and> ValidateGPURequest (eOS E) spec = Inr ()"
  using assms
  by (auto simp: createValidate_def createParse_def effectiveDevices_def result_iff Let_def wrapE_def split: option.splits sum.splits)

lemma DeviceRequestsForGPU_Nil:
  "DeviceRequestsForGPU os spec = [] \<longleftrightarrow> \<not> spGPU spec \<and> spCDIDevices spec = []"
  by (simp add: DeviceRequestsForGPU_def Let_def)

lemma createImages_inspected:
  assumes "createImages E p w = (Inr i, w')"
  shows "\<exists>w0. prefix (w0 @ [(ReqCtx, ImageInspectReq (pImg p))]) w' \<and>
    ansImageInspect (eEngine E) (w0 @ [(ReqCtx, ImageInspectReq (pImg p))]) = Inr (fst i) \<and> TrimSpace (iiID (fst i)) \<noteq> []"
proof -
  let ?req = "(ReqCtx, ImageInspectReq (pImg p))"
  define rest where "rest info = (if \<not> pWithProxy p then returnW (info, [])
     else (let proxyImg = resolveProxyImage (eDefaults E) (eOS E) (spProxyImage (pSpec p)) in
        if proxyImg = pImg p then returnW (info, proxyImg)
        else bindW (wrapW ImageError (ensureImage E proxyImg)) (\<lambda>_. returnW (info, proxyImg))))" for info :: image_info
  have "createImages E p = bindW (wrapW ImageError (ensureImage E (pImg p))) (\<lambda>_.
     bindW (wrapW (InspectImage (pImg p)) (ImageInspect E (pImg p))) (\<lambda>info.
     bindW (liftW (failIf (TrimSpace (iiID info) = []) (NoImageID (pImg p)))) (\<lambda>_. rest info)))"
    by (simp add: createImages_def rest_def)
  with assms obtain w0 info where
    "ansImageInspect (eEngine E) (w0 @ [?req]) = Inr info" "TrimSpace (iiID info) \<noteq> []" "rest info (w0 @ [?req]) = (Inr i, w')"
    by (auto simp: result_iff ImageInspect_def dest: sym)
  moreover have "grows (rest info)"
    unfolding rest_def Let_def
    by (intro emits_rules) (simp_all add: trace_simps grows_neutral [OF neutral_ensureImage])
  moreover have "fst i = info" using calculation(3) by (auto simp: rest_def Let_def result_iff split: if_splits)
  ultimately show ?thesis using grows_prefix by blast
qed

lemma requestContainer_request:
  assumes "requestContainer E p opts w = (Inr h, w')"
  shows "w' = w @ [(ReqCtx, if nativeContainerCreate (eDriver E) then NativeContainerCreateReq opts else ContainerCreateReq opts)] \<and>
    ansContainerCreate (eEngine E) w' = Inr (hID h) \<and> hName h = pName p \<and> hNetwork h = pNetName p \<and> hImage h = pImg p"
  using assms by (auto simp: requestContainer_def result_iff split: if_splits)

section \<open>Results\<close>


lemma sample_success:
  obtains w' where "Create (sampleEnv (\<lambda>_. Inr ''c1'')) (sampleSpecOf ls persist) [] =
    (Inr \<lparr>hID = ''c1'', hName = ''box'', hNetwork = ''cauteum-net-box'', hImage = ''debian:bookworm''\<rparr>, w')"
  using sample_create [where ans = "\<lambda>_. Inr ''c1''" and pid = "''c1''" and ls = ls and persist = persist] by auto


text \<open>
  C11. The driver decides the identity and proxy variables of a sandbox, not the caller: whatever
  the specification puts into the environment, \<open>OPENSHELL_OCI_IMAGE_USER\<close> is the user of the
  inspected image, the sandbox UID and GID variables are unset, and behind a proxy the five proxy
  variables name the sandbox's own sidecar, \<open>NO_PROXY\<close> and \<open>no_proxy\<close> list only the exceptions of the
  defaults, and the five CA variables name the CA file of the guest.
\<close>

theorem sandbox_environment_decided:
  assumes "Create E spec w = (Inr h, w')"
  shows "\<exists>opts info w0.
    snd (last w') = (if nativeContainerCreate (eDriver E) then NativeContainerCreateReq opts else ContainerCreateReq opts) \<and>
    ansImageInspect (eEngine E) (w0 @ [(ReqCtx, ImageInspectReq (hImage h))]) = Inr info \<and>
    prefix (w0 @ [(ReqCtx, ImageInspectReq (hImage h))]) w' \<and>
    envOf (ccEnv (coConfig opts)) ''OPENSHELL_OCI_IMAGE_USER'' = Some (case iiUser info of None \<Rightarrow> [] | Some u \<Rightarrow> u) \<and>
    envOf (ccEnv (coConfig opts)) ''OPENSHELL_SANDBOX_UID'' = None \<and>
    envOf (ccEnv (coConfig opts)) ''OPENSHELL_SANDBOX_GID'' = None \<and>
    (TrimSpace (spProxyBin spec) = [] \<or>
      (\<forall>k \<in> set proxyKeys. envOf (ccEnv (coConfig opts)) k =
         Some (proxyURL (''cauteum-proxy-'' @ hName h) (proxyPortOf E spec))) \<and>
      (\<forall>k \<in> set noProxyKeys. envOf (ccEnv (coConfig opts)) k = Some (NoProxyValue (eDefaults E))) \<and>
      (\<forall>k \<in> set caKeys. envOf (ccEnv (coConfig opts)) k = Some (GuestCAFile (eDefaults E))))"
  using assms
proof (cases rule: Create_success)
  case (1 v p i net w1 w2 w3 w4 w5 w6 b1 b2 b3)
  note n = createValidate_name [OF 1(1)] createPlan_name [OF 1(2)] requestContainer_request [OF 1(8)]
  then have e: "spProxyBin (pSpec p) = spProxyBin spec" "proxyPortOf E (pSpec p) = proxyPortOf E spec"
    by (metis (no_types, lifting) Spec.select_convs(7,9) Spec.surjective Spec.update_convs(25) proxyPortOf_def)+
  obtain w0 where w0: "prefix (w0 @ [(ReqCtx, ImageInspectReq (pImg p))]) w3"
    "ansImageInspect (eEngine E) (w0 @ [(ReqCtx, ImageInspectReq (pImg p))]) = Inr (fst i)"
    using createImages_inspected [OF 1(3)] by blast
  note keep = stages_env [OF 1(5-7)]
  have late: "k \<in> set identityKeys \<Longrightarrow> k \<notin> set lateKeys" "k \<in> set proxyKeys \<Longrightarrow> k \<notin> set lateKeys"
      "k \<in> set caKeys \<Longrightarrow> k \<notin> set lateKeys" "k \<in> set noProxyKeys \<Longrightarrow> k \<notin> set lateKeys" for k
    by (auto simp: identityKeys_def proxyKeys_def noProxyKeys_def caKeys_def lateKeys_def)
  have id: "envOf (bEnv b3) k = (if k = ''OPENSHELL_OCI_IMAGE_USER'' then Some (case iiUser (fst i) of None \<Rightarrow> [] | Some u \<Rightarrow> u) else None)"
    if "k \<in> set identityKeys" for k
    using keep [OF late(1) [OF that]] proxyEnvOf_identity [OF that, of E p "fst i"] by simp
  have px: "envOf (bEnv b3) k = Some (proxyURL (''cauteum-proxy-'' @ pName p) (proxyPortOf E spec))"
    if "pWithProxy p" "k \<in> set proxyKeys" for k
    using keep [OF late(2) [OF that(2)]] proxyEnvOf_proxy(1) [OF that, of E "fst i"] e by simp
  have ca: "envOf (bEnv b3) k = Some (GuestCAFile (eDefaults E))" if "pWithProxy p" "k \<in> set caKeys" for k
    using keep [OF late(3) [OF that(2)]] proxyEnvOf_proxy(3) [OF that, of E "fst i"] by simp
  have np: "envOf (bEnv b3) k = Some (NoProxyValue (eDefaults E))" if "pWithProxy p" "k \<in> set noProxyKeys" for k
    using keep [OF late(4) [OF that(2)]] proxyEnvOf_proxy(2) [OF that, of E "fst i"] by simp
  have "pWithProxy p \<longleftrightarrow> TrimSpace (spProxyBin spec) \<noteq> []" using n e by simp
  moreover have "ccEnv (coConfig (createOptions E p (fst i) b3)) = bEnv b3"
    by (simp add: createOptions_def containerConfig_def Let_def)
  moreover have "prefix (w0 @ [(ReqCtx, ImageInspectReq (pImg p))]) w'" using w0(1) 1(9) by (rule prefix_order.trans)
  ultimately show ?thesis
    using n w0(2) id [of "''OPENSHELL_OCI_IMAGE_USER''"] id [of "''OPENSHELL_SANDBOX_UID''"] id [of "''OPENSHELL_SANDBOX_GID''"] px np ca
    by (intro exI [of _ "createOptions E p (fst i) b3"] exI [of _ "fst i"] exI [of _ w0]) (auto simp: identityKeys_def)
qed

theorem sandbox_environment_decided_witness:
  "\<exists>w' opts. Create (sampleEnv (\<lambda>_. Inr ''c1'')) sampleSpec [] =
      (Inr \<lparr>hID = ''c1'', hName = ''box'', hNetwork = ''cauteum-net-box'', hImage = ''debian:bookworm''\<rparr>, w') \<and>
    snd (last w') = ContainerCreateReq opts \<and>
    envOf (ccEnv (coConfig opts)) ''OPENSHELL_SANDBOX_UID'' = None \<and>
    envOf (ccEnv (coConfig opts)) ''HTTP_PROXY'' = Some ''http://cauteum-proxy-box:3128''"
proof -
  obtain w' where c: "Create (sampleEnv (\<lambda>_. Inr ''c1'')) sampleSpec [] =
      (Inr \<lparr>hID = ''c1'', hName = ''box'', hNetwork = ''cauteum-net-box'', hImage = ''debian:bookworm''\<rparr>, w')"
    by (rule sample_success)
  have "proxyURL ''cauteum-proxy-box'' 3128 = ''http://cauteum-proxy-box:3128''"
    by (simp add: proxyURL_def Itoa_def natStr.simps) code_simp
  moreover have "proxyPortOf (sampleEnv (\<lambda>_. Inr ''c1'')) sampleSpec = 3128"
    by (simp add: proxyPortOf_def exampleDefaults_def)
  moreover have "TrimSpace (spProxyBin sampleSpec) \<noteq> []" by (simp add: sample_trims)
  ultimately obtain opts where "snd (last w') = ContainerCreateReq opts"
    "envOf (ccEnv (coConfig opts)) ''OPENSHELL_SANDBOX_UID'' = None"
    "envOf (ccEnv (coConfig opts)) ''HTTP_PROXY'' = Some ''http://cauteum-proxy-box:3128''"
    using sandbox_environment_decided [OF c] by (auto simp: proxyKeys_def)
  with c show ?thesis by (intro exI conjI)
qed

end
