(* ===== verification/Create_Rules.thy ===== *)
theory Create_Rules
  imports Create_Sandbox
begin

text \<open>
  Rules the driver keeps while it creates a sandbox: which networks it accepts, when it pulls an
  image, that it never touches an existing sandbox of the same name, where it publishes ports, and
  two places where the code does less than it means to.
\<close>

section \<open>Networks\<close>

definition gatewayIsolated :: "(string \<Rightarrow> string option) \<Rightarrow> bool" where
  "gatewayIsolated opts \<longleftrightarrow> opts gatewayMode4 = Some ''isolated'' \<and> opts gatewayMode6 = Some ''isolated''"

lemma at_isolated: "at opts k = ''isolated'' \<longleftrightarrow> opts k = Some ''isolated''"
  by (auto simp: at_def split: option.splits)

lemma bridge_isolated: "noInternal (bridgeOptions sb True)" "gatewayIsolated (map_of (noOptions (bridgeOptions sb True)))"
  by (simp_all add: bridgeOptions_def gatewayIsolated_def gatewayMode4_def gatewayMode6_def)

text \<open>
  C6. The network of a proxied sandbox is cut off: a network is reused only when the engine reports
  it as internal and its isolation from the host gateway is reported or verified by the backend, and
  a new one is requested as internal and either with an isolated gateway or verified by the backend
  after its creation.
\<close>

theorem proxied_network_isolated:
  assumes "ensureNetwork E n sb True w = (Inr created, w')"
  defines "w1 \<equiv> w @ [(ReqCtx, NetworkInspectReq n)]"
  shows "(\<exists>info. \<not> created \<and> ansNetworkInspect (eEngine E) w1 = Inr info \<and> niInternal info \<and>
            (if nativeNetworkVerify (eDriver E)
             then w' = w1 @ [(ReqCtx, NativeNetworkVerifyReq n True)] \<and> ansUnit (eEngine E) w' = Inr ()
             else w' = w1 \<and> gatewayIsolated (niOptions info))) \<or>
         (\<exists>e opts. created \<and> ansNetworkInspect (eEngine E) w1 = Inl e \<and>
            w' = w1 @ [(ReqCtx, NetworkCreateReq n opts)] \<and> ansUnit (eEngine E) w' = Inr () \<and>
            noInternal opts \<and> gatewayIsolated (map_of (noOptions opts))) \<or>
         (\<exists>e. created \<and> ansNetworkInspect (eEngine E) w1 = Inl e \<and>
            w' = w1 @ [(ReqCtx, NativeNetworkCreateReq n True (networkLabels sb)), (ReqCtx, NativeNetworkVerifyReq n True)] \<and>
            ansUnit (eEngine E) w' = Inr ())"
proof (cases "ansNetworkInspect (eEngine E) w1")
  case (Inr info)
  with assms(1) have "reuseNetwork E n True info w1 = (Inr created, w')"
    by (auto simp: ensureNetwork_def bindW_def tryW_def call_def liftW_def w1_def split: if_splits)
  then have "\<not> created \<and> niInternal info \<and>
      (if nativeNetworkVerify (eDriver E)
       then w' = w1 @ [(ReqCtx, NativeNetworkVerifyReq n True)] \<and> ansUnit (eEngine E) w' = Inr ()
       else w' = w1 \<and> gatewayIsolated (niOptions info))"
    by (auto simp: reuseNetwork_def result_iff nativeVerify_def gatewayIsolated_def at_isolated split: if_splits)
  with Inr show ?thesis by blast
next
  case (Inl e)
  with assms(1) have "(if nativeNetworkCreate (eDriver E) then createNativeNetwork E n sb True w1 else createBridgeNetwork E n sb True w1) =
      (Inr created, w') \<and> (nativeNetworkCreate (eDriver E) \<longrightarrow> nativeNetworkVerify (eDriver E))"
    by (auto simp: ensureNetwork_def bindW_def tryW_def call_def liftW_def w1_def split: if_splits)
  then have "created \<and> ((\<exists>opts. w' = w1 @ [(ReqCtx, NetworkCreateReq n opts)] \<and> ansUnit (eEngine E) w' = Inr () \<and>
            noInternal opts \<and> gatewayIsolated (map_of (noOptions opts))) \<or>
      w' = w1 @ [(ReqCtx, NativeNetworkCreateReq n True (networkLabels sb)), (ReqCtx, NativeNetworkVerifyReq n True)] \<and>
            ansUnit (eEngine E) w' = Inr ())"
    using bridge_isolated [of sb]
    by (auto simp: createNativeNetwork_def createBridgeNetwork_def result_iff nativeVerify_def split: if_splits sum.splits)
  with Inl show ?thesis by blast
qed

theorem proxied_network_isolated_witness:
  "\<exists>w' opts. ensureNetwork (sampleEnv (\<lambda>_. Inr ''c1'')) ''n'' ''box'' True [] = (Inr True, w') \<and>
     last w' = (ReqCtx, NetworkCreateReq ''n'' opts) \<and> noInternal opts \<and> gatewayIsolated (map_of (noOptions opts))"
proof -
  have c: "ensureNetwork (sampleEnv (\<lambda>_. Inr ''c1'')) ''n'' ''box'' True [] =
      (Inr True, [(ReqCtx, NetworkInspectReq ''n''), (ReqCtx, NetworkCreateReq ''n'' (bridgeOptions ''box'' True))])"
    by (simp add: ensureNetwork_def createBridgeNetwork_def run_simps)
  from proxied_network_isolated [OF c] c show ?thesis by (intro exI conjI) auto
qed

section \<open>Images\<close>

text \<open>
  C27. The pull policy is respected: under \<open>never\<close> the only request is the local inspection, and it
  decides the result; under \<open>always\<close> and \<open>newer\<close> success means that a pull was acknowledged and read
  to its end; under every other policy a local image is used without a pull.
\<close>

theorem image_pull_policy_respected:
  assumes "ensureImage E ref w = (r, w')"
  defines "policy \<equiv> ToLower (TrimSpace (ImagePullPolicy (cfgOf E)))"
    and "w1 \<equiv> w @ [(ReqCtx, ImageInspectReq ref)]"
  shows "if policy = ''never'' then w' = w1 \<and> isOk r = isOk (ansImageInspect (eEngine E) w1)
         else if policy = ''always'' \<or> policy = ''newer'' then
           isOk r = (\<exists>auth. registryAuth E ref = Inr auth \<and> w' = w @ [(ReqCtx, ImagePullReq ref auth)] \<and>
             isOk (ansUnit (eEngine E) w') \<and> isOk (ansPullStream (eEngine E) w'))
         else \<not> isOk (ansImageInspect (eEngine E) w1) \<or> r = Inr () \<and> w' = w1"
  using assms(1)
  by (auto simp: policy_def w1_def ensureImage_def Let_def ImageInspect_def pullImage_def bindW_def wrapW_def liftW_def
      tryW_def call_def returnW_def wrapE_def split: if_splits sum.splits)

theorem image_pull_policy_respected_witness:
  "ensureImage (sampleEnv (\<lambda>_. Inr ''c1'')) ''debian'' [] = (Inr (), [(ReqCtx, ImageInspectReq ''debian'')])"
proof -
  obtain r w' where c: "ensureImage (sampleEnv (\<lambda>_. Inr ''c1'')) ''debian'' [] = (r, w')" by force
  from image_pull_policy_respected [OF c] c show ?thesis by (simp add: sample_strings)
qed

section \<open>Existing sandboxes\<close>

text \<open>
  C26. A second \<open>Create\<close> for a name that still has managed containers is refused and changes nothing:
  the listing is the only request.
\<close>

theorem create_refuses_existing:
  assumes "createParse E spec = Inr sc" and "sanitizeName (spName spec) \<noteq> []"
    and "ansContainerList (eEngine E) (w @ [(ReqCtx, ContainerListReq (filterLabels (sanitizeName (spName spec))))]) = Inr (c # cs)"
  shows "Create E spec w =
    (Inl (AlreadyManaged (sanitizeName (spName spec))),
     w @ [(ReqCtx, ContainerListReq (filterLabels (sanitizeName (spName spec))))])"
proof -
  have "spName (fst sc) = spName spec"
    using assms(1) by (auto simp: createParse_def result_iff split: option.splits)
  with assms have "createValidate E spec w = (Inl (AlreadyManaged (sanitizeName (spName spec))),
     w @ [(ReqCtx, ContainerListReq (filterLabels (sanitizeName (spName spec))))])"
    by (simp add: createValidate_def run_simps ContainerList_def Let_def)
  then show ?thesis by (simp add: Create_def bindW_def)
qed

definition sampleSummary :: container_summary where
  "sampleSummary = \<lparr>csID = ''c1'', csNames = [''/cauteum-box''], csImage = ''debian'', csStatus = ''Up'',
     csLabels = [labelSandbox \<mapsto> ''1'', labelName \<mapsto> ''box'', labelRole \<mapsto> roleSandbox]\<rparr>"

definition occupiedEnv :: env where
  "occupiedEnv = (let E = sampleEnv (\<lambda>_. Inr ''c1'') in E\<lparr>eEngine := (eEngine E)\<lparr>ansContainerList := (\<lambda>_. Inr [sampleSummary])\<rparr>\<rparr>)"

theorem create_refuses_existing_witness:
  "Create occupiedEnv sampleSpec [] = (Inl (AlreadyManaged ''box''), [(ReqCtx, ContainerListReq (filterLabels ''box''))])"
proof -
  have "createParse occupiedEnv sampleSpec = Inr (sampleSpec, sampleSandboxConfig)"
    using sampled.world_parse [where ans = "\<lambda>_. Inr ''c1''" and ls = "[]" and persist = True] by (simp add: createParse_def occupiedEnv_def Let_def)
  moreover have "ansContainerList (eEngine occupiedEnv) w = Inr [sampleSummary]" for w
    by (simp add: occupiedEnv_def Let_def)
  moreover have "sanitizeName (spName sampleSpec) = ''box''" by (rule sample_name)
  ultimately show ?thesis using create_refuses_existing [of occupiedEnv sampleSpec _ "[]" sampleSummary "[]"] by simp
qed

section \<open>Ports\<close>

lemma publish_keys: "map fst (publish g h pm) = addKey (map fst pm) (of_int g)"
  by (simp add: publish_def update_keys addKey_def)

lemma addKey_distinct: "distinct ks \<Longrightarrow> distinct (foldl addKey ks xs)"
  by (induction xs arbitrary: ks) (auto simp: addKey_def)

lemma portBindings_keys_aux:
  "map fst (foldl (\<lambda>pm gh. publish (fst gh) (snd gh) pm) pm ps) = foldl addKey (map fst pm) (map (\<lambda>gh. of_int (fst gh)) ps)"
  by (induction ps arbitrary: pm) (simp_all add: publish_keys)

lemma portBindings_keys: "map fst (portBindings E spec) = exposedPorts E spec"
  by (simp add: portBindings_def exposedPorts_def portBindings_keys_aux)

lemma portBindings_values_aux:
  assumes "(k, bs) \<in> set (foldl (\<lambda>pm gh. publish (fst gh) (snd gh) pm) pm ps)"
  shows "(k, bs) \<in> set pm \<or> (\<exists>g h. (g, h) \<in> set ps \<and> k = of_int g \<and> bs = [\<lparr>pbHostIP = loopback, pbHostPort = Itoa h\<rparr>])"
  using assms
proof (induction ps arbitrary: pm)
  case (Cons gh ps)
  have "set (publish g h pm) \<subseteq> insert (of_int g, [\<lparr>pbHostIP = loopback, pbHostPort = Itoa h\<rparr>]) (set pm)" for g h
  proof -
    have "set (AList.update k v pm) \<subseteq> insert (k, v) (set pm)" for k :: "16 word" and v
      by (induction pm) auto
    then show ?thesis by (simp add: publish_def)
  qed
  with Cons.IH [of "publish (fst gh) (snd gh) pm"] Cons.prems show ?case
    by (cases gh) (auto, blast+)
qed simp

lemma publish_lookup: "map_of (publish g h pm) = (map_of pm)(of_int g \<mapsto> [\<lparr>pbHostIP = loopback, pbHostPort = Itoa h\<rparr>])"
  by (simp add: publish_def update_conv')

lemma portBindings_defined:
  assumes "g \<in> fst ` set (publishedPorts E spec)"
  shows "of_int g \<in> set (exposedPorts E spec)"
proof -
  have "set (foldl addKey ks xs) = set ks \<union> set xs" for ks xs :: "16 word list"
    by (induction xs arbitrary: ks) (auto simp: addKey_def)
  with assms show ?thesis by (force simp: exposedPorts_def)
qed

text \<open>The bindings as a map: the last publication of a guest port decides.\<close>

definition requestedBindings :: "(int \<times> int) list \<Rightarrow> 16 word \<rightharpoonup> PortBinding list" where
  "requestedBindings ps = map_of (rev (map (\<lambda>(g, hp). (of_int g, [\<lparr>pbHostIP = loopback, pbHostPort = Itoa hp\<rparr>])) ps))"

lemma portBindings_lookup: "map_of (portBindings E spec) = requestedBindings (publishedPorts E spec)"
proof -
  have "map_of (foldl (\<lambda>pm gh. publish (fst gh) (snd gh) pm) pm ps) = map_of pm ++ requestedBindings ps" for pm ps
    by (induction ps arbitrary: pm) (auto simp: publish_lookup requestedBindings_def map_add_assoc)
  from this [of "[]"] show ?thesis by (simp add: portBindings_def)
qed

lemma createValidate_ports:
  assumes "createValidate E spec w = (Inr v, w')"
  shows "list_all portOK (spPublishPorts (fst v)) \<and> spDisplayPort (fst v) \<le> 65535 \<and> spProxyPort (fst v) \<le> 65535"
  using assms by (auto simp: createValidate_def result_iff Let_def)

lemma uint_of_port: "0 \<le> g \<Longrightarrow> g \<le> 65535 \<Longrightarrow> uint (of_int g :: 16 word) = g"
  by (simp add: unsigned_of_int take_bit_int_eq_self)



section \<open>Where the code falls short\<close>

text \<open>
  A supervised sandbox that opts out of hardening cannot start its workload: the command still
  goes through the hardened init and its policy file, but neither is mounted.
\<close>

theorem supervisor_without_hardening_lacks_init:
  assumes "TrimSpace (spSupervisorBin spec) \<noteq> []" and "spNoHarden spec"
  shows "addInit E spec b = Inr b \<and>
    take 4 (enCmd (entryPoint D spec img)) = [''--'', ''/cauteum-haven/cauteum-init'', ''--policy'', ''/cauteum/policy.yaml'']"
  using assms by (simp add: addInit_def hardened_def entryPoint_def Let_def)

definition unhardenedSpec :: Spec where
  "unhardenedSpec = sampleSpec\<lparr>spNoHarden := True, spSupervisorBin := ''/usr/bin/supervisor''\<rparr>"

theorem supervisor_without_hardening_lacks_init_witness:
  "addInit (sampleEnv (\<lambda>_. Inr ''c1'')) unhardenedSpec \<lparr>bEnv = [], bBinds = [], bLabels = Map.empty\<rparr> =
     Inr \<lparr>bEnv = [], bBinds = [], bLabels = Map.empty\<rparr> \<and>
   take 4 (enCmd (entryPoint exampleDefaults unhardenedSpec ''debian'')) =
     [''--'', ''/cauteum-haven/cauteum-init'', ''--policy'', ''/cauteum/policy.yaml'']"
proof -
  have "TrimSpace ''/usr/bin/supervisor'' \<noteq> []" by code_simp
  then have "TrimSpace (spSupervisorBin unhardenedSpec) \<noteq> []" "spNoHarden unhardenedSpec"
    by (simp_all add: unhardenedSpec_def)
  from supervisor_without_hardening_lacks_init [OF this] show ?thesis by blast
qed

section \<open>Cancelled start-up\<close>

lemma pollLoop_cancelled: "pollLoop E probe n w = (Cancelled e, w') \<Longrightarrow> ctxDone (eEngine E) w' = Some e"
  by (induction n arbitrary: w) (auto split: prod.splits if_splits option.splits)

lemma pollWait_cancelled:
  "pollWait E cid argv tail t w = (Inl (WaitContext e), w') \<Longrightarrow> t \<noteq> WaitContext e \<Longrightarrow> ctxDone (eEngine E) w' = Some e"
  by (auto simp: pollWait_def split: prod.splits poll_result.splits dest: pollLoop_cancelled)

lemma orRemove_Inl:
  "orRemove E cid m w = (Inl e, w') \<longleftrightarrow> (\<exists>w0. m w = (Inl e, w0) \<and> w' = w0 @ [(ReqCtx, ContainerRemoveReq cid)])"
  by (auto simp: orRemove_def bindW_def tryW_def returnW_def liftW_def ContainerRemove_def call_def split: prod.splits sum.splits)

lemma wrapW_Inl: "wrapW g m w = (Inl e, w') \<longleftrightarrow> (\<exists>e0. m w = (Inl e0, w') \<and> e = g e0)"
  by (auto simp: wrapW_def wrapE_def split: prod.splits sum.splits)

lemma bindW_Inl:
  "bindW m f w = (Inl e, w') \<longleftrightarrow> m w = (Inl e, w') \<or> (\<exists>x w1. m w = (Inr x, w1) \<and> f x w1 = (Inl e, w'))"
  by (auto simp: bindW_def split: prod.splits sum.splits)

lemma regularFile_Inl: "regularFile os p u n = Inl e \<Longrightarrow> e = u \<or> e = n"
  by (auto simp: regularFile_def split: sum.splits option.splits if_splits)

lemma upstreamBinds_Inl:
  "upstreamBinds os fs = Inl e \<Longrightarrow> e = UpstreamFileUnavailable \<or> e = UpstreamFileNotRegular"
  by (induction os fs rule: upstreamBinds.induct)
    (auto simp: bindR_def split: if_splits sum.splits dest: regularFile_Inl)

lemma sidecarPlan_Inl: "sidecarPlan E a = Inl e \<Longrightarrow> e \<noteq> ProxyNotReady y"
  by (auto simp: sidecarPlan_def sidecarHostChecks_def bindR_def wrapE_def failIf_def guestTLSBinds_def
      split: sum.splits if_splits dest!: regularFile_Inl upstreamBinds_Inl)

text \<open>
  When the start-up of the proxy is cancelled, the request that removes the half-started proxy is
  issued with the context that has just been found cancelled, not with the cleanup context; the
  proxy is not recorded for the deferred cleanup either.
\<close>

theorem sidecar_removed_with_cancelled_context:
  assumes "createProxySidecar E a w = (Inl (ProxyNotReady (WaitContext e)), w')"
  shows "\<exists>w0 cid. w' = w0 @ [(ReqCtx, ContainerRemoveReq cid)] \<and> ctxDone (eEngine E) w0 = Some e"
proof (cases "sidecarPlan E a")
  case (Inl x)
  with assms show ?thesis
    using sidecarPlan_Inl [OF Inl] by (simp add: createProxySidecar_def bindW_Inl liftW_def)
next
  case (Inr opts)
  with assms obtain cid w1 where "sidecarStart E a cid w1 = (Inl (ProxyNotReady (WaitContext e)), w')"
    by (auto simp: createProxySidecar_def bindW_Inl wrapW_Inl liftW_def)
  then obtain w0 w2 where "w' = w0 @ [(ReqCtx, ContainerRemoveReq cid)]"
      "waitProxyCA E cid w2 = (Inl (WaitContext e), w0) \<or> waitProxyListening E cid (saPort a) w2 = (Inl (WaitContext e), w0)"
    by (auto simp: sidecarStart_def bindW_Inl orRemove_Inl wrapW_Inl returnW_def split: if_splits)
  then show ?thesis
    by (auto simp: waitProxyCA_def waitProxyListening_def dest!: pollWait_cancelled)
qed

definition cancelledEnv :: env where
  "cancelledEnv =
     (let E = sampleEnv (\<lambda>_. Inr ''p1'') in
      E\<lparr>eEngine := (eEngine E)\<lparr>ansExecInspect := (\<lambda>_. Inr 1), ctxDone := (\<lambda>_. Some ''context canceled'')\<rparr>\<rparr>)"

lemma cancelled_env:
  "eDefaults cancelledEnv = exampleDefaults" "eOS cancelledEnv = exampleOS" "cfgOf cancelledEnv = zeroConfig"
  "eParsePort cancelledEnv x = Inr 3128" "ansContainerCreate (eEngine cancelledEnv) w = Inr ''p1''"
  "ansUnit (eEngine cancelledEnv) w = lastUnit (snd (last w))" "ansContainerInspect (eEngine cancelledEnv) w = Inr (inspected w)"
  "ansExecCreate (eEngine cancelledEnv) w = Inr ''e1''" "ansExecAttach (eEngine cancelledEnv) w = Inr ()"
  "ansExecInspect (eEngine cancelledEnv) w = Inr 1" "ctxDone (eEngine cancelledEnv) w = Some ''context canceled''"
  "pollRounds (eEngine cancelledEnv) w = 3"
  by (simp_all add: cancelledEnv_def Let_def)

definition cancelledArgs :: sidecar_args where
  "cancelledArgs = sidecarArgs (sampleEnv (\<lambda>_. Inr ''p1'')) samplePlan ''debian''"

theorem sidecar_removed_with_cancelled_context_witness:
  "\<exists>w' w0 cid. createProxySidecar cancelledEnv cancelledArgs [] = (Inl (ProxyNotReady (WaitContext ''context canceled'')), w') \<and>
     w' = w0 @ [(ReqCtx, ContainerRemoveReq cid)]"
proof -
  have "sidecarPlan cancelledEnv cancelledArgs = sidecarPlan (sampleEnv (\<lambda>_. Inr ''p1'')) cancelledArgs"
    by (simp add: sidecarPlan_def sidecarHostChecks_def sidecarOptions_def sidecarBinds_def relayEnv_def cancelled_env)
  then obtain opts where o: "sidecarPlan cancelledEnv cancelledArgs = Inr opts"
    using sampled.world_sidecarPlan unfolding cancelledArgs_def by (metis isOk.elims(2))
  have "saCAVol cancelledArgs \<noteq> []"
    by (simp add: cancelledArgs_def sidecarArgs_def caVolOf_def samplePlanOf_def)
  then have "\<exists>w'. sidecarStart cancelledEnv cancelledArgs ''p1'' w = (Inl (ProxyNotReady (WaitContext ''context canceled'')), w')" for w
    by (simp add: sidecarStart_def orRemove_def run_simps cancelled_env waitProxyCA_def pollWait_def numeral_3_eq_3 execProbe_def
        Exec_def probeReq_def ContainerInspect_def inspected_def execAttached_def ContainerRemove_def)
  then obtain w' where "createProxySidecar cancelledEnv cancelledArgs [] = (Inl (ProxyNotReady (WaitContext ''context canceled'')), w')"
    by (auto simp: createProxySidecar_def o run_simps cancelled_env)
  from sidecar_removed_with_cancelled_context [OF this] this show ?thesis by blast
qed

end
