(* ===== verification/Docker_Lifecycle.thy ===== *)
theory Docker_Lifecycle
  imports Docker_Exec
begin

text \<open>
  The operations on existing sandboxes in \<^verbatim>\<open>docker.go\<close> and \<^verbatim>\<open>policy_path.go\<close>: \<^verbatim>\<open>Start\<close>, \<^verbatim>\<open>Stop\<close>,
  \<^verbatim>\<open>Delete\<close>, \<^verbatim>\<open>List\<close>, \<^verbatim>\<open>Inspect\<close>, \<^verbatim>\<open>ContainerIP\<close>, \<^verbatim>\<open>PolicyHostPath\<close>, \<^verbatim>\<open>Logs\<close>, \<^verbatim>\<open>RunProbe\<close> and \<^verbatim>\<open>Health\<close>.

  A nil pointer that the code dereferences is the error \<open>NilDereference\<close>. Messages on standard error
  are not modelled.
\<close>

datatype lifecycle_error =
    StartFailed engine_error
  | StopFailed engine_error
  | DeleteInspect engine_error
  | ListFailed engine_error
  | InspectEmptyName
  | SandboxNotFound string
  | ClientMissing
  | IPInspect engine_error
  | NoIP string
  | PolicyListFailed engine_error
  | NoPolicyBind string
  | LogsFailed engine_error
  | LogsCopy engine_error
  | ProbeImage image_error
  | ProbeCreate engine_error
  | ProbeStart engine_error
  | ProbeWait engine_error
  | ProbeLogs engine_error
  | NilDereference

datatype layout_error =
    LayoutInspect engine_error
  | LayoutExecCreate engine_error
  | LayoutExecAttach engine_error
  | LayoutExecInspect engine_error
  | LayoutExit int string string

section \<open>Start and Stop\<close>

definition printContainerDiagnostics :: "env \<Rightarrow> string \<Rightarrow> ('e, unit) op" where
  "printContainerDiagnostics E cid =
     bindW (tryW (call ReqCtx (ContainerLogsReq cid False ''40'') (ansLogs (eEngine E)))) (\<lambda>_. returnW ())"

definition pathLine :: "core_defaults \<Rightarrow> string \<Rightarrow> string" where
  "pathLine D file =
     ''printf '' @ [CHR 39] @ ''%s'' @ [CHR 92] @ ''n'' @ [CHR 39] @ '' '' @ [CHR 39] @ ''export PATH='' @ [CHR 34] @
     GuestHome D @ ''/.local/bin:'' @ GuestBin D @ '':$PATH'' @ [CHR 34] @ [CHR 39] @ '' > '' @ file"

definition layoutScript :: "core_defaults \<Rightarrow> string" where
  "layoutScript D =
     ''mkdir -p '' @ GuestHome D @ ''/.local/bin '' @ GuestBin D @ '' /etc/profile.d && '' @
     pathLine D (GuestHome D @ ''/.profile'') @ '' && '' @ pathLine D (GuestHome D @ ''/.bashrc'') @ '' && '' @
     pathLine D ''/etc/profile.d/cauteum-path.sh''"

definition layoutOptions :: "core_defaults \<Rightarrow> exec_options" where
  "layoutOptions D =
     \<lparr>eoCmd = [''/bin/bash'', ''-c'', layoutScript D],
      eoEnv = [''PATH=/usr/local/sbin:/usr/local/bin:/usr/sbin:/usr/bin:/sbin:/bin''], eoUser = [],
      eoWorkingDir = ''/'', eoAttachStdout = True, eoAttachStderr = True, eoAttachStdin = False, eoTTY = False,
      eoConsoleSize = (0, 0)\<rparr>"

text \<open>The state of the container for the message of a failed layout.\<close>

definition layoutFailure :: "env \<Rightarrow> string \<Rightarrow> int \<Rightarrow> (layout_error, unit) op" where
  "layoutFailure E cid code =
     bindW (tryW (ContainerInspect E cid)) (\<lambda>r.
       (case r of
          Inr info \<Rightarrow>
            (case ciState info of
               Some st \<Rightarrow> liftW (Inl (LayoutExit code (stStatus st) (TrimSpace (stError st))))
             | None \<Rightarrow> liftW (Inl (LayoutExit code ''unknown'' [])))
        | Inl _ \<Rightarrow> liftW (Inl (LayoutExit code ''unknown'' []))))"

definition runLayout :: "env \<Rightarrow> string \<Rightarrow> (layout_error, unit) op" where
  "runLayout E cid =
     bindW (wrapW LayoutExecCreate
       (call ReqCtx (ExecCreateReq cid (layoutOptions (eDefaults E))) (ansExecCreate (eEngine E)))) (\<lambda>execID.
     bindW (wrapW LayoutExecAttach (call ReqCtx (ExecAttachReq execID) (ansExecAttach (eEngine E)))) (\<lambda>_.
     bindW (wrapW LayoutExecInspect (call ReqCtx (ExecInspectReq execID) (ansExecInspect (eEngine E)))) (\<lambda>code.
     if code \<noteq> 0 then layoutFailure E cid code else returnW ())))"

definition ensureGuestLayout :: "env \<Rightarrow> string \<Rightarrow> (layout_error, unit) op" where
  "ensureGuestLayout E cid =
     bindW (wrapW LayoutInspect (ContainerInspect E cid)) (\<lambda>info.
       (case ciConfig info of
          None \<Rightarrow> returnW ()
        | Some cfg \<Rightarrow>
            if at (icLabels cfg) labelRole = roleProxy then returnW ()
            else if at (icLabels cfg) labelVolume = [] then returnW ()
            else runLayout E cid))"

definition Start :: "env \<Rightarrow> string \<Rightarrow> (lifecycle_error, unit) op" where
  "Start E cid =
     bindW (wrapW StartFailed (call ReqCtx (ContainerStartReq cid) (ansUnit (eEngine E)))) (\<lambda>_.
     bindW (tryW (ensureGuestLayout E cid)) (\<lambda>layout.
     bindW (if isOk layout then returnW () else printContainerDiagnostics E cid) (\<lambda>_.
     bindW (tryW (EnsureSSHDaemon E cid)) (\<lambda>ssh.
     if isOk ssh \<or> ssh = Inl SSHDisabled then returnW () else printContainerDiagnostics E cid))))"

definition Stop :: "env \<Rightarrow> string \<Rightarrow> (lifecycle_error, unit) op" where
  "Stop E cid =
     wrapW StopFailed (call ReqCtx (ContainerStopReq cid (stopTimeoutSecs (cfgOf E))) (ansUnit (eEngine E)))"

section \<open>Delete\<close>

definition discard :: "(engine_error, 'a) op \<Rightarrow> ('e, unit) op" where
  "discard m = bindW (tryW m) (\<lambda>_. returnW ())"

definition unlessEmpty :: "string \<Rightarrow> ('e, unit) op \<Rightarrow> ('e, unit) op" where
  "unlessEmpty s m = (if s \<noteq> [] then m else returnW ())"

definition Delete :: "env \<Rightarrow> string \<Rightarrow> (lifecycle_error, unit) op" where
  "Delete E cid =
     bindW (wrapW DeleteInspect (ContainerInspect E cid)) (\<lambda>info.
       (case ciConfig info of
          None \<Rightarrow> liftW (Inl NilDereference)
        | Some cfg \<Rightarrow>
            (let label = at (icLabels cfg) in
             bindW (discard (ContainerRemove E ReqCtx cid)) (\<lambda>_.
             bindW (unlessEmpty (label labelName) (removeProxySidecar E ReqCtx (label labelName))) (\<lambda>_.
             bindW (unlessEmpty (label labelNetwork) (discard (NetworkRemove E ReqCtx (label labelNetwork)))) (\<lambda>_.
             bindW (unlessEmpty (label labelVolume) (discard (VolumeRemove E ReqCtx (label labelVolume)))) (\<lambda>_.
             bindW (unlessEmpty (label labelCAVol) (discard (VolumeRemove E ReqCtx (label labelCAVol)))) (\<lambda>_.
             unlessEmpty (label labelSSHVol) (discard (VolumeRemove E ReqCtx (label labelSSHVol)))))))))))"

section \<open>List and Inspect\<close>

definition summaryInfo :: "container_summary \<Rightarrow> Info" where
  "summaryInfo c =
     (let name = at (csLabels c) labelName in
      \<lparr>iID = csID c,
       iName = (if name = [] then (case csNames c of n # _ \<Rightarrow> TrimPrefix n ''/'' | [] \<Rightarrow> name) else name),
       iNetwork = at (csLabels c) labelNetwork, iImage = csImage c, iStatus = csStatus c\<rparr>)"

definition listInfos :: "container_summary list \<Rightarrow> Info list" where
  "listInfos cs = map summaryInfo (filter (\<lambda>c. at (csLabels c) labelRole \<noteq> roleProxy) cs)"

definition List :: "env \<Rightarrow> (lifecycle_error, Info list) op" where
  "List E =
     bindW (wrapW ListFailed (ContainerList E [labelSandbox @ ''=1''])) (\<lambda>cs. returnW (listInfos cs))"

text \<open>One candidate of \<^verbatim>\<open>Inspect\<close>: a result, or go on with the next.\<close>

definition inspectCandidate :: "container_info \<Rightarrow> (lifecycle_error + Info) option" where
  "inspectCandidate c =
     (case ciConfig c of
        None \<Rightarrow> Some (Inl NilDereference)
      | Some cfg \<Rightarrow>
          if at (icLabels cfg) labelSandbox \<noteq> ''1'' \<and> \<not> HasPrefix (TrimPrefix (ciName c) ''/'') ''cauteum-'' then None
          else
            (let l = at (icLabels cfg) labelName;
                 name = (if l = [] then TrimPrefix (TrimPrefix (ciName c) ''/'') ''cauteum-'' else l) in
             (case ciState c of
                None \<Rightarrow> Some (Inl NilDereference)
              | Some st \<Rightarrow>
                  Some (Inr \<lparr>iID = ciID c, iName = name, iNetwork = at (icLabels cfg) labelNetwork,
                             iImage = icImage cfg, iStatus = stStatus st\<rparr>))))"

fun inspectLoop :: "env \<Rightarrow> string \<Rightarrow> string list \<Rightarrow> (lifecycle_error, Info) op" where
  "inspectLoop E nameOrID [] = liftW (Inl (SandboxNotFound nameOrID))"
| "inspectLoop E nameOrID (cid # rest) =
     bindW (tryW (ContainerInspect E cid)) (\<lambda>r.
       (case r of
          Inl _ \<Rightarrow> inspectLoop E nameOrID rest
        | Inr c \<Rightarrow>
            (case inspectCandidate c of
               None \<Rightarrow> inspectLoop E nameOrID rest
             | Some res \<Rightarrow> liftW res)))"

definition Inspect :: "env \<Rightarrow> string \<Rightarrow> (lifecycle_error, Info) op" where
  "Inspect E nameOrID0 =
     (let nameOrID = TrimSpace nameOrID0 in
      if nameOrID = [] then liftW (Inl InspectEmptyName)
      else inspectLoop E nameOrID [nameOrID, ''cauteum-'' @ nameOrID])"

section \<open>Addresses and policies\<close>

definition networkIP :: "(string \<times> string option) list \<Rightarrow> string \<Rightarrow> string option" where
  "networkIP nets name = (case map_of nets name of Some (Some ip) \<Rightarrow> Some ip | _ \<Rightarrow> None)"

definition chooseIP :: "container_info \<Rightarrow> string \<Rightarrow> lifecycle_error + string" where
  "chooseIP c networkName0 =
     (let networkName =
            (if networkName0 = []
             then (case ciConfig c of Some cfg \<Rightarrow> at (icLabels cfg) labelNetwork | None \<Rightarrow> networkName0)
             else networkName0);
          named = (if networkName \<noteq> []
                   then (case ciNetworks c of Some nets \<Rightarrow> networkIP nets networkName | None \<Rightarrow> None) else None) in
      (case named of
         Some ip \<Rightarrow> Inr ip
       | None \<Rightarrow>
           (case ciNetworks c of
              Some nets \<Rightarrow> (case List.map_filter snd nets of ip # _ \<Rightarrow> Inr ip | [] \<Rightarrow> Inl (NoIP networkName))
            | None \<Rightarrow> Inl (NoIP networkName))))"

definition ContainerIP :: "env \<Rightarrow> string \<Rightarrow> string \<Rightarrow> (lifecycle_error, string) op" where
  "ContainerIP E containerID networkName =
     (if \<not> cliPresent (eDriver E) then liftW (Inl ClientMissing)
      else bindW (wrapW IPInspect (ContainerInspect E containerID)) (\<lambda>c. liftW (chooseIP c networkName)))"

fun policyMount :: "(string \<times> string) list \<Rightarrow> string option" where
  "policyMount [] = None"
| "policyMount ((source, destination) # rest) =
     (if destination = ''/cauteum/policy.yaml'' \<and> source \<noteq> [] then Some source else policyMount rest)"

definition policyOfContainer :: "container_info \<Rightarrow> (lifecycle_error + string) option" where
  "policyOfContainer c =
     (case ciConfig c of
        None \<Rightarrow> Some (Inl NilDereference)
      | Some cfg \<Rightarrow>
          (let p = TrimSpace (at (icLabels cfg) labelPolicy) in
           if p \<noteq> [] then Some (Inr p) else map_option Inr (policyMount (ciMounts c))))"

fun policyOfList :: "string \<Rightarrow> container_summary list \<Rightarrow> lifecycle_error + string" where
  "policyOfList nameOrID [] = Inl (NoPolicyBind nameOrID)"
| "policyOfList nameOrID (c # cs) =
     (let p = TrimSpace (at (csLabels c) labelPolicy) in
      if p \<noteq> [] then Inr p else policyOfList nameOrID cs)"

fun policyLoop :: "env \<Rightarrow> string \<Rightarrow> string list \<Rightarrow> string \<Rightarrow> (lifecycle_error, string) op" where
  "policyLoop E nameOrID [] name =
     bindW (wrapW PolicyListFailed (ContainerList E [labelSandbox @ ''=1'', labelName @ ''='' @ name])) (\<lambda>cs.
     liftW (policyOfList nameOrID cs))"
| "policyLoop E nameOrID (ctr # rest) name =
     bindW (tryW (ContainerInspect E ctr)) (\<lambda>r.
       (case r of
          Inl _ \<Rightarrow> policyLoop E nameOrID rest name
        | Inr c \<Rightarrow> (case policyOfContainer c of None \<Rightarrow> policyLoop E nameOrID rest name | Some res \<Rightarrow> liftW res)))"

definition PolicyHostPath :: "env \<Rightarrow> string \<Rightarrow> (lifecycle_error, string) op" where
  "PolicyHostPath E nameOrID =
     (if \<not> cliPresent (eDriver E) then liftW (Inl ClientMissing)
      else
        (let name = sanitizeName nameOrID in
         policyLoop E nameOrID [''cauteum-proxy-'' @ name, ''cauteum-'' @ name] name))"

end
