(* ===== verification/Docker_Observe.thy ===== *)
theory Docker_Observe
  imports Docker_Lifecycle
begin

text \<open>
  Logs, the Landlock probe and the health report of \<^verbatim>\<open>docker.go\<close>.

  \<^verbatim>\<open>Logs\<close> copies two containers concurrently when there is a proxy. Its requests are modelled in order;
  the goroutines that read the opened streams are a step relation (\<open>logStep\<close>): a reader scans a line
  below the limit of the scanner, looks at the context, and writes the line under the lock, and any
  reader may move at any time, the context may end at any time, and any write may fail. \<open>logReturns\<close> is
  what the final \<^verbatim>\<open>select\<close> may return.
\<close>

section \<open>Logs\<close>

definition logTail :: "bool \<Rightarrow> string" where
  "logTail follow = (if follow then ''500'' else [])"

definition proxyOf :: "container_info \<Rightarrow> inspected_config \<Rightarrow> string" where
  "proxyOf info cfg =
     (let l = at (icLabels cfg) labelName in
      if l = [] then TrimPrefix (TrimPrefix (ciName info) ''/'') ''cauteum-'' else l)"

definition logSources :: "env \<Rightarrow> string \<Rightarrow> ('e, (string \<times> string) list) op" where
  "logSources E cid =
     bindW (tryW (ContainerInspect E cid)) (\<lambda>r.
       (case r of
          Inl _ \<Rightarrow> returnW [(cid, ''sandbox'')]
        | Inr info \<Rightarrow>
            (case ciConfig info of
               None \<Rightarrow> returnW [(cid, ''sandbox'')]
             | Some cfg \<Rightarrow>
                 (let name = proxyOf info cfg; proxyName = ''cauteum-proxy-'' @ name in
                  if name = [] then returnW [(cid, ''sandbox'')]
                  else
                    bindW (tryW (ContainerInspect E proxyName)) (\<lambda>r2.
                    returnW ([(cid, ''sandbox'')] @ (if isOk r2 then [(proxyName, ''proxy'')] else [])))))))"

text \<open>The streams that are opened, with their prefixes and the error in which they end; a proxy whose
  logs cannot be read is skipped.\<close>

fun openLogs ::
  "env \<Rightarrow> bool \<Rightarrow> (string \<times> string) list \<Rightarrow> (lifecycle_error, (string \<times> string \<times> engine_error option) list) op" where
  "openLogs E follow [] = returnW []"
| "openLogs E follow ((cid, pre) # rest) =
     bindW (tryW (call ReqCtx (ContainerLogsReq cid follow (logTail follow)) (ansLogs (eEngine E)))) (\<lambda>r.
       (case r of
          Inl e \<Rightarrow> if pre = ''proxy'' then openLogs E follow rest else liftW (Inl (LogsFailed e))
        | Inr (text, err) \<Rightarrow> bindW (openLogs E follow rest) (\<lambda>ls. returnW ((pre, text, err) # ls))))"

section \<open>The scanner\<close>

text \<open>
  The lines \<^verbatim>\<open>bufio.Scanner\<close> yields: a trailing newline ends the last line, a carriage return before
  the newline is dropped. Its buffer grows to one mebibyte: a line that fills it without a newline
  ends the scan with an error, and so does an error of the stream after its last line.
\<close>

datatype log_error = LogTooLong | LogRead engine_error | LogWrite | LogContext engine_error

definition newline :: char where
  "newline = CHR 0x0A"

definition dropCR :: "string \<Rightarrow> string" where
  "dropCR s = (if s \<noteq> [] \<and> last s = CHR 0x0D then butlast s else s)"

definition rawLines :: "string \<Rightarrow> string list" where
  "rawLines text = (let ls = splitChar newline text in if last ls = [] then butlast ls else ls)"

definition maxTokenSize :: nat where
  "maxTokenSize = 1024 * 1024"

fun scanTokens :: "string list \<Rightarrow> engine_error option \<Rightarrow> string list \<times> log_error option" where
  "scanTokens [] err = ([], map_option LogRead err)"
| "scanTokens (l # ls) err =
     (if maxTokenSize \<le> length l then ([], Some LogTooLong)
      else (case scanTokens ls err of (ts, e) \<Rightarrow> (dropCR l # ts, e)))"

section \<open>The readers\<close>

text \<open>A goroutine: the tokens its scanner has yet to yield, the error in which the scan ends, and the
  line it is about to write.\<close>

record reader =
  rdPrefix :: string
  rdTokens :: "string list"
  rdEnd :: "log_error option"
  rdPending :: "string option"
  rdDone :: bool

definition newReader :: "string \<times> string \<times> engine_error option \<Rightarrow> reader" where
  "newReader s =
     (case s of (pre, text, err) \<Rightarrow>
       (case scanTokens (rawLines text) err of (ts, e) \<Rightarrow>
          \<lparr>rdPrefix = pre, rdTokens = ts, rdEnd = e, rdPending = None, rdDone = False\<rparr>))"

definition logLine :: "string \<Rightarrow> string \<Rightarrow> string" where
  "logLine pre text = ''['' @ pre @ ''] '' @ text @ [newline]"

text \<open>One move of a reader, given whether a write succeeds and the state of the context: what it writes
  and what it sends on the error channel. The channel has room for one error of every reader.\<close>

definition stepReader ::
  "bool \<Rightarrow> engine_error option \<Rightarrow> reader \<Rightarrow> (reader \<times> string list \<times> log_error list) option" where
  "stepReader ok ctx r =
     (if rdDone r then None
      else (case rdPending r of
        Some t \<Rightarrow>
          if ok then Some (r\<lparr>rdPending := None\<rparr>, [logLine (rdPrefix r) t], [])
          else Some (r\<lparr>rdDone := True\<rparr>, [], [LogWrite])
      | None \<Rightarrow>
          (case rdTokens r of
             t # ts \<Rightarrow>
               (case ctx of
                  None \<Rightarrow> Some (r\<lparr>rdPending := Some t, rdTokens := ts\<rparr>, [], [])
                | Some e \<Rightarrow> Some (r\<lparr>rdDone := True\<rparr>, [], [LogContext e]))
           | [] \<Rightarrow>
               Some (r\<lparr>rdDone := True\<rparr>, [],
                 (case rdEnd r of None \<Rightarrow> [] | Some e \<Rightarrow> if ctx = None then [e] else [])))))"

record log_state =
  lsReaders :: "reader list"
  lsOut :: "string list"
  lsErrs :: "log_error list"
  lsCtx :: "engine_error option"

definition startLogs :: "(string \<times> string \<times> engine_error option) list \<Rightarrow> log_state" where
  "startLogs ss = \<lparr>lsReaders = map newReader ss, lsOut = [], lsErrs = [], lsCtx = None\<rparr>"

inductive logStep :: "log_state \<Rightarrow> log_state \<Rightarrow> bool" where
  advance: "i < length (lsReaders st) \<Longrightarrow> stepReader ok (lsCtx st) (lsReaders st ! i) = Some (r, ws, es) \<Longrightarrow>
    logStep st (st\<lparr>lsReaders := (lsReaders st)[i := r], lsOut := lsOut st @ ws, lsErrs := lsErrs st @ es\<rparr>)"
| cancel: "lsCtx st = None \<Longrightarrow> logStep st (st\<lparr>lsCtx := Some e\<rparr>)"

text \<open>The \<^verbatim>\<open>select\<close>: the first error sent, the error of an ended context, or nil once all readers are done.\<close>

inductive logReturns :: "log_state \<Rightarrow> log_error option \<Rightarrow> bool" where
  finished: "list_all rdDone (lsReaders st) \<Longrightarrow> lsErrs st = [] \<Longrightarrow> logReturns st None"
| failed: "lsErrs st = e # es \<Longrightarrow> logReturns st (Some e)"
| ended: "lsCtx st = Some e \<Longrightarrow> logReturns st (Some (LogContext e))"

inductive_simps logReturns_None: "logReturns st None"

section \<open>Logs: the operation\<close>

text \<open>With one source its text is copied as it is; otherwise the opened streams are read concurrently.\<close>

datatype log_result = Copied string | Streams "(string \<times> string \<times> engine_error option) list"

definition Logs :: "env \<Rightarrow> string \<Rightarrow> bool \<Rightarrow> (lifecycle_error, log_result) op" where
  "Logs E cid follow =
     bindW (logSources E cid) (\<lambda>sources.
       if length sources = 1 then
         bindW (wrapW LogsFailed
           (call ReqCtx (ContainerLogsReq (fst (hd sources)) follow (logTail follow)) (ansLogs (eEngine E)))) (\<lambda>r.
         (case snd r of None \<Rightarrow> returnW (Copied (fst r)) | Some e \<Rightarrow> liftW (Inl (LogsCopy e))))
       else bindW (openLogs E follow sources) (\<lambda>ss. returnW (Streams ss)))"

section \<open>The Landlock probe\<close>

text \<open>Decoding into the struct of \<^verbatim>\<open>summarizeProbeJSON\<close>: members in order, names compared without
  case, null leaves a field alone, a wrong type is an error that does not stop the decoding.\<close>

fun probeMembers :: "(string \<times> json) list \<Rightarrow> int \<times> string \<times> bool \<Rightarrow> int \<times> string \<times> bool" where
  "probeMembers [] st = st"
| "probeMembers ((k, v) # ms) (abi, err, ok) =
     probeMembers ms
       (if v = JNull then (abi, err, ok)
        else if EqualFold k ''LandlockABI'' then
          (case unInt64 v of Some i \<Rightarrow> (i, err, ok) | None \<Rightarrow> (abi, err, False))
        else if EqualFold k ''LandlockError'' then
          (case unString v of Some s \<Rightarrow> (abi, s, ok) | None \<Rightarrow> (abi, err, False))
        else (abi, err, ok))"

definition probeStruct :: "string \<Rightarrow> (int \<times> string) option" where
  "probeStruct raw =
     (case jsonParse raw of
        Some (JObj ms) \<Rightarrow> (case probeMembers ms (0, [], True) of (abi, err, ok) \<Rightarrow> if ok then Some (abi, err) else None)
      | Some JNull \<Rightarrow> Some (0, [])
      | _ \<Rightarrow> None)"

fun squeezeSpaces :: "string \<Rightarrow> string" where
  "squeezeSpaces (a # b # s) =
     (if a = CHR '' '' \<and> b = CHR '' '' then CHR '' '' # squeezeSpaces s else a # squeezeSpaces (b # s))"
| "squeezeSpaces s = s"

definition summarizeProbeJSON :: "string \<Rightarrow> string" where
  "summarizeProbeJSON raw0 =
     (let raw = TrimSpace raw0 in
      (case probeStruct raw of
         Some (abi, err) \<Rightarrow>
           if 0 < abi then ''abi='' @ Itoa abi @ '' (probe ok)''
           else if err \<noteq> [] then ''abi=0 ('' @ err @ '')''
           else ''abi=0''
       | None \<Rightarrow> squeezeSpaces (ReplaceAllChar raw (CHR 0x0A) '' '')))"

definition probeOptions :: "core_defaults \<Rightarrow> string \<Rightarrow> create_options" where
  "probeOptions D initBin =
     \<lparr>coConfig =
        \<lparr>ccImage = ImageDebian D, ccCmd = [''/cauteum-haven/cauteum-init'', ''--probe''], ccEntrypoint = [],
         ccEnv = [], ccLabels = Map.empty, ccWorkingDir = ''/'', ccUser = [], ccHealthcheck = None,
         ccExposedPorts = []\<rparr>,
      coHost =
        \<lparr>hcBinds = [initBin @ '':/cauteum-haven/cauteum-init:ro''], hcMounts = [], hcNetworkMode = [],
         hcSecurityOpt = [], hcCapDrop = [], hcExtraHosts = [], hcLogConfig = \<lparr>lcType = [], lcConfig = []\<rparr>,
         hcPidsLimit = None, hcNanoCPUs = 0, hcMemory = 0, hcUsernsMode = [], hcDeviceRequests = [],
         hcPortBindings = [], hcShmSize = 0\<rparr>,
      coNetwork = [], coName = []\<rparr>"

definition probeSummary :: "string \<Rightarrow> string" where
  "probeSummary text =
     (let out = TrimSpace text in
      if out = [] then ''empty probe output''
      else if Contains out ''LandlockABI'' then summarizeProbeJSON out else out)"

definition probeBody :: "env \<Rightarrow> string \<Rightarrow> (lifecycle_error, string) op" where
  "probeBody E cid =
     bindW (wrapW ProbeStart (call ReqCtx (ContainerStartReq cid) (ansUnit (eEngine E)))) (\<lambda>_ w.
     let w1 = w @ [(ReqCtx, ContainerWaitReq cid)];
         rest = bindW (wrapW ProbeLogs (call ReqCtx (ContainerLogsReq cid False []) (ansLogs (eEngine E))))
                  (\<lambda>r. returnW (probeSummary (fst r))) in
     (case ansWait (eEngine E) w1 of
        WaitError (Some e) \<Rightarrow> (Inl (ProbeWait e), w1)
      | WaitError None \<Rightarrow> rest w1
      | WaitResult \<Rightarrow> rest w1
      | WaitDone e \<Rightarrow> (Inl (ProbeWait e), w1)))"

text \<open>The helper container is removed when the body returns, with the caller's context.\<close>

definition RunProbe :: "env \<Rightarrow> string \<Rightarrow> (lifecycle_error, string) op" where
  "RunProbe E initBin =
     (if \<not> cliPresent (eDriver E) then liftW (Inl ClientMissing)
      else
        bindW (wrapW ProbeImage (ensureImage E (ImageDebian (eDefaults E)))) (\<lambda>_.
        bindW (wrapW ProbeCreate
          (call ReqCtx (ContainerCreateReq (probeOptions (eDefaults E) initBin)) (ansContainerCreate (eEngine E)))) (\<lambda>cid w.
        (case probeBody E cid w of (r, w') \<Rightarrow> (r, snd (ContainerRemove E ReqCtx cid w'))))))"

section \<open>Health\<close>

definition capabilities :: "docker_driver \<Rightarrow> string list" where
  "capabilities d = (if Capabilities (runtimeConfig d) \<noteq> [] then Capabilities (runtimeConfig d) else [''cdi''])"

definition dockerContextName :: "host_os \<Rightarrow> string" where
  "dockerContextName os =
     (let v = TrimSpace (Getenv os ''DOCKER_CONTEXT'') in if v \<noteq> [] then v else ''default'')"

definition classifyIsolation :: "string \<Rightarrow> string" where
  "classifyIsolation hostGOOS =
     (if hostGOOS = ''darwin'' \<or> hostGOOS = ''windows'' then ''docker-desktop-vm''
      else if hostGOOS = ''linux'' then ''native-linux'' else ''unknown'')"

definition baseProbe :: "env \<Rightarrow> Probe" where
  "baseProbe E =
     \<lparr>pOK = False, pServerVersion = [], pAPIVersion = [], pOperatingSystem = [], pArchitecture = [],
      pContext = (if RuntimeContext (cfgOf E) = [] then dockerContextName (eOS E) else RuntimeContext (cfgOf E)),
      pIsolation = [], pHostGOOS = eGOOS E, pCapabilities = capabilities (eDriver E), pSecurityOptions = [],
      pRootless = [], pError = []\<rparr>"

definition withVersion :: "server_version \<Rightarrow> Probe \<Rightarrow> Probe" where
  "withVersion ver p =
     p\<lparr>pServerVersion := svVersion ver, pAPIVersion := svAPIVersion ver, pOperatingSystem := svOs ver,
       pArchitecture := svArch ver\<rparr>"

definition withInfo :: "string \<Rightarrow> system_info \<Rightarrow> Probe \<Rightarrow> Probe" where
  "withInfo goos info p =
     p\<lparr>pOperatingSystem := (if siOperatingSystem info \<noteq> [] then siOperatingSystem info else pOperatingSystem p),
       pArchitecture := (if siArchitecture info \<noteq> [] then siArchitecture info else pArchitecture p),
       pIsolation := classifyIsolation goos, pSecurityOptions := siSecurityOptions info,
       pRootless := (if list_ex (\<lambda>option. Contains (ToLower option) ''rootless'') (siSecurityOptions info)
                     then ''yes'' else ''no or unreported'')\<rparr>"

definition Health :: "env \<Rightarrow> trace \<Rightarrow> Probe \<times> trace" where
  "Health E w =
     (let p = baseProbe E; w1 = w @ [(ReqCtx, PingReq)]; w2 = w1 @ [(ReqCtx, ServerVersionReq)];
          w3 = w2 @ [(ReqCtx, InfoReq)] in
      if \<not> cliPresent (eDriver E) then (p\<lparr>pError := ''docker client not initialized''\<rparr>, w)
      else
        (case ansUnit (eEngine E) w1 of
           Inl e \<Rightarrow> (p\<lparr>pError := e\<rparr>, w1)
         | Inr _ \<Rightarrow>
             (case ansVersion (eEngine E) w2 of
                Inl e \<Rightarrow> (p\<lparr>pError := e\<rparr>, w2)
              | Inr ver \<Rightarrow>
                  (let p1 = withVersion ver p in
                   (case ansInfo (eEngine E) w3 of
                      Inr info \<Rightarrow> ((withInfo (eGOOS E) info p1)\<lparr>pOK := True\<rparr>, w3)
                    | Inl _ \<Rightarrow> (p1\<lparr>pIsolation := classifyIsolation (eGOOS E), pOK := True\<rparr>, w3))))))"

end
