(* ===== verification/Create_Delete.thy ===== *)
theory Create_Delete
  imports Create_Rules Docker_Observe
begin

text \<open>
  \<open>Create\<close> and \<open>Delete\<close> communicate through the labels of the container: \<open>Delete\<close> removes what the labels
  name. The lemmas compute the labels of a created container and follow the resources through both
  calls. The engine is only asked to report back the labels it was given.
\<close>

section \<open>The labels of a created container\<close>

definition reservedLabels :: "string list" where
  "reservedLabels = [labelSandbox, labelName, labelNetwork, labelRole, labelVolume, labelCAVol, labelSSHVol]"

definition noReserved :: "(string \<times> string) list \<Rightarrow> bool" where
  "noReserved ls \<longleftrightarrow> list_all (\<lambda>kv. TrimSpace (fst kv) \<notin> set reservedLabels) ls"

lemmas label_defs = labelSandbox_def labelName_def labelNetwork_def labelRole_def labelVolume_def labelCAVol_def
  labelSSHVol_def labelSSH_def labelInit_def labelPolicy_def labelGPU_def

lemma userLabels_other:
  "list_all (\<lambda>kv. TrimSpace (fst kv) \<noteq> k) ls \<Longrightarrow> bLabels (userLabels ls b) k = bLabels b k"
  by (induction ls b rule: userLabels.induct) auto

lemma userLabels_reserved:
  "noReserved ls \<Longrightarrow> k \<in> set reservedLabels \<Longrightarrow> bLabels (userLabels ls b) k = bLabels b k"
  by (rule userLabels_other) (auto simp: noReserved_def list_all_iff)

lemma buildBase_labels:
  assumes "noReserved (spLabels (pSpec p))"
  shows "bLabels (buildBase E p env0) labelSandbox = Some ''1''" "bLabels (buildBase E p env0) labelName = Some (pName p)"
    "bLabels (buildBase E p env0) labelNetwork = Some (pNetName p)" "bLabels (buildBase E p env0) labelRole = Some roleSandbox"
    "bLabels (buildBase E p env0) labelCAVol = (if caVolOf p \<noteq> [] then Some (caVolOf p) else None)"
    "bLabels (buildBase E p env0) labelVolume = None" "bLabels (buildBase E p env0) labelSSHVol = None"
  using userLabels_reserved [OF assms]
  by (simp_all add: buildBase_def Let_def reservedLabels_def label_defs)

text \<open>What the later stages do to the labels the deletion reads.\<close>

lemma addPersist_labels:
  assumes "addPersist E p b w = (Inr b1, w')"
  shows "bLabels b1 k = (if spPersistVolume (pSpec p) \<and> k = labelVolume then Some (dataVolOf p) else bLabels b k)"
  using assms by (auto simp: addPersist_def result_iff persistBuild_def Let_def split: if_splits)

lemma addInit_labels:
  assumes "addInit E spec b = Inr b1" "k \<in> set reservedLabels"
  shows "bLabels b1 k = bLabels b k"
  using assms by (auto simp: addInit_def result_iff Let_def reservedLabels_def label_defs split: if_splits)

lemma addSupervisor_labels: "k \<in> set reservedLabels \<Longrightarrow> bLabels (addSupervisor p b) k = bLabels b k"
  by (auto simp: addSupervisor_def reservedLabels_def label_defs)

lemma addSSH_labels:
  "k \<in> set reservedLabels \<Longrightarrow>
   bLabels (addSSH E p b) k = (if pSSHVol p \<noteq> [] \<and> k = labelSSHVol then Some (pSSHVol p) else bLabels b k)"
  by (auto simp: addSSH_def Let_def reservedLabels_def label_defs)

lemma addDisplay_labels:
  assumes "addDisplay E p b = Inr b1" "k \<in> set reservedLabels"
  shows "bLabels b1 k = bLabels b k"
  using assms by (auto simp: addDisplay_def Let_def reservedLabels_def label_defs split: if_splits)

lemma gpuLabels_labels: "k \<in> set reservedLabels \<Longrightarrow> bLabels (gpuLabels reqs b) k = bLabels b k"
  by (auto simp: gpuLabels_def reservedLabels_def label_defs)

lemma stages_labels:
  assumes "addPersist E p b w = (Inr b1, w')" "addInit E (pSpec p) b1 = Inr b2"
    "addDisplay E p (addSSH E p (addSupervisor p b2)) = Inr b3" "k \<in> set reservedLabels"
  shows "ccLabels (coConfig (createOptions E p info b3)) k =
    (if pSSHVol p \<noteq> [] \<and> k = labelSSHVol then Some (pSSHVol p)
     else if spPersistVolume (pSpec p) \<and> k = labelVolume then Some (dataVolOf p) else bLabels b k)"
  using addPersist_labels [OF assms(1), of k] addInit_labels [OF assms(2,4)] addSupervisor_labels [OF assms(4), of p b2]
    addSSH_labels [OF assms(4), of E p "addSupervisor p b2"] addDisplay_labels [OF assms(3,4)]
    gpuLabels_labels [OF assms(4), of "DeviceRequestsForGPU (eOS E) (pSpec p)" b3]
  by (simp add: createOptions_def containerConfig_def Let_def)

lemma at_Some: "m k = Some v \<Longrightarrow> at m k = v"
  by (simp add: at_def)

lemma at_None: "m k = None \<Longrightarrow> at m k = []"
  by (simp add: at_def)

text \<open>The labels, in the form in which \<open>Delete\<close> and \<open>List\<close> read them.\<close>

lemma created_labels:
  fixes info :: image_info
  assumes "addPersist E p (buildBase E p env0) w = (Inr b1, w')" "addInit E (pSpec p) b1 = Inr b2"
    "addDisplay E p (addSSH E p (addSupervisor p b2)) = Inr b3" "noReserved (spLabels (pSpec p))"
  defines "L \<equiv> at (ccLabels (coConfig (createOptions E p info b3)))"
  shows "L labelSandbox = ''1''" "L labelName = pName p" "L labelNetwork = pNetName p" "L labelRole = roleSandbox"
    "L labelCAVol = caVolOf p" "L labelVolume = (if spPersistVolume (pSpec p) then dataVolOf p else [])"
    "L labelSSHVol = pSSHVol p"
proof -
  note s = stages_labels [OF assms(1-3), of _ info] and b = buildBase_labels [OF assms(4), of E env0]
  have m: "labelSandbox \<in> set reservedLabels" "labelName \<in> set reservedLabels" "labelNetwork \<in> set reservedLabels"
    "labelRole \<in> set reservedLabels" "labelCAVol \<in> set reservedLabels" "labelVolume \<in> set reservedLabels"
    "labelSSHVol \<in> set reservedLabels"
    by (simp_all add: reservedLabels_def)
  have d: "labelSandbox \<noteq> labelSSHVol" "labelSandbox \<noteq> labelVolume" "labelName \<noteq> labelSSHVol" "labelName \<noteq> labelVolume"
    "labelNetwork \<noteq> labelSSHVol" "labelNetwork \<noteq> labelVolume" "labelRole \<noteq> labelSSHVol" "labelRole \<noteq> labelVolume"
    "labelCAVol \<noteq> labelSSHVol" "labelCAVol \<noteq> labelVolume" "labelVolume \<noteq> labelSSHVol" "labelSSHVol \<noteq> labelVolume"
    by (simp_all add: label_defs)
  show "L labelSandbox = ''1''" "L labelName = pName p" "L labelNetwork = pNetName p" "L labelRole = roleSandbox"
    using s [OF m(1)] s [OF m(2)] s [OF m(3)] s [OF m(4)] b d unfolding L_def by (simp_all add: at_def)
  show "L labelCAVol = caVolOf p" using s [OF m(5)] b(5) d unfolding L_def by (simp add: at_def)
  show "L labelVolume = (if spPersistVolume (pSpec p) then dataVolOf p else [])"
    using s [OF m(6)] b(6) d unfolding L_def by (simp add: at_def)
  show "L labelSSHVol = pSSHVol p" using s [OF m(7)] b(7) d unfolding L_def by (simp add: at_def)
qed

section \<open>The resources of a successful call\<close>

text \<open>An invariant of the ledger.\<close>

definition keepsL :: "(ledger \<Rightarrow> bool) \<Rightarrow> 'a lop \<Rightarrow> bool" where
  "keepsL P m \<longleftrightarrow> (\<forall>l w. P l \<longrightarrow> P (snd (fst (m l w))))"

lemma keepsL_rules:
  "keepsL P (returnL x)" "keepsL P (liftL m)" "(\<And>l. P l \<Longrightarrow> P (f l)) \<Longrightarrow> keepsL P (updL f)"
  by (auto simp: keepsL_def returnL_def liftL_def updL_def split: prod.splits)

lemma keepsL_bindL:
  assumes "keepsL P m" "\<And>x. keepsL P (f x)"
  shows "keepsL P (bindL m f)"
  unfolding keepsL_def
proof (intro allI impI)
  fix l w
  assume "P l"
  obtain r l1 w1 where m: "m l w = ((r, l1), w1)" by (metis surj_pair)
  with assms(1) \<open>P l\<close> have "P l1" unfolding keepsL_def by (metis fst_conv snd_conv)
  with assms(2) m show "P (snd (fst (bindL m f l w)))"
    by (cases r) (auto simp: bindL_def keepsL_def)
qed

definition planVolumes :: "plan \<Rightarrow> string set" where
  "planVolumes p = (if pWithProxy p then insert (caVolOf p) (if pSSHVol p \<noteq> [] then {pSSHVol p} else {}) else {})"

definition ledgerOK :: "plan \<Rightarrow> ledger \<Rightarrow> bool" where
  "ledgerOK p l \<longleftrightarrow> set (createdVolumes l) \<subseteq> planVolumes p \<and> (proxyCreated l \<longrightarrow> pWithProxy p)"

lemma provisionProxy_ledger: "keepsL (ledgerOK p) (provisionProxy E p info img)"
proof -
  have t: "keepsL (ledgerOK p) (ensureTracked E v)" if "v \<in> planVolumes p" for v
    unfolding ensureTracked_def
    by (intro keepsL_bindL keepsL_rules) (use that in \<open>auto simp: keepsL_rules ledgerOK_def intro!: keepsL_rules\<close>)
  have v: "pWithProxy p \<Longrightarrow> caVolOf p \<in> planVolumes p" "pWithProxy p \<Longrightarrow> pSSHVol p \<noteq> [] \<Longrightarrow> pSSHVol p \<in> planVolumes p"
    by (simp_all add: planVolumes_def)
  have u: "pWithProxy p \<Longrightarrow> keepsL (ledgerOK p) (updL (\<lambda>l. l\<lparr>proxyCreated := True\<rparr>))"
    by (rule keepsL_rules) (simp add: ledgerOK_def)
  show ?thesis
    unfolding provisionProxy_def Let_def
    by (cases "pWithProxy p") (simp_all add: keepsL_bindL keepsL_rules t v u)
qed

text \<open>Everything a plan may create.\<close>

definition planResources :: "plan \<Rightarrow> resource set" where
  "planResources p =
     insert (RNet (pNetName p)) (RVol ` planVolumes p \<union>
       (if pWithProxy p then named (''cauteum-proxy-'' @ pName p) else {}) \<union>
       (if spPersistVolume (pSpec p) then {RVol (dataVolOf p)} else {}))"

lemma addPersist_owed_plan:
  assumes "addPersist E p b w = (r, w')"
  shows "owed (eEngine E) w' \<subseteq> owed (eEngine E) w \<union> (if spPersistVolume (pSpec p) then {RVol (dataVolOf p)} else {})"
  using addPersist_owed [OF assms] assms by (auto simp: addPersist_def returnW_def)

lemma Create_success_owed:
  assumes "Create E spec w = (Inr h, w')"
  obtains p info b1 b2 b3 w5 w6 v w1 w2 where
    "createValidate E spec w = (Inr v, w1)" "createPlan E v w1 = (Inr p, w2)"
    "addPersist E p (buildBase E p (proxyEnvOf E p info)) w5 = (Inr b1, w6)"
    "addInit E (pSpec p) b1 = Inr b2" "addDisplay E p (addSSH E p (addSupervisor p b2)) = Inr b3"
    "requestContainer E p (createOptions E p info b3) w6 = (Inr h, w')"
    "owed (eEngine E) w' \<subseteq> owed (eEngine E) w \<union> planResources p \<union> {RCtr (pCtrName p) (hID h)}"
  using assms
proof (cases rule: Create_stages)
  case (late v p i net w1 w2 w3 w4)
  define l0 where "l0 = \<lparr>networkCreated = net, proxyCreated = False, createdVolumes = []\<rparr>"
  let ?body = "bindL (provisionProxy E p (fst i) (snd i)) (\<lambda>env0. liftL (finishCreate E p (fst i) env0))"
  from late(5) obtain l where b: "?body l0 w4 = ((Inr h, l), w')"
    by (auto simp: withCleanup_def l0_def split: prod.splits sum.splits)
  then show thesis
  proof (cases rule: bindL_cases)
    case (2 env0 l1 w5)
    then have "finishCreate E p (fst i) (proxyEnvOf E p (fst i)) w5 = (Inr h, w')"
      using provisionProxy_env by (auto simp: liftL_Inr)
    then obtain b1 w6 b2 b3 where f: "addPersist E p (buildBase E p (proxyEnvOf E p (fst i))) w5 = (Inr b1, w6)"
      "addInit E (pSpec p) b1 = Inr b2" "addDisplay E p (addSSH E p (addSupervisor p b2)) = Inr b3"
      "requestContainer E p (createOptions E p (fst i) b3) w6 = (Inr h, w')"
      unfolding finishCreate_def result_iff by blast
    have "ledgerOK p l0" by (simp add: l0_def ledgerOK_def)
    then have "ledgerOK p l1" using provisionProxy_ledger 2(1) unfolding keepsL_def by (metis fst_conv snd_conv)
    then have "ledgerRes p l1 \<subseteq> planResources p"
      by (auto simp: ledgerOK_def ledgerRes_def planResources_def)
    moreover have "owed (eEngine E) w4 \<subseteq> owed (eEngine E) w \<union> planResources p"
      using ensureNetwork_adds [OF late(4)] late(6) by (auto simp: planResources_def split: if_splits)
    moreover have "owed (eEngine E) w5 \<subseteq> owed (eEngine E) w4 \<union> ledgerRes p l1"
      using accountedD [OF accounted_provisionProxy 2(1)] by blast
    moreover have "owed (eEngine E) w6 \<subseteq> owed (eEngine E) w5 \<union> planResources p"
      using addPersist_owed_plan [OF f(1)] by (auto simp: planResources_def split: if_splits)
    moreover have "owed (eEngine E) w' = insert (RCtr (pCtrName p) (hID h)) (owed (eEngine E) w6)"
      using requestContainer_owed [OF f(4)] by (simp add: createOptions_def)
    ultimately have "owed (eEngine E) w' \<subseteq> owed (eEngine E) w \<union> planResources p \<union> {RCtr (pCtrName p) (hID h)}" by blast
    with that late(1,2) f show thesis by blast
  qed simp
qed simp

section \<open>Delete\<close>

lemma discard_call: "discard (call c req ans) w = (Inr (), w @ [(c, req)])"
  by (simp add: discard_def bindW_def tryW_def call_def returnW_def)

lemma removeProxySidecar_run:
  "removeProxySidecar E c name w = (Inr (), w @ [(c, ContainerRemoveReq (''cauteum-proxy-'' @ name))])"
  by (simp add: removeProxySidecar_def ContainerRemove_def bindW_def tryW_def call_def returnW_def)

definition removals :: "string \<Rightarrow> (string \<Rightarrow> string) \<Rightarrow> trace" where
  "removals cid l =
     map (Pair ReqCtx)
      ([ContainerRemoveReq cid] @
       (if l labelName \<noteq> [] then [ContainerRemoveReq (''cauteum-proxy-'' @ l labelName)] else []) @
       (if l labelNetwork \<noteq> [] then [NetworkRemoveReq (l labelNetwork)] else []) @
       (if l labelVolume \<noteq> [] then [VolumeRemoveReq (l labelVolume)] else []) @
       (if l labelCAVol \<noteq> [] then [VolumeRemoveReq (l labelCAVol)] else []) @
       (if l labelSSHVol \<noteq> [] then [VolumeRemoveReq (l labelSSHVol)] else []))"

lemma Delete_run:
  assumes "ansContainerInspect (eEngine E) (w @ [(ReqCtx, ContainerInspectReq cid)]) = Inr info" "ciConfig info = Some cfg"
  shows "Delete E cid w = (Inr (), w @ (ReqCtx, ContainerInspectReq cid) # removals cid (at (icLabels cfg)))"
proof -
  have "wrapW DeleteInspect (ContainerInspect E cid) w = (Inr info, w @ [(ReqCtx, ContainerInspectReq cid)])"
    using assms(1) by (simp add: ContainerInspect_def wrapW_def call_def)
  with assms(2) show ?thesis
    by (simp add: Delete_def ContainerRemove_def NetworkRemove_def VolumeRemove_def bindW_def unlessEmpty_def discard_call
        removeProxySidecar_run returnW_def removals_def Let_def)
qed

lemma owed_removals:
  assumes "\<And>r. r \<in> R \<Longrightarrow> \<exists>q \<in> snd ` set rs.
    (case r of RNet n \<Rightarrow> q = NetworkRemoveReq n | RVol v \<Rightarrow> q = VolumeRemoveReq v
     | RCtr n i \<Rightarrow> q = ContainerRemoveReq n \<or> q = ContainerRemoveReq i)"
    and "list_all neutral rs"
  shows "owed G (w @ rs) \<subseteq> owed G w - R"
  using assms
proof (induction rs arbitrary: R rule: rev_induct)
  case (snoc e rs)
  obtain c q where e: "e = (c, q)" by force
  define hit where "hit r \<longleftrightarrow> (case r of RNet n \<Rightarrow> q = NetworkRemoveReq n | RVol v \<Rightarrow> q = VolumeRemoveReq v
     | RCtr n i \<Rightarrow> q = ContainerRemoveReq n \<or> q = ContainerRemoveReq i)" for r
  have "owed G (w @ rs) \<subseteq> owed G w - {r \<in> R. \<not> hit r}"
  proof (rule snoc.IH)
    fix r assume r: "r \<in> {r \<in> R. \<not> hit r}"
    with snoc.prems(1) [of r] have "\<exists>q' \<in> snd ` set (rs @ [e]). (case r of RNet n \<Rightarrow> q' = NetworkRemoveReq n | RVol v \<Rightarrow> q' = VolumeRemoveReq v
     | RCtr n i \<Rightarrow> q' = ContainerRemoveReq n \<or> q' = ContainerRemoveReq i)" by blast
    with r show "\<exists>q \<in> snd ` set rs. (case r of RNet n \<Rightarrow> q = NetworkRemoveReq n | RVol v \<Rightarrow> q = VolumeRemoveReq v
     | RCtr n i \<Rightarrow> q = ContainerRemoveReq n \<or> q = ContainerRemoveReq i)"
      unfolding hit_def e by (cases r) auto
  qed (use snoc.prems(2) in simp)
  moreover have "owed G ((w @ rs) @ [e]) \<subseteq> owed G (w @ rs) - {r. hit r}"
  proof -
    have "r \<notin> owed G ((w @ rs) @ [e])" if "hit r" for r
      using that unfolding e hit_def by (cases r) (auto simp: owed_requests simp del: append_assoc)
    then show ?thesis using owed_neutral [of e G "w @ rs"] snoc.prems(2) by auto
  qed
  ultimately show ?case by auto
qed auto

lemma removals_neutral: "list_all neutral (removals cid l)"
  by (simp add: removals_def)

lemma netName_ne: "createPlan E v w = (Inr p, w') \<Longrightarrow> pNetName p \<noteq> []"
  using createPlan_name by fastforce

lemma createPlan_ssh: "createPlan E v w = (Inr p, w') \<Longrightarrow> pSSHVol p \<noteq> [] \<Longrightarrow> pWithProxy p"
  by (auto simp: createPlan_def Let_def result_iff planSSH_def split: if_splits)

section \<open>Results\<close>

text \<open>
  C3. Deleting a sandbox undoes its creation: if the engine reports for the new container the labels
  it was created with, and the caller's own labels do not use the driver's names, then after \<open>Create\<close>
  and \<open>Delete\<close> nothing is owed that was not owed before: container, proxy, network and all volumes are
  gone.
\<close>

theorem delete_undoes_create:
  assumes "Create E spec w = (Inr h, w')" and "noReserved (spLabels spec)"
    and "snd (last w') = (if nativeContainerCreate (eDriver E) then NativeContainerCreateReq opts else ContainerCreateReq opts)"
    and "ansContainerInspect (eEngine E) (w' @ [(ReqCtx, ContainerInspectReq (hID h))]) = Inr info"
    and "ciConfig info = Some cfg" and "icLabels cfg = ccLabels (coConfig opts)"
  shows "\<exists>w''. Delete E (hID h) w' = (Inr (), w'') \<and>
    live (eEngine E) w'' \<subseteq> live (eEngine E) w \<union> refused (eEngine E) w w''"
  using assms(1)
proof (cases rule: Create_success_owed)
  case (1 p inf b1 b2 b3 w5 w6 v w1 w2)
  note n = createValidate_name [OF 1(1)] createPlan_name [OF 1(2)] requestContainer_request [OF 1(6)]
  obtain ds where sp: "pSpec p = spec\<lparr>spCDIDevices := ds\<rparr>" using n by metis
  have o: "opts = createOptions E p inf b3" using n assms(3) by (auto split: if_splits)
  note L = created_labels [OF 1(3-5), of inf, folded o] and nr = assms(2)
  define l where "l = at (icLabels cfg)"
  have labels: "l labelName = pName p" "l labelNetwork = pNetName p" "l labelCAVol = caVolOf p"
    "l labelVolume = (if spPersistVolume (pSpec p) then dataVolOf p else [])" "l labelSSHVol = pSSHVol p"
    using L(2,3,5,6,7) nr sp by (simp_all add: l_def assms(6))
  have ne: "pName p \<noteq> []" "pNetName p \<noteq> []" "dataVolOf p \<noteq> []"
    using 1(1) n netName_ne [OF 1(2)] by (auto simp: createValidate_def result_iff Let_def dataVolOf_def)
  let ?rs = "(ReqCtx, ContainerInspectReq (hID h)) # removals (hID h) l"
  have run: "Delete E (hID h) w' = (Inr (), w' @ ?rs)" unfolding l_def by (rule Delete_run [OF assms(4,5)])
  have "owed (eEngine E) (w' @ ?rs) \<subseteq> owed (eEngine E) w' - (planResources p \<union> {RCtr (pCtrName p) (hID h)})"
  proof (rule owed_removals)
    fix r assume "r \<in> planResources p \<union> {RCtr (pCtrName p) (hID h)}"
    then show "\<exists>q \<in> snd ` set ?rs. (case r of RNet n \<Rightarrow> q = NetworkRemoveReq n | RVol v \<Rightarrow> q = VolumeRemoveReq v
     | RCtr n i \<Rightarrow> q = ContainerRemoveReq n \<or> q = ContainerRemoveReq i)"
      using labels ne createPlan_ssh [OF 1(2)]
      by (auto simp: planResources_def planVolumes_def named_def removals_def caVolOf_def split: if_splits)
  qed (simp add: removals_neutral)
  with 1(7) have "owed (eEngine E) (w' @ ?rs) \<subseteq> owed (eEngine E) w \<union> {}" by blast
  moreover obtain new where "w' = w @ new" using emitsD [OF Create_grows assms(1)] by blast
  ultimately have "live (eEngine E) (w' @ ?rs) \<subseteq> live (eEngine E) w \<union> {} \<union> refused (eEngine E) w (w' @ ?rs)"
    by (intro live_bound) simp_all
  with run show ?thesis by blast
qed

theorem delete_undoes_create_witness:
  "\<exists>w' w''. let E = sampleEnv (\<lambda>_. Inr ''c1'') in
     fst (Create E sampleSpec []) = Inr \<lparr>hID = ''c1'', hName = ''box'', hNetwork = ''cauteum-net-box'', hImage = ''debian:bookworm''\<rparr> \<and>
     snd (Create E sampleSpec []) = w' \<and> Delete E ''c1'' w' = (Inr (), w'') \<and> live (eEngine E) w'' = {}"
proof -
  let ?E = "sampleEnv (\<lambda>_. Inr ''c1'')"
  obtain w' where c: "Create ?E sampleSpec [] =
      (Inr \<lparr>hID = ''c1'', hName = ''box'', hNetwork = ''cauteum-net-box'', hImage = ''debian:bookworm''\<rparr>, w')"
    by (rule sample_success)
  obtain opts ws where w': "w' = ws @ [(ReqCtx, ContainerCreateReq opts)]"
    using c by (cases rule: Create_success) (auto dest!: requestContainer_request)
  have "noReserved (spLabels sampleSpec)" by (simp add: noReserved_def sampleSpecOf_def zeroSpec_def)
  moreover have "icLabels (the (ciConfig (inspected (w' @ [(ReqCtx, ContainerInspectReq ''c1'')])))) = ccLabels (coConfig opts)"
    by (simp add: inspected_def w')
  ultimately obtain w'' where "Delete ?E ''c1'' w' = (Inr (), w'')" "live (eEngine ?E) w'' \<subseteq> {}"
    using delete_undoes_create [OF c, of opts "inspected (w' @ [(ReqCtx, ContainerInspectReq ''c1'')])"
        "sampleConfig\<lparr>icLabels := ccLabels (coConfig opts)\<rparr>"]
    by (auto simp: w' inspected_def)
  then show ?thesis using c by (intro exI [of _ w'] exI [of _ w'']) simp
qed

section \<open>Labels of the caller\<close>

text \<open>
  The caller's labels can redirect a deletion: a label \<^verbatim>\<open>cauteum.volume\<close> in the specification of a
  sandbox without a data volume reaches the container unchanged, and deleting the sandbox then
  requests the forced removal of the volume it names, which the driver never created.
\<close>

theorem caller_label_redirects_delete:
  assumes "Create E spec w = (Inr h, w')" and "spLabels spec = [(labelVolume, v)]" and "v \<noteq> []" and "\<not> spPersistVolume spec"
    and "snd (last w') = (if nativeContainerCreate (eDriver E) then NativeContainerCreateReq opts else ContainerCreateReq opts)"
    and "ansContainerInspect (eEngine E) (w' @ [(ReqCtx, ContainerInspectReq (hID h))]) = Inr info"
    and "ciConfig info = Some cfg" and "icLabels cfg = ccLabels (coConfig opts)"
  shows "\<exists>w''. Delete E (hID h) w' = (Inr (), w'') \<and> (ReqCtx, VolumeRemoveReq v) \<in> set w''"
  using assms(1)
proof (cases rule: Create_success_owed)
  case (1 p inf b1 b2 b3 w5 w6 va w1 w2)
  note n = createValidate_name [OF 1(1)] createPlan_name [OF 1(2)] requestContainer_request [OF 1(6)]
  obtain ds where sp: "pSpec p = spec\<lparr>spCDIDevices := ds\<rparr>" using n by metis
  have o: "opts = createOptions E p inf b3" using n assms(5) by (auto split: if_splits)
  have t: "TrimSpace labelVolume = labelVolume" by code_simp
  have "bLabels (buildBase E p (proxyEnvOf E p inf)) labelVolume = Some v"
    using assms(2) sp t by (simp add: buildBase_def Let_def label_defs)
  then have "at (icLabels cfg) labelVolume = v"
    using stages_labels [OF 1(3-5), of labelVolume inf] assms(4) sp o
    by (simp add: assms(8) at_def reservedLabels_def label_defs)
  then show ?thesis
    using Delete_run [OF assms(6,7)] assms(3) by (auto simp: removals_def)
qed

lemma sample_created_labels:
  obtains w' ws opts where
    "Create (sampleEnv (\<lambda>_. Inr ''c1'')) (sampleSpecOf ls persist) [] =
       (Inr \<lparr>hID = ''c1'', hName = ''box'', hNetwork = ''cauteum-net-box'', hImage = ''debian:bookworm''\<rparr>, w')"
    "w' = ws @ [(ReqCtx, ContainerCreateReq opts)]"
    "ansContainerInspect (eEngine (sampleEnv (\<lambda>_. Inr ''c1''))) (w' @ [(ReqCtx, ContainerInspectReq ''c1'')]) =
       Inr (sampleContainer\<lparr>ciConfig := Some (sampleConfig\<lparr>icLabels := ccLabels (coConfig opts)\<rparr>)\<rparr>)"
proof -
  obtain w' where c: "Create (sampleEnv (\<lambda>_. Inr ''c1'')) (sampleSpecOf ls persist) [] =
      (Inr \<lparr>hID = ''c1'', hName = ''box'', hNetwork = ''cauteum-net-box'', hImage = ''debian:bookworm''\<rparr>, w')"
    by (rule sample_success)
  obtain opts ws where "w' = ws @ [(ReqCtx, ContainerCreateReq opts)]"
    using c by (cases rule: Create_success) (auto dest!: requestContainer_request)
  with c that show thesis by (simp add: inspected_def)
qed

theorem caller_label_redirects_delete_witness:
  "\<exists>w' w''. Create (sampleEnv (\<lambda>_. Inr ''c1'')) (sampleSpecOf [(labelVolume, ''db'')] False) [] =
       (Inr \<lparr>hID = ''c1'', hName = ''box'', hNetwork = ''cauteum-net-box'', hImage = ''debian:bookworm''\<rparr>, w') \<and>
     Delete (sampleEnv (\<lambda>_. Inr ''c1'')) ''c1'' w' = (Inr (), w'') \<and> (ReqCtx, VolumeRemoveReq ''db'') \<in> set w''"
proof -
  let ?E = "sampleEnv (\<lambda>_. Inr ''c1'')" and ?s = "sampleSpecOf [(labelVolume, ''db'')] False"
  obtain w' ws opts where c: "Create ?E ?s [] =
       (Inr \<lparr>hID = ''c1'', hName = ''box'', hNetwork = ''cauteum-net-box'', hImage = ''debian:bookworm''\<rparr>, w')"
    and w: "w' = ws @ [(ReqCtx, ContainerCreateReq opts)]"
    and i: "ansContainerInspect (eEngine ?E) (w' @ [(ReqCtx, ContainerInspectReq ''c1'')]) =
       Inr (sampleContainer\<lparr>ciConfig := Some (sampleConfig\<lparr>icLabels := ccLabels (coConfig opts)\<rparr>)\<rparr>)"
    by (rule sample_created_labels)
  have "\<exists>w''. Delete ?E ''c1'' w' = (Inr (), w'') \<and> (ReqCtx, VolumeRemoveReq ''db'') \<in> set w''"
    using caller_label_redirects_delete [OF c, of "''db''" opts] i w by simp
  with c show ?thesis by blast
qed

section \<open>Listing\<close>

text \<open>How the engine lists a container that was created with some options.\<close>

definition listed :: "create_options \<Rightarrow> string \<Rightarrow> string \<Rightarrow> container_summary" where
  "listed opts cid status =
     \<lparr>csID = cid, csNames = [''/'' @ coName opts], csImage = ccImage (coConfig opts), csStatus = status,
      csLabels = ccLabels (coConfig opts)\<rparr>"

lemma sidecar_role: "sidecarPlan E a = Inr popts \<Longrightarrow> at (ccLabels (coConfig popts)) labelRole = roleProxy"
  by (auto simp: sidecarPlan_def sidecarOptions_def result_iff at_def label_defs)

text \<open>
  C28. \<open>List\<close> shows sandboxes and hides their proxies. Whatever containers the engine has, if it honours
  the label filter of the request, then a sandbox \<open>Create\<close> has returned, among whose own labels there is
  none of the driver's (\<open>noReserved\<close>), is listed under its name, network, image and the identifier of
  its container, whatever its status; and no entry stems from a proxy container as \<open>Create\<close> requests it.
\<close>

theorem list_shows_sandboxes_only:
  fixes cs :: "container_summary list" and h :: Handle
  assumes "Create E spec w = (Inr h, w')" and "noReserved (spLabels spec)"
    and "snd (last w') = (if nativeContainerCreate (eDriver E) then NativeContainerCreateReq opts else ContainerCreateReq opts)"
    and "listed opts (hID h) status \<in> set cs"
    and "ansContainerList (eEngine E') (u @ [(ReqCtx, ContainerListReq [labelSandbox @ ''=1''])]) =
      Inr (filter (\<lambda>c. at (csLabels c) labelSandbox = ''1'') cs)"
  shows "\<exists>infos. List E' u = (Inr infos, u @ [(ReqCtx, ContainerListReq [labelSandbox @ ''=1''])]) \<and>
    \<lparr>iID = hID h, iName = sanitizeName (spName spec), iNetwork = hNetwork h, iImage = ccImage (coConfig opts),
     iStatus = status\<rparr> \<in> set infos \<and>
    (\<forall>i \<in> set infos. \<exists>c \<in> set cs. i = summaryInfo c \<and>
      \<not> (\<exists>E0 a popts pid pstatus. sidecarPlan E0 a = Inr popts \<and> c = listed popts pid pstatus))"
  using assms(1)
proof (cases rule: Create_success_owed)
  case (1 p inf b1 b2 b3 w5 w6 v w1 w2)
  note n = createValidate_name [OF 1(1)] createPlan_name [OF 1(2)] requestContainer_request [OF 1(6)]
  obtain ds where sp: "pSpec p = spec\<lparr>spCDIDevices := ds\<rparr>" using n by metis
  have o: "opts = createOptions E p inf b3" using n assms(3) by (auto split: if_splits)
  have L: "at (ccLabels (coConfig opts)) labelSandbox = ''1''" "at (ccLabels (coConfig opts)) labelName = pName p"
    "at (ccLabels (coConfig opts)) labelNetwork = pNetName p" "at (ccLabels (coConfig opts)) labelRole = roleSandbox"
    using created_labels(1-4) [OF 1(3-5), of inf, folded o] assms(2) sp by simp_all
  have ne: "pName p \<noteq> []" using 1(1) n by (auto simp: createValidate_def result_iff Let_def)
  let ?l = "listed opts (hID h) status" and ?infos = "listInfos (filter (\<lambda>c. at (csLabels c) labelSandbox = ''1'') cs)"
  have "?l \<in> set (filter (\<lambda>c. at (csLabels c) labelRole \<noteq> roleProxy) (filter (\<lambda>c. at (csLabels c) labelSandbox = ''1'') cs))"
    using assms(4) L by (simp add: listed_def roleSandbox_def roleProxy_def)
  then have "summaryInfo ?l \<in> set ?infos" unfolding listInfos_def set_map by (rule imageI)
  moreover have "summaryInfo ?l = \<lparr>iID = hID h, iName = sanitizeName (spName spec), iNetwork = hNetwork h,
      iImage = ccImage (coConfig opts), iStatus = status\<rparr>"
    using L n ne by (simp add: summaryInfo_def listed_def Let_def)
  moreover have "\<exists>c \<in> set cs. i = summaryInfo c \<and>
      \<not> (\<exists>E0 a popts pid pstatus. sidecarPlan E0 a = Inr popts \<and> c = listed popts pid pstatus)" if "i \<in> set ?infos" for i
  proof -
    from that obtain c where c: "c \<in> set cs" "i = summaryInfo c" "at (csLabels c) labelRole \<noteq> roleProxy"
      by (auto simp: listInfos_def)
    moreover have "\<not> (\<exists>E0 a popts pid pstatus. sidecarPlan E0 a = Inr popts \<and> c = listed popts pid pstatus)"
    proof
      assume "\<exists>E0 a popts pid pstatus. sidecarPlan E0 a = Inr popts \<and> c = listed popts pid pstatus"
      then obtain E0 a popts pid pstatus where "sidecarPlan E0 a = Inr popts" "c = listed popts pid pstatus" by blast
      with sidecar_role [OF this(1)] c(3) show False by (simp add: listed_def)
    qed
    ultimately show ?thesis by blast
  qed
  moreover have "List E' u = (Inr ?infos, u @ [(ReqCtx, ContainerListReq [labelSandbox @ ''=1''])])"
    using assms(5) by (simp add: List_def ContainerList_def bindW_def wrapW_def call_def returnW_def)
  ultimately show ?thesis by auto
qed

text \<open>An engine that lists some containers.\<close>

definition listing :: "container_summary list \<Rightarrow> env" where
  "listing cs = (sampleEnv (\<lambda>_. Inr ''c1''))\<lparr>eEngine := (sampleEngine (\<lambda>_. Inr ''c1''))\<lparr>ansContainerList := (\<lambda>w. Inr cs)\<rparr>\<rparr>"

theorem list_shows_sandboxes_only_witness:
  "\<exists>w' opts popts infos. Create (sampleEnv (\<lambda>_. Inr ''c1'')) sampleSpec [] =
       (Inr \<lparr>hID = ''c1'', hName = ''box'', hNetwork = ''cauteum-net-box'', hImage = ''debian:bookworm''\<rparr>, w') \<and>
     fst (List (listing (filter (\<lambda>c. at (csLabels c) labelSandbox = ''1'') [listed popts ''p1'' ''Up'', listed opts ''c1'' ''Created''])) []) =
       Inr infos \<and>
     \<lparr>iID = ''c1'', iName = ''box'', iNetwork = ''cauteum-net-box'', iImage = ccImage (coConfig opts), iStatus = ''Created''\<rparr> \<in> set infos"
proof -
  let ?E = "sampleEnv (\<lambda>_. Inr ''c1'')"
  obtain w' ws opts where c: "Create ?E sampleSpec [] =
       (Inr \<lparr>hID = ''c1'', hName = ''box'', hNetwork = ''cauteum-net-box'', hImage = ''debian:bookworm''\<rparr>, w')"
    and w: "w' = ws @ [(ReqCtx, ContainerCreateReq opts)]"
    by (rule sample_created_labels)
  obtain popts where "sidecarPlan ?E (sidecarArgs ?E samplePlan ''debian'') = Inr popts"
    using sampled.world_sidecarPlan by (metis isOk.elims(2))
  let ?cs = "[listed popts ''p1'' ''Up'', listed opts ''c1'' ''Created'']"
  have "noReserved (spLabels sampleSpec)" by (simp add: noReserved_def)
  moreover have "snd (last w') = (if nativeContainerCreate (eDriver ?E) then NativeContainerCreateReq opts else ContainerCreateReq opts)"
    by (simp add: w)
  moreover have "ansContainerList (eEngine (listing (filter (\<lambda>c. at (csLabels c) labelSandbox = ''1'') ?cs)))
      ([] @ [(ReqCtx, ContainerListReq [labelSandbox @ ''=1''])]) = Inr (filter (\<lambda>c. at (csLabels c) labelSandbox = ''1'') ?cs)"
    by (simp add: listing_def)
  moreover have "listed opts (hID \<lparr>hID = ''c1'', hName = ''box'', hNetwork = ''cauteum-net-box'', hImage = ''debian:bookworm''\<rparr>) ''Created'' \<in> set ?cs"
    by simp
  ultimately obtain infos where "fst (List (listing (filter (\<lambda>c. at (csLabels c) labelSandbox = ''1'') ?cs)) []) = Inr infos"
     "\<lparr>iID = ''c1'', iName = ''box'', iNetwork = ''cauteum-net-box'', iImage = ccImage (coConfig opts), iStatus = ''Created''\<rparr> \<in> set infos"
    using list_shows_sandboxes_only [OF c, of opts "''Created''" ?cs "listing (filter (\<lambda>c. at (csLabels c) labelSandbox = ''1'') ?cs)" "[]"]
      sample_name [of "[]" True] by auto
  with c show ?thesis by blast
qed

end
