(* ===== verification/Lifecycle_Rules.thy ===== *)
theory Lifecycle_Rules
  imports Create_Delete
begin

text \<open>
  Properties of the operations on running sandboxes: commands go through the hardened init, waiting
  for readiness succeeds when the container becomes ready in time, starting fails only when the
  engine cannot start the container, and the probe always asks for the removal of its helper.
\<close>

section \<open>Exec\<close>

lemma emits_Exec:
  assumes "\<And>info cfg. ansContainerInspect (eEngine E) (w @ [(ReqCtx, ContainerInspectReq cid)]) = Inr info \<Longrightarrow>
      ciConfig info = Some cfg \<Longrightarrow> P (ReqCtx, ExecCreateReq cid (execOptions E cfg req))"
    and "P (ReqCtx, ContainerInspectReq cid)" "\<And>x. P (ReqCtx, ExecAttachReq x)" "\<And>x. P (ReqCtx, ExecInspectReq x)"
    "\<And>x z. P (ReqCtx, ExecResizeReq x z)"
    and "Exec E cid req w = (r, w')"
  shows "\<exists>new. w' = w @ new \<and> list_all P new"
proof (cases "erArgv req = []")
  case True
  then show ?thesis using assms(6) by (simp add: Exec_def liftW_def)
next
  case False
  define w1 where "w1 = w @ [(ReqCtx, ContainerInspectReq cid)]"
  show ?thesis
  proof (cases "\<exists>info cfg. ansContainerInspect (eEngine E) w1 = Inr info \<and> ciConfig info = Some cfg")
    case True
    then obtain info cfg where i: "ansContainerInspect (eEngine E) w1 = Inr info" "ciConfig info = Some cfg" by blast
    define rest where "rest =
       bindW (wrapW ExecCreateFailed
         (call ReqCtx (ExecCreateReq cid (execOptions E cfg req)) (ansExecCreate (eEngine E)))) (\<lambda>execID.
       bindW (wrapW ExecAttachFailed (call ReqCtx (ExecAttachReq execID) (ansExecAttach (eEngine E)))) (\<lambda>_.
       bindW (execAttached E execID (erTTY req)) (\<lambda>_.
       bindW (wrapW ExecInspectFailed (call ReqCtx (ExecInspectReq execID) (ansExecInspect (eEngine E)))) (\<lambda>code.
       returnW \<lparr>ExitCode = code\<rparr>))))"
    have r: "rest w1 = (r, w')"
      using assms(6) False i by (simp add: Exec_def bindW_def wrapW_def ContainerInspect_def call_def w1_def rest_def)
    have "emits P rest"
      unfolding rest_def execAttached_def resizeExecOnce_def
      using assms(1) [OF i(1) [unfolded w1_def] i(2)] assms(3-5)
      by (intro emits_rules) (auto simp: trace_simps intro!: emits_rules split: prod.splits)
    from emitsD [OF this r] obtain new where "w' = w1 @ new" "list_all P new" by blast
    then show ?thesis using assms(2) by (simp add: w1_def)
  next
    case f: False
    then have "w' = w1" using assms(6) False
      by (auto simp: Exec_def bindW_def wrapW_def wrapE_def ContainerInspect_def call_def w1_def liftW_def split: sum.splits option.splits)
    then show ?thesis using assms(2) by (simp add: w1_def)
  qed
qed

text \<open>What an exec request has to look like, given the inspected configuration.\<close>

definition guardedExec :: "env \<Rightarrow> inspected_config \<Rightarrow> ExecRequest \<Rightarrow> exec_options \<Rightarrow> bool" where
  "guardedExec E cfg req eo \<longleftrightarrow>
     (if at (icLabels cfg) labelInit = ''1'' then eoCmd eo = ''/cauteum-haven/cauteum-init'' # ''--'' # erArgv req
      else eoCmd eo = erArgv req) \<and>
     (at (icLabels cfg) labelRole = roleProxy \<longrightarrow> eoWorkingDir eo = ''/'') \<and> eoUser eo = [] \<and>
     (\<forall>k. k = ''TERM'' \<or> k = ''COLORTERM'' \<or> envOf (eoEnv eo) k = (envOf (icEnv cfg) ++ envOf (erEnv req)) k)"

lemma ensureTTYEnv_other:
  "k \<noteq> ''TERM'' \<Longrightarrow> k \<noteq> ''COLORTERM'' \<Longrightarrow> envOf (ensureTTYEnv os base) k = envOf base k"
proof -
  assume k: "k \<noteq> ''TERM''" "k \<noteq> ''COLORTERM''"
  have "envOf [''TERM='' @ t] k = None" "envOf [''COLORTERM=truecolor''] k = None" for t
    using k by (simp_all add: envOf_def env_simps envKV_def Cut_def)
  then show ?thesis by (simp add: ensureTTYEnv_def Let_def env_lists.merge_kept del: append.simps)
qed

lemma guarded_execOptions: "guardedExec E cfg req (execOptions E cfg req)"
proof -
  have "k = ''TERM'' \<or> k = ''COLORTERM'' \<or>
      envOf (eoEnv (execOptions E cfg req)) k = (envOf (icEnv cfg) ++ envOf (erEnv req)) k" for k
    using ensureTTYEnv_other [of k "eOS E" "mergeEnv (icEnv cfg) (erEnv req)"]
    by (cases "k = ''TERM'' \<or> k = ''COLORTERM''") (auto simp: execOptions_def mergeEnv_envOf)
  then show ?thesis by (simp add: guardedExec_def execOptions_def execArgv_def execWorkdir_def)
qed

text \<open>
  C9. Every exec request that the operation \<open>Exec\<close> issues, the one that runs the commands of users, is
  guarded: it is issued only after the container was inspected in this call and its configuration is
  known, it goes through the hardened init whenever the sandbox was created with it, a proxy is never
  entered in the workspace directory, and the environment is the container's own with the caller's
  overrides. (The driver's own start-up commands, \<open>rawExec\<close> with \<open>ensureGuestLayout\<close> and
  \<open>EnsureSSHDaemon\<close>, bypass the init on purpose and are not covered.)
\<close>

theorem exec_requests_guarded:
  assumes "Exec E cid req w = (r, w')" and "(c, ExecCreateReq x eo) \<in> set (drop (length w) w')"
  shows "x = cid \<and> (\<exists>info cfg. ansContainerInspect (eEngine E) (w @ [(ReqCtx, ContainerInspectReq cid)]) = Inr info \<and>
      ciConfig info = Some cfg \<and> guardedExec E cfg req eo)"
proof -
  define P where "P e \<longleftrightarrow> (case snd e of ExecCreateReq x eo \<Rightarrow> x = cid \<and>
      (\<exists>info cfg. ansContainerInspect (eEngine E) (w @ [(ReqCtx, ContainerInspectReq cid)]) = Inr info \<and>
        ciConfig info = Some cfg \<and> guardedExec E cfg req eo) | _ \<Rightarrow> True)" for e :: "ctx \<times> request"
  have "\<exists>new. w' = w @ new \<and> list_all P new"
    by (rule emits_Exec [OF _ _ _ _ _ assms(1)]) (auto simp: P_def guarded_execOptions)
  then obtain new where "w' = w @ new" "list_all P new" by blast
  with assms(2) show ?thesis by (auto simp: list_all_iff P_def)
qed

theorem exec_requests_guarded_witness:
  "\<exists>r w' eo. Exec (sampleEnv (\<lambda>_. Inr ''c1'')) ''c1'' (probeReq [''ls'']) [] = (r, w') \<and>
     (ReqCtx, ExecCreateReq ''c1'' eo) \<in> set w' \<and> eoCmd eo = [''/cauteum-haven/cauteum-init'', ''--'', ''ls'']"
proof -
  let ?E = "sampleEnv (\<lambda>_. Inr ''c1'')" and ?eo = "execOptions (sampleEnv (\<lambda>_. Inr ''c1'')) sampleConfig (probeReq [''ls''])"
  have i: "inspected [(ReqCtx, ContainerInspectReq ''c1'')] = sampleContainer\<lparr>ciConfig := Some sampleConfig\<rparr>"
    by (simp add: inspected_def)
  have e: "Exec ?E ''c1'' (probeReq [''ls'']) [] = (Inr \<lparr>ExitCode = 0\<rparr>,
      [(ReqCtx, ContainerInspectReq ''c1''), (ReqCtx, ExecCreateReq ''c1'' ?eo), (ReqCtx, ExecAttachReq ''e1''), (ReqCtx, ExecInspectReq ''e1'')])"
    by (simp add: Exec_def run_simps ContainerInspect_def i execAttached_def) (simp add: probeReq_def run_simps)
  have "at (icLabels sampleConfig) labelInit = ''1''" by (simp add: sampleConfig_def at_def label_defs)
  then have "eoCmd ?eo = [''/cauteum-haven/cauteum-init'', ''--'', ''ls'']"
    using exec_requests_guarded [OF e, of ReqCtx "''c1''" ?eo] i by (auto simp: guardedExec_def probeReq_def)
  with e show ?thesis by (intro exI conjI) auto
qed

section \<open>Waiting\<close>

text \<open>The state of the trace before the \<open>k\<close>-th round of a polling loop.\<close>

definition roundTrace :: "(trace \<Rightarrow> bool \<times> trace) \<Rightarrow> nat \<Rightarrow> trace \<Rightarrow> trace" where
  "roundTrace probe k w = ((\<lambda>w. snd (probe w)) ^^ k) w"

lemma roundTrace_Suc: "roundTrace probe (Suc k) w = roundTrace probe k (snd (probe w))"
  unfolding roundTrace_def by (simp add: funpow_Suc_right del: funpow.simps)

lemma pollLoop_ready:
  assumes "k < n" "fst (probe (roundTrace probe k w))"
    "\<And>i. i < k \<Longrightarrow> ctxDone (eEngine E) (roundTrace probe (Suc i) w) = None"
  shows "fst (pollLoop E probe n w) = Ready"
  using assms
proof (induction n arbitrary: k w)
  case (Suc n)
  obtain ok w1 where p: "probe w = (ok, w1)" by force
  show ?case
  proof (cases k)
    case 0
    then show ?thesis using Suc.prems(2) p by (simp add: roundTrace_def)
  next
    case (Suc k')
    have "ctxDone (eEngine E) w1 = None" using Suc.prems(3) [of 0] Suc p by (simp add: roundTrace_def)
    moreover have "fst (pollLoop E probe n w1) = Ready"
    proof (rule Suc.IH)
      show "k' < n" using Suc.prems(1) Suc by simp
      show "fst (probe (roundTrace probe k' w1))" using Suc.prems(2) Suc p by (simp add: roundTrace_Suc)
      show "ctxDone (eEngine E) (roundTrace probe (Suc i) w1) = None" if "i < k'" for i
        using Suc.prems(3) [of "Suc i"] Suc p that by (simp add: roundTrace_Suc)
    qed
    ultimately show ?thesis using p by simp
  qed
qed simp

text \<open>
  C24. Waiting for the proxy ends in success as soon as it is ready: if the connection probe succeeds
  in some round before the deadline, and the context has not ended after any earlier round, then
  \<open>waitProxyListening\<close> returns without an error, whatever the earlier rounds answered.
\<close>

theorem wait_succeeds_when_ready:
  fixes E cid port w
  defines "probe \<equiv> execProbe E cid [''bash'', ''-c'', ''exec 3<>/dev/tcp/127.0.0.1/'' @ Itoa port]"
  assumes "k < pollRounds (eEngine E) w" and "fst (probe (roundTrace probe k w))"
    and "\<And>i. i < k \<Longrightarrow> ctxDone (eEngine E) (roundTrace probe (Suc i) w) = None"
  shows "fst (waitProxyListening E cid port w) = Inr ()"
  using pollLoop_ready [where E = E, OF assms(2-4)]
  unfolding waitProxyListening_def pollWait_def probe_def [symmetric]
  by (cases "pollLoop E probe (pollRounds (eEngine E) w) w") auto

theorem wait_succeeds_when_ready_witness:
  "fst (waitProxyListening (sampleEnv (\<lambda>_. Inr ''c1'')) ''p1'' 3128 []) = Inr ()"
proof -
  let ?E = "sampleEnv (\<lambda>_. Inr ''c1'')"
  let ?argv = "[''bash'', ''-c'', ''exec 3<>/dev/tcp/127.0.0.1/'' @ Itoa 3128]"
  obtain w' where "Exec ?E ''p1'' (probeReq ?argv) [] = (Inr \<lparr>ExitCode = 0\<rparr>, w')"
    using sampled.world_exec unfolding yields_def by blast
  then have "fst (execProbe ?E ''p1'' ?argv (roundTrace (execProbe ?E ''p1'' ?argv) 0 []))"
    by (simp add: execProbe_def roundTrace_def)
  then show ?thesis using wait_succeeds_when_ready [of 0 ?E "[]" "''p1''" 3128] by simp
qed

section \<open>Start\<close>

text \<open>
  C39. \<open>Start\<close> fails exactly when the engine does not start the container: problems with the guest
  layout or the SSH daemon never turn a running sandbox into an error.
\<close>

theorem start_fails_iff_engine_does:
  "fst (Start E cid w) =
     (case ansUnit (eEngine E) (w @ [(ReqCtx, ContainerStartReq cid)]) of Inl e \<Rightarrow> Inl (StartFailed e) | Inr _ \<Rightarrow> Inr ())"
proof -
  have d: "fst (printContainerDiagnostics E cid w) = (Inr () :: lifecycle_error + unit)" for w
    by (simp add: printContainerDiagnostics_def bindW_def tryW_def call_def returnW_def)
  have i: "fst (bindW (if b then returnW () else printContainerDiagnostics E cid) f w) =
      fst (f () (snd ((if b then returnW () else printContainerDiagnostics E cid) w :: (lifecycle_error + unit) \<times> trace)))"
    for b and f :: "unit \<Rightarrow> (lifecycle_error, unit) op" and w
    using d [of w] by (auto simp: bindW_def returnW_def split: sum.splits prod.splits)
  show ?thesis
    by (auto simp: Start_def bindW_def [of "wrapW _ _"] bindW_def [of "tryW _"] wrapW_def wrapE_def tryW_def call_def i d returnW_def
        split: sum.splits prod.splits)
qed

section \<open>The probe\<close>

lemma neutral_probeBody: "emits neutral (probeBody E cid)"
proof -
  have l: "emits neutral (bindW (wrapW ProbeLogs (call ReqCtx (ContainerLogsReq cid False []) (ansLogs (eEngine E))))
      (\<lambda>r. returnW (probeSummary (fst r))))"
    by (intro emits_rules) (simp_all add: trace_simps)
  show ?thesis
    unfolding probeBody_def
  proof (rule emits_bindW)
    fix u :: unit
    show "emits neutral (\<lambda>w. let w1 = w @ [(ReqCtx, ContainerWaitReq cid)];
         rest = bindW (wrapW ProbeLogs (call ReqCtx (ContainerLogsReq cid False []) (ansLogs (eEngine E)))) (\<lambda>r. returnW (probeSummary (fst r)))
     in (case ansWait (eEngine E) w1 of WaitError (Some e) \<Rightarrow> (Inl (ProbeWait e), w1) | WaitError None \<Rightarrow> rest w1
          | WaitResult \<Rightarrow> rest w1 | WaitDone e \<Rightarrow> (Inl (ProbeWait e), w1)))"
      unfolding emits_def Let_def
    proof
      fix w
      obtain r w2 where b: "bindW (wrapW ProbeLogs (call ReqCtx (ContainerLogsReq cid False []) (ansLogs (eEngine E))))
          (\<lambda>r. returnW (probeSummary (fst r))) (w @ [(ReqCtx, ContainerWaitReq cid)]) = (r, w2)" by force
      from emitsD [OF l b] obtain new where "w2 = (w @ [(ReqCtx, ContainerWaitReq cid)]) @ new" "list_all neutral new" by blast
      with b show "\<exists>new. snd (case ansWait (eEngine E) (w @ [(ReqCtx, ContainerWaitReq cid)]) of
          WaitError (Some e) \<Rightarrow> (Inl (ProbeWait e), w @ [(ReqCtx, ContainerWaitReq cid)])
        | WaitError None \<Rightarrow> bindW (wrapW ProbeLogs (call ReqCtx (ContainerLogsReq cid False []) (ansLogs (eEngine E)))) (\<lambda>r. returnW (probeSummary (fst r))) (w @ [(ReqCtx, ContainerWaitReq cid)])
        | WaitResult \<Rightarrow> bindW (wrapW ProbeLogs (call ReqCtx (ContainerLogsReq cid False []) (ansLogs (eEngine E)))) (\<lambda>r. returnW (probeSummary (fst r))) (w @ [(ReqCtx, ContainerWaitReq cid)])
        | WaitDone e \<Rightarrow> (Inl (ProbeWait e), w @ [(ReqCtx, ContainerWaitReq cid)])) = w @ new \<and> list_all neutral new"
        by (auto split: wait_outcome.splits option.splits)
    qed
  qed (simp add: trace_simps)
qed

lemma probe_owed:
  assumes "RunProbe E initBin w = (r, w')"
  shows "owed (eEngine E) w' \<subseteq> owed (eEngine E) w"
proof (cases "cliPresent (eDriver E)")
  case False
  then show ?thesis using assms by (simp add: RunProbe_def liftW_def)
next
  case True
  define tail where "tail = (\<lambda>cid w. case probeBody E cid w of (r, w') \<Rightarrow> (r, snd (ContainerRemove E ReqCtx cid w')))"
  let ?opts = "probeOptions (eDefaults E) initBin"
  from assms True have "bindW (wrapW ProbeImage (ensureImage E (ImageDebian (eDefaults E)))) (\<lambda>_.
      bindW (wrapW ProbeCreate (call ReqCtx (ContainerCreateReq ?opts) (ansContainerCreate (eEngine E)))) tail) w = (r, w')"
    by (simp add: RunProbe_def tail_def)
  note run = this
  have img: "emits neutral (wrapW ProbeImage (ensureImage E (ImageDebian (eDefaults E))))"
    by (simp add: trace_simps neutral_ensureImage)
  from run show ?thesis
  proof (cases rule: bindW_cases)
    case (1 e)
    show ?thesis by (rule emits_neutral [OF img 1(1)])
  next
    case (2 u w1)
    have l1: "owed (eEngine E) w1 \<subseteq> owed (eEngine E) w"
      by (rule emits_neutral [OF img 2(1)])
    define w2 where "w2 = w1 @ [(ReqCtx, ContainerCreateReq ?opts)]"
    show ?thesis
    proof (cases "ansContainerCreate (eEngine E) w2")
      case (Inl e)
      with 2(2) have "w' = w2" by (simp add: bindW_def wrapW_def call_def w2_def)
      with Inl l1 show ?thesis by (simp add: w2_def owed_snoc owedStep_def Let_def)
    next
      case (Inr cid)
      with 2(2) have t: "tail cid w2 = (r, w')" by (simp add: bindW_def wrapW_def call_def w2_def)
      obtain r3 w3 where b: "probeBody E cid w2 = (r3, w3)" by force
      have "owed (eEngine E) w2 = insert (RCtr [] cid) (owed (eEngine E) w1)"
        using Inr by (simp add: w2_def owed_snoc owedStep_def Let_def probeOptions_def)
      moreover have "owed (eEngine E) w3 \<subseteq> owed (eEngine E) w2" by (rule emits_neutral [OF neutral_probeBody b])
      moreover have "w' = w3 @ [(ReqCtx, ContainerRemoveReq cid)]"
        using t b by (simp add: tail_def ContainerRemove_def call_def)
      ultimately show ?thesis using l1 by (auto simp: trace_simps)
    qed
  qed
qed

lemma probe_grows:
  assumes "RunProbe E initBin w = (r, w')"
  shows "\<exists>new. w' = w @ new"
proof -
  have "grows (\<lambda>w. case probeBody E cid w of (r, w') \<Rightarrow> (r, snd (ContainerRemove E ReqCtx cid w')))" for cid
    unfolding emits_def
  proof
    fix w
    obtain r w1 where b: "probeBody E cid w = (r, w1)" by force
    from emitsD [OF neutral_probeBody b] show "\<exists>new. snd (case probeBody E cid w of (r, w') \<Rightarrow>
        (r, snd (ContainerRemove E ReqCtx cid w'))) = w @ new \<and> list_all (\<lambda>_. True) new"
      by (auto simp: b ContainerRemove_def call_def list.pred_True)
  qed
  moreover have "grows (ensureImage E img)" for img by (rule grows_neutral) (rule neutral_ensureImage)
  ultimately have "grows (RunProbe E initBin)"
    unfolding RunProbe_def Let_def by (intro emits_rules) (simp_all add: trace_simps)
  from emitsD [OF this assms] show ?thesis by blast
qed

text \<open>
  C38. The Landlock probe always asks for the removal of its helper container: however it ends, a
  container, network or volume that exists afterwards existed before, or is a container whose removal
  the probe requested and the engine answered with an error. (The request uses the context of the
  caller, and the answer is ignored.)
\<close>

theorem probe_leaves_nothing:
  assumes "RunProbe E initBin w = (r, w')"
  shows "live (eEngine E) w' \<subseteq> live (eEngine E) w \<union> refused (eEngine E) w w'"
  using live_bound [of "eEngine E" w' w "{}"] probe_owed [OF assms] probe_grows [OF assms] by auto

theorem probe_leaves_nothing_witness:
  "live (eEngine (sampleEnv (\<lambda>_. Inr ''c1''))) (snd (RunProbe (sampleEnv (\<lambda>_. Inr ''c1'')) ''/init'' [])) = {}"
proof -
  obtain r w' where "RunProbe (sampleEnv (\<lambda>_. Inr ''c1'')) ''/init'' [] = (r, w')" by force
  with probe_leaves_nothing [OF this] show ?thesis by simp
qed

end
