(* ===== verification/Docker_Copy.thy ===== *)
theory Docker_Copy
  imports Docker_Resources
begin

text \<open>
  Copying from a sandbox to the host: \<^verbatim>\<open>CopyFrom\<close>, \<^verbatim>\<open>extractCopyTar\<close>, \<^verbatim>\<open>safeArchiveName\<close> and
  \<^verbatim>\<open>rejectExistingSymlink\<close> of \<^verbatim>\<open>docker.go\<close>.

  The destination is a directory opened with \<^verbatim>\<open>os.OpenRoot\<close>. Its contents are a map from lists of
  path elements to nodes. The operations of \<^verbatim>\<open>os.Root\<close> are modelled on that map; a path that climbs out
  of the root is refused, as in Go. Go follows a symbolic link inside the root; the code never gets
  there, which \<open>ThroughLink\<close> makes visible: it is the value of an operation that would follow a link. Faults
  of the operating system are a parameter. An archive is the list of entries the tar reader yields,
  with the error that ends it, if any.
\<close>

section \<open>A directory opened as root\<close>

datatype node = NDir | NFile string nat | NLink string

type_synonym rootfs = "string list \<Rightarrow> node option"

datatype fs_error = NotExist | NotDir | IsDir | Escapes | ThroughLink | OSFault os_error

datatype fsop = FLstat "string list" | FMkdir "string list" | FOpen "string list" | FChmod "string list" | FClose "string list"

type_synonym faults = "fsop \<Rightarrow> os_error option"

definition rootPath :: "string \<Rightarrow> fs_error + string list" where
  "rootPath p =
     (if p = [] then Inl NotExist
      else if IsAbs p \<or> ''..'' \<in> set (elems p) then Inl Escapes
      else Inr (elems p))"

text \<open>The node at a path; the last element is not followed.\<close>

fun walkTo :: "rootfs \<Rightarrow> string list \<Rightarrow> string list \<Rightarrow> fs_error + node" where
  "walkTo fs pre [] = (case fs pre of None \<Rightarrow> Inl NotExist | Some n \<Rightarrow> Inr n)"
| "walkTo fs pre (c # cs) =
     (case fs pre of
        None \<Rightarrow> Inl NotExist
      | Some NDir \<Rightarrow> walkTo fs (pre @ [c]) cs
      | Some (NFile _ _) \<Rightarrow> Inl NotDir
      | Some (NLink _) \<Rightarrow> Inl ThroughLink)"

definition rootLstat :: "faults \<Rightarrow> rootfs \<Rightarrow> string \<Rightarrow> fs_error + node" where
  "rootLstat fault fs p =
     bindR (rootPath p) (\<lambda>cs.
     (case fault (FLstat cs) of Some e \<Rightarrow> Inl (OSFault e) | None \<Rightarrow> walkTo fs [] cs))"

fun mkdirs :: "faults \<Rightarrow> rootfs \<Rightarrow> string list \<Rightarrow> string list \<Rightarrow> (fs_error + unit) \<times> rootfs" where
  "mkdirs fault fs pre cs =
     (let next = (\<lambda>fs'. case cs of [] \<Rightarrow> (Inr (), fs') | c # cs' \<Rightarrow> mkdirs fault fs' (pre @ [c]) cs') in
      (case fs pre of
         Some NDir \<Rightarrow> next fs
       | Some (NFile _ _) \<Rightarrow> (Inl NotDir, fs)
       | Some (NLink _) \<Rightarrow> (Inl ThroughLink, fs)
       | None \<Rightarrow>
           (case fault (FMkdir pre) of
              Some e \<Rightarrow> (Inl (OSFault e), fs)
            | None \<Rightarrow> next (fs(pre \<mapsto> NDir)))))"

declare mkdirs.simps [simp del]

definition rootMkdirAll :: "faults \<Rightarrow> rootfs \<Rightarrow> string \<Rightarrow> (fs_error + unit) \<times> rootfs" where
  "rootMkdirAll fault fs p = (case rootPath p of Inl e \<Rightarrow> (Inl e, fs) | Inr cs \<Rightarrow> mkdirs fault fs [] cs)"

text \<open>Opening for writing: the file is created with the mode, or truncated.\<close>

definition rootOpenFile :: "faults \<Rightarrow> rootfs \<Rightarrow> string \<Rightarrow> nat \<Rightarrow> (fs_error + string list) \<times> rootfs" where
  "rootOpenFile fault fs p mode =
     (case rootPath p of
        Inl e \<Rightarrow> (Inl e, fs)
      | Inr cs \<Rightarrow>
          if cs = [] then (Inl IsDir, fs)
          else
            (case walkTo fs [] (butlast cs) of
               Inl e \<Rightarrow> (Inl e, fs)
             | Inr (NFile _ _) \<Rightarrow> (Inl NotDir, fs)
             | Inr (NLink _) \<Rightarrow> (Inl ThroughLink, fs)
             | Inr NDir \<Rightarrow>
                 (case fault (FOpen cs) of
                    Some e \<Rightarrow> (Inl (OSFault e), fs)
                  | None \<Rightarrow>
                      (case fs cs of
                         None \<Rightarrow> (Inr cs, fs(cs \<mapsto> NFile [] mode))
                       | Some (NFile _ m) \<Rightarrow> (Inr cs, fs(cs \<mapsto> NFile [] m))
                       | Some NDir \<Rightarrow> (Inl IsDir, fs)
                       | Some (NLink _) \<Rightarrow> (Inl ThroughLink, fs)))))"

definition setContent :: "rootfs \<Rightarrow> string list \<Rightarrow> string \<Rightarrow> rootfs" where
  "setContent fs cs text = (case fs cs of Some (NFile _ m) \<Rightarrow> fs(cs \<mapsto> NFile text m) | _ \<Rightarrow> fs)"

definition setMode :: "rootfs \<Rightarrow> string list \<Rightarrow> nat \<Rightarrow> rootfs" where
  "setMode fs cs mode = (case fs cs of Some (NFile t _) \<Rightarrow> fs(cs \<mapsto> NFile t mode) | _ \<Rightarrow> fs)"

section \<open>Archive names\<close>

datatype copy_error =
    CopyFromFailed engine_error
  | RootUnavailable os_error
  | ArchiveError engine_error
  | InvalidArchivePath string
  | ArchiveEscapes string
  | SymlinkInDestination string
  | MultipleEntries string
  | NoRegularFile string
  | FsError fs_error
  | ContentError engine_error
  | CopyStat os_error
  | CopyToFailed engine_error

definition safeArchiveName :: "string \<Rightarrow> copy_error + string" where
  "safeArchiveName raw =
     (if raw = [] \<or> IsAbs raw then Inl (InvalidArchivePath raw)
      else if ''..'' \<in> set (splitChar slash raw) then Inl (ArchiveEscapes raw)
      else
        (let name = Clean raw in
         if name = ''.'' \<or> name = ''..'' \<or> HasPrefix name (''..'' @ [slash]) then Inl (ArchiveEscapes raw)
         else Inr name))"

fun rejectParts :: "faults \<Rightarrow> rootfs \<Rightarrow> string \<Rightarrow> string list \<Rightarrow> copy_error + unit" where
  "rejectParts fault fs component [] = Inr ()"
| "rejectParts fault fs component (part # parts) =
     (let component' = Join [component, part] in
      (case rootLstat fault fs component' of
         Inl NotExist \<Rightarrow> rejectParts fault fs component' parts
       | Inl e \<Rightarrow> Inl (FsError e)
       | Inr (NLink _) \<Rightarrow> Inl (SymlinkInDestination component')
       | Inr _ \<Rightarrow> rejectParts fault fs component' parts))"

definition rejectExistingSymlink :: "faults \<Rightarrow> rootfs \<Rightarrow> string \<Rightarrow> copy_error + unit" where
  "rejectExistingSymlink fault fs name = rejectParts fault fs [] (splitChar slash (Clean name))"

section \<open>Extraction\<close>

datatype tar_type = TypeDir | TypeReg | TypeOther

text \<open>\<open>teContent\<close> is what can be read of the content, \<open>teErr\<close> the error that ends it early.\<close>

record tar_entry =
  teName :: string
  teType :: tar_type
  teMode :: int
  teContent :: string
  teErr :: "engine_error option"

definition fileMode :: "tar_entry \<Rightarrow> nat" where
  "fileMode e = (if and (teMode e) 73 \<noteq> 0 then 493 else 420)"

text \<open>Lines 1279 to 1302: one regular file.\<close>

definition writeEntry :: "faults \<Rightarrow> rootfs \<Rightarrow> string \<Rightarrow> tar_entry \<Rightarrow> (copy_error + unit) \<times> rootfs" where
  "writeEntry fault fs target e =
     (case rejectExistingSymlink fault fs target of
        Inl err \<Rightarrow> (Inl err, fs)
      | Inr _ \<Rightarrow>
          (case rootMkdirAll fault fs (Dir target) of
             (Inl err, fs1) \<Rightarrow> (Inl (FsError err), fs1)
           | (Inr _, fs1) \<Rightarrow>
               (case rootOpenFile fault fs1 target (fileMode e) of
                  (Inl err, fs2) \<Rightarrow> (Inl (FsError err), fs2)
                | (Inr cs, fs2) \<Rightarrow>
                    (let fs3 = setContent fs2 cs (teContent e);
                         fs4 = (if fault (FChmod cs) = None then setMode fs3 cs (fileMode e) else fs3) in
                     (case teErr e of
                        Some err \<Rightarrow> (Inl (ContentError err), fs4)
                      | None \<Rightarrow>
                          (case fault (FChmod cs) of
                             Some err \<Rightarrow> (Inl (FsError (OSFault err)), fs4)
                           | None \<Rightarrow>
                               (case fault (FClose cs) of
                                  Some err \<Rightarrow> (Inl (FsError (OSFault err)), fs4)
                                | None \<Rightarrow> (Inr (), fs4))))))))"

text \<open>One entry; the result is the new value of \<^verbatim>\<open>wroteFile\<close>.\<close>

definition extractEntry ::
  "faults \<Rightarrow> bool \<Rightarrow> string \<Rightarrow> bool \<Rightarrow> rootfs \<Rightarrow> tar_entry \<Rightarrow> (copy_error + bool) \<times> rootfs" where
  "extractEntry fault asDir destHost wroteFile fs e =
     (if teType e = TypeDir \<and> (teName e = ''.'' \<or> teName e = ''./'') then (Inr wroteFile, fs)
      else
        (case safeArchiveName (teName e) of
           Inl err \<Rightarrow> (Inl err, fs)
         | Inr name \<Rightarrow>
             (case teType e of
                TypeDir \<Rightarrow>
                  if \<not> asDir then (Inr wroteFile, fs)
                  else
                    (case rejectExistingSymlink fault fs name of
                       Inl err \<Rightarrow> (Inl err, fs)
                     | Inr _ \<Rightarrow>
                         (case rootMkdirAll fault fs name of
                            (Inl err, fs') \<Rightarrow> (Inl (FsError err), fs')
                          | (Inr _, fs') \<Rightarrow> (Inr wroteFile, fs')))
              | TypeReg \<Rightarrow>
                  if \<not> asDir \<and> wroteFile then (Inl (MultipleEntries destHost), fs)
                  else
                    (case writeEntry fault fs (if asDir then name else Base destHost) e of
                       (Inl err, fs') \<Rightarrow> (Inl err, fs')
                     | (Inr _, fs') \<Rightarrow> (Inr (if asDir then wroteFile else True), fs'))
              | TypeOther \<Rightarrow> (Inr wroteFile, fs))))"

fun extractLoop ::
  "faults \<Rightarrow> bool \<Rightarrow> string \<Rightarrow> string \<Rightarrow> bool \<Rightarrow> rootfs \<Rightarrow> tar_entry list \<Rightarrow> engine_error option \<Rightarrow> (copy_error + unit) \<times> rootfs" where
  "extractLoop fault asDir destHost srcPath wroteFile fs [] end =
     (case end of
        Some err \<Rightarrow> (Inl (ArchiveError err), fs)
      | None \<Rightarrow> if \<not> asDir \<and> \<not> wroteFile then (Inl (NoRegularFile srcPath), fs) else (Inr (), fs))"
| "extractLoop fault asDir destHost srcPath wroteFile fs (e # es) end =
     (case extractEntry fault asDir destHost wroteFile fs e of
        (Inl err, fs') \<Rightarrow> (Inl err, fs')
      | (Inr wrote', fs') \<Rightarrow> extractLoop fault asDir destHost srcPath wrote' fs' es end)"

text \<open>\<open>openRoot\<close> is \<^verbatim>\<open>os.MkdirAll\<close> followed by \<^verbatim>\<open>os.OpenRoot\<close>.\<close>

definition extractCopyTar ::
  "faults \<Rightarrow> (string \<Rightarrow> os_error + rootfs) \<Rightarrow> tar_entry list \<times> engine_error option \<Rightarrow> string \<Rightarrow> bool \<Rightarrow> string \<Rightarrow>
   copy_error + (copy_error + unit) \<times> rootfs" where
  "extractCopyTar fault openRoot archive destHost asDir srcPath =
     (case openRoot (if asDir then destHost else Dir destHost) of
        Inl e \<Rightarrow> Inl (RootUnavailable e)
      | Inr fs \<Rightarrow> Inr (extractLoop fault asDir destHost srcPath False fs (fst archive) (snd archive)))"

definition copyAsDir :: "host_os \<Rightarrow> string \<Rightarrow> bool" where
  "copyAsDir os destHost \<longleftrightarrow>
     HasSuffix destHost [slash] \<or> (case Stat os destHost of Inr st \<Rightarrow> fiIsDir st | Inl _ \<Rightarrow> False)"

definition CopyFrom ::
  "env \<Rightarrow> (trace \<Rightarrow> engine_error + tar_entry list \<times> engine_error option) \<Rightarrow> faults \<Rightarrow> (string \<Rightarrow> os_error + rootfs) \<Rightarrow>
   string \<Rightarrow> string \<Rightarrow> string \<Rightarrow> (copy_error, (copy_error + unit) \<times> rootfs) op" where
  "CopyFrom E ansCopy fault openRoot cid srcPath destHost =
     bindW (wrapW CopyFromFailed (call ReqCtx (CopyFromContainerReq cid srcPath) ansCopy)) (\<lambda>archive.
     liftW (extractCopyTar fault openRoot archive destHost (copyAsDir (eOS E) destHost) srcPath))"

end
