(* ===== verification/Host_Tree.thy ===== *)
theory Host_Tree
  imports Engine
begin

text \<open>
  Directory trees of the host and the two walks of \<^verbatim>\<open>path/filepath\<close> over them: \<^verbatim>\<open>WalkDir\<close>, on which
  the freshness check of the sidecar binaries rests, and \<^verbatim>\<open>Walk\<close>, which \<^verbatim>\<open>CopyTo\<close> uses. A walk calls a
  function for every entry in lexical order and threads the state of that closure. Symbolic links are entries
  of their own and are not followed.
\<close>

text \<open>A leaf has the result of asking for its file information and of reading it: opening fails, or yields
  bytes and the error that ends them, if any. The entries of a directory may be unreadable.\<close>

type_synonym host_content = "os_error + string \<times> os_error option"

datatype host_tree =
    HLeaf string "os_error + file_info" host_content
  | HDir string file_info "host_tree list"
  | HBadDir string file_info os_error

fun treeName :: "host_tree \<Rightarrow> string" where
  "treeName (HLeaf n _ _) = n"
| "treeName (HDir n _ _) = n"
| "treeName (HBadDir n _ _) = n"

fun treeIsDir :: "host_tree \<Rightarrow> bool" where
  "treeIsDir (HLeaf _ _ _) = False"
| "treeIsDir (HDir _ _ _) = True"
| "treeIsDir (HBadDir _ _ _) = True"

fun treeInfo :: "host_tree \<Rightarrow> os_error + file_info" where
  "treeInfo (HLeaf _ i _) = i"
| "treeInfo (HDir _ i _) = Inr i"
| "treeInfo (HBadDir _ i _) = Inr i"

section \<open>WalkDir\<close>

datatype walk_result = Continue | SkipDir | SkipAll | Fail os_error

text \<open>The callback gets the path, the entry (none when the root cannot be examined), the error of the
  walk and the state of its closure.\<close>

type_synonym 's walk_fn = "string \<Rightarrow> host_tree option \<Rightarrow> os_error option \<Rightarrow> 's \<Rightarrow> walk_result \<times> 's"

fun skipped :: "walk_result \<times> 's \<Rightarrow> walk_result \<times> 's" where
  "skipped (SkipDir, s) = (Continue, s)"
| "skipped r = r"

primrec walkDir :: "'s walk_fn \<Rightarrow> string \<Rightarrow> host_tree \<Rightarrow> 's \<Rightarrow> walk_result \<times> 's"
  and walkEntries :: "'s walk_fn \<Rightarrow> string \<Rightarrow> host_tree list \<Rightarrow> 's \<Rightarrow> walk_result \<times> 's" where
  "walkDir fn path (HLeaf n i c) s = fn path (Some (HLeaf n i c)) None s"
| "walkDir fn path (HDir n i ts) s =
     (case fn path (Some (HDir n i ts)) None s of
        (Continue, s1) \<Rightarrow> walkEntries fn path ts s1
      | r \<Rightarrow> skipped r)"
| "walkDir fn path (HBadDir n i e) s =
     (case fn path (Some (HBadDir n i e)) None s of
        (Continue, s1) \<Rightarrow> skipped (fn path (Some (HBadDir n i e)) (Some e) s1)
      | r \<Rightarrow> skipped r)"
| "walkEntries fn path [] s = (Continue, s)"
| "walkEntries fn path (t # ts) s =
     (case walkDir fn (Join [path, treeName t]) t s of
        (Continue, s1) \<Rightarrow> walkEntries fn path ts s1
      | r \<Rightarrow> skipped r)"

definition WalkDir :: "(string \<Rightarrow> os_error + host_tree) \<Rightarrow> 's walk_fn \<Rightarrow> string \<Rightarrow> 's \<Rightarrow> os_error option \<times> 's" where
  "WalkDir lookup fn root s =
     (case (case lookup root of Inl e \<Rightarrow> fn root None (Some e) s | Inr t \<Rightarrow> walkDir fn root t s) of
        (Fail e, s') \<Rightarrow> (Some e, s')
      | (_, s') \<Rightarrow> (None, s'))"

section \<open>Walk\<close>

text \<open>\<^verbatim>\<open>Walk\<close> for a callback that stops with an error or goes on; a directory whose entries cannot be read
  is reported once, with the error.\<close>

type_synonym 's visit_fn = "string \<Rightarrow> host_tree option \<Rightarrow> os_error option \<Rightarrow> 's \<Rightarrow> os_error option \<times> 's"

primrec walkTree :: "'s visit_fn \<Rightarrow> string \<Rightarrow> host_tree \<Rightarrow> 's \<Rightarrow> os_error option \<times> 's"
  and walkTrees :: "'s visit_fn \<Rightarrow> string \<Rightarrow> host_tree list \<Rightarrow> 's \<Rightarrow> os_error option \<times> 's" where
  "walkTree fn path (HLeaf n i c) s =
     (case i of Inl e \<Rightarrow> fn path None (Some e) s | Inr info \<Rightarrow> fn path (Some (HLeaf n i c)) None s)"
| "walkTree fn path (HDir n i ts) s =
     (case fn path (Some (HDir n i ts)) None s of
        (None, s1) \<Rightarrow> walkTrees fn path ts s1
      | r \<Rightarrow> r)"
| "walkTree fn path (HBadDir n i e) s = fn path (Some (HBadDir n i e)) (Some e) s"
| "walkTrees fn path [] s = (None, s)"
| "walkTrees fn path (t # ts) s =
     (case walkTree fn (Join [path, treeName t]) t s of
        (None, s1) \<Rightarrow> walkTrees fn path ts s1
      | r \<Rightarrow> r)"

definition Walk :: "(string \<Rightarrow> os_error + host_tree) \<Rightarrow> 's visit_fn \<Rightarrow> string \<Rightarrow> 's \<Rightarrow> os_error option \<times> 's" where
  "Walk lookup fn root s =
     (case lookup root of Inl e \<Rightarrow> fn root None (Some e) s | Inr t \<Rightarrow> walkTree fn root t s)"

end
