(* ===== verification/Docker_Archive.thy ===== *)
theory Docker_Archive
  imports Docker_Copy Host_Tree
begin

text \<open>
  Copying from the host into a sandbox: \<^verbatim>\<open>CopyTo\<close>, \<^verbatim>\<open>writeTarDir\<close> and \<^verbatim>\<open>writeTarFile\<close> of \<^verbatim>\<open>docker.go\<close>.

  The tar writer is modelled by what it checks: a header can be written only when the announced bytes of the
  entry before it have all been written, and no more bytes than announced are accepted. Its members are the headers
  with the bytes written for them. The writer runs in a goroutine behind a pipe; the engine reads the archive and its
  answer is that of the engine parameter. \<open>pipe\<close> is the error the writer gets when the engine stops
  reading early.
\<close>

section \<open>The tar writer\<close>

record tar_header =
  thName :: string
  thType :: tar_type
  thSize :: int
  thMode :: nat

record tar_writer =
  twMembers :: "(tar_header \<times> string) list"
  twLeft :: int

definition newWriter :: tar_writer where
  "newWriter = \<lparr>twMembers = [], twLeft = 0\<rparr>"

text \<open>\<^verbatim>\<open>tar.FileInfoHeader\<close>, with the name set afterwards; only a regular file announces bytes.\<close>

definition fileInfoHeader :: "file_info \<Rightarrow> string \<Rightarrow> os_error + tar_header" where
  "fileInfoHeader i name =
     (if fiIsRegular i then Inr \<lparr>thName = name, thType = TypeReg, thSize = fiSize i, thMode = fiPerm i\<rparr>
      else if fiIsDir i then Inr \<lparr>thName = name, thType = TypeDir, thSize = 0, thMode = fiPerm i\<rparr>
      else if fiIsSocket i then Inl ''archive/tar: sockets not supported''
      else Inr \<lparr>thName = name, thType = TypeOther, thSize = 0, thMode = fiPerm i\<rparr>)"

definition writeHeader :: "tar_header \<Rightarrow> tar_writer \<Rightarrow> os_error option \<times> tar_writer" where
  "writeHeader h tw =
     (if 0 < twLeft tw then (Some ''archive/tar: missed writing bytes'', tw)
      else (None, \<lparr>twMembers = twMembers tw @ [(h, [])], twLeft = thSize h\<rparr>))"

definition appendData :: "string \<Rightarrow> (tar_header \<times> string) list \<Rightarrow> (tar_header \<times> string) list" where
  "appendData bytes ms = (case rev ms of [] \<Rightarrow> [] | (h, d) # rest \<Rightarrow> rev ((h, d @ bytes) # rest))"

text \<open>Opening the file and copying it into the current entry.\<close>

definition writeContent :: "host_content \<Rightarrow> tar_writer \<Rightarrow> os_error option \<times> tar_writer" where
  "writeContent c tw =
     (case c of
        Inl e \<Rightarrow> (Some e, tw)
      | Inr (bytes, err) \<Rightarrow>
          let part = take (nat (twLeft tw)) bytes;
              tw' = \<lparr>twMembers = appendData part (twMembers tw), twLeft = twLeft tw - int (length part)\<rparr> in
          (if twLeft tw < int (length bytes) then Some ''archive/tar: write too long'' else err, tw'))"

section \<open>Archives of files and directories\<close>

text \<open>\<^verbatim>\<open>filepath.Rel\<close>.\<close>

definition Rel :: "string \<Rightarrow> string \<Rightarrow> string option" where
  "Rel basepath targpath =
     (let b = Clean basepath; t = Clean targpath; k = length (longest_common_prefix (elems b) (elems t));
          rb = drop k (elems b); rt = drop k (elems t) in
      if b = t then Some ''.''
      else if IsAbs b \<noteq> IsAbs t then None
      else if rb \<noteq> [] \<and> hd rb = ''..'' then None
      else Some (joinWith slash (map (\<lambda>_. ''..'') rb @ rt)))"

text \<open>The name of a member of a copied directory, for a path relative to it.\<close>

definition memberName :: "string \<Rightarrow> string \<Rightarrow> string" where
  "memberName base rel = (if rel = ''.'' then base @ [slash] else Join [base, rel])"

fun treeContent :: "host_tree \<Rightarrow> host_content" where
  "treeContent (HLeaf n i c) = c"
| "treeContent t = Inr ([], None)"

text \<open>The callback of the walk, lines 1156 to 1186.\<close>

definition tarCallback :: "string \<Rightarrow> string \<Rightarrow> tar_writer visit_fn" where
  "tarCallback src base path d err tw =
     (case (err, d) of
        (Some e, _) \<Rightarrow> (Some e, tw)
      | (None, None) \<Rightarrow> (None, tw)
      | (None, Some t) \<Rightarrow>
          (case (Rel src path, treeInfo t) of
             (Some rel, Inr info) \<Rightarrow>
               (case fileInfoHeader info (memberName base rel) of
                  Inl e \<Rightarrow> (Some e, tw)
                | Inr hdr \<Rightarrow>
                    (case writeHeader hdr tw of
                       (Some e, tw') \<Rightarrow> (Some e, tw')
                     | (None, tw') \<Rightarrow> if fiIsDir info then (None, tw') else writeContent (treeContent t) tw'))
           | _ \<Rightarrow> (Some ''Rel: cannot make relative'', tw)))"

definition writeTarDir :: "(string \<Rightarrow> os_error + host_tree) \<Rightarrow> string \<Rightarrow> string \<Rightarrow> tar_writer \<Rightarrow> os_error option \<times> tar_writer" where
  "writeTarDir lstat src base = Walk lstat (tarCallback src base) src"

definition writeTarFile :: "(string \<Rightarrow> host_content) \<Rightarrow> string \<Rightarrow> file_info \<Rightarrow> string \<Rightarrow> tar_writer \<Rightarrow> os_error option \<times> tar_writer" where
  "writeTarFile content src st archiveName tw =
     (case fileInfoHeader st archiveName of
        Inl e \<Rightarrow> (Some e, tw)
      | Inr hdr \<Rightarrow>
          (case writeHeader hdr tw of
             (Some e, tw') \<Rightarrow> (Some e, tw')
           | (None, tw') \<Rightarrow> writeContent (content src) tw'))"

section \<open>CopyTo\<close>

definition copyDestDir :: "bool \<Rightarrow> string \<Rightarrow> string" where
  "copyDestDir isDir destPath0 =
     (let destPath = Clean destPath0 in
      if isDir then destPath
      else (let d = Dir destPath in if d = ''.'' \<or> d = [] then ''/'' else d))"

definition copyArchive ::
  "(string \<Rightarrow> os_error + host_tree) \<Rightarrow> (string \<Rightarrow> host_content) \<Rightarrow> string \<Rightarrow> file_info \<Rightarrow> string \<Rightarrow> os_error option \<times> tar_writer" where
  "copyArchive lstat content srcHost st destPath =
     (if fiIsDir st then writeTarDir lstat srcHost (Base srcHost) newWriter
      else writeTarFile content srcHost st (Base (Clean destPath)) newWriter)"

text \<open>The result is what the engine was given to unpack.\<close>

definition CopyTo ::
  "env \<Rightarrow> (string \<Rightarrow> os_error + host_tree) \<Rightarrow> (string \<Rightarrow> host_content) \<Rightarrow> os_error option \<Rightarrow> string \<Rightarrow> string \<Rightarrow> string \<Rightarrow>
   (copy_error, (tar_header \<times> string) list) op" where
  "CopyTo E lstat content pipe cid srcHost0 destPath =
     (let srcHost = Clean srcHost0 in
      bindW (wrapW CopyStat (liftW (Stat (eOS E) srcHost))) (\<lambda>st.
      case copyArchive lstat content srcHost st destPath of (werr, tw) \<Rightarrow>
      bindW (wrapW CopyToFailed
        (call ReqCtx (CopyToContainerReq cid (copyDestDir (fiIsDir st) destPath)) (ansUnit (eEngine E)))) (\<lambda>_.
      (case (if werr = None then pipe else werr) of
         Some e \<Rightarrow> liftW (Inl (CopyToFailed e))
       | None \<Rightarrow> returnW (twMembers tw)))))"

end
