(* ===== verification/Copy_Rules.thy ===== *)
theory Copy_Rules
  imports Docker_Copy
begin

text \<open>
  Copying out of a sandbox is safe for the host: the archive comes from an untrusted container, and
  the lemmas bound what extracting it can change below the destination directory.
\<close>

section \<open>Archive names\<close>

lemma dotdot_elems: "''..'' \<in> set (elems p) \<longleftrightarrow> ''..'' \<in> set (splitChar slash p)"
  by (simp add: elems_def)

lemma cleanElems_plain: "''..'' \<notin> set es \<Longrightarrow> cleanElems rooted es = es"
  unfolding cleanElems_def by (subst foldl_cleanStep_append) auto

lemma Clean_plain: "\<not> IsAbs p \<Longrightarrow> ''..'' \<notin> set (elems p) \<Longrightarrow> Clean p = render False (elems p)"
  by (simp add: Clean_def cleanElems_plain)

lemma elems_Clean_plain: "''..'' \<notin> set (elems p) \<Longrightarrow> elems (Clean p) = elems p"
  by (simp add: path_simps cleanElems_plain)

text \<open>A relative path is its own cleaning up to empty and dot elements.\<close>

lemma render_first:
  assumes "es \<noteq> []" "list_all okElem es" "''..'' \<notin> set es"
  shows "render False es \<noteq> ''.''" "render False es \<noteq> ''..''" "\<not> HasPrefix (render False es) (''..'' @ [slash])"
proof -
  have e: "elems (render False es) = es" by (rule elems_render [OF assms(2)])
  have d: "elems ''.'' = []" "elems ''..'' = [''..'']" by (simp_all add: elems_def slash_def)
  show "render False es \<noteq> ''.''" using e d(1) assms(1) by metis
  show "render False es \<noteq> ''..''" using e d(2) assms(3) by (metis list.set_intros(1))
  show "\<not> HasPrefix (render False es) (''..'' @ [slash])"
  proof
    assume "HasPrefix (render False es) (''..'' @ [slash])"
    then obtain r where "render False es = ''..'' @ slash # r" by (auto simp: HasPrefix_def prefix_def)
    then have "splitChar slash (render False es) = ''..'' # splitChar slash r"
      by (simp only:) (rule splitChar_append_sep, simp add: slash_def)
    then have "''..'' \<in> set (elems (render False es))" by (simp add: elems_def)
    with e assms(3) show False by simp
  qed
qed

lemma safeArchiveName_iff:
  "safeArchiveName raw = Inr name \<longleftrightarrow>
     \<not> IsAbs raw \<and> elems raw \<noteq> [] \<and> ''..'' \<notin> set (elems raw) \<and> name = render False (elems raw)"
proof (cases "raw = [] \<or> IsAbs raw \<or> ''..'' \<in> set (splitChar slash raw)")
  case True
  then show ?thesis by (auto simp: safeArchiveName_def dotdot_elems elems_def)
next
  case False
  then have r: "\<not> IsAbs raw" "''..'' \<notin> set (elems raw)" "Clean raw = render False (elems raw)"
    using Clean_plain [of raw] by (auto simp: dotdot_elems)
  show ?thesis
  proof (cases "elems raw = []")
    case True
    then show ?thesis using r False by (simp add: safeArchiveName_def render_def)
  next
    case ne: False
    then show ?thesis using r False render_first [OF ne elems_ok r(2)]
      by (auto simp: safeArchiveName_def dotdot_elems [symmetric])
  qed
qed

lemma safe_elems: "safeArchiveName raw = Inr name \<Longrightarrow> elems name = elems raw \<and> elems raw \<noteq> [] \<and> ''..'' \<notin> set (elems raw) \<and> \<not> IsAbs name \<and> name \<noteq> []"
proof -
  assume "safeArchiveName raw = Inr name"
  then have s: "elems raw \<noteq> []" "''..'' \<notin> set (elems raw)" "name = render False (elems raw)"
    by (simp_all add: safeArchiveName_iff)
  then have "elems name = elems raw" using elems_render [OF elems_ok] by simp
  moreover have "\<not> IsAbs name" using s IsAbs_render [OF elems_ok, of False raw] by simp
  moreover have "name \<noteq> []" using \<open>elems name = elems raw\<close> s(1) by (auto simp: elems_def)
  ultimately show ?thesis using s by simp
qed

text \<open>
  C30. An archive name is accepted exactly when it is relative, names something, and has no element
  \<^verbatim>\<open>..\<close>; and every accepted name is the given one element for element and stays below the destination:
  joined to an absolute, normalised destination it extends the elements of the destination by its own.
\<close>

theorem archive_name_accepted_iff_below:
  assumes "IsAbs root" and "Clean root = root"
  shows "((\<exists>name. safeArchiveName raw = Inr name) \<longleftrightarrow> \<not> IsAbs raw \<and> elems raw \<noteq> [] \<and> ''..'' \<notin> set (elems raw)) \<and>
    (\<forall>name. safeArchiveName raw = Inr name \<longrightarrow>
       \<not> IsAbs name \<and> ''..'' \<notin> set (elems name) \<and> elems name = elems raw \<and>
       elems (Join [root, name]) = elems root @ elems raw \<and> strict_prefix (elems root) (elems (Join [root, name])))"
proof (intro conjI allI impI)
  show "(\<exists>name. safeArchiveName raw = Inr name) \<longleftrightarrow> \<not> IsAbs raw \<and> elems raw \<noteq> [] \<and> ''..'' \<notin> set (elems raw)"
    by (simp add: safeArchiveName_iff)
  fix name assume s: "safeArchiveName raw = Inr name"
  have n: "elems name = elems raw" "elems raw \<noteq> []" "''..'' \<notin> set (elems raw)" "\<not> IsAbs name" "name \<noteq> []"
    using safe_elems [OF s] by auto
  then show "\<not> IsAbs name" "''..'' \<notin> set (elems name)" "elems name = elems raw" by simp_all
  have r: "''..'' \<notin> set (elems root)" using clean_abs_render(2) [OF assms] .
  have j: "elems (root @ slash # name) = elems root @ elems name" by (rule elems_append_slash)
  have "root \<noteq> []" using assms(1) by auto
  then have "Join [root, name] = Clean (root @ slash # name)" using n(5) by (simp add: Join_def)
  then show e: "elems (Join [root, name]) = elems root @ elems raw" using j r n by (simp add: elems_Clean_plain)
  show "strict_prefix (elems root) (elems (Join [root, name]))" unfolding e using n(2) by (simp add: strict_prefix_def)
qed

theorem archive_name_accepted_iff_below_witness:
  "IsAbs ''/home/u'' \<and> Clean ''/home/u'' = ''/home/u'' \<and> safeArchiveName ''a/./b'' = Inr ''a/b'' \<and>
   elems (Join [''/home/u'', ''a/b'']) = [''home'', ''u'', ''a'', ''b''] \<and>
   \<not> (\<exists>name. safeArchiveName ''a/../../b'' = Inr name)"
proof -
  have r: "IsAbs ''/home/u''" "Clean ''/home/u'' = ''/home/u''" by code_simp+
  have s: "safeArchiveName ''a/./b'' = Inr ''a/b''" "elems ''/home/u'' @ elems ''a/./b'' = [''home'', ''u'', ''a'', ''b'']"
    "''..'' \<in> set (elems ''a/../../b'')"
    by code_simp+
  have "elems (Join [''/home/u'', ''a/b'']) = elems ''/home/u'' @ elems ''a/./b''"
    using archive_name_accepted_iff_below [OF r, of "''a/./b''"] s(1) by blast
  moreover have "\<not> (\<exists>name. safeArchiveName ''a/../../b'' = Inr name)"
    using archive_name_accepted_iff_below [OF r, of "''a/../../b''"] s(3) by blast
  ultimately show ?thesis using r s by simp
qed

section \<open>What an operation may change\<close>

definition linksOf :: "rootfs \<Rightarrow> (string list \<times> string) set" where
  "linksOf fs = {(p, t). fs p = Some (NLink t)}"

text \<open>A change inside \<open>T\<close>: links stay as they are, directories stay directories, and what changes lies
  in directories all the way up.\<close>

definition confined :: "string list set \<Rightarrow> rootfs \<Rightarrow> rootfs \<Rightarrow> bool" where
  "confined T fs fs' \<longleftrightarrow>
     linksOf fs' = linksOf fs \<and> (\<forall>p. fs p = Some NDir \<longrightarrow> fs' p = Some NDir) \<and>
     (\<forall>p. fs' p \<noteq> fs p \<longrightarrow> p \<in> T \<and> (\<forall>q. strict_prefix q p \<longrightarrow> fs' q = Some NDir))"

lemma confined_refl: "confined T fs fs"
  by (simp add: confined_def)

lemma confined_mono: "confined S fs fs' \<Longrightarrow> S \<subseteq> T \<Longrightarrow> confined T fs fs'"
  by (auto simp: confined_def)

lemma confined_trans:
  assumes "confined T fs fs1" "confined T fs1 fs2"
  shows "confined T fs fs2"
proof -
  have "p \<in> T \<and> (\<forall>q. strict_prefix q p \<longrightarrow> fs2 q = Some NDir)" if "fs2 p \<noteq> fs p" for p
  proof (cases "fs1 p = fs p")
    case True
    with that have "fs2 p \<noteq> fs1 p" by simp
    then show ?thesis using assms(2) by (simp add: confined_def)
  next
    case False
    then have "p \<in> T" "\<And>q. strict_prefix q p \<Longrightarrow> fs1 q = Some NDir" using assms(1) by (simp_all add: confined_def)
    then show ?thesis using assms(2) by (simp add: confined_def)
  qed
  moreover have "linksOf fs2 = linksOf fs" using assms by (simp add: confined_def)
  moreover have "fs2 p = Some NDir" if "fs p = Some NDir" for p
    using assms that by (simp add: confined_def)
  ultimately show ?thesis unfolding confined_def by blast
qed

lemma confined_update:
  assumes "p \<in> T" "\<And>q. strict_prefix q p \<Longrightarrow> fs q = Some NDir" "fs p = None \<or> (\<exists>t m. fs p = Some (NFile t m))"
    "\<And>t. n \<noteq> NLink t"
  shows "confined T fs (fs(p \<mapsto> n))"
  using assms by (auto simp: confined_def linksOf_def split: if_splits)

lemma walkTo_dirs:
  assumes "walkTo fs pre cs = Inr n" "q = pre @ ds" "strict_prefix ds cs"
  shows "fs q = Some NDir"
  using assms
proof (induction cs arbitrary: pre ds)
  case (Cons c cs)
  then have p: "fs pre = Some NDir" "walkTo fs (pre @ [c]) cs = Inr n"
    by (auto split: option.splits node.splits)
  show ?case
  proof (cases ds)
    case (Cons d ds')
    then have "q = (pre @ [c]) @ ds'" "strict_prefix ds' cs" using Cons.prems by auto
    then show ?thesis using Cons.IH p(2) by blast
  qed (use p Cons.prems in simp)
qed simp

lemma walkTo_end: "walkTo fs pre cs = Inr n \<Longrightarrow> fs (pre @ cs) = Some n"
  by (induction cs arbitrary: pre) (fastforce split: option.splits node.splits)+

text \<open>Every prefix of the parent of a path whose parent was walked to.\<close>

lemma parent_dirs:
  assumes "walkTo fs [] (butlast cs) = Inr NDir" "strict_prefix q cs"
  shows "fs q = Some NDir"
proof -
  have "prefix q (butlast cs)"
    using assms(2) by (metis append_butlast_last_id prefix_snoc strict_prefix_def prefix_bot.extremum_strict)
  then consider "q = butlast cs" | "strict_prefix q (butlast cs)" by (auto simp: strict_prefix_def)
  then show ?thesis
    using walkTo_end [OF assms(1)] walkTo_dirs [OF assms(1), of q q] by cases auto
qed

lemma mkdirs_confined:
  assumes "\<And>q. strict_prefix q pre \<Longrightarrow> fs q = Some NDir" "mkdirs fault fs pre cs = (r, fs')"
  shows "confined {p. prefix p (pre @ cs)} fs fs'"
  using assms
proof (induction cs arbitrary: fs pre)
  case Nil
  then show ?case
    by (auto simp: mkdirs.simps [of _ _ _ "[]"] Let_def confined_refl intro!: confined_update split: option.splits node.splits)
next
  case (Cons c cs)
  have step: "confined {p. prefix p (pre @ c # cs)} fs fs'"
    if d: "fs1 pre = Some NDir" "confined {p. prefix p (pre @ c # cs)} fs fs1" and m: "mkdirs fault fs1 (pre @ [c]) cs = (r, fs')" for fs1
  proof -
    have "\<And>q. strict_prefix q (pre @ [c]) \<Longrightarrow> fs1 q = Some NDir"
      using Cons.prems(1) d unfolding confined_def by (metis prefix_snoc strict_prefix_def)
    from Cons.IH [OF this m] have "confined {p. prefix p (pre @ c # cs)} fs1 fs'" by simp
    with d(2) show ?thesis by (rule confined_trans)
  qed
  have new: "confined {p. prefix p (pre @ c # cs)} fs (fs(pre \<mapsto> NDir))" if "fs pre = None"
    using that Cons.prems(1) by (intro confined_update) auto
  show ?case
    using Cons.prems(2) step [of fs] step [of "fs(pre \<mapsto> NDir)"] new
    by (auto simp: mkdirs.simps [of _ _ _ "c # cs"] Let_def confined_refl split: option.splits node.splits)
qed

lemma rootPath_Inr: "rootPath p = Inr cs \<longleftrightarrow> p \<noteq> [] \<and> \<not> IsAbs p \<and> ''..'' \<notin> set (elems p) \<and> cs = elems p"
  by (auto simp: rootPath_def)

lemma rootMkdirAll_confined:
  "rootMkdirAll fault fs p = (r, fs') \<Longrightarrow> confined {q. prefix q (elems p)} fs fs'"
  using mkdirs_confined [of "[]" fs fault "elems p"]
  by (auto simp: rootMkdirAll_def rootPath_def confined_refl split: sum.splits if_splits)

lemma rootOpenFile_confined:
  assumes "rootOpenFile fault fs p m = (r, fs')"
  shows "confined {elems p} fs fs' \<and> (\<forall>cs. r = Inr cs \<longrightarrow> cs = elems p \<and> (\<exists>t m. fs' cs = Some (NFile t m)) \<and>
    (\<forall>q. strict_prefix q cs \<longrightarrow> fs' q = Some NDir))"
proof (cases "\<exists>cs. r = Inr cs")
  case True
  then obtain cs where r: "r = Inr cs" by blast
  with assms have cs: "cs = elems p" "walkTo fs [] (butlast cs) = Inr NDir" "cs \<noteq> []"
    and n: "fs cs = None \<and> fs' = fs(cs \<mapsto> NFile [] m) \<or> (\<exists>t k. fs cs = Some (NFile t k) \<and> fs' = fs(cs \<mapsto> NFile [] k))"
    by (auto simp: rootOpenFile_def rootPath_def split: sum.splits if_splits node.splits option.splits)
  have d: "\<And>q. strict_prefix q cs \<Longrightarrow> fs q = Some NDir" using parent_dirs [OF cs(2)] by blast
  have "confined {elems p} fs fs'" using n d cs(1) by (auto intro!: confined_update)
  moreover have "fs' q = Some NDir" if "strict_prefix q cs" for q using n d [OF that] by auto
  ultimately show ?thesis using n cs(1) r by auto
next
  case False
  then have "fs' = fs"
    using assms by (auto simp: rootOpenFile_def rootPath_def split: sum.splits if_splits node.splits option.splits)
  then show ?thesis using False by (simp add: confined_refl)
qed

lemma setters_confined:
  assumes "\<And>q. strict_prefix q cs \<Longrightarrow> fs q = Some NDir"
  shows "confined {cs} fs (setContent fs cs t)" "confined {cs} fs (setMode fs cs m)"
  using assms
  by (auto simp: setContent_def setMode_def confined_refl intro!: confined_update split: option.splits node.splits)

section \<open>Extraction\<close>

lemma lastSlash_append: "uptoLastSlash p @ afterLastSlash p = p"
proof -
  have "rev (takeWhile (\<lambda>c. c \<noteq> slash) (rev p) @ dropWhile (\<lambda>c. c \<noteq> slash) (rev p)) = rev (rev p)"
    by (simp only: takeWhile_dropWhile_id)
  then show ?thesis by (simp only: uptoLastSlash_def afterLastSlash_def rev_append rev_rev_ident)
qed

lemma uptoLastSlash_ends:
  assumes "slash \<in> set p"
  obtains q where "uptoLastSlash p = q @ [slash]"
proof -
  obtain x xs where x: "dropWhile (\<lambda>c. c \<noteq> slash) (rev p) = x # xs"
    using assms by (cases "dropWhile (\<lambda>c. c \<noteq> slash) (rev p)") (auto simp: dropWhile_eq_Nil_conv)
  then have "x = slash" by (simp add: dropWhile_eq_Cons_conv)
  with x show thesis using that by (simp add: uptoLastSlash_def)
qed

lemma elems_Dir:
  assumes d: "''..'' \<notin> set (elems p)"
  shows "prefix (elems (Dir p)) (elems p)"
proof (cases "slash \<in> set p")
  case True
  then obtain q where q: "uptoLastSlash p = q @ [slash]" by (rule uptoLastSlash_ends)
  then have "p = q @ slash # afterLastSlash p" using lastSlash_append [of p] by simp
  then have "elems p = elems q @ elems (afterLastSlash p)" using elems_append_slash by metis
  moreover have "elems (uptoLastSlash p) = elems q" using q elems_append_slash [of q "[]"] by (simp add: elems_def)
  ultimately show ?thesis using d by (simp add: Dir_def elems_Clean_plain)
next
  case False
  then have "uptoLastSlash p = []" by (simp add: uptoLastSlash_def dropWhile_eq_Nil_conv) blast
  then show ?thesis by (simp add: Dir_def path_simps) (simp add: elems_def cleanElems_def)
qed

lemma Base_Dir: "elems (Dir (Base p)) = []"
proof -
  have "slash \<notin> set (afterLastSlash q)" for q
    by (auto simp: afterLastSlash_def dest: set_takeWhileD)
  then have "Base p = [slash] \<or> slash \<notin> set (Base p)" by (auto simp: Base_def Let_def slash_def)
  then have "uptoLastSlash (Base p) = [slash] \<or> uptoLastSlash (Base p) = []"
    by (auto simp: uptoLastSlash_def dropWhile_eq_Nil_conv)
  then show ?thesis by (auto simp: Dir_def path_simps) (auto simp: elems_def cleanElems_def)
qed

lemma writeEntry_confined:
  assumes "prefix (elems (Dir target)) (elems target)" "writeEntry fault fs target e = (r, fs')"
  shows "confined {q. prefix q (elems target)} fs fs'"
proof (cases "rejectExistingSymlink fault fs target")
  case (Inl err)
  then show ?thesis using assms by (simp add: writeEntry_def confined_refl)
next
  case (Inr u)
  let ?T = "{q. prefix q (elems target)}"
  obtain r1 fs1 where m: "rootMkdirAll fault fs (Dir target) = (r1, fs1)" by force
  obtain r2 fs2 where o: "rootOpenFile fault fs1 target (fileMode e) = (r2, fs2)" by force
  have c1: "confined ?T fs fs1"
    using rootMkdirAll_confined [OF m] assms(1) by (elim confined_mono) (auto intro: prefix_order.trans)
  have "confined {elems target} fs1 fs2" using rootOpenFile_confined [OF o] by blast
  then have "confined ?T fs1 fs2" by (rule confined_mono) simp
  with c1 have c2: "confined ?T fs fs2" by (rule confined_trans)
  show ?thesis
  proof (cases r2)
    case (Inl err)
    then show ?thesis using assms(2) Inr m o c1 c2 by (cases r1) (auto simp: writeEntry_def)
  next
    case (Inr cs)
    have cs: "cs = elems target" "\<And>q. strict_prefix q cs \<Longrightarrow> fs2 q = Some NDir"
      using rootOpenFile_confined [OF o] Inr by auto
    define fs3 where "fs3 = setContent fs2 cs (teContent e)"
    have c3: "confined {cs} fs2 fs3" unfolding fs3_def by (rule setters_confined(1)) (rule cs(2))
    have d3: "fs3 q = Some NDir" if "strict_prefix q cs" for q using c3 cs(2) [OF that] by (simp add: confined_def)
    have c4: "confined {cs} fs3 (setMode fs3 cs (fileMode e))" by (rule setters_confined(2)) (rule d3)
    have "confined ?T fs2 fs3" "confined ?T fs3 (setMode fs3 cs (fileMode e))"
      using c3 c4 cs(1) by (auto elim: confined_mono)
    then have c5: "confined ?T fs fs3" "confined ?T fs (setMode fs3 cs (fileMode e))"
      using c2 confined_trans by blast+
    show ?thesis
      using assms(2) Inr \<open>rejectExistingSymlink fault fs target = Inr u\<close> m o c1 c5
      by (cases r1) (auto simp: writeEntry_def Let_def fs3_def [symmetric] split: option.splits if_splits)
  qed
qed

text \<open>The paths an archive may touch: the accepted names with their parents, or the one file.\<close>

definition touchable :: "bool \<Rightarrow> string \<Rightarrow> tar_entry list \<Rightarrow> string list set" where
  "touchable asDir destHost es =
     (if asDir then {q. \<exists>e \<in> set es. \<exists>name. safeArchiveName (teName e) = Inr name \<and> prefix q (elems name)}
      else {q. prefix q (elems (Base destHost))})"

lemma extractEntry_confined:
  assumes "extractEntry fault asDir destHost wrote fs e = (r, fs')" "e \<in> set es"
  shows "confined (touchable asDir destHost es) fs fs'"
proof -
  have target: "confined (touchable asDir destHost es) fs fs2"
    if s: "safeArchiveName (teName e) = Inr name" and w: "writeEntry fault fs (if asDir then name else Base destHost) e = (r2, fs2)" for name r2 fs2
  proof -
    have "''..'' \<notin> set (elems name)" using safe_elems [OF s] by simp
    then have "prefix (elems (Dir (if asDir then name else Base destHost))) (elems (if asDir then name else Base destHost))"
      by (simp add: elems_Dir Base_Dir)
    from writeEntry_confined [OF this w] show ?thesis
      using s assms(2) by (elim confined_mono) (auto simp: touchable_def)
  qed
  have dir: "confined (touchable True destHost es) fs fs2"
    if s: "safeArchiveName (teName e) = Inr name" and w: "rootMkdirAll fault fs name = (r2, fs2)" for name r2 fs2
    using rootMkdirAll_confined [OF w] s assms(2) by (elim confined_mono) (auto simp: touchable_def)
  show ?thesis
    using assms(1) target dir
    by (auto simp: extractEntry_def confined_refl split: if_splits sum.splits tar_type.splits prod.splits)
qed

lemma extractLoop_confined:
  assumes "extractLoop fault asDir destHost srcPath wrote fs es end = (r, fs')"
  shows "confined (touchable asDir destHost es) fs fs'"
  using assms
proof (induction es arbitrary: wrote fs)
  case (Cons e es)
  obtain r1 fs1 where e: "extractEntry fault asDir destHost wrote fs e = (r1, fs1)" by force
  have c1: "confined (touchable asDir destHost (e # es)) fs fs1" by (rule extractEntry_confined [OF e]) simp
  show ?case
  proof (cases r1)
    case (Inr w1)
    then have "confined (touchable asDir destHost es) fs1 fs'" using Cons e by auto
    then have "confined (touchable asDir destHost (e # es)) fs1 fs'"
      by (rule confined_mono) (auto simp: touchable_def)
    with c1 show ?thesis by (rule confined_trans)
  qed (use Cons.prems e c1 in simp)
qed (auto simp: confined_refl split: option.splits if_splits)

section \<open>Links are never followed\<close>

text \<open>A directory tree: the root is a directory, and so is the parent of everything.\<close>

definition tree :: "rootfs \<Rightarrow> bool" where
  "tree fs \<longleftrightarrow> fs [] = Some NDir \<and> (\<forall>p c. fs (p @ [c]) \<noteq> None \<longrightarrow> fs p = Some NDir)"

lemma tree_parent: "tree fs \<Longrightarrow> fs (p @ q) \<noteq> None \<Longrightarrow> q \<noteq> [] \<Longrightarrow> fs p = Some NDir"
proof (induction q rule: rev_induct)
  case (snoc c q)
  then have "fs (p @ q) = Some NDir" unfolding tree_def by (metis append.assoc)
  then show ?case using snoc by (cases "q = []") auto
qed simp

lemma confined_tree:
  assumes "confined T fs fs'" "tree fs"
  shows "tree fs'"
proof -
  have d: "fs' p = Some NDir" if "fs p = Some NDir" for p using assms(1) that by (simp add: confined_def)
  have "fs' p = Some NDir" if "fs' (p @ [c]) \<noteq> None" for p c
  proof (cases "fs' (p @ [c]) = fs (p @ [c])")
    case True
    then have "fs p = Some NDir" using that assms(2) by (auto simp: tree_def)
    then show ?thesis by (rule d)
  next
    case False
    then have "\<forall>q. strict_prefix q (p @ [c]) \<longrightarrow> fs' q = Some NDir" using assms(1) by (simp add: confined_def)
    then show ?thesis by (simp add: strict_prefix_def)
  qed
  then show ?thesis using d assms(2) unfolding tree_def by blast
qed

text \<open>No link lies on the way to a path.\<close>

definition linkFree :: "rootfs \<Rightarrow> string list \<Rightarrow> bool" where
  "linkFree fs cs \<longleftrightarrow> (\<forall>q t. prefix q cs \<longrightarrow> fs q \<noteq> Some (NLink t))"

lemma linkFree_prefix: "linkFree fs cs \<Longrightarrow> prefix ds cs \<Longrightarrow> linkFree fs ds"
  by (auto simp: linkFree_def intro: prefix_order.trans)

lemma linkFree_snoc: "linkFree fs (cs @ [c]) \<longleftrightarrow> linkFree fs cs \<and> (\<forall>t. fs (cs @ [c]) \<noteq> Some (NLink t))"
  by (auto simp: linkFree_def)

lemma linkFree_confined: "confined T fs fs' \<Longrightarrow> linkFree fs cs \<Longrightarrow> linkFree fs' cs"
  unfolding confined_def linkFree_def linksOf_def by blast

lemma walkTo_tree: "tree fs \<Longrightarrow> fs (pre @ cs) = Some n \<Longrightarrow> walkTo fs pre cs = Inr n"
proof (induction cs arbitrary: pre)
  case (Cons c cs)
  then have "fs pre = Some NDir" using tree_parent [of fs pre "c # cs"] by simp
  with Cons show ?case by simp
qed simp

lemma walkTo_linkFree: "linkFree fs (butlast (pre @ cs)) \<Longrightarrow> walkTo fs pre cs \<noteq> Inl ThroughLink"
proof (induction cs arbitrary: pre)
  case (Cons c cs)
  have "prefix pre (butlast (pre @ c # cs))" by (simp add: butlast_append)
  then have "fs pre \<noteq> Some (NLink t)" for t using Cons.prems by (simp add: linkFree_def)
  then show ?case using Cons by (auto split: option.splits node.splits)
qed (auto split: option.splits)

lemma mkdirs_linkFree:
  "linkFree fs (pre @ cs) \<Longrightarrow> fst (mkdirs fault fs pre cs) \<noteq> Inl ThroughLink"
proof (induction cs arbitrary: fs pre)
  case Nil
  then show ?case by (auto simp: mkdirs.simps [of _ _ _ "[]"] Let_def linkFree_def split: option.splits node.splits)
next
  case (Cons c cs)
  have l: "fs pre \<noteq> Some (NLink t)" for t using Cons.prems by (simp add: linkFree_def)
  have "linkFree (fs(pre \<mapsto> NDir)) ((pre @ [c]) @ cs)" using Cons.prems by (simp add: linkFree_def)
  from Cons.IH [OF this] show ?case
    using Cons.IH [of fs "pre @ [c]"] Cons.prems l
    by (auto simp: mkdirs.simps [of _ _ _ "c # cs"] Let_def fun_upd_def split: option.splits node.splits)
qed

lemma rootMkdirAll_linkFree: "linkFree fs (elems p) \<Longrightarrow> fst (rootMkdirAll fault fs p) \<noteq> Inl ThroughLink"
  using mkdirs_linkFree [of fs "[]" "elems p" fault] by (simp add: rootMkdirAll_def rootPath_def)

lemma rootOpenFile_linkFree:
  assumes "linkFree fs (elems p)"
  shows "fst (rootOpenFile fault fs p m) \<noteq> Inl ThroughLink"
proof -
  have b: "linkFree fs (butlast (elems p))" using assms by (rule linkFree_prefix) (simp add: prefixeq_butlast)
  then have "linkFree fs (butlast ([] @ butlast (elems p)))"
    by (rule linkFree_prefix) (simp add: prefixeq_butlast)
  then have "walkTo fs [] (butlast (elems p)) \<noteq> Inl ThroughLink" by (rule walkTo_linkFree)
  moreover have "walkTo fs [] (butlast (elems p)) \<noteq> Inr (NLink t)" for t
    using walkTo_end [of fs "[]"] b by (auto simp: linkFree_def)
  moreover have "fs (elems p) \<noteq> Some (NLink t)" for t using assms by (simp add: linkFree_def)
  ultimately show ?thesis
    by (auto simp: rootOpenFile_def rootPath_def split: sum.splits option.splits node.splits)
qed

text \<open>The component checked at a step: nothing yet, or a relative path with the elements seen.\<close>

definition spells :: "string \<Rightarrow> string list \<Rightarrow> bool" where
  "spells p cs \<longleftrightarrow> (if cs = [] then p = [] else p \<noteq> [] \<and> \<not> IsAbs p \<and> elems p = cs)"

lemma spells_Join:
  assumes "spells path pre" "okElem part" "part \<noteq> ''..''" "''..'' \<notin> set pre"
  shows "spells (Join [path, part]) (pre @ [part])"
proof -
  have part: "elems part = [part]" "\<not> IsAbs part" "part \<noteq> []"
    using assms(2) elems_join [of "[part]"] not_IsAbs_join [of "[part]"] by (auto simp: okElem_def)
  show ?thesis
  proof (cases "pre = []")
    case True
    then have "Join [path, part] = Clean part" using assms(1) part by (simp add: spells_def Join_def)
    then show ?thesis using part assms(3) by (simp add: spells_def True elems_Clean_plain IsAbs_Clean)
  next
    case False
    then have c: "path \<noteq> []" "\<not> IsAbs path" "elems path = pre" using assms(1) by (simp_all add: spells_def)
    have "elems (path @ slash # part) = pre @ [part]" using c(3) part(1) by (simp add: elems_append_slash)
    moreover have "\<not> IsAbs (path @ slash # part)" using c by (cases path) auto
    moreover have "Join [path, part] = Clean (path @ slash # part)" using c part by (simp add: Join_def)
    ultimately show ?thesis using assms(3,4) by (simp add: spells_def elems_Clean_plain IsAbs_Clean)
  qed
qed

lemma rootLstat_link:
  assumes "tree fs" "spells p (pre @ [c])" "''..'' \<notin> set (pre @ [c])" "linkFree fs pre"
  shows "rootLstat fault fs p \<noteq> Inl ThroughLink"
    and "rootLstat fault fs p = Inl NotExist \<or> (\<exists>n. rootLstat fault fs p = Inr n \<and> (\<forall>t. n \<noteq> NLink t)) \<Longrightarrow>
      linkFree fs (pre @ [c])"
proof -
  have p: "rootPath p = Inr (pre @ [c])" using assms(2,3) by (auto simp: spells_def rootPath_Inr)
  then have l: "rootLstat fault fs p =
      (case fault (FLstat (pre @ [c])) of Some e \<Rightarrow> Inl (OSFault e) | None \<Rightarrow> walkTo fs [] (pre @ [c]))"
    by (simp add: rootLstat_def)
  have "walkTo fs [] (pre @ [c]) \<noteq> Inl ThroughLink" using walkTo_linkFree [of fs "[]" "pre @ [c]"] assms(4) by simp
  then show "rootLstat fault fs p \<noteq> Inl ThroughLink" by (simp add: l split: option.splits)
  assume r: "rootLstat fault fs p = Inl NotExist \<or> (\<exists>n. rootLstat fault fs p = Inr n \<and> (\<forall>t. n \<noteq> NLink t))"
  have "fs (pre @ [c]) \<noteq> Some (NLink t)" for t
  proof
    assume "fs (pre @ [c]) = Some (NLink t)"
    then have "walkTo fs [] (pre @ [c]) = Inr (NLink t)" using walkTo_tree [OF assms(1), of "[]"] by simp
    then show False using r l by (auto split: option.splits)
  qed
  then show "linkFree fs (pre @ [c])" using assms(4) by (simp add: linkFree_snoc)
qed

lemma rejectParts_links:
  assumes "tree fs" "spells path pre" "list_all okElem parts" "''..'' \<notin> set (pre @ parts)" "linkFree fs pre"
  shows "rejectParts fault fs path parts \<noteq> Inl (FsError ThroughLink) \<and>
    (rejectParts fault fs path parts = Inr () \<longrightarrow> linkFree fs (pre @ parts))"
  using assms
proof (induction parts arbitrary: path pre)
  case (Cons part parts)
  let ?c = "Join [path, part]"
  have s: "spells ?c (pre @ [part])" using Cons.prems by (intro spells_Join) auto
  have d: "''..'' \<notin> set (pre @ [part])" using Cons.prems by simp
  note l = rootLstat_link [OF Cons.prems(1) s d Cons.prems(5), of fault]
  have ih: "rejectParts fault fs ?c parts \<noteq> Inl (FsError ThroughLink) \<and>
      (rejectParts fault fs ?c parts = Inr () \<longrightarrow> linkFree fs (pre @ part # parts))" if "linkFree fs (pre @ [part])"
    using Cons.IH [OF Cons.prems(1) s _ _ that] Cons.prems by simp
  show ?case using l ih
    by (auto simp: Let_def split: sum.splits fs_error.splits node.splits)
qed simp

lemma splitChar_elems: "\<not> IsAbs p \<Longrightarrow> Clean p = p \<Longrightarrow> elems p \<noteq> [] \<Longrightarrow> ''..'' \<notin> set (elems p) \<Longrightarrow> splitChar slash p = elems p"
proof -
  assume p: "\<not> IsAbs p" "Clean p = p" "elems p \<noteq> []" "''..'' \<notin> set (elems p)"
  then have "p = joinWith slash (elems p)" using Clean_plain [of p] by (simp add: render_def)
  moreover have "splitChar slash (joinWith slash (elems p)) = elems p"
    using elems_ok [of p] p(3) by (intro splitChar_joinWith) (auto simp: okElem_def list_all_iff)
  ultimately show ?thesis by simp
qed

lemma reject_links:
  assumes "tree fs" "\<not> IsAbs target" "''..'' \<notin> set (elems target)"
  shows "rejectExistingSymlink fault fs target \<noteq> Inl (FsError ThroughLink) \<and>
    (rejectExistingSymlink fault fs target = Inr () \<longrightarrow> linkFree fs (elems target))"
proof (cases "elems target = []")
  case True
  have j: "splitChar slash ''.'' = [''.'']" "Join [[], ''.''] = ''.''" "elems ''.'' = []" "\<not> IsAbs ''.''" by code_simp+
  have "Clean target = ''.''" using True assms(2) by (simp add: Clean_plain render_def)
  then have "rejectExistingSymlink fault fs target = rejectParts fault fs [] [''.'']"
    by (simp only: rejectExistingSymlink_def j)
  moreover have "linkFree fs []" using assms(1) by (simp add: linkFree_def tree_def)
  moreover have "fs [] = Some NDir" using assms(1) by (simp add: tree_def)
  ultimately show ?thesis
    by (simp add: j rootLstat_def rootPath_def True Let_def split: option.splits)
next
  case False
  have "splitChar slash (Clean target) = elems target"
    using splitChar_elems [of "Clean target"] False assms(2,3) by (simp add: elems_Clean_plain IsAbs_Clean)
  moreover have "spells [] []" "linkFree fs []" using assms(1) by (simp_all add: spells_def linkFree_def tree_def)
  ultimately show ?thesis
    using rejectParts_links [OF assms(1), of "[]" "[]" "elems target"] assms(3) elems_ok [of target]
    by (simp add: rejectExistingSymlink_def)
qed

lemma Base_cases:
  obtains "Base p = ''/''" | "Base p = ''..''" | "\<not> IsAbs (Base p)" "''..'' \<notin> set (elems (Base p))"
proof -
  have "slash \<notin> set (afterLastSlash q)" for q
    by (auto simp: afterLastSlash_def dest: set_takeWhileD)
  then have b: "Base p = [slash] \<or> slash \<notin> set (Base p)" by (auto simp: Base_def Let_def slash_def)
  have "\<not> IsAbs (Base p) \<and> ''..'' \<notin> set (elems (Base p))" if "slash \<notin> set (Base p)" "Base p \<noteq> ''..''"
    using that splitChar_no_sep_id [of slash "Base p"] by (cases "Base p") (auto simp: elems_def)
  then show thesis using b that by (auto simp: slash_def)
qed

lemma reject_Base:
  assumes "tree fs"
  shows "rejectExistingSymlink fault fs (Base p) \<noteq> Inl (FsError ThroughLink) \<and>
    (rejectExistingSymlink fault fs (Base p) = Inr () \<longrightarrow> linkFree fs (elems (Base p)))"
proof (cases rule: Base_cases [of p])
  case 1
  have "elems ''/'' = []" by code_simp
  moreover have "rejectExistingSymlink fault fs ''/'' = Inr ()"
  proof -
    have j: "splitChar slash (Clean ''/'') = [[], []]" "Join [[], []] = []" by code_simp+
    show ?thesis by (simp add: rejectExistingSymlink_def j rootLstat_def rootPath_def Let_def)
  qed
  ultimately show ?thesis using 1 assms by (simp add: linkFree_def tree_def)
next
  case 2
  have j: "splitChar slash (Clean ''..'') = [''..'']" "Join [[], ''..''] = ''..''" "''..'' \<in> set (elems ''..'')" by code_simp+
  show ?thesis by (simp add: 2 rejectExistingSymlink_def j rootLstat_def rootPath_def Let_def)
next
  case 3
  then show ?thesis using assms by (intro reject_links)
qed

lemma writeEntry_links:
  assumes "prefix (elems (Dir target)) (elems target)"
    and "rejectExistingSymlink fault fs target \<noteq> Inl (FsError ThroughLink) \<and>
      (rejectExistingSymlink fault fs target = Inr () \<longrightarrow> linkFree fs (elems target))"
  shows "fst (writeEntry fault fs target e) \<noteq> Inl (FsError ThroughLink)"
proof (cases "rejectExistingSymlink fault fs target")
  case (Inr u)
  then have lf: "linkFree fs (elems target)" using assms(2) by simp
  obtain r1 fs1 where m: "rootMkdirAll fault fs (Dir target) = (r1, fs1)" by force
  have n1: "r1 \<noteq> Inl ThroughLink"
    using rootMkdirAll_linkFree [OF linkFree_prefix [OF lf assms(1)], of fault] m by simp
  have "linkFree fs1 (elems target)" using rootMkdirAll_confined [OF m] lf by (rule linkFree_confined)
  then have n2: "fst (rootOpenFile fault fs1 target (fileMode e)) \<noteq> Inl ThroughLink" by (rule rootOpenFile_linkFree)
  show ?thesis using Inr m n1 n2
    by (cases r1) (auto simp: writeEntry_def Let_def split: prod.splits sum.splits option.splits)
qed (use assms(2) in \<open>simp add: writeEntry_def\<close>)

lemma extractEntry_links:
  assumes "tree fs"
  shows "fst (extractEntry fault asDir destHost wrote fs e) \<noteq> Inl (FsError ThroughLink)"
proof -
  have w: "fst (writeEntry fault fs (if asDir then name else Base destHost) e) \<noteq> Inl (FsError ThroughLink)"
    and d: "rejectExistingSymlink fault fs name \<noteq> Inl (FsError ThroughLink)"
    and m: "rejectExistingSymlink fault fs name = Inr () \<Longrightarrow> fst (rootMkdirAll fault fs name) \<noteq> Inl ThroughLink"
    if s: "safeArchiveName (teName e) = Inr name" for name
  proof -
    have n: "\<not> IsAbs name" "''..'' \<notin> set (elems name)" using safe_elems [OF s] by auto
    note r = reject_links [OF assms n, of fault]
    show "rejectExistingSymlink fault fs name \<noteq> Inl (FsError ThroughLink)" using r by simp
    show "rejectExistingSymlink fault fs name = Inr () \<Longrightarrow> fst (rootMkdirAll fault fs name) \<noteq> Inl ThroughLink"
      using r rootMkdirAll_linkFree by blast
    show "fst (writeEntry fault fs (if asDir then name else Base destHost) e) \<noteq> Inl (FsError ThroughLink)"
      using r reject_Base [OF assms, of fault destHost] n
      by (intro writeEntry_links) (simp_all add: elems_Dir Base_Dir)
  qed
  have "safeArchiveName (teName e) \<noteq> Inl (FsError ThroughLink)" by (simp add: safeArchiveName_def Let_def)
  with w d m show ?thesis
    by (fastforce simp: extractEntry_def split: if_splits sum.splits tar_type.splits prod.splits)
qed

lemma extractLoop_links:
  "tree fs \<Longrightarrow> fst (extractLoop fault asDir destHost srcPath wrote fs es end) \<noteq> Inl (FsError ThroughLink)"
proof (induction es arbitrary: wrote fs)
  case (Cons e es)
  obtain r1 fs1 where e: "extractEntry fault asDir destHost wrote fs e = (r1, fs1)" by force
  have "tree fs1" using extractEntry_confined [OF e, of "[e]"] Cons.prems by (auto dest: confined_tree)
  then show ?case using Cons extractEntry_links [OF Cons.prems, of fault asDir destHost wrote e] e by (cases r1) auto
qed (auto split: option.splits)

text \<open>
  C4. Extraction is confined, whatever the archive contains and however it ends: the destination
  stays a directory tree, no symbolic link of it is created, changed or removed, no directory is
  replaced, everything that changes lies on the path of an accepted entry (or of the one destination
  file), nothing is written below a symbolic link, and no operation of the root follows one.
\<close>

theorem extraction_confined:
  assumes "openRoot (if asDir then destHost else Dir destHost) = Inr fs" and "tree fs"
    and "extractCopyTar fault openRoot archive destHost asDir srcPath = Inr (r, fs')"
  shows "tree fs' \<and> linksOf fs' = linksOf fs \<and> r \<noteq> Inl (FsError ThroughLink) \<and>
    (\<forall>p. fs p = Some NDir \<longrightarrow> fs' p = Some NDir) \<and>
    (\<forall>p. fs' p \<noteq> fs p \<longrightarrow> p \<in> touchable asDir destHost (fst archive) \<and>
       (\<forall>q t. strict_prefix q p \<longrightarrow> fs q \<noteq> Some (NLink t)))"
proof -
  have l: "extractLoop fault asDir destHost srcPath False fs (fst archive) (snd archive) = (r, fs')"
    using assms(1,3) by (simp add: extractCopyTar_def)
  have c: "confined (touchable asDir destHost (fst archive)) fs fs'" by (rule extractLoop_confined [OF l])
  have "fs q \<noteq> Some (NLink t)" if "fs' p \<noteq> fs p" "strict_prefix q p" for p q t
  proof
    assume "fs q = Some (NLink t)"
    then have "fs' q = Some (NLink t)" using c by (auto simp: confined_def linksOf_def)
    moreover have "fs' q = Some NDir" using c that by (simp add: confined_def)
    ultimately show False by simp
  qed
  moreover have "r \<noteq> Inl (FsError ThroughLink)"
    using extractLoop_links [OF assms(2), of fault asDir destHost srcPath False "fst archive" "snd archive"] l by simp
  ultimately show ?thesis using c confined_tree [OF c assms(2)] by (simp add: confined_def)
qed

text \<open>A destination with a link to \<^verbatim>\<open>/etc\<close>, and an archive that writes a file and then goes for the link.\<close>

definition linkedRoot :: rootfs where
  "linkedRoot = [[] \<mapsto> NDir, [''l''] \<mapsto> NLink ''/etc'']"

definition hostileArchive :: "tar_entry list" where
  "hostileArchive =
     [\<lparr>teName = ''d/f'', teType = TypeReg, teMode = 420, teContent = ''hi'', teErr = None\<rparr>,
      \<lparr>teName = ''l/passwd'', teType = TypeReg, teMode = 420, teContent = ''x'', teErr = None\<rparr>]"

theorem extraction_confined_witness:
  "\<exists>fs'. extractCopyTar (\<lambda>_. None) (\<lambda>_. Inr linkedRoot) (hostileArchive, None) ''/home/u/out'' True ''/w'' =
     Inr (Inl (SymlinkInDestination ''l''), fs') \<and>
   tree linkedRoot \<and> tree fs' \<and> linksOf fs' = linksOf linkedRoot \<and> fs' [''d'', ''f''] = Some (NFile ''hi'' 420) \<and>
   (\<forall>p. fs' p \<noteq> linkedRoot p \<longrightarrow> p \<in> touchable True ''/home/u/out'' hostileArchive)"
proof -
  let ?x = "extractCopyTar (\<lambda>_. None) (\<lambda>_. Inr linkedRoot) (hostileArchive, None) ''/home/u/out'' True ''/w''"
  obtain r fs' where x: "?x = Inr (r, fs')" by (simp add: extractCopyTar_def) (metis surj_pair)
  have "fst (projr ?x) = Inl (SymlinkInDestination ''l'')" "snd (projr ?x) [''d'', ''f''] = Some (NFile ''hi'' 420)"
    by code_simp+
  then have r: "r = Inl (SymlinkInDestination ''l'')" "fs' [''d'', ''f''] = Some (NFile ''hi'' 420)"
    by (simp_all only: x sum.sel fst_conv snd_conv)
  have t: "tree linkedRoot" by (auto simp: tree_def linkedRoot_def)
  show ?thesis using extraction_confined [OF refl t x] t x r by (intro exI [of _ fs']) simp
qed

end
