(* ===== verification/Archive_Rules.thy ===== *)
theory Archive_Rules
  imports Docker_Archive Copy_Rules Sample
begin

text \<open>
  Copying there and back: the archive that \<^verbatim>\<open>CopyTo\<close> writes for a directory holds exactly its files and
  directories, and extracting it as \<^verbatim>\<open>CopyFrom\<close> does restores them below the destination.
\<close>

section \<open>What an archive holds\<close>

definition plainName :: "string \<Rightarrow> bool" where
  "plainName n \<longleftrightarrow> okElem n \<and> n \<noteq> ''..''"

text \<open>A tree of readable regular files and directories whose sizes are as announced.\<close>

fun plainTree :: "host_tree \<Rightarrow> bool" where
  "plainTree (HLeaf n i c) \<longleftrightarrow>
     (case (i, c) of
        (Inr info, Inr (bytes, None)) \<Rightarrow> fiIsRegular info \<and> \<not> fiIsDir info \<and> fiSize info = int (length bytes)
      | _ \<Rightarrow> False)"
| "plainTree (HDir n i ts) \<longleftrightarrow>
     fiIsDir i \<and> \<not> fiIsRegular i \<and> distinct (map treeName ts) \<and> (\<forall>t \<in> set ts. plainName (treeName t) \<and> plainTree t)"
| "plainTree (HBadDir n i e) \<longleftrightarrow> False"

lemma plainTree_leaf:
  "plainTree (HLeaf n i c) \<longleftrightarrow>
     (\<exists>info bytes. i = Inr info \<and> fiIsRegular info \<and> \<not> fiIsDir info \<and> c = Inr (bytes, None) \<and> fiSize info = int (length bytes))"
  by (auto split: sum.splits option.splits)

declare plainTree.simps(1) [simp del] plainTree_leaf [simp]

definition arcName :: "string list \<Rightarrow> string" where
  "arcName pre = (case pre of [b] \<Rightarrow> b @ [slash] | _ \<Rightarrow> joinWith slash pre)"

primrec members :: "string list \<Rightarrow> host_tree \<Rightarrow> (tar_header \<times> string) list"
  and membersOf :: "string list \<Rightarrow> host_tree list \<Rightarrow> (tar_header \<times> string) list" where
  "members pre (HLeaf n i c) =
     (case (i, c) of
        (Inr info, Inr (bytes, _)) \<Rightarrow> [(\<lparr>thName = arcName pre, thType = TypeReg, thSize = fiSize info, thMode = fiPerm info\<rparr>, bytes)]
      | _ \<Rightarrow> [])"
| "members pre (HDir n i ts) =
     (\<lparr>thName = arcName pre, thType = TypeDir, thSize = 0, thMode = fiPerm i\<rparr>, []) # membersOf pre ts"
| "members pre (HBadDir n i e) = []"
| "membersOf pre [] = []"
| "membersOf pre (t # ts) = members (pre @ [treeName t]) t @ membersOf pre ts"

section \<open>Paths of the walk\<close>

text \<open>A path that leads from the source to the elements \<open>rs\<close> below it.\<close>

definition leads :: "string \<Rightarrow> string list \<Rightarrow> string \<Rightarrow> bool" where
  "leads src rs path \<longleftrightarrow> path \<noteq> [] \<and> Clean path = path \<and> IsAbs path = IsAbs src \<and> elems path = elems src @ rs"

lemma cleanList_snoc: "cleanList r es \<Longrightarrow> plainName n \<Longrightarrow> cleanList r (es @ [n])"
  by (auto simp: cleanList_def plainName_def dropWhile_append split: if_splits)

lemma cleanList_elems: "Clean p = p \<Longrightarrow> cleanList (IsAbs p) (elems p)"
  by (metis cleanElems_cleanList elems_Clean elems_ok)

lemma Clean_elems: "Clean p = p \<Longrightarrow> p = render (IsAbs p) (elems p)"
  by (metis Clean_def elems_Clean)

lemma plain_elems: "plainName n \<Longrightarrow> elems n = [n]" "plainName n \<Longrightarrow> n \<noteq> []" "plainName n \<Longrightarrow> \<not> IsAbs n"
  using elems_join [of "[n]"] not_IsAbs_join [of "[n]"] by (auto simp: plainName_def okElem_def)

lemma leads_Join:
  assumes "leads src rs path" "plainName n"
  shows "leads src (rs @ [n]) (Join [path, n])"
proof -
  have p: "path \<noteq> []" "Clean path = path" "IsAbs path = IsAbs src" "elems path = elems src @ rs"
    using assms(1) by (simp_all add: leads_def)
  note n = plain_elems [OF assms(2)]
  have j: "Join [path, n] = Clean (path @ slash # n)" using p(1) n(2) by (simp add: Join_def)
  have a: "IsAbs (path @ slash # n) = IsAbs path" using p(1) by (cases path) simp_all
  have e: "elems (path @ slash # n) = elems path @ [n]" using n(1) by (simp add: elems_append_slash)
  have "cleanList (IsAbs path) (elems path @ [n])"
    by (rule cleanList_snoc [OF cleanList_elems [OF p(2)] assms(2)])
  then show ?thesis using p e a by (simp add: leads_def j path_simps cleanElems_id)
qed

lemma lcp_append: "longest_common_prefix xs (xs @ ys) = xs"
  by (induction xs) simp_all

lemma Rel_leads:
  assumes "leads src rs path" "Clean src = src"
  shows "Rel src path = Some (if rs = [] then ''.'' else joinWith slash rs)"
proof -
  have p: "Clean path = path" "IsAbs path = IsAbs src" "elems path = elems src @ rs"
    using assms(1) by (simp_all add: leads_def)
  have "src = path \<longleftrightarrow> rs = []"
  proof
    assume "rs = []"
    then have e: "elems path = elems src" using p by simp
    have "src = render (IsAbs src) (elems src)" by (rule Clean_elems [OF assms(2)])
    also have "\<dots> = render (IsAbs path) (elems path)" by (simp only: e p(2))
    also have "\<dots> = path" by (rule Clean_elems [OF p(1), symmetric])
    finally show "src = path" .
  qed (use p(3) in simp)
  then show ?thesis using p assms(2) by (simp add: Rel_def Let_def lcp_append)
qed

lemma join_plain: "rs \<noteq> [] \<Longrightarrow> list_all plainName rs \<Longrightarrow> elems (joinWith slash rs) = rs \<and> joinWith slash rs \<noteq> [] \<and> \<not> IsAbs (joinWith slash rs)"
  using elems_join [of rs] not_IsAbs_join [of rs] by (auto simp: plainName_def list_all_iff elems_def)

lemma Clean_joined: "rs \<noteq> [] \<Longrightarrow> list_all plainName rs \<Longrightarrow> Clean (joinWith slash rs) = joinWith slash rs"
  using join_plain [of rs] by (subst Clean_plain) (auto simp: render_def plainName_def list_all_iff)

lemma memberName_leads:
  assumes "plainName base" "list_all plainName rs"
  shows "memberName base (if rs = [] then ''.'' else joinWith slash rs) = arcName (base # rs)"
proof (cases "rs = []")
  case False
  have "joinWith slash rs \<noteq> ''.''" using join_plain [OF False assms(2)] False by (auto simp: elems_def slash_def)
  moreover have "Join [base, joinWith slash rs] = Clean (joinWith slash (base # rs))"
    using plain_elems(2) [OF assms(1)] join_plain [OF False assms(2)] False by (simp add: Join_def joinWith_Cons)
  ultimately show ?thesis
    using False Clean_joined [of "base # rs"] assms by (cases rs) (simp_all add: memberName_def arcName_def)
qed (simp add: memberName_def arcName_def)

section \<open>The archive of a directory\<close>

text \<open>Writing appends members and leaves no announced byte open.\<close>

definition appends :: "os_error option \<times> tar_writer \<Rightarrow> tar_writer \<Rightarrow> (tar_header \<times> string) list \<Rightarrow> bool" where
  "appends r tw ms \<longleftrightarrow> r = (None, \<lparr>twMembers = twMembers tw @ ms, twLeft = 0\<rparr>)"

lemma writeHeader_simps: "twLeft tw = 0 \<Longrightarrow> writeHeader h tw = (None, \<lparr>twMembers = twMembers tw @ [(h, [])], twLeft = thSize h\<rparr>)"
  by (simp add: writeHeader_def)

lemma appendData_snoc: "appendData bytes (ms @ [(h, d)]) = ms @ [(h, d @ bytes)]"
  by (simp add: appendData_def)

lemma callback_plain:
  assumes "leads src rs path" "Clean src = src" "plainName base" "list_all plainName rs" "twLeft tw = 0"
  shows "plainTree (HLeaf n i c) \<Longrightarrow> appends (tarCallback src base path (Some (HLeaf n i c)) None tw) tw (members (base # rs) (HLeaf n i c))"
    and "plainTree (HDir n j ts) \<Longrightarrow> appends (tarCallback src base path (Some (HDir n j ts)) None tw) tw
      [(\<lparr>thName = arcName (base # rs), thType = TypeDir, thSize = 0, thMode = fiPerm j\<rparr>, [])]"
proof -
  have m: "memberName base ''.'' = arcName [base]" "rs \<noteq> [] \<Longrightarrow> memberName base (joinWith slash rs) = arcName (base # rs)"
    using memberName_leads [OF assms(3,4)] by (simp_all add: memberName_def arcName_def)
  note r = Rel_leads [OF assms(1,2)] m
  show "plainTree (HLeaf n i c) \<Longrightarrow> appends (tarCallback src base path (Some (HLeaf n i c)) None tw) tw (members (base # rs) (HLeaf n i c))"
    using assms(5) by (auto simp: appends_def tarCallback_def r fileInfoHeader_def writeHeader_simps writeContent_def appendData_snoc Let_def)
  show "plainTree (HDir n j ts) \<Longrightarrow> appends (tarCallback src base path (Some (HDir n j ts)) None tw) tw
      [(\<lparr>thName = arcName (base # rs), thType = TypeDir, thSize = 0, thMode = fiPerm j\<rparr>, [])]"
    using assms(5) by (auto simp: appends_def tarCallback_def r fileInfoHeader_def writeHeader_simps)
qed

lemma walk_members:
  assumes "Clean src = src" "plainName base"
  shows "plainTree t \<Longrightarrow> leads src rs path \<Longrightarrow> list_all plainName rs \<Longrightarrow> twLeft tw = 0 \<Longrightarrow>
      appends (walkTree (tarCallback src base) path t tw) tw (members (base # rs) t)"
    and "\<forall>t \<in> set ts. plainName (treeName t) \<and> plainTree t \<Longrightarrow> leads src rs path \<Longrightarrow> list_all plainName rs \<Longrightarrow> twLeft tw = 0 \<Longrightarrow>
      appends (walkTrees (tarCallback src base) path ts tw) tw (membersOf (base # rs) ts)"
proof (induction t and ts arbitrary: rs path tw and rs path tw rule: walkTree.induct walkTrees.induct)
  case (HLeaf n i c)
  have "\<exists>info. i = Inr info" using HLeaf(1) by auto
  then show ?case using callback_plain(1) [OF HLeaf(2) assms HLeaf(3,4,1)] by auto
next
  case (HDir n i ts)
  have "tarCallback src base path (Some (HDir n i ts)) None tw = (None, \<lparr>twMembers = twMembers tw @
      [(\<lparr>thName = arcName (base # rs), thType = TypeDir, thSize = 0, thMode = fiPerm i\<rparr>, [])], twLeft = 0\<rparr>)"
    using callback_plain(2) [OF HDir(3) assms HDir(4,5) HDir(2)] by (simp add: appends_def)
  then show ?case using HDir(1) [OF _ HDir(3,4)] HDir(2) by (simp add: appends_def)
next
  case (Cons_host_tree t ts)
  have "appends (walkTree (tarCallback src base) (Join [path, treeName t]) t tw) tw (members (base # rs @ [treeName t]) t)"
    using Cons_host_tree by (intro Cons_host_tree(1) leads_Join) auto
  then show ?case using Cons_host_tree(2) [OF _ Cons_host_tree(4,5)] Cons_host_tree(3) by (simp add: appends_def)
qed (simp_all add: appends_def)

section \<open>Extracting an entry\<close>

abbreviation noFault :: faults where
  "noFault \<equiv> \<lambda>_. None"

definition tarEntry :: "tar_header \<times> string \<Rightarrow> tar_entry" where
  "tarEntry m = \<lparr>teName = thName (fst m), teType = thType (fst m), teMode = int (thMode (fst m)), teContent = snd m, teErr = None\<rparr>"

text \<open>The parent directories of a path exist.\<close>

definition parentsIn :: "rootfs \<Rightarrow> string list \<Rightarrow> bool" where
  "parentsIn fs pre \<longleftrightarrow> (\<forall>q. strict_prefix q pre \<longrightarrow> fs q = Some NDir)"

lemma walkTo_parents:
  "parentsIn fs (pre @ cs) \<Longrightarrow> walkTo fs pre cs = (case fs (pre @ cs) of None \<Rightarrow> Inl NotExist | Some n \<Rightarrow> Inr n)"
proof (induction cs arbitrary: pre)
  case (Cons c cs)
  have "strict_prefix pre (pre @ c # cs)" by (simp add: strict_prefix_def)
  then have "fs pre = Some NDir" using Cons.prems by (simp add: parentsIn_def)
  then show ?case using Cons.IH [of "pre @ [c]"] Cons.prems by simp
qed simp

lemma parentsIn_prefix: "parentsIn fs pre \<Longrightarrow> prefix q pre \<Longrightarrow> parentsIn fs q"
  unfolding parentsIn_def by (meson prefix_order.less_le_trans)

lemma rejectParts_ok:
  assumes "spells path pre" "list_all plainName (pre @ parts)" "parentsIn fs (pre @ parts)" "\<forall>t. fs (pre @ parts) \<noteq> Some (NLink t)"
  shows "rejectParts noFault fs path parts = Inr ()"
  using assms
proof (induction parts arbitrary: path pre)
  case (Cons part parts)
  let ?c = "Join [path, part]"
  have s: "spells ?c (pre @ [part])" using Cons.prems by (intro spells_Join) (auto simp: plainName_def list_all_iff)
  have p: "rootPath ?c = Inr (pre @ [part])" using s Cons.prems(2) by (auto simp: spells_def rootPath_Inr plainName_def list_all_iff)
  have "parentsIn fs (pre @ [part])" by (rule parentsIn_prefix [OF Cons.prems(3)]) (simp add: prefix_def)
  then have w: "rootLstat noFault fs ?c = (case fs (pre @ [part]) of None \<Rightarrow> Inl NotExist | Some n \<Rightarrow> Inr n)"
    using p walkTo_parents [of fs "[]" "pre @ [part]"] by (simp add: rootLstat_def)
  have "fs (pre @ [part]) \<noteq> Some (NLink t)" for t
  proof (cases "parts = []")
    case False
    then have "strict_prefix (pre @ [part]) (pre @ part # parts)" by (simp add: strict_prefix_def prefix_def)
    then have "fs (pre @ [part]) = Some NDir" using Cons.prems(3) by (simp add: parentsIn_def)
    then show ?thesis by simp
  qed (use Cons.prems(4) in simp)
  then show ?case
    using w Cons.IH [OF s] Cons.prems by (auto simp: Let_def split: option.splits node.splits)
qed simp

lemma mkdirs_ok:
  "parentsIn fs (pre @ cs) \<Longrightarrow> fs (pre @ cs) \<in> {None, Some NDir} \<Longrightarrow> mkdirs noFault fs pre cs = (Inr (), fs(pre @ cs \<mapsto> NDir))"
proof (induction cs arbitrary: pre)
  case Nil
  then show ?case by (subst mkdirs.simps) (auto simp: fun_upd_idem)
next
  case (Cons c cs)
  have "strict_prefix pre (pre @ c # cs)" by (simp add: strict_prefix_def)
  then have "fs pre = Some NDir" using Cons.prems by (simp add: parentsIn_def)
  then show ?case using Cons.IH [of "pre @ [c]"] Cons.prems by (subst mkdirs.simps) (simp add: fun_upd_def)
qed

lemma arcName_facts:
  assumes "pre \<noteq> []" "list_all plainName pre"
  shows "safeArchiveName (arcName pre) = Inr (joinWith slash pre)" "arcName pre \<noteq> ''.''" "arcName pre \<noteq> ''./''"
proof -
  have e: "elems (arcName pre) = pre \<and> \<not> IsAbs (arcName pre)"
  proof (cases "length pre = 1")
    case True
    then obtain b where b: "pre = [b]" by (auto simp: length_Suc_conv)
    then have "plainName b" using assms by simp
    then have "elems (b @ slash # []) = [b]" "\<not> IsAbs (b @ slash # [])"
      using plain_elems [of b] by (simp_all add: elems_append_slash) (simp add: elems_def, cases b, simp_all)
    then show ?thesis using b by (simp add: arcName_def)
  next
    case False
    then have "arcName pre = joinWith slash pre" using assms(1) by (auto simp: arcName_def split: list.splits)
    then show ?thesis using join_plain [OF assms] by simp
  qed
  then show "safeArchiveName (arcName pre) = Inr (joinWith slash pre)"
    using assms by (auto simp: safeArchiveName_iff render_def plainName_def list_all_iff)
  show "arcName pre \<noteq> ''.''" "arcName pre \<noteq> ''./''" using e assms(1) by (auto simp: elems_def slash_def)
qed

lemma reject_ok:
  assumes "pre \<noteq> []" "list_all plainName pre" "parentsIn fs pre" "fs pre = None"
  shows "rejectExistingSymlink noFault fs (joinWith slash pre) = Inr ()"
proof -
  note j = join_plain [OF assms(1,2)] Clean_joined [OF assms(1,2)]
  have "splitChar slash (joinWith slash pre) = pre"
    using splitChar_elems [of "joinWith slash pre"] j assms by (auto simp: plainName_def list_all_iff)
  then show ?thesis
    using rejectParts_ok [of "[]" "[]" pre fs] assms j by (simp add: rejectExistingSymlink_def spells_def)
qed

lemma elems_Dir_join:
  assumes "pre \<noteq> []" "list_all plainName pre"
  shows "elems (Dir (joinWith slash pre)) = butlast pre \<and> Dir (joinWith slash pre) \<noteq> [] \<and> \<not> IsAbs (Dir (joinWith slash pre))"
proof -
  obtain xs x where p: "pre = xs @ [x]" using assms(1) by (metis rev_exhaust)
  have x: "slash \<notin> set x" "list_all plainName xs" using assms(2) by (auto simp: p plainName_def okElem_def)
  have u: "uptoLastSlash (q @ slash # x) = q @ [slash]" for q
    using x(1) by (simp add: uptoLastSlash_def dropWhile_append)
  show ?thesis
  proof (cases "xs = []")
    case True
    then have "uptoLastSlash (joinWith slash pre) = []" using x(1) by (auto simp: p uptoLastSlash_def)
    moreover have "elems [] = []" "\<not> IsAbs (Clean [])" by code_simp+
    ultimately show ?thesis by (simp add: Dir_def p True elems_Clean_plain)
  next
    case False
    then have "uptoLastSlash (joinWith slash pre) = joinWith slash xs @ [slash]" using u by (simp add: p joinWith_append)
    moreover have "elems (joinWith slash xs @ slash # []) = xs" "\<not> IsAbs (joinWith slash xs @ slash # [])"
      using join_plain [OF False x(2)] by (simp_all add: elems_append_slash) (simp add: elems_def, cases "joinWith slash xs", simp_all)
    ultimately show ?thesis using x(2)
      by (auto simp: Dir_def p IsAbs_Clean elems_Clean_plain plainName_def list_all_iff)
  qed
qed

text \<open>The nodes of a tree, by their path below its root.\<close>

fun treeAt :: "host_tree \<Rightarrow> string list \<Rightarrow> node option" where
  "treeAt (HLeaf n i c) p =
     (case (i, c) of
        (Inr info, Inr (bytes, _)) \<Rightarrow> if p = [] then Some (NFile bytes (if and (int (fiPerm info)) 73 \<noteq> 0 then 493 else 420)) else None
      | _ \<Rightarrow> None)"
| "treeAt (HDir n i ts) [] = Some NDir"
| "treeAt (HDir n i ts) (x # p) = (case find (\<lambda>t. treeName t = x) ts of None \<Rightarrow> None | Some t \<Rightarrow> treeAt t p)"
| "treeAt (HBadDir n i e) p = None"

text \<open>A directory with a tree put at a path.\<close>

definition graft :: "string list \<Rightarrow> host_tree \<Rightarrow> rootfs \<Rightarrow> rootfs" where
  "graft pre t fs = (\<lambda>p. if prefix pre p then treeAt t (drop (length pre) p) else fs p)"

text \<open>A place where a tree can be put.\<close>

definition vacant :: "rootfs \<Rightarrow> string list \<Rightarrow> bool" where
  "vacant fs pre \<longleftrightarrow> pre \<noteq> [] \<and> list_all plainName pre \<and> parentsIn fs pre \<and> (\<forall>p. prefix pre p \<longrightarrow> fs p = None)"

lemma extract_dir:
  assumes "vacant fs pre"
  shows "extractEntry noFault True dest wrote fs (tarEntry (\<lparr>thName = arcName pre, thType = TypeDir, thSize = z, thMode = m\<rparr>, d)) =
    (Inr wrote, fs(pre \<mapsto> NDir))"
proof -
  have v: "pre \<noteq> []" "list_all plainName pre" "parentsIn fs pre" "fs pre = None" using assms by (simp_all add: vacant_def)
  note j = join_plain [OF v(1,2)]
  have "rootPath (joinWith slash pre) = Inr pre" using j v(2) by (auto simp: rootPath_Inr plainName_def list_all_iff)
  then have "rootMkdirAll noFault fs (joinWith slash pre) = (Inr (), fs(pre \<mapsto> NDir))"
    using mkdirs_ok [of fs "[]" pre] v(3,4) by (simp add: rootMkdirAll_def)
  then show ?thesis
    using arcName_facts [OF v(1,2)] reject_ok [OF v] by (simp add: extractEntry_def tarEntry_def)
qed

lemma extract_file:
  assumes "vacant fs pre"
  shows "extractEntry noFault True dest wrote fs (tarEntry (\<lparr>thName = arcName pre, thType = TypeReg, thSize = z, thMode = m\<rparr>, d)) =
    (Inr wrote, fs(pre \<mapsto> NFile d (if and (int m) 73 \<noteq> 0 then 493 else 420)))"
proof -
  have v: "pre \<noteq> []" "list_all plainName pre" "parentsIn fs pre" "fs pre = None" using assms by (simp_all add: vacant_def)
  let ?t = "joinWith slash pre"
  note j = join_plain [OF v(1,2)] and dir = elems_Dir_join [OF v(1,2)]
  have b: "strict_prefix (butlast pre) pre" using v(1) by (metis append_butlast_last_id not_Cons_self2 prefixI strict_prefix_def self_append_conv)
  have r: "rootPath ?t = Inr pre" "rootPath (Dir ?t) = Inr (butlast pre)"
    using j dir v(2) by (auto simp: rootPath_Inr plainName_def list_all_iff dest: in_set_butlastD)
  have p: "parentsIn fs (butlast pre)" "fs (butlast pre) = Some NDir"
    using parentsIn_prefix [OF v(3), of "butlast pre"] v(3) b by (auto simp: parentsIn_def strict_prefix_def)
  have "rootMkdirAll noFault fs (Dir ?t) = (Inr (), fs)"
    using r(2) mkdirs_ok [of fs "[]" "butlast pre"] p by (simp add: rootMkdirAll_def fun_upd_idem)
  moreover have "rootOpenFile noFault fs ?t k = (Inr pre, fs(pre \<mapsto> NFile [] k))" for k
    using r(1) walkTo_parents [of fs "[]" "butlast pre"] p v by (simp add: rootOpenFile_def)
  ultimately show ?thesis
    using arcName_facts [OF v(1,2)] reject_ok [OF v]
    by (simp add: extractEntry_def tarEntry_def writeEntry_def setContent_def setMode_def fileMode_def Let_def)
qed

section \<open>Extracting a directory\<close>

primrec grafts :: "string list \<Rightarrow> host_tree list \<Rightarrow> rootfs \<Rightarrow> rootfs" where
  "grafts pre [] fs = fs"
| "grafts pre (t # ts) fs = grafts pre ts (graft (pre @ [treeName t]) t fs)"

lemma grafts_out: "(\<forall>t \<in> set ts. \<not> prefix (pre @ [treeName t]) p) \<Longrightarrow> grafts pre ts fs p = fs p"
  by (induction ts arbitrary: fs) (auto simp: graft_def)

lemma grafts_in:
  "distinct (map treeName ts) \<Longrightarrow> t \<in> set ts \<Longrightarrow> grafts pre ts fs (pre @ treeName t # r) = treeAt t r"
proof (induction ts arbitrary: fs)
  case (Cons u ts)
  show ?case
  proof (cases "t = u")
    case True
    then have "\<forall>t' \<in> set ts. \<not> prefix (pre @ [treeName t']) (pre @ treeName t # r)" using Cons.prems(1) True by (auto simp: image_iff)
    then show ?thesis using True by (simp add: grafts_out) (simp add: graft_def)
  next
    case False
    then show ?thesis using Cons by auto
  qed
qed simp

lemma graft_dir:
  assumes "vacant fs pre" "distinct (map treeName ts)"
  shows "graft pre (HDir n i ts) fs = grafts pre ts (fs(pre \<mapsto> NDir))"
proof (rule ext)
  fix p
  show "graft pre (HDir n i ts) fs p = grafts pre ts (fs(pre \<mapsto> NDir)) p"
  proof (cases "prefix pre p")
    case False
    then have "\<forall>t \<in> set ts. \<not> prefix (pre @ [treeName t]) p" by (meson append_prefixD)
    then show ?thesis using False by (auto simp: graft_def grafts_out)
  next
    case True
    then obtain r where r: "p = pre @ r" by (auto simp: prefix_def)
    show ?thesis
    proof (cases r)
      case Nil
      then show ?thesis by (simp add: graft_def r grafts_out)
    next
      case (Cons x xs)
      show ?thesis
      proof (cases "find (\<lambda>t. treeName t = x) ts")
        case None
        then have "\<forall>t \<in> set ts. \<not> prefix (pre @ [treeName t]) p" by (auto simp: r Cons find_None_iff)
        then show ?thesis using None assms(1) by (simp add: graft_def r Cons grafts_out vacant_def)
      next
        case (Some t)
        then have "t \<in> set ts" "treeName t = x" by (auto simp: find_Some_iff)
        then show ?thesis using Some grafts_in [OF assms(2), of t pre _ xs] by (auto simp: graft_def r Cons)
      qed
    qed
  qed
qed

text \<open>The children of a directory that exists can be put into it.\<close>

definition roomFor :: "rootfs \<Rightarrow> string list \<Rightarrow> host_tree list \<Rightarrow> bool" where
  "roomFor fs pre ts \<longleftrightarrow> pre \<noteq> [] \<and> list_all plainName pre \<and> parentsIn fs pre \<and> fs pre = Some NDir \<and>
     distinct (map treeName ts) \<and> (\<forall>t \<in> set ts. plainName (treeName t) \<and> plainTree t \<and> (\<forall>p. prefix (pre @ [treeName t]) p \<longrightarrow> fs p = None))"

lemma strict_prefix_snoc: "strict_prefix q (pre @ [x]) \<Longrightarrow> q = pre \<or> strict_prefix q pre"
  by (auto simp: strict_prefix_def)

lemma roomFor_step:
  assumes "roomFor fs pre (t # ts)"
  shows "vacant fs (pre @ [treeName t])" "roomFor (graft (pre @ [treeName t]) t fs) pre ts"
proof -
  let ?g = "graft (pre @ [treeName t]) t fs"
  have "parentsIn fs (pre @ [treeName t])"
    using assms unfolding parentsIn_def roomFor_def by (auto dest!: strict_prefix_snoc)
  then show "vacant fs (pre @ [treeName t])" using assms by (simp add: vacant_def roomFor_def)
  have "?g q = fs q" if "prefix q pre" for q
  proof -
    have "\<not> prefix (pre @ [treeName t]) q" using that by (auto simp: prefix_def)
    then show ?thesis by (simp add: graft_def)
  qed
  then have "parentsIn ?g pre" "?g pre = Some NDir" using assms by (auto simp: roomFor_def parentsIn_def strict_prefix_def)
  moreover have "?g p = None" if "u \<in> set ts" "prefix (pre @ [treeName u]) p" for u p
  proof -
    have "\<not> prefix (pre @ [treeName t]) p"
    proof
      assume "prefix (pre @ [treeName t]) p"
      then have "treeName t = treeName u" using that(2) by (auto simp: prefix_def)
      then show False using assms that(1) by (auto simp: roomFor_def)
    qed
    then show ?thesis using assms that by (auto simp: graft_def roomFor_def)
  qed
  ultimately show "roomFor ?g pre ts" using assms by (auto simp: roomFor_def)
qed

lemma extract_members:
  "plainTree t \<Longrightarrow> vacant fs pre \<Longrightarrow>
     extractLoop noFault True dest src wrote fs (map tarEntry (members pre t) @ es) end =
     extractLoop noFault True dest src wrote (graft pre t fs) es end"
  "roomFor fs pre ts \<Longrightarrow>
     extractLoop noFault True dest src wrote fs (map tarEntry (membersOf pre ts) @ es) end =
     extractLoop noFault True dest src wrote (grafts pre ts fs) es end"
proof (induction t and ts arbitrary: pre fs es and pre fs es rule: walkTree.induct walkTrees.induct)
  case (HLeaf n i c)
  then obtain info bytes where ic: "i = Inr info" "c = Inr (bytes, None)" by auto
  have "fs(pre \<mapsto> NFile bytes (if and (int (fiPerm info)) 73 \<noteq> 0 then 493 else 420)) = graft pre (HLeaf n i c) fs"
  proof (rule ext)
    show "(fs(pre \<mapsto> NFile bytes (if and (int (fiPerm info)) 73 \<noteq> 0 then 493 else 420))) p = graft pre (HLeaf n i c) fs p" for p
      using HLeaf(2) by (auto simp: graft_def ic vacant_def prefix_def)
  qed
  then show ?case using extract_file [OF HLeaf(2)] by (simp add: ic)
next
  case (HDir n i ts)
  have "roomFor (fs(pre \<mapsto> NDir)) pre ts"
    using HDir(2,3) by (auto simp: roomFor_def vacant_def parentsIn_def strict_prefix_def prefix_def)
  then show ?case using HDir(1) extract_dir [OF HDir(3)] graft_dir [OF HDir(3)] HDir(2) by simp
next
  case (Cons_host_tree t ts)
  note r = roomFor_step [OF Cons_host_tree(3)]
  have "plainTree t" using Cons_host_tree(3) by (simp add: roomFor_def)
  then show ?case using Cons_host_tree(1) [OF _ r(1)] Cons_host_tree(2) [OF r(2)] by simp
qed simp_all

section \<open>There and back\<close>

text \<open>
  C5. Copying a plain directory into a sandbox and out again restores it: if the tree holds readable
  regular files and directories only, the engine accepts the archive, nothing is at the destination
  under the name of the directory and no fault occurs, then \<open>CopyTo\<close> succeeds, and extracting what the
  engine was given puts every file with its contents, and every directory, below the destination, and
  changes nothing else. (A symbolic link inside the directory makes the copy fail.)
\<close>

theorem copy_roundtrip:
  assumes "lstat (Clean srcHost) = Inr t" and "plainTree t" and "treeIsDir t" and "plainName (Base (Clean srcHost))"
    and "Stat (eOS E) (Clean srcHost) = Inr st" and "fiIsDir st"
    and "ansUnit (eEngine E) (w @ [(ReqCtx, CopyToContainerReq cid (Clean destPath))]) = Inr ()"
    and "openRoot dest = Inr fs" and "vacant fs [Base (Clean srcHost)]"
  shows "\<exists>ms w'. CopyTo E lstat content None cid srcHost destPath w = (Inr ms, w') \<and>
    extractCopyTar noFault openRoot (map tarEntry ms, None) dest True src = Inr (Inr (), graft [Base (Clean srcHost)] t fs)"
proof -
  let ?src = "Clean srcHost" and ?ms = "members [Base (Clean srcHost)] t"
  have "appends (walkTree (tarCallback ?src (Base ?src)) ?src t newWriter) newWriter (members (Base ?src # []) t)"
    using assms(2,4) by (intro walk_members(1)) (simp_all add: leads_def newWriter_def)
  then have "copyArchive lstat content ?src st destPath = (None, \<lparr>twMembers = ?ms, twLeft = 0\<rparr>)"
    using assms(1,6) by (simp add: copyArchive_def writeTarDir_def Walk_def appends_def newWriter_def)
  then have "CopyTo E lstat content None cid srcHost destPath w = (Inr ?ms, w @ [(ReqCtx, CopyToContainerReq cid (Clean destPath))])"
    using assms(5-7) by (simp add: CopyTo_def bindW_def wrapW_def liftW_def call_def returnW_def copyDestDir_def Let_def)
  moreover have "extractLoop noFault True dest src False fs (map tarEntry ?ms @ []) None =
      extractLoop noFault True dest src False (graft [Base ?src] t fs) [] None"
    by (rule extract_members(1) [OF assms(2,9)])
  ultimately show ?thesis using assms(8) by (auto simp: extractCopyTar_def)
qed

definition sampleTree :: host_tree where
  "sampleTree =
     HDir ''p'' dirInfo
       [HLeaf ''a'' (Inr (fileInfo\<lparr>fiSize := 2\<rparr>)) (Inr (''hi'', None)), HDir ''d'' dirInfo []]"

lemma sample_copy:
  "plainTree sampleTree" "treeIsDir sampleTree" "Clean ''/home/u/p'' = ''/home/u/p''" "Base ''/home/u/p'' = ''p''"
  "plainName ''p''" "Clean ''/w'' = ''/w''"
  by code_simp+

theorem copy_roundtrip_witness:
  "\<exists>ms w'. CopyTo (sampleEnv (\<lambda>_. Inr ''c1'')) (\<lambda>_. Inr sampleTree) (\<lambda>_. Inl []) None ''c1'' ''/home/u/p'' ''/w'' [] = (Inr ms, w') \<and>
    extractCopyTar noFault (\<lambda>_. Inr [[] \<mapsto> NDir]) (map tarEntry ms, None) ''out'' True ''/w/p'' = Inr (Inr (), graft [''p''] sampleTree [[] \<mapsto> NDir]) \<and>
    graft [''p''] sampleTree [[] \<mapsto> NDir] [''p'', ''a''] = Some (NFile ''hi'' 493)"
proof -
  let ?E = "sampleEnv (\<lambda>_. Inr ''c1'')"
  have "vacant [[] \<mapsto> NDir] [''p'']" using sample_copy(5) by (auto simp: vacant_def parentsIn_def strict_prefix_def prefix_def Cons_eq_append_conv)
  moreover have "ansUnit (eEngine ?E) ([] @ [(ReqCtx, CopyToContainerReq ''c1'' ''/w'')]) = Inr ()" by simp
  moreover have "Stat (eOS ?E) ''/home/u/p'' = Inr dirInfo" "fiIsDir dirInfo" by (simp_all add: exampleOS_def dirInfo_def)
  moreover have "graft [''p''] sampleTree [[] \<mapsto> NDir] [''p'', ''a''] = Some (NFile ''hi'' 493)"
    by (simp add: graft_def sampleTree_def fileInfo_def)
  ultimately show ?thesis
    using copy_roundtrip [of "\<lambda>_. Inr sampleTree" "''/home/u/p''" sampleTree ?E dirInfo "[]" "''c1''" "''/w''"
        "\<lambda>_. Inr [[] \<mapsto> NDir]" "''out''" "[[] \<mapsto> NDir]" "\<lambda>_. Inl []" "''/w/p''"] sample_copy by auto
qed

text \<open>A symbolic link below the directory makes the copy fail unless the target is empty: its header announces no bytes,
  but opening it reads the target.\<close>

lemma symlink_in_directory_fails:
  assumes "Rel src path = Some rel" "fiIsSymlink info" "\<not> fiIsRegular info" "\<not> fiIsDir info" "\<not> fiIsSocket info" "bytes \<noteq> []"
  shows "fst (tarCallback src base path (Some (HLeaf n (Inr info) (Inr (bytes, err)))) None tw) \<noteq> None"
  using assms by (auto simp: tarCallback_def fileInfoHeader_def writeHeader_def writeContent_def Let_def)

end
