(* ===== verification/Go_Netip.thy ===== *)
theory Go_Netip
  imports Go_URL
begin

text \<open>
  Addresses and prefixes of Go's \<^verbatim>\<open>net/netip\<close>: \<^verbatim>\<open>ParseAddr\<close>, \<^verbatim>\<open>ParsePrefix\<close>, \<^verbatim>\<open>PrefixFrom\<close>, \<^verbatim>\<open>Contains\<close> and
  the textual form of IPv4 values. An address is its bytes; an IPv6 address may carry a zone. The
  parser follows the standard library: an IPv6 address is read in groups into at most sixteen bytes,
  with the position of the double colon, which is expanded at the end.

  Containment is agreement of the leading bits, that is of the quotients of the numeric values. The
  lemmas show that printing an IPv4 address or prefix and parsing it again gives the same value, and
  that two prefixes share an address exactly when one contains the address of the other.
\<close>

section \<open>Addresses\<close>

datatype addr = V4 "nat list" | V6 "nat list" string

fun bytesOf :: "addr \<Rightarrow> nat list" where
  "bytesOf (V4 bs) = bs"
| "bytesOf (V6 bs _) = bs"

fun zoneOf :: "addr \<Rightarrow> string" where
  "zoneOf (V4 _) = []"
| "zoneOf (V6 _ z) = z"

fun withoutZone :: "addr \<Rightarrow> addr" where
  "withoutZone (V4 bs) = V4 bs"
| "withoutZone (V6 bs _) = V6 bs []"

definition BitLen :: "addr \<Rightarrow> nat" where
  "BitLen a = (case a of V4 _ \<Rightarrow> 32 | V6 _ _ \<Rightarrow> 128)"

text \<open>The numeric value, an integer so that it can be computed with.\<close>

definition numOf :: "nat list \<Rightarrow> int" where
  "numOf bs = foldl (\<lambda>n b. 256 * n + int b) 0 bs"

fun okAddr :: "addr \<Rightarrow> bool" where
  "okAddr (V4 bs) = (length bs = 4 \<and> list_all (\<lambda>b. b < 256) bs)"
| "okAddr (V6 bs _) = (length bs = 16 \<and> list_all (\<lambda>b. b < 256) bs)"

section \<open>Parsing\<close>

definition v4Bytes :: "string \<Rightarrow> nat list option" where
  "v4Bytes s =
     (let fs = splitChar (CHR ''.'') s in
      if length fs = 4 \<and> list_all validIPv4Field fs then Some (map decVal fs) else None)"

text \<open>The two bytes of a group of up to four hexadecimal digits.\<close>

definition groupBytes :: "string \<Rightarrow> nat list" where
  "groupBytes ds =
     (case rev (map hexVal ds) of
        [d] \<Rightarrow> [0, d]
      | [d, c] \<Rightarrow> [0, 16 * c + d]
      | [d, c, b] \<Rightarrow> [b, 16 * c + d]
      | [d, c, b, a] \<Rightarrow> [16 * a + b, 16 * c + d]
      | _ \<Rightarrow> [])"

definition zeros :: "nat \<Rightarrow> nat list" where
  "zeros n = map (\<lambda>_. 0) [0..<n]"

definition expandEllipsis :: "nat list \<Rightarrow> nat option \<Rightarrow> string \<Rightarrow> nat list option" where
  "expandEllipsis bs ell s =
     (if s \<noteq> [] then None
      else if length bs < 16 then
        (case ell of None \<Rightarrow> None | Some i \<Rightarrow> Some (take i bs @ zeros (16 - length bs) @ drop i bs))
      else if ell \<noteq> None then None
      else Some bs)"

text \<open>\<open>bs\<close> are the bytes read so far, \<open>ell\<close> the position of the double colon.\<close>

function v6Groups :: "nat list \<Rightarrow> nat option \<Rightarrow> string \<Rightarrow> nat list option" where
  "v6Groups bs ell s =
     (if 16 \<le> length bs then expandEllipsis bs ell s
      else
        (let ds = takeWhile isHex s; rest = drop (length ds) s in
         if ds = [] \<or> 4 < length ds then None
         else if HasPrefix rest ''.'' then
           (if ell = None \<and> length bs \<noteq> 12 \<or> 16 < length bs + 4 then None
            else (case v4Bytes s of None \<Rightarrow> None | Some v \<Rightarrow> expandEllipsis (bs @ v) ell []))
         else
           (let bs' = bs @ groupBytes ds in
            (case rest of
               [] \<Rightarrow> expandEllipsis bs' ell []
             | c # rest' \<Rightarrow>
                 if c \<noteq> CHR '':'' \<or> rest' = [] then None
                 else if hd rest' = CHR '':'' then
                   (if ell \<noteq> None then None
                    else if tl rest' = [] then expandEllipsis bs' (Some (length bs')) []
                    else v6Groups bs' (Some (length bs')) (tl rest'))
                 else v6Groups bs' ell rest'))))"
  by pat_completeness auto
termination
proof (relation "measure (\<lambda>(bs, _, s). length s)", goal_cases)
  case 1
  then show ?case by simp
next
  case (2 bs ell s ds rest bs' c rest')
  then have "length rest \<le> length s" "rest = c # rest'" "rest' \<noteq> []" by auto
  then show ?case by (cases rest') auto
next
  case (3 bs ell s ds rest bs' c rest')
  then have "length rest \<le> length s" "rest = c # rest'" by auto
  then show ?case by simp
qed

declare v6Groups.simps [simp del]

definition parseAddr6 :: "string \<Rightarrow> addr option" where
  "parseAddr6 s =
     (case Cut s (CHR ''%'') of (a, zone, hasZone) \<Rightarrow>
        if hasZone \<and> zone = [] then None
        else if a = ''::'' then Some (V6 (zeros 16) zone)
        else map_option (\<lambda>bs. V6 bs zone)
               (if HasPrefix a ''::'' then v6Groups [] (Some 0) (drop 2 a) else v6Groups [] None a))"

definition ParseAddr :: "string \<Rightarrow> addr option" where
  "ParseAddr s =
     (case find (\<lambda>c. c = CHR ''.'' \<or> c = CHR '':'' \<or> c = CHR ''%'') s of
        None \<Rightarrow> None
      | Some c \<Rightarrow>
          if c = CHR ''.'' then map_option V4 (v4Bytes s)
          else if c = CHR '':'' then parseAddr6 s
          else None)"

section \<open>Prefixes\<close>

record prefix_t =
  pfAddr :: addr
  pfBits :: nat

text \<open>Only used with a number of bits that fits the address, so a prefix is always valid.\<close>

definition PrefixFrom :: "addr \<Rightarrow> nat \<Rightarrow> prefix_t" where
  "PrefixFrom a n = \<lparr>pfAddr = withoutZone a, pfBits = n\<rparr>"

definition validBits :: "string \<Rightarrow> bool" where
  "validBits ds \<longleftrightarrow> ds \<noteq> [] \<and> list_all isDigit ds \<and> (1 < length ds \<longrightarrow> hd ds \<noteq> CHR ''0'')"

definition ParsePrefix :: "string \<Rightarrow> prefix_t option" where
  "ParsePrefix s =
     (case lastIndex (CHR ''/'') s of
        None \<Rightarrow> None
      | Some i \<Rightarrow>
          (case ParseAddr (take i s) of
             None \<Rightarrow> None
           | Some a \<Rightarrow>
               let ds = drop (i + 1) s in
               if zoneOf a \<noteq> [] \<or> \<not> validBits ds \<or> BitLen a < decVal ds then None
               else Some (PrefixFrom a (decVal ds))))"

definition PrefixContains :: "prefix_t \<Rightarrow> addr \<Rightarrow> bool" where
  "PrefixContains p a \<longleftrightarrow>
     zoneOf a = [] \<and> BitLen (pfAddr p) = BitLen a \<and>
     numOf (bytesOf a) div 2 ^ (BitLen a - pfBits p) = numOf (bytesOf (pfAddr p)) div 2 ^ (BitLen a - pfBits p)"

section \<open>Printing\<close>

definition v4String :: "nat list \<Rightarrow> string" where
  "v4String bs = joinWith (CHR ''.'') (map natStr bs)"

definition v4PrefixString :: "nat list \<Rightarrow> nat \<Rightarrow> string" where
  "v4PrefixString bs n = v4String bs @ ''/'' @ natStr n"

lemma netip_examples:
  "ParseAddr ''172.16.3.1'' = Some (V4 [172, 16, 3, 1])" "ParseAddr ''1.2.3.04'' = None"
  "ParseAddr ''fe80::1%eth0'' = Some (V6 ([254, 128] @ zeros 13 @ [1]) ''eth0'')"
  "ParseAddr ''::ffff:1.2.3.4'' = Some (V6 (zeros 10 @ [255, 255, 1, 2, 3, 4]) [])"
  "ParseAddr ''1:2:3:4:5:6:7:8'' = Some (V6 [0, 1, 0, 2, 0, 3, 0, 4, 0, 5, 0, 6, 0, 7, 0, 8] [])"
  "ParseAddr ''fe80::1%'' = None" "ParseAddr ''1::2::3'' = None" "ParseAddr ''::'' = Some (V6 (zeros 16) [])"
  "ParsePrefix ''10.0.0.0/8'' = Some \<lparr>pfAddr = V4 [10, 0, 0, 0], pfBits = 8\<rparr>"
  "ParsePrefix ''10.0.0.0/33'' = None" "ParsePrefix ''10.0.0.0/08'' = None" "ParsePrefix ''10.0.0.0'' = None"
  "v4PrefixString [172, 16, 0, 0] 24 = ''172.16.0.0/24''"
  by code_simp+

section \<open>Round trips\<close>

lemma hd_natStr: "0 < n \<Longrightarrow> hd (natStr n) \<noteq> CHR ''0''"
proof (induction n rule: natStr.induct)
  case (1 n)
  show ?case
  proof (cases "n < 10")
    case True
    have "char_of (48 + n) \<noteq> (CHR ''0'')"
    proof
      assume "char_of (48 + n) = (CHR ''0'')"
      then have "digitVal (char_of (48 + n)) = digitVal (CHR ''0'')" by simp
      then show False using True 1 by (simp add: digitVal_char_of) (simp add: digitVal_def)
    qed
    then show ?thesis using True by (subst natStr.simps) simp
  next
    case False
    then have "0 < n div 10" by simp
    then show ?thesis using 1 False by (subst natStr.simps) (simp add: hd_append natStr_ne)
  qed
qed

lemma natStr_length1: "n < 10 \<Longrightarrow> length (natStr n) = 1"
  by (subst natStr.simps) simp

lemma natStr_plain: "1 < length (natStr n) \<Longrightarrow> hd (natStr n) \<noteq> CHR ''0''"
  using hd_natStr [of n] natStr_length1 [of 0] by (cases "n = 0") auto

lemma validIPv4Field_natStr: "b < 256 \<Longrightarrow> validIPv4Field (natStr b)"
  using natStr_plain [of b] by (simp add: validIPv4Field_def natStr_ne natStr_digits)

lemma digit_neq: "isDigit c \<Longrightarrow> c \<noteq> CHR ''.'' \<and> c \<noteq> CHR '':'' \<and> c \<noteq> CHR ''%'' \<and> c \<noteq> CHR ''/''"
  by (auto simp: isDigit_def Let_def)

lemma natStr_chars: "c \<in> set (natStr n) \<Longrightarrow> isDigit c"
  using natStr_digits [of n] by (simp add: list_all_iff)

lemma v4Bytes_v4String:
  assumes "okAddr (V4 bs)"
  shows "v4Bytes (v4String bs) = Some bs"
proof -
  have "bs \<noteq> []" using assms by auto
  then have s: "splitChar (CHR ''.'') (v4String bs) = map natStr bs"
    unfolding v4String_def by (intro splitChar_joinWith) (auto dest!: natStr_chars digit_neq)
  show ?thesis using assms
    by (simp add: v4Bytes_def s Let_def list_all_iff validIPv4Field_natStr comp_def)
qed

lemma set_joinWith: "set (joinWith c ss) \<subseteq> insert c (\<Union> (set ` set ss))"
  by (induction c ss rule: joinWith.induct) auto

lemma find_dot: "(\<forall>c \<in> set a. isDigit c) \<Longrightarrow>
    find (\<lambda>c. c = CHR ''.'' \<or> c = CHR '':'' \<or> c = CHR ''%'') (a @ CHR ''.'' # r) = Some (CHR ''.'')"
  by (induction a) (auto dest: digit_neq)

theorem ParseAddr_v4String:
  assumes "okAddr (V4 bs)"
  shows "ParseAddr (v4String bs) = Some (V4 bs)"
proof -
  obtain b bs' where bs: "bs = b # bs'" "bs' \<noteq> []" using assms by (cases bs; cases "tl bs") auto
  then have "v4String bs = natStr b @ CHR ''.'' # v4String bs'" by (simp add: v4String_def joinWith_Cons)
  then have "find (\<lambda>c. c = CHR ''.'' \<or> c = CHR '':'' \<or> c = CHR ''%'') (v4String bs) = Some (CHR ''.'')"
    using natStr_chars [of _ b] by (simp add: find_dot)
  then show ?thesis by (simp add: ParseAddr_def v4Bytes_v4String [OF assms])
qed

lemma lastIndex_append: "c \<notin> set b \<Longrightarrow> lastIndex c (a @ c # b) = Some (length a)"
proof -
  assume "c \<notin> set b"
  then have "takeWhile (\<lambda>x. x \<noteq> c) (rev b @ c # rev a) = rev b" by (subst takeWhile_append2) auto
  then show ?thesis by (simp add: lastIndex_def)
qed

theorem ParsePrefix_v4String:
  assumes "okAddr (V4 bs)" and "n \<le> 32"
  shows "ParsePrefix (v4PrefixString bs n) = Some \<lparr>pfAddr = V4 bs, pfBits = n\<rparr>"
proof -
  have "CHR ''/'' \<notin> set (natStr n)" by (auto dest!: natStr_chars digit_neq)
  then have "lastIndex (CHR ''/'') (v4PrefixString bs n) = Some (length (v4String bs))"
    by (simp add: v4PrefixString_def lastIndex_append)
  moreover have "validBits (natStr n)" using natStr_plain [of n] by (simp add: validBits_def natStr_ne natStr_digits)
  ultimately show ?thesis using assms
    by (simp add: ParsePrefix_def ParseAddr_v4String v4PrefixString_def BitLen_def PrefixFrom_def)
qed

section \<open>Overlap\<close>

lemma div_power_mono:
  fixes a b :: int
  assumes "a div 2 ^ m = b div 2 ^ m" "m \<le> n"
  shows "a div 2 ^ n = b div 2 ^ n"
proof -
  have "(2 :: int) ^ n = 2 ^ m * 2 ^ (n - m)" using assms(2) by (simp flip: power_add)
  then show ?thesis using assms(1) by (simp add: zdiv_zmult2_eq)
qed

lemma PrefixContains_self: "zoneOf (pfAddr p) = [] \<Longrightarrow> PrefixContains p (pfAddr p)"
  by (simp add: PrefixContains_def)

lemma overlap_iff_common:
  assumes "zoneOf (pfAddr p) = []" "zoneOf (pfAddr q) = []"
  shows "PrefixContains p (pfAddr q) \<or> PrefixContains q (pfAddr p) \<longleftrightarrow> (\<exists>a. PrefixContains p a \<and> PrefixContains q a)"
proof
  assume "\<exists>a. PrefixContains p a \<and> PrefixContains q a"
  then obtain a where a: "PrefixContains p a" "PrefixContains q a" by blast
  define L where "L = BitLen a"
  have l: "BitLen (pfAddr p) = L" "BitLen (pfAddr q) = L" using a by (simp_all add: PrefixContains_def L_def)
  let ?n = "\<lambda>x. numOf (bytesOf x)"
  have e: "?n a div 2 ^ (L - pfBits p) = ?n (pfAddr p) div 2 ^ (L - pfBits p)"
    "?n a div 2 ^ (L - pfBits q) = ?n (pfAddr q) div 2 ^ (L - pfBits q)"
    using a by (simp_all add: PrefixContains_def L_def)
  show "PrefixContains p (pfAddr q) \<or> PrefixContains q (pfAddr p)"
  proof (cases "L - pfBits p \<le> L - pfBits q")
    case True
    then have "?n (pfAddr p) div 2 ^ (L - pfBits q) = ?n (pfAddr q) div 2 ^ (L - pfBits q)"
      using div_power_mono [OF e(1) True] e(2) by simp
    then show ?thesis using assms l by (simp add: PrefixContains_def)
  next
    case False
    then have "L - pfBits q \<le> L - pfBits p" by simp
    from div_power_mono [OF e(2) this] e(1) show ?thesis using assms l by (simp add: PrefixContains_def)
  qed
next
  assume "PrefixContains p (pfAddr q) \<or> PrefixContains q (pfAddr p)"
  then show "\<exists>a. PrefixContains p a \<and> PrefixContains q a" using PrefixContains_self assms by blast
qed

lemma zoneOf_withoutZone [simp]: "zoneOf (withoutZone a) = []"
  by (cases a) auto

lemma ParsePrefix_zone: "ParsePrefix s = Some p \<Longrightarrow> zoneOf (pfAddr p) = []"
  by (auto simp: ParsePrefix_def PrefixFrom_def Let_def split: option.splits if_splits)

end
