(* ===== verification/Podman_Config.thy ===== *)
theory Podman_Config
  imports Docker_Config Go_Netip
begin

text \<open>
  \<^verbatim>\<open>internal/podman/config.go\<close> and \<^verbatim>\<open>validateRegistryAuthFile\<close>: decoding the operator's configuration map
  of the Podman backend. The package repeats helpers of the Docker package; the lemmas show that the
  copies agree with the originals, so facts about one apply to the other. Decoding meets the contract
  \<open>map_reader\<close>, so the result does not depend on the order in which Go visits the map.
\<close>

section \<open>Settings\<close>

record IDMapping =
  idContainer :: "32 word"
  idHost :: "32 word"
  idSize :: "32 word"

definition defaultHealthCheckIntervalSecs :: int where
  "defaultHealthCheckIntervalSecs = 10"

record Config =
  pcSocketPath :: string
  pcDefaultImage :: string
  pcNetworkName :: string
  pcHostGatewayIP :: string
  pcImagePullPolicy :: string
  pcStopTimeoutSecs :: int
  pcPidsLimit :: int
  pcEnableBindMounts :: bool
  pcProviderSocket :: string
  pcGatewayGRPCEndpoint :: string
  pcGatewayGRPCPort :: int
  pcSandboxSSHSocketPath :: string
  pcHealthCheckIntervalSecs :: int
  pcUsernsMode :: string
  pcUIDMap :: "IDMapping list"
  pcGIDMap :: "IDMapping list"
  pcGuestTLSCA :: string
  pcGuestTLSCert :: string
  pcGuestTLSKey :: string
  pcHTTPSProxy :: string
  pcNoProxy :: string
  pcProxyAuthFile :: string
  pcProxyAuthAllowInsecure :: "bool option"
  pcProxyConnectByHostname :: "bool option"
  pcProxyCABundle :: string
  pcRegistryAuthFile :: string
  pcEgressCABundle :: string
  pcReconcileDataOwnership :: bool

definition zeroPodmanConfig :: Config where
  "zeroPodmanConfig =
     \<lparr>pcSocketPath = [],
      pcDefaultImage = [],
      pcNetworkName = [],
      pcHostGatewayIP = [],
      pcImagePullPolicy = [],
      pcStopTimeoutSecs = 0,
      pcPidsLimit = 0,
      pcEnableBindMounts = False,
      pcProviderSocket = [],
      pcGatewayGRPCEndpoint = [],
      pcGatewayGRPCPort = 0,
      pcSandboxSSHSocketPath = [],
      pcHealthCheckIntervalSecs = 0,
      pcUsernsMode = [],
      pcUIDMap = [],
      pcGIDMap = [],
      pcGuestTLSCA = [],
      pcGuestTLSCert = [],
      pcGuestTLSKey = [],
      pcHTTPSProxy = [],
      pcNoProxy = [],
      pcProxyAuthFile = [],
      pcProxyAuthAllowInsecure = None,
      pcProxyConnectByHostname = None,
      pcProxyCABundle = [],
      pcRegistryAuthFile = [],
      pcEgressCABundle = [],
      pcReconcileDataOwnership = False\<rparr>"

datatype userns_error = EmptyParameters | UnexpectedParameters string | UnsupportedMode string

datatype idmap_error = NotAnArray | EntryNotString | EntryShape nat | EntryNumber nat | EntrySizeZero nat

datatype registry_file_error = RegistryNotClean | RegistryNotRegular | RegistryUnreadable

datatype podman_error =
    PUnsupportedField string
  | PInvalidField string
  | PGatewayNotIP
  | PGuestTLS tls_error
  | PRegistryFile registry_file_error
  | PEgressCA egress_error
  | PProxy proxy_error
  | POutOfRange
  | PBadPullPolicy
  | PUserns userns_error
  | PPrivateNeedsMaps
  | PMapsNeedPrivate
  | PSocketNotClean
  | PSSHSocketPath
  | PSocketUnavailable
  | PNoSocket
  | PClient string

section \<open>Reading values\<close>

fun stringValue :: "anyval \<Rightarrow> unit + string" where
  "stringValue (AString s) = Inr (TrimSpace s)"
| "stringValue _ = Inl ()"

definition nonEmptyProxyStringP :: "anyval \<Rightarrow> unit + string" where
  "nonEmptyProxyStringP v = bindR (stringValue v) (\<lambda>s. if s = [] then Inl () else Inr s)"

fun boolValue :: "anyval \<Rightarrow> unit + bool" where
  "boolValue (ABool b) = Inr b"
| "boolValue _ = Inl ()"

fun optionalBoolValue :: "anyval \<Rightarrow> unit + bool option" where
  "optionalBoolValue (ABool b) = Inr (Some b)"
| "optionalBoolValue _ = Inl ()"

fun int64Value :: "anyval \<Rightarrow> unit + int" where
  "int64Value (AInt n) = Inr n"
| "int64Value (AInt64 n) = Inr n"
| "int64Value (AUint64 n) = (if maxInt64 < n then Inl () else Inr n)"
| "int64Value (AFloat f) = (if \<not> fWhole f \<or> fExceedsInt64 f then Inl () else Inr (toInt64 f))"
| "int64Value _ = Inl ()"

definition intValue :: "anyval \<Rightarrow> unit + int" where
  "intValue v =
     (case int64Value v of
        Inl _ \<Rightarrow> Inl ()
      | Inr n \<Rightarrow> if maxInt64 < n \<or> n < minInt64 then Inl () else Inr n)"

text \<open>The loops count entries from zero; \<open>i\<close> is that count.\<close>

fun mapEntries :: "anyval list \<Rightarrow> idmap_error + string list" where
  "mapEntries [] = Inr []"
| "mapEntries (v # vs) =
     (case v of
        AString s \<Rightarrow> bindR (mapEntries vs) (\<lambda>ss. Inr (s # ss))
      | _ \<Rightarrow> Inl EntryNotString)"

definition mapEntry :: "nat \<Rightarrow> string \<Rightarrow> idmap_error + IDMapping" where
  "mapEntry i entry =
     (case splitChar (CHR '':'') entry of
        [a, b, c] \<Rightarrow>
          (case (ParseUint 32 a, ParseUint 32 b, ParseUint 32 c) of
             (Some x, Some y, Some z) \<Rightarrow>
               if z = 0 then Inl (EntrySizeZero i)
               else Inr \<lparr>idContainer = of_nat x, idHost = of_nat y, idSize = of_nat z\<rparr>
           | _ \<Rightarrow> Inl (EntryNumber i))
      | _ \<Rightarrow> Inl (EntryShape i))"

fun mapAll :: "nat \<Rightarrow> string list \<Rightarrow> idmap_error + IDMapping list" where
  "mapAll i [] = Inr []"
| "mapAll i (e # es) = bindR (mapEntry i e) (\<lambda>m. bindR (mapAll (i + 1) es) (\<lambda>ms. Inr (m # ms)))"

definition idMapListValue :: "anyval \<Rightarrow> idmap_error + IDMapping list" where
  "idMapListValue v =
     (case v of
        AStrings ss \<Rightarrow> mapAll 0 ss
      | AList vs \<Rightarrow> bindR (mapEntries vs) (mapAll 0)
      | _ \<Rightarrow> Inl NotAnArray)"

definition canonicalUsernsMode :: "string \<Rightarrow> userns_error + string" where
  "canonicalUsernsMode input =
     (if input = [] then Inr []
      else
        (case Cut input (CHR '':'') of (mode0, params, hasParams) \<Rightarrow>
           let mode = ToLower mode0 in
           if mode = ''auto'' \<or> mode = ''keep-id'' then
             (if hasParams \<and> TrimSpace params = [] then Inl EmptyParameters
              else Inr (if hasParams then mode @ '':'' @ params else mode))
           else if mode = ''host'' \<or> mode = ''nomap'' \<or> mode = ''no-map'' \<or> mode = ''private'' then
             (if hasParams then Inl (UnexpectedParameters mode)
              else Inr (if mode = ''nomap'' then ''no-map'' else mode))
           else Inl (UnsupportedMode mode)))"

section \<open>Checks\<close>

fun countTLSP :: "string list \<Rightarrow> nat \<Rightarrow> tls_error + nat" where
  "countTLSP [] configured = Inr configured"
| "countTLSP (p # ps) configured =
     (if TrimSpace p = [] then countTLSP ps configured
      else if \<not> IsAbs p \<or> Clean p \<noteq> p then Inl TLSPathNotClean
      else countTLSP ps (configured + 1))"

definition validateGuestTLSPathsP :: "string \<Rightarrow> string \<Rightarrow> string \<Rightarrow> tls_error + unit" where
  "validateGuestTLSPathsP ca cert key =
     bindR (countTLSP [ca, cert, key] 0) (\<lambda>configured.
       if configured \<noteq> 0 \<and> configured \<noteq> 3 then Inl TLSIncomplete else Inr ())"

definition validateEgressCABundleP :: "host_os \<Rightarrow> crypto_lib \<Rightarrow> string \<Rightarrow> egress_error + unit" where
  "validateEgressCABundleP os L path =
     (if path = [] then Inr ()
      else if \<not> IsAbs path \<or> Clean path \<noteq> path then Inl EgressNotClean
      else (case Stat os path of
              Inl _ \<Rightarrow> Inl EgressNotRegular
            | Inr info \<Rightarrow>
                if \<not> fiIsRegular info \<or> 1048576 < fiSize info then Inl EgressNotRegular
                else (case ReadFile os path of
                        Inl _ \<Rightarrow> Inl EgressUnreadable
                      | Inr body \<Rightarrow>
                          (case AppendPEM L body of Inl e \<Rightarrow> Inl (EgressInvalid e) | Inr _ \<Rightarrow> Inr ()))))"

definition validateRegistryAuthFile :: "host_os \<Rightarrow> string \<Rightarrow> registry_file_error + unit" where
  "validateRegistryAuthFile os path =
     (if TrimSpace path = [] then Inr ()
      else if \<not> IsAbs path \<or> Clean path \<noteq> path then Inl RegistryNotClean
      else (case Stat os path of
              Inl _ \<Rightarrow> Inl RegistryNotRegular
            | Inr info \<Rightarrow>
                if \<not> fiIsRegular info \<or> 1048576 < fiSize info then Inl RegistryNotRegular
                else (case OpenFile os path of Inl _ \<Rightarrow> Inl RegistryUnreadable | Inr _ \<Rightarrow> Inr ())))"

definition proxySecureP :: "Config \<Rightarrow> proxy_error + bool" where
  "proxySecureP cfg =
     (if pcHTTPSProxy cfg = [] then Inr False
      else (case urlParse (pcHTTPSProxy cfg) of
              None \<Rightarrow> Inl BadProxyURL
            | Some u \<Rightarrow>
                if Hostname u = [] \<or> Port u = [] \<or> uHasUser u \<or> uScheme u \<noteq> ''http'' \<and> uScheme u \<noteq> ''https''
                then Inl BadProxyURL
                else Inr (uScheme u = ''https'')))"

definition checkAuthP :: "host_os \<Rightarrow> Config \<Rightarrow> bool \<Rightarrow> proxy_error + unit" where
  "checkAuthP os cfg secure =
     (if pcProxyAuthFile cfg \<noteq> [] then
        (if \<not> IsAbs (pcProxyAuthFile cfg) \<or> Clean (pcProxyAuthFile cfg) \<noteq> pcProxyAuthFile cfg then Inl AuthFileNotClean
         else if pcHTTPSProxy cfg = [] then Inl AuthFileNeedsProxy
         else if \<not> secure \<and> pcProxyAuthAllowInsecure cfg \<noteq> Some True then Inl AuthFileInsecure
         else (case ReadFile os (pcProxyAuthFile cfg) of
                 Inl _ \<Rightarrow> Inl AuthFileUnreadable
               | Inr body \<Rightarrow>
                   if 65536 < length body then Inl AuthFileUnreadable
                   else (case Cut (TrimSpace body) (CHR '':'') of (username, password, ok) \<Rightarrow>
                           if \<not> ok \<or> TrimSpace username = [] \<or> password = [] then Inl AuthFileMalformed
                           else Inr ())))
      else if pcProxyAuthAllowInsecure cfg \<noteq> None then Inl InsecureNeedsAuthFile
      else Inr ())"

definition checkBundleP :: "host_os \<Rightarrow> crypto_lib \<Rightarrow> Config \<Rightarrow> proxy_error + unit" where
  "checkBundleP os L cfg =
     (if pcProxyCABundle cfg \<noteq> [] then
        (if \<not> IsAbs (pcProxyCABundle cfg) \<or> Clean (pcProxyCABundle cfg) \<noteq> pcProxyCABundle cfg then Inl CABundleNotClean
         else if pcHTTPSProxy cfg = [] then Inl CABundleNeedsProxy
         else (case ReadFile os (pcProxyCABundle cfg) of
                 Inl _ \<Rightarrow> Inl CABundleUnreadable
               | Inr body \<Rightarrow> if \<not> appendCertsFromPEM L body then Inl CABundleEmpty else Inr ()))
      else Inr ())"

definition validateProxyConfig :: "host_os \<Rightarrow> crypto_lib \<Rightarrow> Config \<Rightarrow> proxy_error + unit" where
  "validateProxyConfig os L cfg =
     bindR (proxySecureP cfg) (\<lambda>secure.
     bindR (failIf (pcNoProxy cfg \<noteq> [] \<and> pcHTTPSProxy cfg = []) NoProxyNeedsProxy) (\<lambda>_.
     bindR (checkAuthP os cfg secure) (\<lambda>_.
     bindR (failIf (pcProxyConnectByHostname cfg \<noteq> None \<and> pcHTTPSProxy cfg = []) ByHostnameNeedsProxy) (\<lambda>_.
     checkBundleP os L cfg))))"

section \<open>ConfigFromMap\<close>

definition setP :: "string \<Rightarrow> 'x + 'v \<Rightarrow> ('v \<Rightarrow> Config) \<Rightarrow> podman_error + Config" where
  "setP key r f = (case r of Inl _ \<Rightarrow> Inl (PInvalidField key) | Inr v \<Rightarrow> Inr (f v))"

definition readField :: "Config \<Rightarrow> string \<times> anyval \<Rightarrow> podman_error + Config" where
  "readField cfg kv =
     (let key = fst kv; value = snd kv in
      if key = ''socket_path'' then setP key (stringValue value) (\<lambda>v. cfg\<lparr>pcSocketPath := v\<rparr>)
      else if key = ''default_image'' then setP key (stringValue value) (\<lambda>v. cfg\<lparr>pcDefaultImage := v\<rparr>)
      else if key = ''network_name'' then setP key (stringValue value) (\<lambda>v. cfg\<lparr>pcNetworkName := v\<rparr>)
      else if key = ''host_gateway_ip'' then setP key (stringValue value) (\<lambda>v. cfg\<lparr>pcHostGatewayIP := v\<rparr>)
      else if key = ''guest_tls_ca'' then setP key (stringValue value) (\<lambda>v. cfg\<lparr>pcGuestTLSCA := v\<rparr>)
      else if key = ''guest_tls_cert'' then setP key (stringValue value) (\<lambda>v. cfg\<lparr>pcGuestTLSCert := v\<rparr>)
      else if key = ''guest_tls_key'' then setP key (stringValue value) (\<lambda>v. cfg\<lparr>pcGuestTLSKey := v\<rparr>)
      else if key = ''https_proxy'' then setP key (nonEmptyProxyStringP value) (\<lambda>v. cfg\<lparr>pcHTTPSProxy := v\<rparr>)
      else if key = ''no_proxy'' then setP key (nonEmptyProxyStringP value) (\<lambda>v. cfg\<lparr>pcNoProxy := v\<rparr>)
      else if key = ''proxy_auth_file'' then setP key (nonEmptyProxyStringP value) (\<lambda>v. cfg\<lparr>pcProxyAuthFile := v\<rparr>)
      else if key = ''proxy_auth_allow_insecure'' then setP key (optionalBoolValue value) (\<lambda>v. cfg\<lparr>pcProxyAuthAllowInsecure := v\<rparr>)
      else if key = ''proxy_connect_by_hostname'' then setP key (optionalBoolValue value) (\<lambda>v. cfg\<lparr>pcProxyConnectByHostname := v\<rparr>)
      else if key = ''proxy_ca_bundle'' then setP key (nonEmptyProxyStringP value) (\<lambda>v. cfg\<lparr>pcProxyCABundle := v\<rparr>)
      else if key = ''registry_auth_file'' then setP key (stringValue value) (\<lambda>v. cfg\<lparr>pcRegistryAuthFile := v\<rparr>)
      else if key = ''egress_ca_bundle'' then setP key (stringValue value) (\<lambda>v. cfg\<lparr>pcEgressCABundle := v\<rparr>)
      else if key = ''reconcile_data_ownership'' then setP key (boolValue value) (\<lambda>v. cfg\<lparr>pcReconcileDataOwnership := v\<rparr>)
      else if key = ''image_pull_policy'' then setP key (stringValue value) (\<lambda>v. cfg\<lparr>pcImagePullPolicy := v\<rparr>)
      else if key = ''provider_spiffe_workload_api_socket'' then setP key (stringValue value) (\<lambda>v. cfg\<lparr>pcProviderSocket := v\<rparr>)
      else if key = ''grpc_endpoint'' then setP key (stringValue value) (\<lambda>v. cfg\<lparr>pcGatewayGRPCEndpoint := v\<rparr>)
      else if key = ''sandbox_ssh_socket_path'' then setP key (stringValue value) (\<lambda>v. cfg\<lparr>pcSandboxSSHSocketPath := v\<rparr>)
      else if key = ''stop_timeout_secs'' then setP key (intValue value) (\<lambda>v. cfg\<lparr>pcStopTimeoutSecs := v\<rparr>)
      else if key = ''gateway_port'' then setP key (intValue value) (\<lambda>v. cfg\<lparr>pcGatewayGRPCPort := v\<rparr>)
      else if key = ''sandbox_pids_limit'' then setP key (int64Value value) (\<lambda>v. cfg\<lparr>pcPidsLimit := v\<rparr>)
      else if key = ''enable_bind_mounts'' then setP key (boolValue value) (\<lambda>v. cfg\<lparr>pcEnableBindMounts := v\<rparr>)
      else if key = ''health_check_interval_secs'' then setP key (int64Value value) (\<lambda>v. cfg\<lparr>pcHealthCheckIntervalSecs := v\<rparr>)
      else if key = ''userns'' then setP key (stringValue value) (\<lambda>v. cfg\<lparr>pcUsernsMode := v\<rparr>)
      else if key = ''uidmap'' then setP key (idMapListValue value) (\<lambda>v. cfg\<lparr>pcUIDMap := v\<rparr>)
      else if key = ''gidmap'' then setP key (idMapListValue value) (\<lambda>v. cfg\<lparr>pcGIDMap := v\<rparr>)
      else Inl (PUnsupportedField key))"

definition readLoop :: "Config \<Rightarrow> (string \<times> anyval) list \<Rightarrow> podman_error + Config" where
  "readLoop = foldR readField"

definition checkConfig :: "host_os \<Rightarrow> crypto_lib \<Rightarrow> Config \<Rightarrow> podman_error + Config" where
  "checkConfig os L cfg =
     bindR (failIf (pcHostGatewayIP cfg \<noteq> [] \<and> ParseAddr (pcHostGatewayIP cfg) = None) PGatewayNotIP) (\<lambda>_.
     bindR (wrapE PGuestTLS (validateGuestTLSPathsP (pcGuestTLSCA cfg) (pcGuestTLSCert cfg) (pcGuestTLSKey cfg))) (\<lambda>_.
     bindR (wrapE PRegistryFile (validateRegistryAuthFile os (pcRegistryAuthFile cfg))) (\<lambda>_.
     bindR (wrapE PEgressCA (validateEgressCABundleP os L (pcEgressCABundle cfg))) (\<lambda>_.
     bindR (wrapE PProxy (validateProxyConfig os L cfg)) (\<lambda>_.
     bindR (failIf (pcStopTimeoutSecs cfg < 0 \<or> pcPidsLimit cfg < 0 \<or> pcGatewayGRPCPort cfg < 0 \<or> 65535 < pcGatewayGRPCPort cfg \<or>
              pcHealthCheckIntervalSecs cfg < 0 \<or> maxInt64 div 1000000000 < pcHealthCheckIntervalSecs cfg) POutOfRange) (\<lambda>_.
     bindR (wrapE (\<lambda>_. PBadPullPolicy) (NormalizeImagePullPolicy (pcImagePullPolicy cfg))) (\<lambda>policy.
     bindR (wrapE PUserns (canonicalUsernsMode (pcUsernsMode cfg))) (\<lambda>mode.
     let private = EqualFold mode ''private'' in
     bindR (failIf (private \<and> (pcUIDMap cfg = [] \<or> pcGIDMap cfg = [])) PPrivateNeedsMaps) (\<lambda>_.
     bindR (failIf (\<not> private \<and> (pcUIDMap cfg \<noteq> [] \<or> pcGIDMap cfg \<noteq> [])) PMapsNeedPrivate) (\<lambda>_.
     Inr (cfg\<lparr>pcImagePullPolicy := policy, pcUsernsMode := mode\<rparr>)))))))))))"

definition ConfigFromMapP :: "host_os \<Rightarrow> crypto_lib \<Rightarrow> (string \<times> anyval) list \<Rightarrow> podman_error + Config" where
  "ConfigFromMapP os L values =
     bindR (readLoop (zeroPodmanConfig\<lparr>pcHealthCheckIntervalSecs := defaultHealthCheckIntervalSecs\<rparr>) values) (checkConfig os L)"

section \<open>The copies of the Docker helpers\<close>

lemma stringValue_eq: "stringValue = configString"
  by (rule ext) (case_tac x; simp)

lemma helper_copies:
  "nonEmptyProxyStringP = nonEmptyProxyString" "boolValue = configBool" "int64Value = configInt64" "intValue = configInt"
  "validateGuestTLSPathsP = validateGuestTLSPaths" "validateEgressCABundleP = validateEgressCABundle"
proof -
  show "nonEmptyProxyStringP = nonEmptyProxyString"
    by (rule ext) (simp add: nonEmptyProxyStringP_def nonEmptyProxyString_def stringValue_eq)
  show "boolValue = configBool" by (rule ext) (case_tac x; simp)
  show i: "int64Value = configInt64" by (rule ext) (case_tac x; simp)
  show "intValue = configInt" by (rule ext) (simp add: intValue_def configInt_def i)
  have "countTLSP ps n = countTLS ps n" for ps n by (induction ps arbitrary: n) (auto simp: cleanAbs_def)
  then show "validateGuestTLSPathsP = validateGuestTLSPaths"
    by (intro ext) (simp add: validateGuestTLSPathsP_def validateGuestTLSPaths_def del: countTLSP.simps countTLS.simps)
  show "validateEgressCABundleP = validateEgressCABundle"
    by (intro ext) (auto simp: validateEgressCABundleP_def validateEgressCABundle_def cleanAbs_def split: sum.splits)
qed

section \<open>Order of the map\<close>

definition valAt :: "(anyval \<Rightarrow> 'x + 'v) \<Rightarrow> (string \<Rightarrow> anyval option) \<Rightarrow> string \<Rightarrow> 'v \<Rightarrow> 'v" where
  "valAt rd m key dflt = (case m key of None \<Rightarrow> dflt | Some v \<Rightarrow> (case rd v of Inl _ \<Rightarrow> dflt | Inr x \<Rightarrow> x))"

lemma valAt_upd: "valAt rd (m(k \<mapsto> v)) key d = (if key = k then (case rd v of Inl _ \<Rightarrow> d | Inr x \<Rightarrow> x) else valAt rd m key d)"
  by (simp add: valAt_def)

lemma setP_Inr: "setP key r f = Inr st \<longleftrightarrow> (\<exists>v. r = Inr v \<and> st = f v)"
  by (cases r) (auto simp: setP_def)

lemma isOk_setP: "isOk (setP key r f) = isOk r"
  by (cases r) (auto simp: setP_def)

definition decodeConfig :: "(string \<Rightarrow> anyval option) \<Rightarrow> Config" where
  "decodeConfig m =
     \<lparr>pcSocketPath = valAt stringValue m ''socket_path'' [],
      pcDefaultImage = valAt stringValue m ''default_image'' [],
      pcNetworkName = valAt stringValue m ''network_name'' [],
      pcHostGatewayIP = valAt stringValue m ''host_gateway_ip'' [],
      pcImagePullPolicy = valAt stringValue m ''image_pull_policy'' [],
      pcStopTimeoutSecs = valAt intValue m ''stop_timeout_secs'' 0,
      pcPidsLimit = valAt int64Value m ''sandbox_pids_limit'' 0,
      pcEnableBindMounts = valAt boolValue m ''enable_bind_mounts'' False,
      pcProviderSocket = valAt stringValue m ''provider_spiffe_workload_api_socket'' [],
      pcGatewayGRPCEndpoint = valAt stringValue m ''grpc_endpoint'' [],
      pcGatewayGRPCPort = valAt intValue m ''gateway_port'' 0,
      pcSandboxSSHSocketPath = valAt stringValue m ''sandbox_ssh_socket_path'' [],
      pcHealthCheckIntervalSecs = valAt int64Value m ''health_check_interval_secs'' defaultHealthCheckIntervalSecs,
      pcUsernsMode = valAt stringValue m ''userns'' [],
      pcUIDMap = valAt idMapListValue m ''uidmap'' [],
      pcGIDMap = valAt idMapListValue m ''gidmap'' [],
      pcGuestTLSCA = valAt stringValue m ''guest_tls_ca'' [],
      pcGuestTLSCert = valAt stringValue m ''guest_tls_cert'' [],
      pcGuestTLSKey = valAt stringValue m ''guest_tls_key'' [],
      pcHTTPSProxy = valAt nonEmptyProxyStringP m ''https_proxy'' [],
      pcNoProxy = valAt nonEmptyProxyStringP m ''no_proxy'' [],
      pcProxyAuthFile = valAt nonEmptyProxyStringP m ''proxy_auth_file'' [],
      pcProxyAuthAllowInsecure = valAt optionalBoolValue m ''proxy_auth_allow_insecure'' None,
      pcProxyConnectByHostname = valAt optionalBoolValue m ''proxy_connect_by_hostname'' None,
      pcProxyCABundle = valAt nonEmptyProxyStringP m ''proxy_ca_bundle'' [],
      pcRegistryAuthFile = valAt stringValue m ''registry_auth_file'' [],
      pcEgressCABundle = valAt stringValue m ''egress_ca_bundle'' [],
      pcReconcileDataOwnership = valAt boolValue m ''reconcile_data_ownership'' False\<rparr>"

definition podmanKeys :: "string list" where
  "podmanKeys =
     [''socket_path'',
      ''default_image'',
      ''network_name'',
      ''host_gateway_ip'',
      ''guest_tls_ca'',
      ''guest_tls_cert'',
      ''guest_tls_key'',
      ''https_proxy'',
      ''no_proxy'',
      ''proxy_auth_file'',
      ''proxy_auth_allow_insecure'',
      ''proxy_connect_by_hostname'',
      ''proxy_ca_bundle'',
      ''registry_auth_file'',
      ''egress_ca_bundle'',
      ''reconcile_data_ownership'',
      ''image_pull_policy'',
      ''provider_spiffe_workload_api_socket'',
      ''grpc_endpoint'',
      ''sandbox_ssh_socket_path'',
      ''stop_timeout_secs'',
      ''gateway_port'',
      ''sandbox_pids_limit'',
      ''enable_bind_mounts'',
      ''health_check_interval_secs'',
      ''userns'',
      ''uidmap'',
      ''gidmap'']"

lemma readField_unsupported: "k \<notin> set podmanKeys \<Longrightarrow> readField cfg (k, v) = Inl (PUnsupportedField k)"
  by (simp add: readField_def podmanKeys_def)

lemma readField_decode:
  assumes "readField (decodeConfig m) (k, v) = Inr cfg"
  shows "cfg = decodeConfig (m(k \<mapsto> v))"
proof -
  have "k \<in> set podmanKeys"
    using assms readField_unsupported [of k "decodeConfig m" v] by (cases "k \<in> set podmanKeys") simp_all
  then show ?thesis
    using assms unfolding podmanKeys_def list.set insert_iff empty_iff readField_def Let_def fst_conv snd_conv
    by (elim disjE FalseE, simp_all only: string_neq setP_Inr)
      (auto simp only: decodeConfig_def valAt_upd string_neq sum.case Config.update_convs)
qed

definition goodField :: "string \<times> anyval \<Rightarrow> bool" where
  "goodField kv = isOk (readField zeroPodmanConfig kv)"

lemma readField_ok: "isOk (readField cfg kv) = goodField kv"
  unfolding goodField_def readField_def Let_def by (simp only: if_distrib [of isOk] isOk_setP isOk.simps)

interpretation podman_fields: map_reader readField decodeConfig goodField
  by unfold_locales (rule readField_ok, rule readField_decode)

lemma decodeConfig_empty:
  "decodeConfig Map.empty = zeroPodmanConfig\<lparr>pcHealthCheckIntervalSecs := defaultHealthCheckIntervalSecs\<rparr>"
  by (simp add: decodeConfig_def valAt_def zeroPodmanConfig_def)

lemma ConfigFromMapP_any_order:
  assumes "distinct (map fst vs)" "distinct (map fst vs')" "set vs' = set vs"
  shows "ConfigFromMapP os L vs' = Inr cfg \<longleftrightarrow> list_all goodField vs \<and> checkConfig os L (decodeConfig (map_of vs)) = Inr cfg"
  unfolding ConfigFromMapP_def readLoop_def decodeConfig_empty [symmetric]
  using podman_fields.read_any_order [OF assms] by (simp add: result_iff)

end
