(* ===== verification/Podman_Native.thy ===== *)
theory Podman_Native
  imports Engine Podman_Config "HOL-Library.Char_ord" "HOL-Library.List_Lexorder"
begin

text \<open>
  \<^verbatim>\<open>internal/podman/libpod_create.go\<close>: the adapter that turns a container request of the Engine API into
  one of Podman's own Libpod API, with the endpoint and the TLS settings it is sent to.

  The input records hold every field of the Engine request that the adapter looks at, also those the
  driver never sets. Libpod itself and the HTTP and JSON libraries in front of it are a parameter: the
  answer to a request is a failure of the transport or a status with what decoding the body yields, as
  a function of the requests sent so far. A URL is kept as scheme and host; each request has a fixed path.
\<close>

section \<open>The request of the Engine API\<close>

record bind_options =
  boPropagation :: string
  boNonRecursive :: bool
  boCreateMountpoint :: bool
  boReadOnlyNonRecursive :: bool
  boReadOnlyForceRecursive :: bool

record volume_options =
  voNoCopy :: bool
  voLabels :: "(string \<times> string) list"
  voHasDriverConfig :: bool
  voSubpath :: string

datatype engine_mount_type = EBind | EVolume | ETmpfs | EImage | ECluster | EOther string

record engine_mount =
  emType :: engine_mount_type
  emSource :: string
  emTarget :: string
  emReadOnly :: bool
  emBind :: "bind_options option"
  emVolume :: "volume_options option"
  emTmpfs :: "TmpfsOptions option"

record native_config =
  ngImage :: string
  ngEnv :: "string list"
  ngLabels :: "string \<Rightarrow> string option"
  ngEntrypoint :: "string list"
  ngCmd :: "string list"
  ngUser :: string
  ngWorkingDir :: string
  ngTty :: bool
  ngOpenStdin :: bool
  ngHealthcheck :: "HealthConfig option"

text \<open>\<open>nhPortBindings\<close> and \<open>nhTmpfs\<close> are maps in iteration order.\<close>

record native_host =
  nhPrivileged :: bool
  nhDevices :: "string list"
  nhVolumesFrom :: "string list"
  nhDeviceRequests :: "DeviceRequest list"
  nhSecurityOpt :: "string list"
  nhExtraHosts :: "string list"
  nhCapDrop :: "string list"
  nhCapAdd :: "string list"
  nhNetworkMode :: string
  nhShmSize :: int
  nhMemory :: int
  nhPidsLimit :: "int option"
  nhNanoCPUs :: int
  nhPortBindings :: "((16 word \<times> string) \<times> PortBinding list) list"
  nhBinds :: "string list"
  nhMounts :: "engine_mount list"
  nhTmpfs :: "(string \<times> string) list"

record native_options =
  naConfig :: "native_config option"
  naHost :: "native_host option"
  naNetworking :: "(string \<times> string list option) list option"
  naName :: string

section \<open>The request of the Libpod API\<close>

record nativeIDMappings =
  nmHostUID :: bool
  nmHostGID :: bool
  nmAuto :: bool
  nmUIDMap :: "IDMapping list"
  nmGIDMap :: "IDMapping list"

record nativeMount =
  nmType :: string
  nmSource :: string
  nmDestination :: string
  nmOptions :: "string list"

record nativeVolume =
  nvName :: string
  nvDest :: string
  nvOptions :: "string list"

record nativePortMapping =
  npHostIP :: string
  npHostPort :: "16 word"
  npContainerPort :: "16 word"
  npProtocol :: string

record native_resources =
  nrMemory :: "int option"
  nrPids :: "int option"
  nrCPU :: "(int \<times> int) option"

record nativeSpec =
  nsImage :: string
  nsName :: string
  nsEnv :: "string \<Rightarrow> string option"
  nsLabels :: "string \<Rightarrow> string option"
  nsEntrypoint :: "string list"
  nsCommand :: "string list"
  nsUser :: string
  nsWorkDir :: string
  nsTerminal :: bool
  nsStdin :: bool
  nsUserNS :: "string \<times> string option"
  nsIDMappings :: "nativeIDMappings option"
  nsMounts :: "nativeMount list"
  nsVolumes :: "nativeVolume list"
  nsDevices :: "string list"
  nsHostAdd :: "string list"
  nsCapDrop :: "string list"
  nsCapAdd :: "string list"
  nsNoNewPrivileges :: bool
  nsNetMode :: string
  nsNetworks :: "(string \<times> string list) list"
  nsHealthcheck :: "HealthConfig option"
  nsResources :: native_resources
  nsPortMappings :: "nativePortMapping list"
  nsShmSize :: "int option"

datatype native_error =
    NeedsConfig
  | NeedsUsernsMode
  | PrivilegedUnsupported
  | HostDevicesUnsupported
  | NotCDI string
  | NoCDIDevices
  | EmptyCDIDevice
  | SecurityOptUnsupported string
  | BadHostPort string
  | BadUsernsMode string
  | UsernsParameters string
  | AutoWithMaps
  | PrivateMapsMismatch
  | MapsWithoutPrivate
  | IDMapSizeZero
  | IDMapRange
  | BadBind string
  | MountUnsupported string
  | BadTmpfsOption "string list"
  | VolumeSubpath string
  | VolumeOptionUnsupported
  | BadEndpoint
  | EndpointScheme string
  | TLSKeyPair os_error
  | TLSReadCA os_error
  | TLSNoCertificates
  | Transport os_error
  | BadStatus int string
  | BadBody os_error
  | EmptyID
  | BlackholeUnsupported
  | RetriesExhausted
  | NotInternal
  | NoSubnets
  | InvalidGateway
  | NoBlackholeRoute
  | NoSubnetAvailable

section \<open>Translation of parts\<close>

definition valueOrZero :: "int option \<Rightarrow> int" where
  "valueOrZero v = (case v of None \<Rightarrow> 0 | Some n \<Rightarrow> n)"

fun deviceIDs :: "string list \<Rightarrow> native_error + string list" where
  "deviceIDs [] = Inr []"
| "deviceIDs (x # xs) =
     (if TrimSpace x = [] then Inl EmptyCDIDevice
      else bindR (deviceIDs xs) (\<lambda>ys. Inr (TrimSpace x # ys)))"

fun nativeDevices :: "DeviceRequest list \<Rightarrow> native_error + string list" where
  "nativeDevices [] = Inr []"
| "nativeDevices (r # rs) =
     (if drDriver r \<noteq> ''cdi'' then Inl (NotCDI (drDriver r))
      else if drDeviceIDs r = [] then Inl NoCDIDevices
      else bindR (deviceIDs (drDeviceIDs r)) (\<lambda>ds. bindR (nativeDevices rs) (\<lambda>rest. Inr (ds @ rest))))"

definition nativeEnv :: "string list \<Rightarrow> string \<Rightarrow> string option" where
  "nativeEnv items = foldl (\<lambda>m item. case Cut item (CHR ''='') of (k, v, ok) \<Rightarrow> m(k \<mapsto> if ok then v else [])) Map.empty items"

fun nativeSecurity :: "string list \<Rightarrow> bool \<Rightarrow> native_error + bool" where
  "nativeSecurity [] nnp = Inr nnp"
| "nativeSecurity (x # xs) nnp =
     (if x = ''no-new-privileges:true'' then nativeSecurity xs True else Inl (SecurityOptUnsupported x))"

definition nativeResources :: "native_host \<Rightarrow> native_resources" where
  "nativeResources host =
     \<lparr>nrMemory = (if 0 < nhMemory host then Some (nhMemory host) else None),
      nrPids = (if 0 < valueOrZero (nhPidsLimit host) then Some (valueOrZero (nhPidsLimit host)) else None),
      nrCPU = (if 0 < nhNanoCPUs host then Some (nhNanoCPUs host div 10000, 100000) else None)\<rparr>"

definition nativePort :: "16 word \<times> string \<Rightarrow> PortBinding \<Rightarrow> native_error + nativePortMapping" where
  "nativePort port b =
     (if pbHostPort b \<noteq> [] then
        (case ParseUint 16 (pbHostPort b) of
           None \<Rightarrow> Inl (BadHostPort (pbHostPort b))
         | Some n \<Rightarrow> Inr \<lparr>npHostIP = pbHostIP b, npHostPort = of_nat n, npContainerPort = fst port, npProtocol = snd port\<rparr>)
      else Inr \<lparr>npHostIP = pbHostIP b, npHostPort = 0, npContainerPort = fst port, npProtocol = snd port\<rparr>)"

fun nativePorts :: "((16 word \<times> string) \<times> PortBinding list) list \<Rightarrow> native_error + nativePortMapping list" where
  "nativePorts [] = Inr []"
| "nativePorts ((port, bs) # rest) =
     bindR (mapR (nativePort port) bs) (\<lambda>ms. bindR (nativePorts rest) (\<lambda>ns. Inr (ms @ ns)))"

text \<open>The sums are computed with 64 bits, where they cannot wrap around.\<close>

fun validateIDMap :: "IDMapping list \<Rightarrow> native_error + unit" where
  "validateIDMap [] = Inr ()"
| "validateIDMap (m # ms) =
     (if idSize m = 0 then Inl IDMapSizeZero
      else if (ucast (idContainer m) + ucast (idSize m) :: 64 word) > 2 ^ 32 \<or>
              (ucast (idHost m) + ucast (idSize m) :: 64 word) > 2 ^ 32 then Inl IDMapRange
      else validateIDMap ms)"

definition nativeUserns :: "string \<Rightarrow> IDMapping list \<Rightarrow> IDMapping list \<Rightarrow> native_error + (string \<times> string option) \<times> nativeIDMappings option" where
  "nativeUserns usernsMode uidMap gidMap =
     (case Cut usernsMode (CHR '':'') of (mode, v, hasValue) \<Rightarrow>
        bindR (failIf (mode \<noteq> ''private'' \<and> mode \<noteq> ''auto'' \<and> mode \<noteq> ''host'' \<and> mode \<noteq> ''keep-id'' \<and> mode \<noteq> ''no-map'') (BadUsernsMode mode)) (\<lambda>_.
        bindR (failIf ((mode = ''host'' \<or> mode = ''no-map'') \<and> hasValue) (UsernsParameters mode)) (\<lambda>_.
        bindR (failIf (mode = ''auto'' \<and> (uidMap \<noteq> [] \<or> gidMap \<noteq> [])) AutoWithMaps) (\<lambda>_.
        bindR (if mode = ''private''
               then failIf (uidMap = [] \<or> gidMap = [] \<or> length uidMap \<noteq> length gidMap) PrivateMapsMismatch
               else failIf (uidMap \<noteq> [] \<or> gidMap \<noteq> []) MapsWithoutPrivate) (\<lambda>_.
        bindR (validateIDMap uidMap) (\<lambda>_.
        bindR (validateIDMap gidMap) (\<lambda>_.
        Inr ((mode, if hasValue then Some v else None),
             if mode = ''auto'' \<or> mode = ''private''
             then Some \<lparr>nmHostUID = False, nmHostGID = False, nmAuto = (mode = ''auto''), nmUIDMap = uidMap, nmGIDMap = gidMap\<rparr>
             else None))))))))"

text \<open>A bind becomes a mount when its source is a path, and a named volume otherwise.\<close>

definition nativeBind :: "string \<Rightarrow> native_error + (nativeMount + nativeVolume)" where
  "nativeBind bind =
     (let parts = splitChar (CHR '':'') bind in
      if length parts < 2 \<or> 3 < length parts then Inl (BadBind bind)
      else
        (let opts = (if length parts = 3 then splitChar (CHR '','') (parts ! 2) else []) in
         if IsAbs (parts ! 0) then
           Inr (Inl \<lparr>nmType = ''bind'', nmSource = parts ! 0, nmDestination = parts ! 1,
             nmOptions = (if ''rbind'' \<in> set opts then opts else opts @ [''rbind''])\<rparr>)
         else Inr (Inr \<lparr>nvName = parts ! 0, nvDest = parts ! 1, nvOptions = opts\<rparr>)))"

fun mountTypeName :: "engine_mount_type \<Rightarrow> string" where
  "mountTypeName EBind = ''bind''"
| "mountTypeName EVolume = ''volume''"
| "mountTypeName ETmpfs = ''tmpfs''"
| "mountTypeName EImage = ''image''"
| "mountTypeName ECluster = ''cluster''"
| "mountTypeName (EOther s) = s"

definition bindOptions :: "bind_options option \<Rightarrow> native_error + string list" where
  "bindOptions bo =
     (case bo of
        None \<Rightarrow> Inr []
      | Some b \<Rightarrow>
          if boCreateMountpoint b then Inl (MountUnsupported ''create_mountpoint'')
          else if boReadOnlyForceRecursive b then Inl (MountUnsupported ''recursive read-only'')
          else Inr ((if boPropagation b \<noteq> [] then [boPropagation b] else []) @
                    (if boNonRecursive b then [''bind-nonrecursive''] else []) @
                    (if boReadOnlyNonRecursive b then [''ro''] else [])))"

fun octStr :: "nat \<Rightarrow> string" where
  "octStr n = (if n < 8 then [char_of (48 + n)] else octStr (n div 8) @ [char_of (48 + n mod 8)])"

declare octStr.simps [simp del]

fun tmpfsPairs :: "string list list \<Rightarrow> native_error + string list" where
  "tmpfsPairs [] = Inr []"
| "tmpfsPairs (pair # rest) =
     (case pair of
        [a] \<Rightarrow> bindR (tmpfsPairs rest) (\<lambda>xs. Inr (a # xs))
      | [a, b] \<Rightarrow> bindR (tmpfsPairs rest) (\<lambda>xs. Inr ((a @ ''='' @ b) # xs))
      | _ \<Rightarrow> Inl (BadTmpfsOption pair))"

definition tmpfsOptions :: "TmpfsOptions option \<Rightarrow> native_error + string list" where
  "tmpfsOptions t =
     (case t of
        None \<Rightarrow> Inr [''rw'']
      | Some o' \<Rightarrow>
          bindR (tmpfsPairs (toOptions o')) (\<lambda>xs.
          Inr ((if 0 < toSizeBytes o' then [''size='' @ Itoa (toSizeBytes o')] else []) @
               (if 0 < toMode o' then [''mode='' @ octStr (unat (toMode o'))] else []) @ xs)))"

definition translateNativeMount :: "engine_mount \<Rightarrow> native_error + nativeMount" where
  "translateNativeMount m =
     (let ro = (if emReadOnly m then [''ro''] else []);
          mk = (\<lambda>opts. \<lparr>nmType = mountTypeName (emType m), nmSource = emSource m, nmDestination = emTarget m, nmOptions = ro @ opts\<rparr>) in
      (case emType m of
         EBind \<Rightarrow> bindR (bindOptions (emBind m)) (\<lambda>opts. Inr (mk (''rbind'' # opts)))
       | ETmpfs \<Rightarrow> bindR (tmpfsOptions (emTmpfs m)) (\<lambda>opts. Inr (mk opts))
       | _ \<Rightarrow> Inl (MountUnsupported (mountTypeName (emType m)))))"

definition translateNativeVolume :: "engine_mount \<Rightarrow> native_error + nativeVolume" where
  "translateNativeVolume m =
     bindR (case emVolume m of
              None \<Rightarrow> Inr ()
            | Some v \<Rightarrow>
                if voSubpath v \<noteq> [] then Inl (VolumeSubpath (voSubpath v))
                else failIf (voNoCopy v \<or> voLabels v \<noteq> [] \<or> voHasDriverConfig v) VolumeOptionUnsupported) (\<lambda>_.
     Inr \<lparr>nvName = emSource m, nvDest = emTarget m, nvOptions = [if emReadOnly m then ''ro'' else ''rw'']\<rparr>)"

definition nativeEngineMount :: "engine_mount \<Rightarrow> native_error + (nativeMount + nativeVolume)" where
  "nativeEngineMount m =
     (if emType m = EVolume then bindR (translateNativeVolume m) (\<lambda>v. Inr (Inr v))
      else bindR (translateNativeMount m) (\<lambda>x. Inr (Inl x)))"

definition nativeTmpfs :: "(string \<times> string) list \<Rightarrow> nativeMount list" where
  "nativeTmpfs tmpfs =
     map (\<lambda>t. \<lparr>nmType = ''tmpfs'', nmSource = ''tmpfs'', nmDestination = t, nmOptions = splitChar (CHR '','') (at (map_of tmpfs) t)\<rparr>)
       (sort (map fst tmpfs))"

fun mountsOf :: "('a + 'b) list \<Rightarrow> 'a list" where
  "mountsOf [] = []"
| "mountsOf (x # xs) = (case x of Inl a \<Rightarrow> a # mountsOf xs | Inr _ \<Rightarrow> mountsOf xs)"

fun volumesOf :: "('a + 'b) list \<Rightarrow> 'b list" where
  "volumesOf [] = []"
| "volumesOf (x # xs) = (case x of Inl _ \<Rightarrow> volumesOf xs | Inr b \<Rightarrow> b # volumesOf xs)"

definition nativeNetworks :: "(string \<times> string list option) list option \<Rightarrow> (string \<times> string list) list" where
  "nativeNetworks n =
     (case n of None \<Rightarrow> [] | Some es \<Rightarrow> map (\<lambda>(name, al). (name, case al of None \<Rightarrow> [] | Some a \<Rightarrow> a)) es)"

section \<open>buildNativeSpec\<close>

definition buildNativeSpec ::
  "native_options \<Rightarrow> string \<Rightarrow> IDMapping list \<Rightarrow> IDMapping list \<Rightarrow> native_error + nativeSpec" where
  "buildNativeSpec options usernsMode uidMap gidMap =
     (case (naConfig options, naHost options) of
        (Some cfg, Some host) \<Rightarrow>
          bindR (failIf (usernsMode = []) NeedsUsernsMode) (\<lambda>_.
          bindR (failIf (nhPrivileged host) PrivilegedUnsupported) (\<lambda>_.
          bindR (failIf (nhDevices host \<noteq> [] \<or> nhVolumesFrom host \<noteq> []) HostDevicesUnsupported) (\<lambda>_.
          bindR (nativeDevices (nhDeviceRequests host)) (\<lambda>devices.
          bindR (nativeSecurity (nhSecurityOpt host) False) (\<lambda>nnp.
          bindR (nativePorts (nhPortBindings host)) (\<lambda>ports.
          bindR (nativeUserns usernsMode uidMap gidMap) (\<lambda>(userns, idmaps).
          bindR (mapR nativeBind (nhBinds host)) (\<lambda>binds.
          bindR (mapR nativeEngineMount (nhMounts host)) (\<lambda>mounts.
          let networks = nativeNetworks (naNetworking options) in
          Inr \<lparr>nsImage = ngImage cfg, nsName = naName options, nsEnv = nativeEnv (ngEnv cfg), nsLabels = ngLabels cfg,
               nsEntrypoint = ngEntrypoint cfg, nsCommand = ngCmd cfg, nsUser = ngUser cfg, nsWorkDir = ngWorkingDir cfg,
               nsTerminal = ngTty cfg, nsStdin = ngOpenStdin cfg, nsUserNS = userns, nsIDMappings = idmaps,
               nsMounts = mountsOf binds @ mountsOf mounts @ nativeTmpfs (nhTmpfs host),
               nsVolumes = volumesOf binds @ volumesOf mounts, nsDevices = devices, nsHostAdd = nhExtraHosts host,
               nsCapDrop = nhCapDrop host, nsCapAdd = nhCapAdd host, nsNoNewPrivileges = nnp,
               nsNetMode = (if networks \<noteq> [] then ''bridge'' else nhNetworkMode host), nsNetworks = networks,
               nsHealthcheck = ngHealthcheck cfg, nsResources = nativeResources host, nsPortMappings = ports,
               nsShmSize = (if 0 < nhShmSize host then Some (nhShmSize host) else None)\<rparr>)))))))))
      | _ \<Rightarrow> Inl NeedsConfig)"

section \<open>Sending a request\<close>

record nativeNetworkSubnet =
  snSubnet :: string
  snGateway :: string

record nativeNetworkRoute =
  rtDestination :: string
  rtGateway :: string
  rtType :: string

record nativeNetworkSpec =
  nnName :: string
  nnDriver :: string
  nnInternal :: bool
  nnDNSEnabled :: bool
  nnLabels :: "(string \<times> string) list"
  nnSubnets :: "nativeNetworkSubnet list"
  nnRoutes :: "nativeNetworkRoute list"

record nativeNetworkDetails =
  ndInternal :: bool
  ndSubnets :: "nativeNetworkSubnet list"
  ndRoutes :: "nativeNetworkRoute list"

datatype libpod_request =
    LCreateContainer nativeSpec
  | LCreateNetwork nativeNetworkSpec
  | LInspectNetwork string
  | LListNetworks

text \<open>The status and what decoding the body yields for each of the shapes the code asks for:
  an error message with its cause (empty when undecodable), the two spellings of the
  identifier, the description of one network, and the subnets of all networks.\<close>

record http_response =
  rsStatus :: int
  rsMessage :: "string \<times> string"
  rsID :: "os_error + string \<times> string"
  rsDetails :: "os_error + nativeNetworkDetails"
  rsNetworks :: "os_error + nativeNetworkSubnet list list"

record podman_env =
  peOS :: host_os
  peCrypto :: crypto_lib
  peLoadKeyPair :: "string \<Rightarrow> string \<Rightarrow> os_error option"
  peDo :: "libpod_request list \<Rightarrow> os_error + http_response"
  peSum256 :: "string \<Rightarrow> nat list"
  peDial :: "string \<Rightarrow> bool"
  peUid :: "os_error + string"
  peInfo :: "string option"
  peClient :: "string \<Rightarrow> os_error option"

type_synonym ('e, 'a) lop = "(libpod_request list, 'e, 'a) stateful"

definition send :: "podman_env \<Rightarrow> libpod_request \<Rightarrow> (native_error, http_response) lop" where
  "send E r w = (wrapE Transport (peDo E (w @ [r])), w @ [r])"

text \<open>Scheme and host of the endpoint.\<close>

definition nativeEndpoint :: "podman_env \<Rightarrow> string \<Rightarrow> native_error + string \<times> string" where
  "nativeEndpoint E host =
     (case urlParse host of
        None \<Rightarrow> Inl BadEndpoint
      | Some u \<Rightarrow>
          if uScheme u = ''unix'' then Inr (''http'', ''podman'')
          else if uScheme u = ''tcp'' then
            Inr (if TrimSpace (Getenv (peOS E) ''DOCKER_CERT_PATH'') \<noteq> [] then ''https'' else ''http'', uHost u)
          else if uScheme u = ''http'' \<or> uScheme u = ''https'' then Inr (uScheme u, uHost u)
          else Inl (EndpointScheme (uScheme u)))"

record tls_config =
  tlsHasCertificate :: bool
  tlsCustomRoots :: bool
  tlsInsecureSkipVerify :: bool

definition nativeTLSConfigFromEnv :: "podman_env \<Rightarrow> native_error + tls_config" where
  "nativeTLSConfigFromEnv E =
     (let certDir = TrimSpace (Getenv (peOS E) ''DOCKER_CERT_PATH'') in
      if certDir = [] then Inr \<lparr>tlsHasCertificate = False, tlsCustomRoots = False, tlsInsecureSkipVerify = False\<rparr>
      else
        (case peLoadKeyPair E (Join [certDir, ''cert.pem'']) (Join [certDir, ''key.pem'']) of
           Some e \<Rightarrow> Inl (TLSKeyPair e)
         | None \<Rightarrow>
             (case ReadFile (peOS E) (Join [certDir, ''ca.pem'']) of
                Inl e \<Rightarrow> Inl (TLSReadCA e)
              | Inr pem \<Rightarrow>
                  if \<not> appendCertsFromPEM (peCrypto E) pem then Inl TLSNoCertificates
                  else Inr \<lparr>tlsHasCertificate = True, tlsCustomRoots = True,
                            tlsInsecureSkipVerify = (Getenv (peOS E) ''DOCKER_TLS_VERIFY'' = [])\<rparr>)))"

text \<open>The TLS settings of the client; none for a plain connection.\<close>

definition nativeHTTPClient :: "podman_env \<Rightarrow> string \<times> string \<Rightarrow> native_error + tls_config option" where
  "nativeHTTPClient E endpoint =
     (if fst endpoint = ''https'' then bindR (nativeTLSConfigFromEnv E) (\<lambda>c. Inr (Some c)) else Inr None)"

definition statusOK :: "http_response \<Rightarrow> bool" where
  "statusOK r \<longleftrightarrow> \<not> (rsStatus r < 200 \<or> 300 \<le> rsStatus r)"

definition messageOf :: "http_response \<Rightarrow> string" where
  "messageOf r = (case rsMessage r of (message, cause) \<Rightarrow> if message = [] then cause else message)"

definition nativeCreate ::
  "podman_env \<Rightarrow> string \<Rightarrow> string \<Rightarrow> IDMapping list \<Rightarrow> IDMapping list \<Rightarrow> native_options \<Rightarrow> (native_error, string) lop" where
  "nativeCreate E host usernsMode uidMap gidMap options =
     bindW (liftW (buildNativeSpec options usernsMode uidMap gidMap)) (\<lambda>spec.
     bindW (liftW (nativeEndpoint E host)) (\<lambda>endpoint.
     bindW (liftW (nativeHTTPClient E endpoint)) (\<lambda>_.
     bindW (send E (LCreateContainer spec)) (\<lambda>r.
     if \<not> statusOK r then liftW (Inl (BadStatus (rsStatus r) (messageOf r)))
     else
       (case rsID r of
          Inl e \<Rightarrow> liftW (Inl (BadBody e))
        | Inr (upper, lower) \<Rightarrow>
            let cid = (if upper = [] then lower else upper) in
            if cid = [] then liftW (Inl EmptyID) else returnW cid)))))"

end
