(* ===== verification/Podman_Network.thy ===== *)
theory Podman_Network
  imports Podman_Native
begin

text \<open>
  \<^verbatim>\<open>internal/podman/libpod_network.go\<close>: the callbacks that create and verify the network of a sandbox
  through Libpod. A proxied sandbox gets an internal network with a subnet of its own and a blackhole
  route for its gateway; the subnet is searched from a position given by a hash of the name, and the
  creation is retried when Libpod reports that the subnet has been taken in the meantime.

  The lemmas show that an allocated subnet shares no address with any network Libpod listed, that the
  search fails only when nothing is free, that creation ends after 32 attempts, and that a network
  that was created is one the verification accepts.
\<close>

section \<open>Allocation\<close>

definition prefixesOverlap :: "prefix_t \<Rightarrow> prefix_t \<Rightarrow> bool" where
  "prefixesOverlap a b \<longleftrightarrow> PrefixContains a (pfAddr b) \<or> PrefixContains b (pfAddr a)"

fun nextRev :: "nat list \<Rightarrow> nat list" where
  "nextRev [] = []"
| "nextRev (b # bs) = (if b = 255 then 0 # nextRev bs else (b + 1) # bs)"

definition NextV4 :: "nat list \<Rightarrow> nat list" where
  "NextV4 bs = rev (nextRev (rev bs))"

text \<open>The bytes of the base address of a candidate; \<^verbatim>\<open>byte\<close> keeps the low eight bits.\<close>

definition subnetBase :: "int \<Rightarrow> nat list" where
  "subnetBase index = [172, nat ((16 + index div 256) mod 256), nat ((index mod 256) mod 256), 0]"

function subnetLoop :: "prefix_t list \<Rightarrow> int \<Rightarrow> int \<Rightarrow> (nat list) option" where
  "subnetLoop used start i =
     (if 4096 \<le> i then None
      else
        (let base = subnetBase ((start + i) mod 4096) in
         if list_ex (prefixesOverlap (PrefixFrom (V4 base) 24)) used then subnetLoop used start (i + 1)
         else Some base))"
  by pat_completeness auto
termination by (relation "measure (\<lambda>(_, _, i). nat (4096 - i))") auto

declare subnetLoop.simps [simp del]

definition usedPrefixes :: "nativeNetworkSubnet list list \<Rightarrow> prefix_t list" where
  "usedPrefixes networks = List.map_filter (\<lambda>s. ParsePrefix (snSubnet s)) (concat networks)"

definition hashStart :: "nat list \<Rightarrow> int" where
  "hashStart hash = (case hash of a # b # _ \<Rightarrow> 256 * int a + int b | _ \<Rightarrow> 0)"

text \<open>The result is the base address of the subnet and the gateway.\<close>

definition availableNetworkSubnet :: "podman_env \<Rightarrow> string \<Rightarrow> string \<Rightarrow> (native_error, nat list \<times> nat list) lop" where
  "availableNetworkSubnet E host name =
     bindW (liftW (nativeEndpoint E host)) (\<lambda>endpoint.
     bindW (liftW (nativeHTTPClient E endpoint)) (\<lambda>_.
     bindW (send E LListNetworks) (\<lambda>r.
     if \<not> statusOK r then liftW (Inl (BadStatus (rsStatus r) []))
     else
       (case rsNetworks r of
          Inl e \<Rightarrow> liftW (Inl (BadBody e))
        | Inr networks \<Rightarrow>
            (case subnetLoop (usedPrefixes networks) (hashStart (peSum256 E name)) 0 of
               None \<Rightarrow> liftW (Inl NoSubnetAvailable)
             | Some base \<Rightarrow> returnW (base, NextV4 base))))))"

section \<open>Creation\<close>

definition allocationName :: "string \<Rightarrow> nat \<Rightarrow> string" where
  "allocationName name attempt = (if 0 < attempt then name @ ''-retry-'' @ natStr attempt else name)"

definition networkSpec :: "podman_env \<Rightarrow> string \<Rightarrow> string \<Rightarrow> bool \<Rightarrow> (string \<times> string) list \<Rightarrow> nat \<Rightarrow> (native_error, nativeNetworkSpec) lop" where
  "networkSpec E host name internal labels attempt =
     (let spec = \<lparr>nnName = name, nnDriver = ''bridge'', nnInternal = internal, nnDNSEnabled = True, nnLabels = labels,
                  nnSubnets = [], nnRoutes = []\<rparr> in
      if \<not> internal then returnW spec
      else
        bindW (availableNetworkSubnet E host (allocationName name attempt)) (\<lambda>(base, gateway).
        returnW (spec\<lparr>nnSubnets := [\<lparr>snSubnet = v4PrefixString base 24, snGateway = v4String gateway\<rparr>],
                      nnRoutes := [\<lparr>rtDestination = v4PrefixString gateway 32, rtGateway = [], rtType = ''blackhole''\<rparr>]\<rparr>)))"

definition takenMessage :: "bool \<Rightarrow> string \<Rightarrow> bool" where
  "takenMessage internal message \<longleftrightarrow> \<not> (\<not> internal \<or> \<not> Contains message ''subnet'' \<or> \<not> Contains message ''used'')"

text \<open>\<open>left\<close> attempts are left of 32.\<close>

fun createAttempts :: "podman_env \<Rightarrow> string \<Rightarrow> string \<Rightarrow> bool \<Rightarrow> (string \<times> string) list \<Rightarrow> nat \<Rightarrow> (native_error, unit) lop" where
  "createAttempts E host name internal labels 0 = liftW (Inl RetriesExhausted)"
| "createAttempts E host name internal labels (Suc left) =
     bindW (networkSpec E host name internal labels (31 - left)) (\<lambda>spec.
     bindW (send E (LCreateNetwork spec)) (\<lambda>r.
     if statusOK r then returnW ()
     else
       (let message = ToLower (messageOf r) in
        if internal \<and> Contains message ''route gateway nil'' then liftW (Inl BlackholeUnsupported)
        else if \<not> takenMessage internal message then liftW (Inl (BadStatus (rsStatus r) (messageOf r)))
        else createAttempts E host name internal labels left)))"

definition nativeNetworkCreateP :: "podman_env \<Rightarrow> string \<Rightarrow> string \<Rightarrow> bool \<Rightarrow> (string \<times> string) list \<Rightarrow> (native_error, unit) lop" where
  "nativeNetworkCreateP E host name internal labels =
     bindW (liftW (nativeEndpoint E host)) (\<lambda>endpoint.
     bindW (liftW (nativeHTTPClient E endpoint)) (\<lambda>_.
     createAttempts E host name internal labels 32))"

section \<open>Verification\<close>

definition blackholes :: "prefix_t \<Rightarrow> addr \<Rightarrow> nativeNetworkRoute \<Rightarrow> bool" where
  "blackholes pfx gateway route \<longleftrightarrow>
     (case ParsePrefix (rtDestination route) of
        None \<Rightarrow> False
      | Some dst \<Rightarrow>
          EqualFold (rtType route) ''blackhole'' \<and> dst = PrefixFrom gateway (BitLen gateway) \<and> PrefixContains pfx gateway)"

fun verifySubnets :: "nativeNetworkRoute list \<Rightarrow> nativeNetworkSubnet list \<Rightarrow> native_error + unit" where
  "verifySubnets routes [] = Inr ()"
| "verifySubnets routes (s # ss) =
     (case (ParsePrefix (snSubnet s), ParseAddr (snGateway s)) of
        (Some pfx, Some gateway) \<Rightarrow>
          if list_ex (blackholes pfx gateway) routes then verifySubnets routes ss else Inl NoBlackholeRoute
      | _ \<Rightarrow> Inl InvalidGateway)"

definition verifyDetails :: "bool \<Rightarrow> nativeNetworkDetails \<Rightarrow> native_error + unit" where
  "verifyDetails internal d =
     (if internal \<and> \<not> ndInternal d then Inl NotInternal
      else if internal then (if ndSubnets d = [] then Inl NoSubnets else verifySubnets (ndRoutes d) (ndSubnets d))
      else Inr ())"

definition nativeNetworkVerifyP :: "podman_env \<Rightarrow> string \<Rightarrow> string \<Rightarrow> bool \<Rightarrow> (native_error, unit) lop" where
  "nativeNetworkVerifyP E host name internal =
     bindW (liftW (nativeEndpoint E host)) (\<lambda>endpoint.
     bindW (liftW (nativeHTTPClient E endpoint)) (\<lambda>_.
     bindW (send E (LInspectNetwork name)) (\<lambda>r.
     if \<not> statusOK r then liftW (Inl (BadStatus (rsStatus r) []))
     else
       (case rsDetails r of
          Inl e \<Rightarrow> liftW (Inl (BadBody e))
        | Inr details \<Rightarrow> liftW (verifyDetails internal details)))))"

section \<open>The search\<close>

lemma subnetLoop_Some:
  "subnetLoop used start i = Some base \<Longrightarrow> \<exists>j. i \<le> j \<and> j < 4096 \<and> base = subnetBase ((start + j) mod 4096) \<and>
     \<not> list_ex (prefixesOverlap (PrefixFrom (V4 base) 24)) used"
proof (induction used start i rule: subnetLoop.induct)
  case (1 used start i)
  show ?case
  proof (cases "4096 \<le> i \<or> \<not> list_ex (prefixesOverlap (PrefixFrom (V4 (subnetBase ((start + i) mod 4096))) 24)) used")
    case True
    then show ?thesis using "1.prems" by (subst (asm) subnetLoop.simps) (auto simp: Let_def split: if_splits)
  next
    case False
    then have "subnetLoop used start (i + 1) = Some base"
      using "1.prems" by (subst (asm) subnetLoop.simps) (simp add: Let_def)
    then obtain j where "i + 1 \<le> j" "j < 4096" "base = subnetBase ((start + j) mod 4096)"
      "\<not> list_ex (prefixesOverlap (PrefixFrom (V4 base) 24)) used"
      using "1.IH" False by auto
    then show ?thesis by (intro exI [of _ j]) simp
  qed
qed

lemma subnetLoop_None:
  "subnetLoop used start i = None \<Longrightarrow> i \<le> j \<Longrightarrow> j < 4096 \<Longrightarrow>
     list_ex (prefixesOverlap (PrefixFrom (V4 (subnetBase ((start + j) mod 4096))) 24)) used"
proof (induction used start i rule: subnetLoop.induct)
  case (1 used start i)
  then have c: "list_ex (prefixesOverlap (PrefixFrom (V4 (subnetBase ((start + i) mod 4096))) 24)) used"
    "subnetLoop used start (i + 1) = None"
    by (subst (asm) (2) subnetLoop.simps, simp add: Let_def split: if_splits)+
  then show ?case using 1 by (cases "i = j") auto
qed

lemma subnetBase_ok:
  assumes "0 \<le> k" "k < 4096"
  shows "subnetBase k = [172, 16 + nat (k div 256), nat (k mod 256), 0]" "okAddr (V4 (subnetBase k))"
    "NextV4 (subnetBase k) = [172, 16 + nat (k div 256), nat (k mod 256), 1]" "okAddr (V4 (NextV4 (subnetBase k)))"
    "PrefixContains (PrefixFrom (V4 (subnetBase k)) 24) (V4 (NextV4 (subnetBase k)))"
proof -
  have d: "0 \<le> k div 256" "k div 256 < 16" "0 \<le> k mod 256" "k mod 256 < 256" using assms by auto
  have "nat (16 + k div 256) = 16 + nat (k div 256)" using d by simp
  then show b: "subnetBase k = [172, 16 + nat (k div 256), nat (k mod 256), 0]" using d by (simp add: subnetBase_def)
  show n: "NextV4 (subnetBase k) = [172, 16 + nat (k div 256), nat (k mod 256), 1]" by (simp add: b NextV4_def)
  have r: "nat (k div 256) < 16" "nat (k mod 256) < 256" using d by simp_all
  then show "okAddr (V4 (subnetBase k))" unfolding b by simp
  show "okAddr (V4 (NextV4 (subnetBase k)))" using r unfolding n by simp
  show "PrefixContains (PrefixFrom (V4 (subnetBase k)) 24) (V4 (NextV4 (subnetBase k)))"
    unfolding n by (simp add: b PrefixContains_def PrefixFrom_def BitLen_def numOf_def)
qed

text \<open>A subnet is free when it shares no address with a listed one.\<close>

definition freeSubnet :: "nativeNetworkSubnet list list \<Rightarrow> int \<Rightarrow> bool" where
  "freeSubnet nets k \<longleftrightarrow> (\<forall>s \<in> set (concat nets). \<forall>q. ParsePrefix (snSubnet s) = Some q \<longrightarrow>
     \<not> (\<exists>a. PrefixContains q a \<and> PrefixContains (PrefixFrom (V4 (subnetBase k)) 24) a))"

lemma collision_iff: "list_ex (prefixesOverlap (PrefixFrom (V4 (subnetBase k)) 24)) (usedPrefixes nets) \<longleftrightarrow> \<not> freeSubnet nets k"
proof -
  have "prefixesOverlap (PrefixFrom (V4 (subnetBase k)) 24) q \<longleftrightarrow>
      (\<exists>a. PrefixContains q a \<and> PrefixContains (PrefixFrom (V4 (subnetBase k)) 24) a)" if "ParsePrefix s = Some q" for s q
    unfolding prefixesOverlap_def
    using overlap_iff_common [of "PrefixFrom (V4 (subnetBase k)) 24" q] ParsePrefix_zone [OF that]
    by (auto simp: PrefixFrom_def)
  then show ?thesis
    by (force simp: list_ex_iff usedPrefixes_def map_filter_def freeSubnet_def)
qed

text \<open>
  C16. The subnet of a new network is free: if Libpod lists its networks, the search returns a subnet of
  256 addresses below 172.16.0.0/12 that shares no address with a listed subnet, together with a
  gateway inside it; and it fails only when none of the 4096 subnets is free.
\<close>

theorem allocated_subnet_free:
  assumes "nativeEndpoint E host = Inr ep" and "nativeHTTPClient E ep = Inr tls"
    and "peDo E (w @ [LListNetworks]) = Inr r" and "statusOK r" and "rsNetworks r = Inr nets"
  shows "case fst (availableNetworkSubnet E host name w) of
      Inr (base, gateway) \<Rightarrow> \<exists>k. 0 \<le> k \<and> k < 4096 \<and> freeSubnet nets k \<and>
        base = [172, 16 + nat (k div 256), nat (k mod 256), 0] \<and> PrefixContains (PrefixFrom (V4 base) 24) (V4 gateway) \<and>
        gateway = [172, 16 + nat (k div 256), nat (k mod 256), 1]
    | Inl e \<Rightarrow> e = NoSubnetAvailable \<and> (\<forall>k. 0 \<le> k \<longrightarrow> k < 4096 \<longrightarrow> \<not> freeSubnet nets k)"
proof (cases "subnetLoop (usedPrefixes nets) (hashStart (peSum256 E name)) 0")
  case (Some base)
  then obtain j where j: "base = subnetBase ((hashStart (peSum256 E name) + j) mod 4096)"
    "\<not> list_ex (prefixesOverlap (PrefixFrom (V4 base) 24)) (usedPrefixes nets)"
    using subnetLoop_Some by blast
  define k where "k = (hashStart (peSum256 E name) + j) mod 4096"
  have k: "0 \<le> k" "k < 4096" "freeSubnet nets k" "base = subnetBase k"
    using j collision_iff [of k nets] by (simp_all add: k_def)
  note ok = subnetBase_ok [OF k(1,2)]
  have "fst (availableNetworkSubnet E host name w) = Inr (base, NextV4 base)"
    using assms Some by (simp add: availableNetworkSubnet_def bindW_def liftW_def send_def returnW_def)
  moreover have "\<exists>k. 0 \<le> k \<and> k < 4096 \<and> freeSubnet nets k \<and> base = [172, 16 + nat (k div 256), nat (k mod 256), 0] \<and>
      PrefixContains (PrefixFrom (V4 base) 24) (V4 (NextV4 base)) \<and>
      NextV4 base = [172, 16 + nat (k div 256), nat (k mod 256), 1]"
    using k ok(1,3,5) by (intro exI [of _ k] conjI) (simp_all only:)
  ultimately show ?thesis by (simp only: sum.case prod.case)
next
  case None
  have "\<not> freeSubnet nets k" if k: "0 \<le> k" "k < 4096" for k
  proof -
    define s where "s = hashStart (peSum256 E name)"
    have "(s + (k - s) mod 4096) mod 4096 = k mod 4096" by (simp add: mod_add_right_eq)
    then have "(s + (k - s) mod 4096) mod 4096 = k" using k by simp
    then show ?thesis using subnetLoop_None [OF None, of "(k - s) mod 4096"] collision_iff by (simp add: s_def)
  qed
  with None assms show ?thesis
    by (simp add: availableNetworkSubnet_def bindW_def liftW_def send_def)
qed

section \<open>Creation and verification\<close>

text \<open>What Libpod reports of a network it has created as requested.\<close>

definition detailsOf :: "nativeNetworkSpec \<Rightarrow> nativeNetworkDetails" where
  "detailsOf spec = \<lparr>ndInternal = nnInternal spec, ndSubnets = nnSubnets spec, ndRoutes = nnRoutes spec\<rparr>"

lemma availableNetworkSubnet_Inr:
  assumes "availableNetworkSubnet E host name w = (Inr (base, gateway), w')"
  obtains k where "0 \<le> k" "k < 4096" "base = subnetBase k" "gateway = NextV4 base" "w' = w @ [LListNetworks]"
proof -
  obtain nets where l: "subnetLoop nets (hashStart (peSum256 E name)) 0 = Some base" "gateway = NextV4 base" "w' = w @ [LListNetworks]"
    using assms by (auto simp: availableNetworkSubnet_def result_iff send_def split: if_splits sum.splits option.splits)
  from subnetLoop_Some [OF l(1)] obtain j where "base = subnetBase ((hashStart (peSum256 E name) + j) mod 4096)" by blast
  with l that show thesis by (metis pos_mod_bound pos_mod_sign zero_less_numeral)
qed

lemma networkSpec_verifies:
  assumes "networkSpec E host name internal labels n w = (Inr spec, w')"
  shows "nnName spec = name \<and> nnInternal spec = internal \<and> verifyDetails internal (detailsOf spec) = Inr ()"
proof (cases internal)
  case False
  then show ?thesis using assms by (auto simp: networkSpec_def returnW_def Let_def verifyDetails_def detailsOf_def)
next
  case True
  then obtain base gateway where a: "availableNetworkSubnet E host (allocationName name n) w = (Inr (base, gateway), w')"
    and spec: "spec = \<lparr>nnName = name, nnDriver = ''bridge'', nnInternal = internal, nnDNSEnabled = True, nnLabels = labels,
      nnSubnets = [\<lparr>snSubnet = v4PrefixString base 24, snGateway = v4String gateway\<rparr>],
      nnRoutes = [\<lparr>rtDestination = v4PrefixString gateway 32, rtGateway = [], rtType = ''blackhole''\<rparr>]\<rparr>"
    using assms by (auto simp: networkSpec_def Let_def result_iff split: prod.splits)
  from availableNetworkSubnet_Inr [OF a] obtain k where k: "0 \<le> k" "k < 4096" "base = subnetBase k" "gateway = NextV4 base"
    "w' = w @ [LListNetworks]" by metis
  note ok = subnetBase_ok [OF k(1,2)]
  have "ParsePrefix (v4PrefixString base 24) = Some \<lparr>pfAddr = V4 base, pfBits = 24\<rparr>"
    "ParsePrefix (v4PrefixString gateway 32) = Some \<lparr>pfAddr = V4 gateway, pfBits = 32\<rparr>"
    "ParseAddr (v4String gateway) = Some (V4 gateway)"
    unfolding k(3,4) by (intro ParsePrefix_v4String ParseAddr_v4String ok; simp)+
  then have "verifyDetails internal (detailsOf spec) = Inr ()"
    using ok(5) k(3,4) by (simp add: spec verifyDetails_def detailsOf_def blackholes_def PrefixFrom_def BitLen_def EqualFold_refl)
  then show ?thesis using spec by simp
qed

lemma wrapE_Inl_iff: "wrapE g m = Inl e \<longleftrightarrow> (\<exists>x. m = Inl x \<and> e = g x)"
  by (cases m) auto

lemma endpoint_errors:
  "nativeEndpoint E host \<noteq> Inl RetriesExhausted" "nativeHTTPClient E ep \<noteq> Inl RetriesExhausted"
  by (auto simp: nativeEndpoint_def nativeHTTPClient_def nativeTLSConfigFromEnv_def Let_def bindR_def split: option.splits sum.splits if_splits)

lemma availableNetworkSubnet_run:
  assumes "availableNetworkSubnet E host name w = (r, w')"
  shows "(w' = w \<or> w' = w @ [LListNetworks]) \<and> r \<noteq> Inl RetriesExhausted"
  using assms endpoint_errors [where E = E]
  by (auto simp: availableNetworkSubnet_def bindW_def liftW_def returnW_def send_def wrapE_def
      split: prod.splits sum.splits if_splits option.splits)

lemma networkSpec_run:
  assumes "networkSpec E host name internal labels n w = (r, w')"
  shows "(w' = w \<or> w' = w @ [LListNetworks]) \<and> r \<noteq> Inl RetriesExhausted"
proof (cases internal)
  case False
  then show ?thesis using assms by (auto simp: networkSpec_def returnW_def Let_def)
next
  case True
  obtain r1 w1 where a: "availableNetworkSubnet E host (allocationName name n) w = (r1, w1)" by force
  then show ?thesis using assms True availableNetworkSubnet_run [OF a]
    by (auto simp: networkSpec_def Let_def bindW_def returnW_def split: sum.splits)
qed

text \<open>The trace of a run of the loop, and what it ends with.\<close>

definition boundedRun :: "nat \<Rightarrow> libpod_request list \<Rightarrow> native_error + unit \<Rightarrow> libpod_request list \<Rightarrow> bool" where
  "boundedRun n w r w' \<longleftrightarrow> (\<exists>new. w' = w @ new \<and> length new \<le> 2 * n \<and>
     (r = Inl RetriesExhausted \<longrightarrow> length (filter (\<lambda>q. \<exists>x. q = LCreateNetwork x) new) = n))"

lemma boundedRun_step:
  assumes "boundedRun n w2 r w'" "w2 = w1 @ [LCreateNetwork spec]" "w1 = w \<or> w1 = w @ [LListNetworks]"
  shows "boundedRun (Suc n) w r w'"
proof -
  from assms(1) obtain new where n: "w' = w2 @ new" "length new \<le> 2 * n"
    "r = Inl RetriesExhausted \<longrightarrow> length (filter (\<lambda>q. \<exists>x. q = LCreateNetwork x) new) = n"
    unfolding boundedRun_def by blast
  show ?thesis unfolding boundedRun_def
    using assms(2,3) n by (intro exI [of _ "drop (length w) w1 @ LCreateNetwork spec # new"]) auto
qed

lemma boundedRun_stop:
  assumes "w1 = w \<or> w1 = w @ [LListNetworks]" "w' = w1 \<or> w' = w1 @ [LCreateNetwork spec]" "r \<noteq> Inl RetriesExhausted"
  shows "boundedRun (Suc n) w r w'"
  unfolding boundedRun_def using assms by (intro exI [of _ "drop (length w) w'"]) auto

lemma createAttempts_run:
  "createAttempts E host name internal labels n w = (r, w') \<Longrightarrow> boundedRun n w r w' \<and>
     (r = Inr () \<longrightarrow> (\<exists>w1 spec. w' = w1 @ [LCreateNetwork spec] \<and> nnName spec = name \<and> nnInternal spec = internal \<and>
        verifyDetails internal (detailsOf spec) = Inr ()))"
proof (induction n arbitrary: w)
  case 0
  then show ?case by (auto simp: liftW_def boundedRun_def)
next
  case (Suc n)
  obtain r1 w1 where s: "networkSpec E host name internal labels (31 - n) w = (r1, w1)" by force
  note g = networkSpec_run [OF s]
  show ?case
  proof (cases r1)
    case (Inl e)
    then have "r = Inl e" "w' = w1" using Suc.prems s by (simp_all add: bindW_def)
    then show ?thesis using boundedRun_stop [of w1 w w'] g Inl by simp
  next
    case (Inr spec)
    define w2 where "w2 = w1 @ [LCreateNetwork spec]"
    define ans where "ans = wrapE Transport (peDo E w2)"
    consider (again) "createAttempts E host name internal labels n w2 = (r, w')"
      | (won) "r = Inr ()" "w' = w2" | (lost) e where "r = Inl e" "w' = w2" "e \<noteq> RetriesExhausted"
      using Suc.prems s Inr
      by (auto simp: bindW_def send_def liftW_def returnW_def Let_def w2_def [symmetric] wrapE_def split: sum.splits if_splits)
    then show ?thesis
    proof cases
      case again
      from Suc.IH [OF this] show ?thesis using boundedRun_step [OF _ w2_def, of n r w' w] g by blast
    next
      case won
      then show ?thesis
        using boundedRun_stop [of w1 w w'] g networkSpec_verifies [OF s [unfolded Inr]] by (auto simp: w2_def)
    next
      case lost
      then show ?thesis using boundedRun_stop [of w1 w w'] g by (auto simp: w2_def)
    qed
  qed
qed

text \<open>
  C23. A network that was created is one the verification accepts: when creating an internal network
  succeeds, the last request asked for it under its name, and if Libpod reports the network as it was
  requested, verifying it succeeds.
\<close>

theorem created_network_verifies:
  assumes "nativeNetworkCreateP E host name True labels w = (Inr (), w')"
  shows "\<exists>spec. last w' = LCreateNetwork spec \<and> nnName spec = name \<and> nnInternal spec \<and>
    (\<forall>r. peDo E (w' @ [LInspectNetwork name]) = Inr r \<longrightarrow> statusOK r \<longrightarrow> rsDetails r = Inr (detailsOf spec) \<longrightarrow>
       fst (nativeNetworkVerifyP E host name True w') = Inr ())"
proof -
  obtain ep tls where e: "nativeEndpoint E host = Inr ep" "nativeHTTPClient E ep = Inr tls"
    and c: "createAttempts E host name True labels 32 w = (Inr (), w')"
    using assms by (auto simp: nativeNetworkCreateP_def result_iff)
  from createAttempts_run [OF c] obtain w1 spec where "w' = w1 @ [LCreateNetwork spec]" "nnName spec = name" "nnInternal spec"
    "verifyDetails True (detailsOf spec) = Inr ()" by auto
  then show ?thesis using e
    by (intro exI [of _ spec]) (auto simp: nativeNetworkVerifyP_def bindW_def liftW_def send_def)
qed

text \<open>
  C25. Creating a network ends after at most 32 attempts: at most 64 requests are sent, and giving up
  means that 32 creations were refused.
\<close>

theorem network_creation_bounded:
  assumes "nativeNetworkCreateP E host name internal labels w = (r, w')"
  shows "boundedRun 32 w r w'"
proof (cases "createAttempts E host name internal labels 32 w = (r, w')")
  case True
  then show ?thesis using createAttempts_run by blast
next
  case False
  then have "w' = w" "r \<noteq> Inl RetriesExhausted"
    using assms endpoint_errors [where E = E]
    by (auto simp: nativeNetworkCreateP_def bindW_def liftW_def split: sum.splits)
  then show ?thesis by (simp add: boundedRun_def)
qed

section \<open>A concrete Libpod\<close>

text \<open>Networks occupy the first two subnets; a network that was created is reported as requested.\<close>

definition sampleNets :: "nativeNetworkSubnet list list" where
  "sampleNets = [[\<lparr>snSubnet = ''172.16.0.0/23'', snGateway = ''172.16.0.1''\<rparr>], [\<lparr>snSubnet = ''fd00::/64'', snGateway = []\<rparr>]]"

definition sampleResponse :: http_response where
  "sampleResponse = \<lparr>rsStatus = 200, rsMessage = ([], []), rsID = Inr (''c1'', []), rsDetails = Inl ''eof'', rsNetworks = Inr sampleNets\<rparr>"

definition sampleDo :: "libpod_request list \<Rightarrow> os_error + http_response" where
  "sampleDo w =
     Inr (case rev [s. LCreateNetwork s \<leftarrow> w] of [] \<Rightarrow> sampleResponse | s # _ \<Rightarrow> sampleResponse\<lparr>rsDetails := Inr (detailsOf s)\<rparr>)"

definition samplePodman :: podman_env where
  "samplePodman =
     \<lparr>peOS = exampleOS, peCrypto = exampleLib, peLoadKeyPair = (\<lambda>_ _. None), peDo = sampleDo, peSum256 = (\<lambda>_. [0, 0]),
      peDial = (\<lambda>_. True), peUid = Inr ''1000'', peInfo = None, peClient = (\<lambda>_. None)\<rparr>"

abbreviation sampleHost :: string where
  "sampleHost \<equiv> ''unix:///run/podman.sock''"

lemma sample_endpoint:
  "nativeEndpoint samplePodman sampleHost = Inr (''http'', ''podman'')" "nativeHTTPClient samplePodman (''http'', ''podman'') = Inr None"
  by code_simp+

lemma sample_list: "peDo samplePodman [LListNetworks] = Inr sampleResponse" "statusOK sampleResponse" "rsNetworks sampleResponse = Inr sampleNets"
  by (simp_all add: samplePodman_def sampleDo_def sampleResponse_def statusOK_def)

theorem allocated_subnet_free_witness:
  "fst (availableNetworkSubnet samplePodman sampleHost ''n'' []) = Inr ([172, 16, 2, 0], [172, 16, 2, 1]) \<and>
   (\<exists>k. freeSubnet sampleNets k \<and> [172, 16, 2, 0] = [172, 16 + nat (k div 256), nat (k mod 256), 0])"
proof -
  have r: "fst (availableNetworkSubnet samplePodman sampleHost ''n'' []) = Inr ([172, 16, 2, 0], [172, 16, 2, 1])" by code_simp
  have "peDo samplePodman ([] @ [LListNetworks]) = Inr sampleResponse" by (simp add: sample_list)
  from allocated_subnet_free [OF sample_endpoint this sample_list(2,3), of "''n''"] r show ?thesis by auto
qed

lemma sample_network_run: "case nativeNetworkCreateP samplePodman sampleHost ''n'' True [] [] of (r, w) \<Rightarrow> r = Inr () \<and> length w = 2"
  by code_simp

lemma sample_network_created: "fst (nativeNetworkCreateP samplePodman sampleHost ''n'' True [] []) = Inr ()"
  using sample_network_run by (simp add: case_prod_beta)

lemma sampleDo_inspect:
  assumes "w \<noteq> []" "last w = LCreateNetwork s"
  shows "sampleDo (w @ [LInspectNetwork n]) = Inr (sampleResponse\<lparr>rsDetails := Inr (detailsOf s)\<rparr>)"
proof -
  obtain ws where "w = ws @ [LCreateNetwork s]" using assms by (metis append_butlast_last_id)
  then show ?thesis by (simp add: sampleDo_def)
qed

theorem created_network_verifies_witness:
  "\<exists>w'. nativeNetworkCreateP samplePodman sampleHost ''n'' True [] [] = (Inr (), w') \<and>
     fst (nativeNetworkVerifyP samplePodman sampleHost ''n'' True w') = Inr ()"
proof -
  obtain w' where c: "nativeNetworkCreateP samplePodman sampleHost ''n'' True [] [] = (Inr (), w')"
    using sample_network_created by (cases "nativeNetworkCreateP samplePodman sampleHost ''n'' True [] []") simp
  have "w' \<noteq> []" using sample_network_run unfolding c by auto
  moreover from created_network_verifies [OF c] obtain spec where "last w' = LCreateNetwork spec"
    and v: "\<And>r. peDo samplePodman (w' @ [LInspectNetwork ''n'']) = Inr r \<Longrightarrow> statusOK r \<Longrightarrow> rsDetails r = Inr (detailsOf spec) \<Longrightarrow>
      fst (nativeNetworkVerifyP samplePodman sampleHost ''n'' True w') = Inr ()" by blast
  ultimately have "peDo samplePodman (w' @ [LInspectNetwork ''n'']) = Inr (sampleResponse\<lparr>rsDetails := Inr (detailsOf spec)\<rparr>)"
    using sampleDo_inspect by (simp add: samplePodman_def)
  from v [OF this] c show ?thesis by (simp add: statusOK_def sampleResponse_def)
qed

theorem network_creation_bounded_witness:
  "boundedRun 32 [] (Inr ()) (snd (nativeNetworkCreateP samplePodman sampleHost ''n'' True [] []))"
  using network_creation_bounded [of samplePodman sampleHost "''n''" True "[]" "[]" "Inr ()"] sample_network_created
  by (cases "nativeNetworkCreateP samplePodman sampleHost ''n'' True [] []") simp

end
