(* ===== verification/Registry_Auth.thy ===== *)
theory Registry_Auth
  imports Podman_Config Go_JSON
begin

text \<open>
  Registry credentials: \<^verbatim>\<open>internal/docker/registry_auth.go\<close> and \<^verbatim>\<open>internal/podman/registry_auth.go\<close>.

  The reference parser, the Docker CLI configuration with its credential helpers, and the encoding of
  the header are third-party packages; \<open>auth_lib\<close> holds what the code calls. Base64 and the decoding of
  the auth file are modelled. A Go map is an association list in iteration order.
\<close>

section \<open>Third-party functions\<close>

record auth_config =
  acUsername :: string
  acPassword :: string
  acAuth :: string
  acServerAddress :: string
  acIdentityToken :: string
  acRegistryToken :: string

text \<open>\<open>alDomain\<close>: the domain of a normalised reference. \<open>alLoad\<close>: loading the CLI configuration, with the
  default credential store filled in when it holds no credentials; the result is the lookup.
  \<open>alNotExist\<close>: \<^verbatim>\<open>os.IsNotExist\<close>.\<close>

record auth_lib =
  alDomain :: "string \<Rightarrow> os_error + string"
  alLoad :: "os_error + (string \<Rightarrow> os_error + auth_config)"
  alEncode :: "auth_config \<Rightarrow> os_error + string"
  alNotExist :: "os_error \<Rightarrow> bool"

datatype auth_error =
    BadReference
  | ConfigUnavailable
  | CredentialsUnavailable string
  | NotEncodable string
  | AuthFileUnavailable
  | AuthFileRejected registry_file_error
  | AuthFileOpen
  | AuthFileInvalid
  | CredentialsInvalid string

section \<open>Docker\<close>

definition dockerAuthKey :: "string \<Rightarrow> string" where
  "dockerAuthKey registry = (if registry = ''docker.io'' then ''https://index.docker.io/v1/'' else registry)"

definition dockerRegistryAuth :: "auth_lib \<Rightarrow> string \<Rightarrow> auth_error + string" where
  "dockerRegistryAuth A imageRef =
     bindR (wrapE (\<lambda>_. BadReference) (alDomain A (TrimSpace imageRef))) (\<lambda>registry.
     let key = dockerAuthKey registry in
     bindR (wrapE (\<lambda>_. ConfigUnavailable) (alLoad A)) (\<lambda>lookup.
     bindR (wrapE (\<lambda>_. CredentialsUnavailable registry) (lookup key)) (\<lambda>c.
     if acUsername c = [] \<and> acPassword c = [] \<and> acAuth c = [] \<and> acIdentityToken c = [] \<and> acRegistryToken c = [] then Inr []
     else wrapE (\<lambda>_. NotEncodable registry)
       (alEncode A \<lparr>acUsername = acUsername c, acPassword = acPassword c, acAuth = acAuth c, acServerAddress = key,
          acIdentityToken = acIdentityToken c, acRegistryToken = acRegistryToken c\<rparr>))))"

section \<open>Base64\<close>

definition b64Val :: "char \<Rightarrow> nat option" where
  "b64Val c =
     (let n = (of_char c :: nat) in
      if 65 \<le> n \<and> n \<le> 90 then Some (n - 65)
      else if 97 \<le> n \<and> n \<le> 122 then Some (n - 71)
      else if 48 \<le> n \<and> n \<le> 57 then Some (n + 4)
      else if c = CHR ''+'' then Some 62
      else if c = CHR ''/'' then Some 63
      else None)"

definition b64Two :: "char \<Rightarrow> char \<Rightarrow> string option" where
  "b64Two a b =
     (case (b64Val a, b64Val b) of
        (Some x, Some y) \<Rightarrow> Some [char_of (4 * x + y div 16)]
      | _ \<Rightarrow> None)"

definition b64Three :: "char \<Rightarrow> char \<Rightarrow> char \<Rightarrow> string option" where
  "b64Three a b c =
     (case (b64Val a, b64Val b, b64Val c) of
        (Some x, Some y, Some z) \<Rightarrow> Some [char_of (4 * x + y div 16), char_of (16 * (y mod 16) + z div 4)]
      | _ \<Rightarrow> None)"

definition b64Four :: "char \<Rightarrow> char \<Rightarrow> char \<Rightarrow> char \<Rightarrow> string option" where
  "b64Four a b c d =
     (case (b64Val a, b64Val b, b64Val c, b64Val d) of
        (Some x, Some y, Some z, Some u) \<Rightarrow>
          Some [char_of (4 * x + y div 16), char_of (16 * (y mod 16) + z div 4), char_of (64 * (z mod 4) + u)]
      | _ \<Rightarrow> None)"

text \<open>With padding (\<^verbatim>\<open>StdEncoding\<close>) or without (\<^verbatim>\<open>RawStdEncoding\<close>); line breaks have been dropped.\<close>

fun b64Quads :: "bool \<Rightarrow> string \<Rightarrow> string option" where
  "b64Quads padded [] = Some []"
| "b64Quads padded [a] = None"
| "b64Quads padded [a, b] = (if padded then None else b64Two a b)"
| "b64Quads padded [a, b, c] = (if padded then None else b64Three a b c)"
| "b64Quads padded (a # b # c # d # rest) =
     (if padded \<and> rest = [] \<and> d = CHR ''='' then
        (if c = CHR ''='' then b64Two a b else b64Three a b c)
      else
        (case b64Four a b c d of
           None \<Rightarrow> None
         | Some t \<Rightarrow> (case b64Quads padded rest of None \<Rightarrow> None | Some u \<Rightarrow> Some (t @ u))))"

definition b64Decode :: "bool \<Rightarrow> string \<Rightarrow> string option" where
  "b64Decode padded s = b64Quads padded (filter (\<lambda>c. c \<noteq> CHR 0x0A \<and> c \<noteq> CHR 0x0D) s)"

section \<open>Podman\<close>

record podmanRegistryCredential =
  rcAuth :: string
  rcUsername :: string
  rcPassword :: string
  rcIdentityToken :: string
  rcRegistryToken :: string

definition zeroCredential :: podmanRegistryCredential where
  "zeroCredential = \<lparr>rcAuth = [], rcUsername = [], rcPassword = [], rcIdentityToken = [], rcRegistryToken = []\<rparr>"

text \<open>Decoding follows \<^verbatim>\<open>encoding/json\<close>: names are compared without case, null leaves a string or a struct
  alone and empties a map, a wrong type is an error that does not stop the decoding (the flag).\<close>

definition setField :: "json \<Rightarrow> (string \<Rightarrow> 'r) \<Rightarrow> 'r \<times> bool \<Rightarrow> 'r \<times> bool" where
  "setField v f st = (case unString v of Some s \<Rightarrow> (f s, snd st) | None \<Rightarrow> (fst st, False))"

definition credMember :: "podmanRegistryCredential \<times> bool \<Rightarrow> string \<times> json \<Rightarrow> podmanRegistryCredential \<times> bool" where
  "credMember st kv =
     (let k = fst kv; v = snd kv; c = fst st in
      if v = JNull then st
      else if EqualFold k ''auth'' then setField v (\<lambda>s. c\<lparr>rcAuth := s\<rparr>) st
      else if EqualFold k ''username'' then setField v (\<lambda>s. c\<lparr>rcUsername := s\<rparr>) st
      else if EqualFold k ''password'' then setField v (\<lambda>s. c\<lparr>rcPassword := s\<rparr>) st
      else if EqualFold k ''identitytoken'' then setField v (\<lambda>s. c\<lparr>rcIdentityToken := s\<rparr>) st
      else if EqualFold k ''registrytoken'' then setField v (\<lambda>s. c\<lparr>rcRegistryToken := s\<rparr>) st
      else st)"

definition credValue :: "json \<Rightarrow> podmanRegistryCredential \<times> bool" where
  "credValue v =
     (case v of
        JObj ms \<Rightarrow> foldl credMember (zeroCredential, True) ms
      | JNull \<Rightarrow> (zeroCredential, True)
      | _ \<Rightarrow> (zeroCredential, False))"

definition authsMember :: "(string \<times> podmanRegistryCredential) list \<times> bool \<Rightarrow> string \<times> json \<Rightarrow> (string \<times> podmanRegistryCredential) list \<times> bool" where
  "authsMember st kv = (case credValue (snd kv) of (c, ok) \<Rightarrow> (AList.update (fst kv) c (fst st), snd st \<and> ok))"

definition fileMember :: "(string \<times> podmanRegistryCredential) list \<times> bool \<Rightarrow> string \<times> json \<Rightarrow> (string \<times> podmanRegistryCredential) list \<times> bool" where
  "fileMember st kv =
     (if EqualFold (fst kv) ''auths'' then
        (case snd kv of
           JObj ms \<Rightarrow> foldl authsMember st ms
         | JNull \<Rightarrow> ([], snd st)
         | _ \<Rightarrow> (fst st, False))
      else st)"

definition decodeAuthFile :: "string \<Rightarrow> (string \<times> podmanRegistryCredential) list option" where
  "decodeAuthFile raw =
     (case jsonParse raw of
        Some (JObj ms) \<Rightarrow> (case foldl fileMember ([], True) ms of (auths, ok) \<Rightarrow> if ok then Some auths else None)
      | Some JNull \<Rightarrow> Some []
      | _ \<Rightarrow> None)"

definition normalizeAuthRegistry :: "string \<Rightarrow> string" where
  "normalizeAuthRegistry value0 =
     (let value = TrimSpace value0;
          host = (case urlParse value of Some u \<Rightarrow> if uHost u \<noteq> [] then uHost u else value | None \<Rightarrow> value);
          trimmed = TrimSuffix (TrimSuffix host ''/'') ''/v1'' in
      if trimmed = ''index.docker.io'' then ''docker.io'' else trimmed)"

fun firstExisting :: "auth_lib \<Rightarrow> host_os \<Rightarrow> string list \<Rightarrow> auth_error + string" where
  "firstExisting A os [] = Inr []"
| "firstExisting A os (c # cs) =
     (case Stat os c of
        Inr _ \<Rightarrow> Inr c
      | Inl e \<Rightarrow> if alNotExist A e then firstExisting A os cs else Inl AuthFileUnavailable)"

definition authCandidates :: "host_os \<Rightarrow> string list" where
  "authCandidates os =
     (let runtimeDir = TrimSpace (Getenv os ''XDG_RUNTIME_DIR'') in
      (if runtimeDir \<noteq> [] then [Join [runtimeDir, ''containers'', ''auth.json'']] else []) @
      (case UserHomeDir os of
         Inr home \<Rightarrow> if home \<noteq> [] then [Join [home, ''.config'', ''containers'', ''auth.json'']] else []
       | Inl _ \<Rightarrow> []))"

definition findPodmanAuthFile :: "auth_lib \<Rightarrow> host_os \<Rightarrow> string \<Rightarrow> auth_error + string" where
  "findPodmanAuthFile A os configuredPath =
     (if TrimSpace configuredPath \<noteq> [] then Inr configuredPath
      else
        (let envPath = TrimSpace (Getenv os ''REGISTRY_AUTH_FILE'') in
         if envPath \<noteq> [] then Inr envPath else firstExisting A os (authCandidates os)))"

definition decodedLogin :: "string \<Rightarrow> string option" where
  "decodedLogin s = (case b64Decode True s of Some d \<Rightarrow> Some d | None \<Rightarrow> b64Decode False s)"

definition encodeCredential :: "auth_lib \<Rightarrow> string \<Rightarrow> podmanRegistryCredential \<Rightarrow> auth_error + string" where
  "encodeCredential A registry entry =
     bindR (if rcAuth entry = [] then Inr (rcUsername entry, rcPassword entry)
            else
              (case decodedLogin (rcAuth entry) of
                 None \<Rightarrow> Inl (CredentialsInvalid registry)
               | Some d \<Rightarrow>
                   (case Cut d (CHR '':'') of (username, password, ok) \<Rightarrow>
                      if ok then Inr (username, password) else Inl (CredentialsInvalid registry)))) (\<lambda>(username, password).
     wrapE (\<lambda>_. NotEncodable registry)
       (alEncode A \<lparr>acUsername = username, acPassword = password, acAuth = [], acServerAddress = registry,
          acIdentityToken = rcIdentityToken entry, acRegistryToken = rcRegistryToken entry\<rparr>))"

fun matchAuth :: "string \<Rightarrow> (string \<times> podmanRegistryCredential) list \<Rightarrow> podmanRegistryCredential option" where
  "matchAuth registry [] = None"
| "matchAuth registry ((key, entry) # rest) =
     (if normalizeAuthRegistry key \<noteq> registry then matchAuth registry rest else Some entry)"

text \<open>The file is read through a limit of one byte more than the maximum.\<close>

definition readAuthFile :: "host_os \<Rightarrow> string \<Rightarrow> auth_error + (string \<times> podmanRegistryCredential) list" where
  "readAuthFile os path =
     bindR (wrapE AuthFileRejected (validateRegistryAuthFile os path)) (\<lambda>_.
     (case OpenFile os path of
        Inl _ \<Rightarrow> Inl AuthFileOpen
      | Inr _ \<Rightarrow>
          (case ReadFile os path of
             Inl _ \<Rightarrow> Inl AuthFileInvalid
           | Inr raw \<Rightarrow>
               if 1048576 < length raw then Inl AuthFileInvalid
               else (case decodeAuthFile raw of None \<Rightarrow> Inl AuthFileInvalid | Some auths \<Rightarrow> Inr auths))))"

definition podmanRegistryAuth :: "auth_lib \<Rightarrow> host_os \<Rightarrow> string \<Rightarrow> string \<Rightarrow> auth_error + string" where
  "podmanRegistryAuth A os imageRef configuredPath =
     bindR (wrapE (\<lambda>_. BadReference) (alDomain A (TrimSpace imageRef))) (\<lambda>registry.
     bindR (findPodmanAuthFile A os configuredPath) (\<lambda>path.
     if path = [] then dockerRegistryAuth A imageRef
     else
       bindR (readAuthFile os path) (\<lambda>auths.
       (case matchAuth registry auths of
          Some entry \<Rightarrow> encodeCredential A registry entry
        | None \<Rightarrow> dockerRegistryAuth A imageRef))))"

end
