(* ===== verification/Podman.thy ===== *)
theory Podman
  imports Podman_Network Registry_Auth
begin

text \<open>
  \<^verbatim>\<open>internal/podman/podman.go\<close>: finding the API socket and building the driver. The result of
  \<^verbatim>\<open>NewWithConfig\<close> is the Docker driver of the model with its runtime configuration; the native callbacks
  are the operations of the two Libpod theories, and which of them are installed is part of the driver.
\<close>

section \<open>Sockets\<close>

definition socketAlive :: "podman_env \<Rightarrow> string \<Rightarrow> bool" where
  "socketAlive E path \<longleftrightarrow> isOk (Stat (peOS E) path) \<and> peDial E path"

definition addCandidate :: "string list \<Rightarrow> string \<Rightarrow> string list" where
  "addCandidate out p0 = (let p = TrimSpace p0 in if p = [] \<or> p \<in> set out then out else out @ [p])"

definition socketCandidates :: "podman_env \<Rightarrow> string list" where
  "socketCandidates E =
     (let xdg = Getenv (peOS E) ''XDG_RUNTIME_DIR'' in
      foldl addCandidate []
        ([Getenv (peOS E) ''CAUTEUM_PODMAN_SOCKET''] @
         (if xdg \<noteq> [] then [Join [xdg, ''podman'', ''podman.sock'']] else []) @
         (case peUid E of
            Inr uid \<Rightarrow> if uid \<noteq> [] then [Join [''/run/user'', uid, ''podman'', ''podman.sock'']] else []
          | Inl _ \<Rightarrow> []) @
         (case UserHomeDir (peOS E) of
            Inr home \<Rightarrow>
              [Join [home, ''.local/share/containers/podman/machine/podman.sock''],
               Join [home, ''.local/share/containers/podman/machine/machine.sock'']]
          | Inl _ \<Rightarrow> [])))"

text \<open>Decoding the nested structs of \<^verbatim>\<open>podman info\<close>: only the path is used.\<close>

definition socketMember :: "string \<times> bool \<Rightarrow> string \<times> json \<Rightarrow> string \<times> bool" where
  "socketMember st kv =
     (if snd kv = JNull then st
      else if EqualFold (fst kv) ''path'' then setField (snd kv) (\<lambda>s. s) st
      else if EqualFold (fst kv) ''exists'' then (if unBool (snd kv) = None then (fst st, False) else st)
      else st)"

definition hostMember :: "string \<times> bool \<Rightarrow> string \<times> json \<Rightarrow> string \<times> bool" where
  "hostMember st kv =
     (if snd kv = JNull \<or> \<not> EqualFold (fst kv) ''remoteSocket'' then st
      else (case snd kv of JObj ms \<Rightarrow> foldl socketMember st ms | _ \<Rightarrow> (fst st, False)))"

definition infoMember :: "string \<times> bool \<Rightarrow> string \<times> json \<Rightarrow> string \<times> bool" where
  "infoMember st kv =
     (if snd kv = JNull \<or> \<not> EqualFold (fst kv) ''host'' then st
      else (case snd kv of JObj ms \<Rightarrow> foldl hostMember st ms | _ \<Rightarrow> (fst st, False)))"

definition infoPath :: "string \<Rightarrow> string option" where
  "infoPath raw =
     (case jsonParse raw of
        Some (JObj ms) \<Rightarrow> (case foldl infoMember ([], True) ms of (p, ok) \<Rightarrow> if ok then Some p else None)
      | Some JNull \<Rightarrow> Some []
      | _ \<Rightarrow> None)"

definition socketFromPodmanInfo :: "podman_env \<Rightarrow> string option" where
  "socketFromPodmanInfo E =
     (case peInfo E of
        None \<Rightarrow> None
      | Some raw \<Rightarrow>
          (case infoPath raw of
             None \<Rightarrow> None
           | Some path \<Rightarrow>
               let p0 = TrimSpace path; p = TrimPrefix p0 ''unix://'' in
               if p0 = [] then None else if socketAlive E p then Some p else None))"

definition DiscoverSocket :: "podman_env \<Rightarrow> podman_error + string" where
  "DiscoverSocket E =
     (case find (socketAlive E) (socketCandidates E) of
        Some c \<Rightarrow> Inr c
      | None \<Rightarrow> (case socketFromPodmanInfo E of Some s \<Rightarrow> Inr s | None \<Rightarrow> Inl PNoSocket))"

definition ResolveHost :: "podman_env \<Rightarrow> podman_error + string" where
  "ResolveHost E =
     (let h1 = TrimSpace (Getenv (peOS E) ''DOCKER_HOST''); h2 = TrimSpace (Getenv (peOS E) ''CONTAINER_HOST'') in
      if h1 \<noteq> [] then Inr h1
      else if h2 \<noteq> [] then Inr h2
      else bindR (DiscoverSocket E) (\<lambda>sock. Inr (''unix://'' @ sock)))"

definition podmanRuntimeContext :: "string \<Rightarrow> string" where
  "podmanRuntimeContext host =
     (if HasPrefix host ''unix://'' then ''socket '' @ TrimPrefix host ''unix://'' else ''remote endpoint'')"

section \<open>NewWithConfig\<close>

definition checkUserns :: "Config \<Rightarrow> podman_error + Config" where
  "checkUserns cfg =
     bindR (wrapE PUserns (canonicalUsernsMode (pcUsernsMode cfg))) (\<lambda>mode.
     bindR (failIf (EqualFold mode ''private'' \<and> (pcUIDMap cfg = [] \<or> pcGIDMap cfg = [])) PPrivateNeedsMaps) (\<lambda>_.
     bindR (if pcUIDMap cfg \<noteq> [] \<or> pcGIDMap cfg \<noteq> [] then
              bindR (failIf (\<not> EqualFold (TrimSpace mode) ''private'') PMapsNeedPrivate) (\<lambda>_.
              failIf (pcUIDMap cfg = [] \<or> pcGIDMap cfg = []) PPrivateNeedsMaps)
            else Inr ()) (\<lambda>_.
     Inr (cfg\<lparr>pcUsernsMode := mode\<rparr>))))"

definition checkPaths :: "Config \<Rightarrow> podman_error + unit" where
  "checkPaths cfg =
     bindR (failIf (pcSocketPath cfg \<noteq> [] \<and> (\<not> IsAbs (pcSocketPath cfg) \<or> Clean (pcSocketPath cfg) \<noteq> pcSocketPath cfg)) PSocketNotClean) (\<lambda>_.
     failIf (pcSandboxSSHSocketPath cfg \<noteq> [] \<and>
       (\<not> IsAbs (pcSandboxSSHSocketPath cfg) \<or> Clean (pcSandboxSSHSocketPath cfg) \<noteq> pcSandboxSSHSocketPath cfg \<or>
        Dir (pcSandboxSSHSocketPath cfg) = ''/'')) PSSHSocketPath)"

text \<open>Lines 67 to 115: everything up to the choice of the host.\<close>

definition checkNew :: "host_os \<Rightarrow> crypto_lib \<Rightarrow> Config \<Rightarrow> podman_error + Config" where
  "checkNew os L cfg0 =
     bindR (checkUserns cfg0) (\<lambda>cfg.
     bindR (wrapE PGuestTLS (validateGuestTLSPathsP (pcGuestTLSCA cfg) (pcGuestTLSCert cfg) (pcGuestTLSKey cfg))) (\<lambda>_.
     bindR (wrapE PRegistryFile (validateRegistryAuthFile os (pcRegistryAuthFile cfg))) (\<lambda>_.
     bindR (wrapE PEgressCA (validateEgressCABundleP os L (pcEgressCABundle cfg))) (\<lambda>_.
     bindR (wrapE PProxy (validateProxyConfig os L cfg)) (\<lambda>_.
     bindR (failIf (pcHostGatewayIP cfg \<noteq> [] \<and> ParseAddr (pcHostGatewayIP cfg) = None) PGatewayNotIP) (\<lambda>_.
     bindR (checkPaths cfg) (\<lambda>_.
     bindR (failIf (pcStopTimeoutSecs cfg < 0 \<or> pcPidsLimit cfg < 0) POutOfRange) (\<lambda>_.
     bindR (wrapE (\<lambda>_. PBadPullPolicy) (NormalizeImagePullPolicy (pcImagePullPolicy cfg))) (\<lambda>policy.
     Inr (cfg\<lparr>pcImagePullPolicy := policy\<rparr>))))))))))"

definition chooseHost :: "podman_env \<Rightarrow> Config \<Rightarrow> podman_error + string" where
  "chooseHost E cfg =
     (if TrimSpace (pcSocketPath cfg) \<noteq> [] then
        (if \<not> socketAlive E (pcSocketPath cfg) then Inl PSocketUnavailable else Inr (''unix://'' @ pcSocketPath cfg))
      else ResolveHost E)"

definition podmanRuntimeConfig :: "string \<Rightarrow> Config \<Rightarrow> RuntimeConfig" where
  "podmanRuntimeConfig host cfg =
     \<lparr>RuntimeContext = podmanRuntimeContext host,
      EnableBindMounts = pcEnableBindMounts cfg,
      DefaultImage = pcDefaultImage cfg,
      NetworkName = pcNetworkName cfg,
      HostGatewayIP = pcHostGatewayIP cfg,
      ImagePullPolicy = (if pcImagePullPolicy cfg = ''missing'' then [] else pcImagePullPolicy cfg),
      StopTimeoutSecs = pcStopTimeoutSecs cfg,
      PidsLimit = pcPidsLimit cfg,
      ProviderSPIFFEWorkloadAPISocket = pcProviderSocket cfg,
      GatewayGRPCEndpoint = pcGatewayGRPCEndpoint cfg,
      GatewayGRPCPort = pcGatewayGRPCPort cfg,
      SandboxSSHSocketPath = pcSandboxSSHSocketPath cfg,
      HealthCheckIntervalSecs = pcHealthCheckIntervalSecs cfg,
      UsernsMode = pcUsernsMode cfg,
      SandboxNamespace = [],
      DefaultCPU = FFin 2 0, DefaultMemoryBytes = 4294967296,
      GuestTLSCA = pcGuestTLSCA cfg, GuestTLSCert = pcGuestTLSCert cfg, GuestTLSKey = pcGuestTLSKey cfg,
      UpstreamProxyURL = pcHTTPSProxy cfg, UpstreamProxyNoProxy = pcNoProxy cfg,
      UpstreamProxyAuthFile = pcProxyAuthFile cfg,
      UpstreamProxyAuthAllowInsecure = (pcProxyAuthAllowInsecure cfg = Some True),
      UpstreamProxyCABundle = pcProxyCABundle cfg,
      UpstreamProxyConnectByHostname = (pcProxyConnectByHostname cfg = Some True),
      EgressCABundle = pcEgressCABundle cfg,
      ReconcileDataOwnership = pcReconcileDataOwnership cfg,
      Capabilities = [''cdi'', ''libpod-native'', ''userns'']\<rparr>"

text \<open>
  The driver that is built for a host and a checked configuration. The error texts of the credential resolver
  are left out.
\<close>

definition podmanDriver :: "auth_lib \<Rightarrow> host_os \<Rightarrow> string \<Rightarrow> Config \<Rightarrow> docker_driver" where
  "podmanDriver A os host cfg =
     \<lparr>cliPresent = True, runtimeConfig = podmanRuntimeConfig host cfg, enableBindMounts = pcEnableBindMounts cfg,
      registryAuthResolver = Some (\<lambda>ref. wrapE (\<lambda>_. []) (podmanRegistryAuth A os ref (pcRegistryAuthFile cfg))),
      nativeContainerCreate = (pcUsernsMode cfg \<noteq> []), nativeNetworkCreate = True, nativeNetworkVerify = True\<rparr>"

definition NewWithConfig :: "podman_env \<Rightarrow> auth_lib \<Rightarrow> Config \<Rightarrow> podman_error + docker_driver" where
  "NewWithConfig E A cfg0 =
     bindR (checkNew (peOS E) (peCrypto E) cfg0) (\<lambda>cfg.
     bindR (chooseHost E cfg) (\<lambda>host.
     bindR (case peClient E host of Some e \<Rightarrow> Inl (PClient e) | None \<Rightarrow> Inr ()) (\<lambda>_.
     Inr (podmanDriver A (peOS E) host cfg))))"

definition New :: "podman_env \<Rightarrow> auth_lib \<Rightarrow> podman_error + docker_driver" where
  "New E A = NewWithConfig E A zeroPodmanConfig"

text \<open>Opening the backend with a configuration map.\<close>

definition openPodman :: "podman_env \<Rightarrow> auth_lib \<Rightarrow> (string \<times> anyval) list \<Rightarrow> podman_error + docker_driver" where
  "openPodman E A values = bindR (ConfigFromMapP (peOS E) (peCrypto E) values) (NewWithConfig E A)"

end
