(* ===== verification/Podman_Rules.thy ===== *)
theory Podman_Rules
  imports Podman Create_Rules
begin

text \<open>
  What the Podman backend promises: the Libpod request says what the Engine request said, user
  namespaces and ID maps are in range, and a configuration that was decoded is one the backend opens with.
\<close>

section \<open>ID maps\<close>

lemma unat_sum64: "unat (ucast (a :: 32 word) + ucast (b :: 32 word) :: 64 word) = unat a + unat b"
proof -
  have l: "unat a < 2 ^ 32" "unat b < 2 ^ 32" using unsigned_less [of a] unsigned_less [of b] by simp_all
  then have "unat (ucast a :: 64 word) = unat a" "unat (ucast b :: 64 word) = unat b"
    by (simp_all add: unsigned_ucast_eq take_bit_nat_eq_self)
  then show ?thesis using l by (simp add: unat_word_ariths)
qed

lemma sum64_iff [simp]:
  "(4294967296 :: 64 word) < ucast (a :: 32 word) + ucast (b :: 32 word) \<longleftrightarrow> 4294967296 < unat a + unat b"
  by (simp add: word_less_nat_alt unat_sum64)

text \<open>The ranges of an ID map are non-empty and end below two to the power of 32 on both sides.\<close>

definition idsInRange :: "IDMapping list \<Rightarrow> bool" where
  "idsInRange ms \<longleftrightarrow> list_all (\<lambda>m. 0 < unat (idSize m) \<and>
     unat (idContainer m) + unat (idSize m) \<le> 2 ^ 32 \<and> unat (idHost m) + unat (idSize m) \<le> 2 ^ 32) ms"

text \<open>The sums of the check do not wrap around.\<close>

lemma validateIDMap_iff: "validateIDMap ms = Inr () \<longleftrightarrow> idsInRange ms"
  unfolding idsInRange_def
proof (induction ms)
  case (Cons m ms)
  then show ?case by (auto simp: unat_gt_0 simp flip: not_less)
qed simp

section \<open>User namespaces\<close>

text \<open>The modes in the form the decoder leaves behind.\<close>

definition usernsMode :: "string \<Rightarrow> bool" where
  "usernsMode m \<longleftrightarrow> m \<in> {[], ''auto'', ''keep-id'', ''host'', ''no-map'', ''private''} \<or>
     (\<exists>p. TrimSpace p \<noteq> [] \<and> (m = ''auto:'' @ p \<or> m = ''keep-id:'' @ p))"

lemma canonicalUsernsMode_mode: "canonicalUsernsMode u = Inr m \<Longrightarrow> usernsMode m"
  by (auto simp: canonicalUsernsMode_def usernsMode_def Let_def split: prod.splits if_splits)

lemma Cut_modes:
  "Cut (''auto:'' @ p) (CHR '':'') = (''auto'', p, True)" "Cut (''keep-id:'' @ p) (CHR '':'') = (''keep-id'', p, True)"
  "Cut ''auto'' (CHR '':'') = (''auto'', [], False)" "Cut ''keep-id'' (CHR '':'') = (''keep-id'', [], False)"
  "Cut ''host'' (CHR '':'') = (''host'', [], False)" "Cut ''no-map'' (CHR '':'') = (''no-map'', [], False)"
  "Cut ''private'' (CHR '':'') = (''private'', [], False)"
  by (simp_all add: Cut_def)

lemma lower_letters:
  "lowerChar (CHR ''a'') = CHR ''a''" "lowerChar (CHR ''u'') = CHR ''u''" "lowerChar (CHR ''t'') = CHR ''t''" "lowerChar (CHR ''o'') = CHR ''o''"
  "lowerChar (CHR ''k'') = CHR ''k''" "lowerChar (CHR ''e'') = CHR ''e''" "lowerChar (CHR ''i'') = CHR ''i''" "lowerChar (CHR ''p'') = CHR ''p''"
  "lowerChar (CHR ''d'') = CHR ''d''" "lowerChar (CHR ''h'') = CHR ''h''" "lowerChar (CHR ''s'') = CHR ''s''" "lowerChar (CHR ''n'') = CHR ''n''"
  "lowerChar (CHR ''m'') = CHR ''m''" "lowerChar (CHR ''r'') = CHR ''r''" "lowerChar (CHR ''v'') = CHR ''v''" "lowerChar (CHR ''-'') = CHR ''-''"
  "lowerChar (CHR '':'') = CHR '':''"
  by code_simp+

lemma canonicalUsernsMode_fixed: "usernsMode m \<Longrightarrow> canonicalUsernsMode m = Inr m"
  unfolding usernsMode_def
  by (elim disjE exE conjE insertE emptyE) (simp_all add: canonicalUsernsMode_def Cut_modes [simplified] lower_letters Let_def)

lemma usernsMode_private: "usernsMode m \<Longrightarrow> EqualFold m ''private'' \<longleftrightarrow> m = ''private''"
  unfolding usernsMode_def EqualFold_def by (elim disjE exE conjE insertE emptyE) (simp_all add: lower_letters)

lemma NormalizeImagePullPolicy_fixed: "NormalizeImagePullPolicy v = Inr p \<Longrightarrow> NormalizeImagePullPolicy p = Inr p"
proof -
  assume "NormalizeImagePullPolicy v = Inr p"
  moreover have "NormalizeImagePullPolicy [] = Inr []" "NormalizeImagePullPolicy ''missing'' = Inr ''missing''"
    "NormalizeImagePullPolicy ''always'' = Inr ''always''" "NormalizeImagePullPolicy ''never'' = Inr ''never''"
    "NormalizeImagePullPolicy ''newer'' = Inr ''newer''" by code_simp+
  ultimately show ?thesis using NormalizeImagePullPolicy_Inr by blast
qed

text \<open>Everything \<open>ConfigFromMap\<close> promises of the user namespace.\<close>

lemma checkConfig_Inr:
  assumes "checkConfig os L cfg0 = Inr cfg"
  shows "usernsMode (pcUsernsMode cfg)" "pcUsernsMode cfg = ''private'' \<longleftrightarrow> pcUIDMap cfg \<noteq> []" "pcUsernsMode cfg = ''private'' \<longleftrightarrow> pcGIDMap cfg \<noteq> []"
    "NormalizeImagePullPolicy (pcImagePullPolicy cfg) = Inr (pcImagePullPolicy cfg)"
    "0 \<le> pcStopTimeoutSecs cfg" "0 \<le> pcPidsLimit cfg"
    "\<not> (pcHostGatewayIP cfg \<noteq> [] \<and> ParseAddr (pcHostGatewayIP cfg) = None)"
    "validateGuestTLSPathsP (pcGuestTLSCA cfg) (pcGuestTLSCert cfg) (pcGuestTLSKey cfg) = Inr ()"
    "validateRegistryAuthFile os (pcRegistryAuthFile cfg) = Inr ()" "validateEgressCABundleP os L (pcEgressCABundle cfg) = Inr ()"
    "validateProxyConfig os L cfg = Inr ()"
proof -
  have p: "validateProxyConfig os L (cfg0\<lparr>pcImagePullPolicy := a, pcUsernsMode := b\<rparr>) = validateProxyConfig os L cfg0" for a b
    by (simp add: validateProxyConfig_def proxySecureP_def checkAuthP_def checkBundleP_def cong: if_cong)
  obtain a b where c: "cfg = cfg0\<lparr>pcImagePullPolicy := a, pcUsernsMode := b\<rparr>"
    "NormalizeImagePullPolicy (pcImagePullPolicy cfg0) = Inr a" "canonicalUsernsMode (pcUsernsMode cfg0) = Inr b"
    "EqualFold b ''private'' \<longrightarrow> pcUIDMap cfg0 \<noteq> [] \<and> pcGIDMap cfg0 \<noteq> []"
    "\<not> EqualFold b ''private'' \<longrightarrow> pcUIDMap cfg0 = [] \<and> pcGIDMap cfg0 = []"
    and r: "\<not> (pcHostGatewayIP cfg0 \<noteq> [] \<and> ParseAddr (pcHostGatewayIP cfg0) = None)"
      "validateGuestTLSPathsP (pcGuestTLSCA cfg0) (pcGuestTLSCert cfg0) (pcGuestTLSKey cfg0) = Inr ()"
      "validateRegistryAuthFile os (pcRegistryAuthFile cfg0) = Inr ()" "validateEgressCABundleP os L (pcEgressCABundle cfg0) = Inr ()"
      "validateProxyConfig os L cfg0 = Inr ()" "0 \<le> pcStopTimeoutSecs cfg0" "0 \<le> pcPidsLimit cfg0"
    using assms by (auto simp: checkConfig_def result_iff Let_def)
  note m = canonicalUsernsMode_mode [OF c(3)]
  show "usernsMode (pcUsernsMode cfg)" "pcUsernsMode cfg = ''private'' \<longleftrightarrow> pcUIDMap cfg \<noteq> []" "pcUsernsMode cfg = ''private'' \<longleftrightarrow> pcGIDMap cfg \<noteq> []"
    "NormalizeImagePullPolicy (pcImagePullPolicy cfg) = Inr (pcImagePullPolicy cfg)"
    using m c(4,5) usernsMode_private [OF m] NormalizeImagePullPolicy_fixed [OF c(2)] by (auto simp: c(1))
  show "0 \<le> pcStopTimeoutSecs cfg" "0 \<le> pcPidsLimit cfg"
    "\<not> (pcHostGatewayIP cfg \<noteq> [] \<and> ParseAddr (pcHostGatewayIP cfg) = None)"
    "validateGuestTLSPathsP (pcGuestTLSCA cfg) (pcGuestTLSCert cfg) (pcGuestTLSKey cfg) = Inr ()"
    "validateRegistryAuthFile os (pcRegistryAuthFile cfg) = Inr ()" "validateEgressCABundleP os L (pcEgressCABundle cfg) = Inr ()"
    "validateProxyConfig os L cfg = Inr ()"
    using r by (simp_all add: c(1) p del: not_less)
qed

text \<open>
  C19. What was decoded is what the driver opens with: an accepted configuration is already in the
  canonical form, its ID maps are given exactly for a private user namespace, and the constructor accepts it
  unchanged, except for the form of the two socket paths, which only the constructor checks.
\<close>

theorem accepted_config_opens:
  assumes "ConfigFromMapP os L vs = Inr cfg"
  shows "checkNew os L cfg = bindR (checkPaths cfg) (\<lambda>_. Inr cfg) \<and> usernsMode (pcUsernsMode cfg) \<and>
    (pcUsernsMode cfg = ''private'' \<longleftrightarrow> pcUIDMap cfg \<noteq> []) \<and> (pcUsernsMode cfg = ''private'' \<longleftrightarrow> pcGIDMap cfg \<noteq> [])"
proof -
  obtain cfg0 where c: "checkConfig os L cfg0 = Inr cfg" using assms by (auto simp: ConfigFromMapP_def result_iff)
  note r = checkConfig_Inr [OF c]
  have "TrimSpace ''private'' = ''private''" by code_simp
  then have "checkUserns cfg = Inr cfg"
    using r(2,3) usernsMode_private [OF r(1)] by (auto simp: checkUserns_def canonicalUsernsMode_fixed [OF r(1)] failIf_def)
  then show ?thesis using r by (cases "checkPaths cfg") (auto simp: checkNew_def failIf_def)
qed

text \<open>
  C29. Every configured user namespace is one the native adapter understands: for an accepted configuration
  with a mode the translation fails only for a private namespace, and there exactly when the two maps differ in
  length or a range ends above two to the power of 32.
\<close>

theorem accepted_userns_translates:
  assumes "ConfigFromMapP os L vs = Inr cfg" and "pcUsernsMode cfg \<noteq> []"
  shows "isOk (nativeUserns (pcUsernsMode cfg) (pcUIDMap cfg) (pcGIDMap cfg)) \<longleftrightarrow>
    length (pcUIDMap cfg) = length (pcGIDMap cfg) \<and> idsInRange (pcUIDMap cfg) \<and> idsInRange (pcGIDMap cfg)"
proof -
  obtain cfg0 where c: "checkConfig os L cfg0 = Inr cfg" using assms by (auto simp: ConfigFromMapP_def result_iff)
  note r = checkConfig_Inr(1-3) [OF c]
  have e: "idsInRange []" by (simp add: idsInRange_def)
  show ?thesis
  proof (cases "pcUsernsMode cfg = ''private''")
    case True
    then show ?thesis using r by (auto simp: nativeUserns_def Cut_modes [simplified] isOk_iff result_iff validateIDMap_iff)
  next
    case False
    then have "pcUIDMap cfg = []" "pcGIDMap cfg = []" using r by auto
    with False r(1) assms(2) e show ?thesis
      by (auto simp: usernsMode_def nativeUserns_def Cut_modes [simplified] isOk_iff result_iff)
  qed
qed

lemma sample_podman_config:
  "ConfigFromMapP exampleOS exampleLib [(''userns'', AString ''Keep-ID:uid=7'')] =
     Inr (zeroPodmanConfig\<lparr>pcHealthCheckIntervalSecs := 10, pcUsernsMode := ''keep-id:uid=7''\<rparr>)"
  by code_simp

theorem accepted_config_opens_witness:
  "checkNew exampleOS exampleLib (zeroPodmanConfig\<lparr>pcHealthCheckIntervalSecs := 10, pcUsernsMode := ''keep-id:uid=7''\<rparr>) =
     Inr (zeroPodmanConfig\<lparr>pcHealthCheckIntervalSecs := 10, pcUsernsMode := ''keep-id:uid=7''\<rparr>)"
proof -
  have "checkPaths (zeroPodmanConfig\<lparr>pcHealthCheckIntervalSecs := 10, pcUsernsMode := ''keep-id:uid=7''\<rparr>) = Inr ()" by code_simp
  then show ?thesis using accepted_config_opens [OF sample_podman_config] by simp
qed

lemma sample_entries:
  "mapAll 0 [''0:7:1''] = Inr [\<lparr>idContainer = 0, idHost = 7, idSize = 1\<rparr>]"
  "mapAll 0 [''0:7:1'', ''1:8:1''] = Inr [\<lparr>idContainer = 0, idHost = 7, idSize = 1\<rparr>, \<lparr>idContainer = 1, idHost = 8, idSize = 1\<rparr>]"
proof -
  have s: "splitChar (CHR '':'') ''0:7:1'' = [''0'', ''7'', ''1'']" "splitChar (CHR '':'') ''1:8:1'' = [''1'', ''8'', ''1'']" by code_simp+
  have n: "natStr 0 = ''0''" "natStr 1 = ''1''" "natStr 7 = ''7''" "natStr 8 = ''8''" by code_simp+
  have p: "ParseUint 32 ''0'' = Some 0" "ParseUint 32 ''1'' = Some 1" "ParseUint 32 ''7'' = Some 7" "ParseUint 32 ''8'' = Some 8"
    unfolding n [symmetric] by (rule ParseUint_natStr; simp)+
  show "mapAll 0 [''0:7:1''] = Inr [\<lparr>idContainer = 0, idHost = 7, idSize = 1\<rparr>]"
    "mapAll 0 [''0:7:1'', ''1:8:1''] = Inr [\<lparr>idContainer = 0, idHost = 7, idSize = 1\<rparr>, \<lparr>idContainer = 1, idHost = 8, idSize = 1\<rparr>]"
    by (simp_all add: mapEntry_def s p)
qed

lemma sample_private_config:
  assumes "mapAll 0 us = Inr uids" "mapAll 0 gs = Inr gids" "uids \<noteq> []" "gids \<noteq> []"
  shows "ConfigFromMapP exampleOS exampleLib [(''userns'', AString ''private''), (''uidmap'', AStrings us), (''gidmap'', AStrings gs)] =
     Inr (zeroPodmanConfig\<lparr>pcHealthCheckIntervalSecs := 10, pcUsernsMode := ''private'', pcUIDMap := uids, pcGIDMap := gids\<rparr>)"
proof -
  have t: "stringValue (AString ''private'') = Inr ''private''" "canonicalUsernsMode ''private'' = Inr ''private''"
    "NormalizeImagePullPolicy [] = Inr []" "validateGuestTLSPathsP [] [] [] = Inr ()" "validateRegistryAuthFile exampleOS [] = Inr ()"
    "validateEgressCABundleP exampleOS exampleLib [] = Inr ()" "validateProxyConfig exampleOS exampleLib zeroPodmanConfig = Inr ()" by code_simp+
  show ?thesis
    using assms t by (simp add: ConfigFromMapP_def readLoop_def readField_def idMapListValue_def checkConfig_def setP_def Let_def
        zeroPodmanConfig_def validateProxyConfig_def proxySecureP_def checkAuthP_def checkBundleP_def failIf_def
        defaultHealthCheckIntervalSecs_def maxInt64_def del: mapAll.simps)
qed

theorem accepted_userns_translates_witness:
  "isOk (ConfigFromMapP exampleOS exampleLib
      [(''userns'', AString ''private''), (''uidmap'', AStrings [''0:7:1'']), (''gidmap'', AStrings [''0:7:1'', ''1:8:1''])]) \<and>
   \<not> isOk (nativeUserns ''private'' [\<lparr>idContainer = 0, idHost = 7, idSize = 1\<rparr>]
       [\<lparr>idContainer = 0, idHost = 7, idSize = 1\<rparr>, \<lparr>idContainer = 1, idHost = 8, idSize = 1\<rparr>])"
  using accepted_userns_translates [OF sample_private_config [OF sample_entries]] sample_private_config [OF sample_entries] by simp

section \<open>The two requests say the same\<close>

text \<open>
  The Engine request as the adapter sees it: the fields the driver does not set have their zero
  values.
\<close>

definition fullMount :: "Mount \<Rightarrow> engine_mount" where
  "fullMount m =
     \<lparr>emType = (case mType m of TypeVolume \<Rightarrow> EVolume | TypeTmpfs \<Rightarrow> ETmpfs), emSource = mSource m, emTarget = mTarget m,
      emReadOnly = mReadOnly m, emBind = None,
      emVolume = (if mSubpath m = [] then None
                  else Some \<lparr>voNoCopy = False, voLabels = [], voHasDriverConfig = False, voSubpath = mSubpath m\<rparr>),
      emTmpfs = mTmpfs m\<rparr>"

definition fullOptions :: "create_options \<Rightarrow> native_options" where
  "fullOptions opts =
     (let c = coConfig opts; h = coHost opts in
      \<lparr>naConfig = Some \<lparr>ngImage = ccImage c, ngEnv = ccEnv c, ngLabels = ccLabels c, ngEntrypoint = ccEntrypoint c, ngCmd = ccCmd c,
         ngUser = ccUser c, ngWorkingDir = ccWorkingDir c, ngTty = False, ngOpenStdin = False, ngHealthcheck = ccHealthcheck c\<rparr>,
       naHost = Some \<lparr>nhPrivileged = False, nhDevices = [], nhVolumesFrom = [], nhDeviceRequests = hcDeviceRequests h,
         nhSecurityOpt = hcSecurityOpt h, nhExtraHosts = hcExtraHosts h, nhCapDrop = hcCapDrop h, nhCapAdd = [],
         nhNetworkMode = hcNetworkMode h, nhShmSize = hcShmSize h, nhMemory = hcMemory h, nhPidsLimit = hcPidsLimit h,
         nhNanoCPUs = hcNanoCPUs h, nhPortBindings = map (\<lambda>(p, bs). ((p, ''tcp''), bs)) (hcPortBindings h), nhBinds = hcBinds h,
         nhMounts = map fullMount (hcMounts h), nhTmpfs = []\<rparr>,
       naNetworking = Some (map (\<lambda>(n, as). (n, Some as)) (coNetwork opts)), naName = coName opts\<rparr>)"

text \<open>
  What a container request asks for. A mount is its source, its target and whether it is read-only; a
  port is the host address, the host port, the guest port and the protocol; a CPU limit is the time
  allowed per period, both in microseconds, rounded down. The Engine allows \<open>n\<close> nano CPUs by a share of
  \<open>n / 10^9\<close> of each period. A request that names networks attaches the container to bridges. Not part
  of the view is the log configuration of the Engine request, for which Libpod's has no field here.
\<close>

record container_view =
  cvImage :: string
  cvName :: string
  cvEnv :: "string \<Rightarrow> string option"
  cvLabels :: "string \<Rightarrow> string option"
  cvEntrypoint :: "string list"
  cvCommand :: "string list"
  cvUser :: string
  cvWorkDir :: string
  cvHealthcheck :: "HealthConfig option"
  cvHosts :: "string list"
  cvCapDrop :: "string list"
  cvCapAdd :: "string list"
  cvNoNewPrivileges :: bool
  cvNetworks :: "(string \<times> string list) list"
  cvDevices :: "string list"
  cvNetMode :: string
  cvMemory :: "int option"
  cvPids :: "int option"
  cvCPU :: "(int \<times> int) option"
  cvShm :: "int option"
  cvTerminal :: bool
  cvPorts :: "(string \<times> nat \<times> nat \<times> string) list"
  cvMounts :: "(string \<times> string \<times> bool) set"

definition positive :: "int \<Rightarrow> int option" where
  "positive n = (if 0 < n then Some n else None)"

definition cpuShare :: "int \<Rightarrow> int \<Rightarrow> (int \<times> int) option" where
  "cpuShare nano period = (if 0 < nano then Some (nano * period div 10 ^ 9, period) else None)"

definition bindView :: "string \<Rightarrow> string \<times> string \<times> bool" where
  "bindView bind =
     (let parts = splitChar (CHR '':'') bind in
      (parts ! 0, parts ! 1, length parts = 3 \<and> ''ro'' \<in> set (splitChar (CHR '','') (parts ! 2))))"

definition mountView :: "Mount \<Rightarrow> string \<times> string \<times> bool" where
  "mountView m =
     (mSource m, mTarget m,
      mReadOnly m \<or> mType m = TypeTmpfs \<and> (case mTmpfs m of None \<Rightarrow> False | Some t \<Rightarrow> [''ro''] \<in> set (toOptions t)))"

definition engineView :: "create_options \<Rightarrow> container_view" where
  "engineView opts =
     (let c = coConfig opts; h = coHost opts in
      \<lparr>cvImage = ccImage c, cvName = coName opts, cvEnv = envOf (ccEnv c), cvLabels = ccLabels c, cvEntrypoint = ccEntrypoint c,
       cvCommand = ccCmd c, cvUser = ccUser c, cvWorkDir = ccWorkingDir c, cvHealthcheck = ccHealthcheck c, cvHosts = hcExtraHosts h,
       cvCapDrop = hcCapDrop h, cvCapAdd = [], cvNoNewPrivileges = (''no-new-privileges:true'' \<in> set (hcSecurityOpt h)),
       cvNetworks = coNetwork opts, cvDevices = map TrimSpace (concat (map drDeviceIDs (hcDeviceRequests h))),
       cvNetMode = (if coNetwork opts \<noteq> [] then ''bridge'' else hcNetworkMode h),
       cvMemory = positive (hcMemory h), cvPids = positive (valueOrZero (hcPidsLimit h)),
       cvCPU = cpuShare (hcNanoCPUs h) 100000, cvShm = positive (hcShmSize h), cvTerminal = False,
       cvPorts = concat (map (\<lambda>(port, bs). map (\<lambda>b. (pbHostIP b, decVal (pbHostPort b), unat port, ''tcp'')) bs) (hcPortBindings h)),
       cvMounts = bindView ` set (hcBinds h) \<union> mountView ` set (hcMounts h)\<rparr>)"

definition mountTriple :: "nativeMount \<Rightarrow> string \<times> string \<times> bool" where
  "mountTriple m = (nmSource m, nmDestination m, ''ro'' \<in> set (nmOptions m))"

definition volumeTriple :: "nativeVolume \<Rightarrow> string \<times> string \<times> bool" where
  "volumeTriple v = (nvName v, nvDest v, ''ro'' \<in> set (nvOptions v))"

definition portView :: "nativePortMapping \<Rightarrow> string \<times> nat \<times> nat \<times> string" where
  "portView m = (npHostIP m, unat (npHostPort m), unat (npContainerPort m), npProtocol m)"

definition nativeView :: "nativeSpec \<Rightarrow> container_view" where
  "nativeView s =
     \<lparr>cvImage = nsImage s, cvName = nsName s, cvEnv = nsEnv s, cvLabels = nsLabels s, cvEntrypoint = nsEntrypoint s,
      cvCommand = nsCommand s, cvUser = nsUser s, cvWorkDir = nsWorkDir s, cvHealthcheck = nsHealthcheck s, cvHosts = nsHostAdd s,
      cvCapDrop = nsCapDrop s, cvCapAdd = nsCapAdd s, cvNoNewPrivileges = nsNoNewPrivileges s, cvNetworks = nsNetworks s,
      cvDevices = nsDevices s, cvNetMode = nsNetMode s, cvMemory = nrMemory (nsResources s), cvPids = nrPids (nsResources s),
      cvCPU = nrCPU (nsResources s), cvShm = nsShmSize s, cvTerminal = (nsTerminal s \<or> nsStdin s),
      cvPorts = map portView (nsPortMappings s),
      cvMounts = mountTriple ` set (nsMounts s) \<union> volumeTriple ` set (nsVolumes s)\<rparr>"

text \<open>Every entry assigns a variable.\<close>

definition wfEnv :: "string list \<Rightarrow> bool" where
  "wfEnv env \<longleftrightarrow> list_all (\<lambda>e. envKV e \<noteq> None) env"

lemma nativeEnv_snoc: "nativeEnv (xs @ [e]) = (case Cut e (CHR ''='') of (k, v, ok) \<Rightarrow> (nativeEnv xs)(k \<mapsto> if ok then v else []))"
  by (simp add: nativeEnv_def)

lemma nativeEnv_envOf: "wfEnv env \<Longrightarrow> nativeEnv env = envOf env"
  unfolding wfEnv_def
proof (induction env rule: rev_induct)
  case (snoc e env)
  then obtain k v where "envKV e = Some (k, v)" by auto
  then have "Cut e (CHR ''='') = (k, v, True)" "envOf [e] = [k \<mapsto> v]"
    by (auto simp: envKV_def env_simps split: prod.splits if_splits)
  then show ?case using snoc by (simp add: nativeEnv_snoc env_simps)
qed (simp add: nativeEnv_def env_simps)

lemma deviceIDs_Inr: "deviceIDs xs = Inr ys \<Longrightarrow> ys = map TrimSpace xs"
  by (induction xs arbitrary: ys) (auto simp: result_iff split: if_splits)

lemma nativeDevices_Inr: "nativeDevices rs = Inr ds \<Longrightarrow> ds = map TrimSpace (concat (map drDeviceIDs rs))"
  by (induction rs arbitrary: ds) (auto simp: result_iff dest!: deviceIDs_Inr split: if_splits)

lemma nativeSecurity_Inr: "nativeSecurity xs b = Inr nnp \<Longrightarrow> nnp = (b \<or> ''no-new-privileges:true'' \<in> set xs)"
  by (induction xs arbitrary: b) (auto split: if_splits)

lemma nativePort_Inr: "nativePort port b = Inr m \<Longrightarrow> portView m = (pbHostIP b, decVal (pbHostPort b), unat (fst port), snd port)"
  by (auto simp: nativePort_def portView_def ParseUint_def decVal_def unat_of_nat split: if_splits)

lemma nativePorts_Inr:
  "nativePorts (map (\<lambda>(p, bs). ((p, t), bs)) pbs) = Inr ms \<Longrightarrow>
     map portView ms = concat (map (\<lambda>(port, bs). map (\<lambda>b. (pbHostIP b, decVal (pbHostPort b), unat port, t)) bs) pbs)"
proof (induction pbs arbitrary: ms)
  case (Cons pb pbs)
  obtain p bs where pb: "pb = (p, bs)" by force
  have one: "mapR (nativePort (p, t)) bs = Inr xs \<Longrightarrow> map portView xs = map (\<lambda>b. (pbHostIP b, decVal (pbHostPort b), unat p, t)) bs" for xs
    by (induction bs arbitrary: xs) (auto simp: result_iff dest!: nativePort_Inr)
  show ?case using Cons by (auto simp: pb result_iff dest!: one)
qed simp

lemma nativeBind_Inr: "nativeBind b = Inr x \<Longrightarrow> case_sum mountTriple volumeTriple x = bindView b"
  by (auto simp: nativeBind_def bindView_def Let_def mountTriple_def volumeTriple_def split: if_splits)

lemma tmpfsPairs_ro: "tmpfsPairs ps = Inr xs \<Longrightarrow> ''ro'' \<in> set xs \<longleftrightarrow> [''ro''] \<in> set ps"
proof (induction ps arbitrary: xs)
  case (Cons p ps)
  have "''ro'' \<noteq> a @ ''='' @ b" for a b :: string
  proof
    assume "''ro'' = a @ ''='' @ b"
    then have "CHR ''='' \<in> set ''ro''" by (metis Un_iff list.set_intros(1) set_append)
    then show False by simp
  qed
  with Cons show ?case by (auto simp: result_iff split: list.splits)
qed simp

lemma tmpfsOptions_ro:
  "tmpfsOptions t = Inr xs \<Longrightarrow> ''ro'' \<in> set xs \<longleftrightarrow> (case t of None \<Rightarrow> False | Some x \<Rightarrow> [''ro''] \<in> set (toOptions x))"
  by (auto simp: tmpfsOptions_def result_iff tmpfsPairs_ro split: option.splits if_splits)

lemma nativeEngineMount_Inr: "nativeEngineMount (fullMount m) = Inr x \<Longrightarrow> case_sum mountTriple volumeTriple x = mountView m"
  by (cases "mType m")
    (auto simp: nativeEngineMount_def fullMount_def translateNativeVolume_def translateNativeMount_def Let_def result_iff
      mountTriple_def volumeTriple_def mountView_def tmpfsOptions_ro split: if_splits)

lemma mounts_volumes: "f ` set (mountsOf xs) \<union> g ` set (volumesOf xs) = case_sum f g ` set xs"
  by (induction xs) (auto split: sum.splits)

lemma mapR_view:
  assumes "mapR f xs = Inr ys" "\<And>x y. f x = Inr y \<Longrightarrow> v y = g x"
  shows "v ` set ys = g ` set xs"
  using assms(1)
proof (induction xs arbitrary: ys)
  case (Cons x xs)
  then obtain y zs where "ys = y # zs" "f x = Inr y" "mapR f xs = Inr zs" by (auto simp: result_iff)
  then show ?case using Cons.IH assms(2) by simp
qed simp

lemma buildNativeSpec_view:
  assumes "buildNativeSpec (fullOptions opts) mode uids gids = Inr s" and "wfEnv (ccEnv (coConfig opts))"
  shows "nativeView s = engineView opts" "nativeUserns mode uids gids = Inr (nsUserNS s, nsIDMappings s)"
proof -
  obtain devices nnp ports userns idmaps binds mounts where
    d: "nativeDevices (hcDeviceRequests (coHost opts)) = Inr devices"
    and n: "nativeSecurity (hcSecurityOpt (coHost opts)) False = Inr nnp"
    and p: "nativePorts (map (\<lambda>(p, bs). ((p, ''tcp''), bs)) (hcPortBindings (coHost opts))) = Inr ports"
    and u: "nativeUserns mode uids gids = Inr (userns, idmaps)"
    and b: "mapR nativeBind (hcBinds (coHost opts)) = Inr binds"
    and m: "mapR nativeEngineMount (map fullMount (hcMounts (coHost opts))) = Inr mounts"
    and s: "nsImage s = ccImage (coConfig opts)" "nsName s = coName opts" "nsEnv s = nativeEnv (ccEnv (coConfig opts))"
      "nsLabels s = ccLabels (coConfig opts)" "nsEntrypoint s = ccEntrypoint (coConfig opts)" "nsCommand s = ccCmd (coConfig opts)"
      "nsUser s = ccUser (coConfig opts)" "nsWorkDir s = ccWorkingDir (coConfig opts)" "nsIDMappings s = idmaps" "nsUserNS s = userns"
      "nsMounts s = mountsOf binds @ mountsOf mounts" "nsVolumes s = volumesOf binds @ volumesOf mounts" "nsDevices s = devices"
      "nsHostAdd s = hcExtraHosts (coHost opts)" "nsCapDrop s = hcCapDrop (coHost opts)" "nsCapAdd s = []"
      "nsNoNewPrivileges s = nnp" "nsNetworks s = coNetwork opts" "nsHealthcheck s = ccHealthcheck (coConfig opts)"
      "nsNetMode s = (if coNetwork opts \<noteq> [] then ''bridge'' else hcNetworkMode (coHost opts))"
      "nrCPU (nsResources s) = cpuShare (hcNanoCPUs (coHost opts)) 100000" "nsShmSize s = positive (hcShmSize (coHost opts))"
      "\<not> nsTerminal s" "\<not> nsStdin s"
      "nrMemory (nsResources s) = positive (hcMemory (coHost opts))"
      "nrPids (nsResources s) = positive (valueOrZero (hcPidsLimit (coHost opts)))" "nsPortMappings s = ports"
    using assms(1)
    by (auto simp: buildNativeSpec_def fullOptions_def Let_def result_iff nativeTmpfs_def nativeNetworks_def nativeResources_def
        positive_def cpuShare_def comp_def split_def split: prod.splits)
  let ?f = "case_sum mountTriple volumeTriple"
  have mb: "?f ` set binds = bindView ` set (hcBinds (coHost opts))"
    by (rule mapR_view [OF b]) (rule nativeBind_Inr)
  have "mapR (\<lambda>m. nativeEngineMount (fullMount m)) (hcMounts (coHost opts)) = Inr mounts"
    using m by (simp add: mapR_Inr_iff list_all2_map1)
  then have mm: "?f ` set mounts = mountView ` set (hcMounts (coHost opts))"
    by (rule mapR_view) (rule nativeEngineMount_Inr)
  have "mountTriple ` set (nsMounts s) \<union> volumeTriple ` set (nsVolumes s) =
      bindView ` set (hcBinds (coHost opts)) \<union> mountView ` set (hcMounts (coHost opts))"
    unfolding s mb [symmetric] mm [symmetric] mounts_volumes [symmetric] by auto
  then show "nativeView s = engineView opts"
    using nativeDevices_Inr [OF d] nativeSecurity_Inr [OF n] nativePorts_Inr [OF p] nativeEnv_envOf [OF assms(2)]
    by (simp add: nativeView_def engineView_def Let_def s)
  show "nativeUserns mode uids gids = Inr (nsUserNS s, nsIDMappings s)" using u s(9,10) by simp
qed


section \<open>A sandbox through Libpod\<close>

lemma mergeEnv_wf [simp]: "wfEnv (mergeEnv a b)"
  using mergeEnv_normal [of a b] unfolding envNormal_def wfEnv_def by blast

lemma stages_wf:
  assumes "addPersist E p (buildBase E p (proxyEnvOf E p info)) w = (Inr b1, w')" "addInit E (pSpec p) b1 = Inr b2"
    "addDisplay E p (addSSH E p (addSupervisor p b2)) = Inr b3"
  shows "wfEnv (bEnv b3)"
proof -
  have "wfEnv (proxyEnvOf E p info)" by (simp add: proxyEnvOf_def identityEnv_def)
  then have "wfEnv (bEnv b1)"
    using assms(1) by (auto simp: addPersist_def result_iff persistBuild_def buildBase_env Let_def split: if_splits)
  then have "wfEnv (bEnv b2)"
    using assms(2) by (auto simp: addInit_def result_iff Let_def split: if_splits)
  then have "wfEnv (bEnv (addSSH E p (addSupervisor p b2)))"
    by (simp add: addSSH_def addSupervisor_def Let_def)
  then show ?thesis
    using assms(3) by (auto simp: addDisplay_def Let_def split: if_splits)
qed

lemma nativeCreate_Inr:
  assumes "nativeCreate P host mode uids gids options v = (Inr cid, v')"
  shows "\<exists>s. buildNativeSpec options mode uids gids = Inr s \<and> v' = v @ [LCreateContainer s] \<and> cid \<noteq> []"
  using assms by (auto simp: nativeCreate_def result_iff send_def Let_def split: if_splits sum.splits)

text \<open>The Libpod request of a created sandbox.\<close>

lemma native_sandbox_request:
  assumes "Create E spec w = (Inr h, w')"
    and "snd (last w') = (if nativeContainerCreate (eDriver E) then NativeContainerCreateReq opts else ContainerCreateReq opts)"
    and "nativeCreate P host mode uids gids (fullOptions opts) v = (Inr cid, v')"
  shows "\<exists>s. v' = v @ [LCreateContainer s] \<and> nsNoNewPrivileges s \<and> nsCapDrop s = [''NET_RAW''] \<and> nsCapAdd s = [] \<and>
    nsNetworks s = [(hNetwork h, [])] \<and> nsHostAdd s = spExtraHosts spec \<and>
    (\<forall>m \<in> set (nsPortMappings s). npHostIP m = loopback) \<and>
    nsEnv s ''OPENSHELL_SANDBOX_UID'' = None \<and> nsEnv s ''OPENSHELL_SANDBOX_GID'' = None"
  using assms(1)
proof (cases rule: Create_success)
  case (1 x p i net w1 w2 w3 w4 w5 w6 b1 b2 b3)
  note n = createValidate_name [OF 1(1)] createPlan_name [OF 1(2)] requestContainer_request [OF 1(8)]
  then have e: "spExtraHosts (pSpec p) = spExtraHosts spec" by (metis (no_types, lifting) Spec.select_convs(18) Spec.surjective Spec.update_convs(25))
  have o: "opts = createOptions E p (fst i) b3" using n assms(2) by (auto split: if_splits)
  have wf: "wfEnv (ccEnv (coConfig opts))"
    using stages_wf [OF 1(5-7)] by (simp add: o createOptions_def containerConfig_def Let_def)
  obtain s where s: "buildNativeSpec (fullOptions opts) mode uids gids = Inr s" "v' = v @ [LCreateContainer s]"
    using nativeCreate_Inr [OF assms(3)] by blast
  note view = buildNativeSpec_view(1) [OF s(1) wf]
  have ip: "npHostIP m = loopback" if "m \<in> set (nsPortMappings s)" for m
  proof -
    have "portView m \<in> set (cvPorts (engineView opts))" using that by (simp add: view [symmetric] nativeView_def)
    then obtain k bs bd where "(k, bs) \<in> set (portBindings E (pSpec p))" "bd \<in> set bs" "fst (portView m) = pbHostIP bd"
      by (auto simp: engineView_def Let_def o createOptions_def hostConfig_def)
    then show ?thesis
      using portBindings_values_aux [of k bs "[]" "publishedPorts E (pSpec p)"] by (auto simp: portBindings_def portView_def)
  qed
  have "envOf (bEnv b3) k = None" if "k \<in> {''OPENSHELL_SANDBOX_UID'', ''OPENSHELL_SANDBOX_GID''}" for k
  proof -
    have "k \<notin> set lateKeys" "k \<in> set identityKeys" "k \<noteq> ''OPENSHELL_OCI_IMAGE_USER''" using that by (auto simp: lateKeys_def identityKeys_def)
    then show ?thesis using stages_env [OF 1(5-7)] proxyEnvOf_identity by simp
  qed
  then have env: "cvEnv (nativeView s) ''OPENSHELL_SANDBOX_UID'' = None" "cvEnv (nativeView s) ''OPENSHELL_SANDBOX_GID'' = None"
    by (simp_all add: view engineView_def Let_def o createOptions_def containerConfig_def)
  have "cvNoNewPrivileges (nativeView s)" "cvCapDrop (nativeView s) = [''NET_RAW'']" "cvCapAdd (nativeView s) = []"
    "cvNetworks (nativeView s) = [(pNetName p, [])]" "cvHosts (nativeView s) = spExtraHosts spec"
    using e by (simp_all add: view engineView_def Let_def o createOptions_def hostConfig_def)
  then show ?thesis using s(2) ip env n by (intro exI [of _ s]) (simp add: nativeView_def)
qed

section \<open>The sample sandbox through Libpod\<close>

lemma buildNativeSpec_total:
  assumes "mode \<noteq> []" "isOk (nativeDevices (hcDeviceRequests (coHost opts)))" "isOk (nativeSecurity (hcSecurityOpt (coHost opts)) False)"
    "isOk (nativePorts (map (\<lambda>(p, bs). ((p, ''tcp''), bs)) (hcPortBindings (coHost opts))))" "isOk (nativeUserns mode uids gids)"
    "isOk (mapR nativeBind (hcBinds (coHost opts)))" "isOk (mapR nativeEngineMount (map fullMount (hcMounts (coHost opts))))"
  obtains s where "buildNativeSpec (fullOptions opts) mode uids gids = Inr s"
  using assms that by (auto simp: isOk_iff buildNativeSpec_def fullOptions_def Let_def result_iff comp_def split_def)

lemma nativePort_ok: "0 \<le> h \<Longrightarrow> h < 65536 \<Longrightarrow> isOk (nativePort port \<lparr>pbHostIP = ip, pbHostPort = Itoa h\<rparr>)"
  by (simp add: nativePort_def Itoa_nonneg ParseUint_natStr natStr_ne)

lemma sample_native_parts:
  "isOk (nativeSecurity [''no-new-privileges:true''] False)" "isOk (nativeUserns ''host'' [] [])"
  "isOk (nativePorts (map (\<lambda>(p, bs). ((p, ''tcp''), bs)) (portBindings (sampleEnv ans) (sampleSpecOf ls persist))))"
  "isOk (mapR nativeBind [''/home/u/p:/workspace:rw'', ''cauteum-ca-box:/cauteum/ca:ro'',
     ''/usr/bin/cauteum-init:/cauteum-haven/cauteum-init:ro'', ''/home/u/policy.yaml:/cauteum/policy.yaml:ro''])"
proof -
  show "isOk (nativePorts (map (\<lambda>(p, bs). ((p, ''tcp''), bs)) (portBindings (sampleEnv ans) (sampleSpecOf ls persist))))"
    using sample_display nativePort_ok [of 8080 "(80, ''tcp'')" loopback]
    by (auto simp: portBindings_def publishedPorts_def publish_def isOk_iff result_iff)
qed code_simp+

lemma sample_harden: "hardened (sampleSpecOf ls persist)"
  by code_simp

lemma sample_policy: "spInitBin (sampleSpecOf ls persist) = ''/usr/bin/cauteum-init''" "spPolicyPath (sampleSpecOf ls persist) = ''/home/u/policy.yaml''"
  by (simp_all add: sampleSpecOf_def zeroSpec_def)

lemma build_binds:
  "bBinds (setLabel k v b) = bBinds b" "bBinds (addEnv es b) = bBinds b" "bBinds (addBinds bs b) = bBinds b @ bs"
  by (simp_all add: setLabel_def addEnv_def addBinds_def)

lemma userLabels_binds: "bBinds (userLabels ls b) = bBinds b"
  by (induction ls b rule: userLabels.induct) (simp_all add: build_binds)

lemma sample_binds:
  assumes "addPersist E (samplePlanOf [] False) (buildBase E (samplePlanOf [] False) env0) w = (Inr b1, w')"
    "addInit E (sampleSpecOf [] False) b1 = Inr b2"
    "addDisplay E (samplePlanOf [] False) (addSSH E (samplePlanOf [] False) (addSupervisor (samplePlanOf [] False) b2)) = Inr b3"
    "eDefaults E = exampleDefaults"
  shows "bBinds b3 = [''/home/u/p:/workspace:rw'', ''cauteum-ca-box:/cauteum/ca:ro'',
     ''/usr/bin/cauteum-init:/cauteum-haven/cauteum-init:ro'', ''/home/u/policy.yaml:/cauteum/policy.yaml:ro'']"
proof -
  have "bBinds b1 = [''/home/u/p:/workspace:rw'', ''cauteum-ca-box:/cauteum/ca:ro'']"
    using assms(1,4) by (auto simp: addPersist_def returnW_def samplePlanOf_def buildBase_def Let_def caVolOf_def
        userLabels_binds build_binds exampleDefaults_def sampleSandboxConfig_def)
  then have "bBinds b2 = [''/home/u/p:/workspace:rw'', ''cauteum-ca-box:/cauteum/ca:ro'',
     ''/usr/bin/cauteum-init:/cauteum-haven/cauteum-init:ro'', ''/home/u/policy.yaml:/cauteum/policy.yaml:ro'']"
    using assms(2) by (auto simp: addInit_def sample_harden result_iff Let_def sample_policy build_binds)
  moreover have "b3 = b2"
    using assms(3) sample_display by (simp add: addDisplay_def addSSH_def addSupervisor_def samplePlanOf_def)
  ultimately show ?thesis by simp
qed

lemma sample_native_options:
  assumes "addPersist E (samplePlanOf [] False) (buildBase E (samplePlanOf [] False) env0) w = (Inr b1, w')"
    "addInit E (sampleSpecOf [] False) b1 = Inr b2"
    "addDisplay E (samplePlanOf [] False) (addSSH E (samplePlanOf [] False) (addSupervisor (samplePlanOf [] False) b2)) = Inr b3"
    "eDefaults E = exampleDefaults" "eOS E = exampleOS"
  obtains s where "buildNativeSpec (fullOptions (createOptions E (samplePlanOf [] False) info b3)) ''host'' [] [] = Inr s"
proof -
  let ?opts = "createOptions E (samplePlanOf [] False) info b3"
  have ps: "pSpec (samplePlanOf [] False) = sampleSpecOf [] False" by (simp add: samplePlanOf_def)
  have "portBindings E (sampleSpecOf [] False) = portBindings (sampleEnv (\<lambda>_. Inr [])) (sampleSpecOf [] False)"
    using sample_display by (simp add: portBindings_def publishedPorts_def)
  then have "hcBinds (coHost ?opts) = [''/home/u/p:/workspace:rw'', ''cauteum-ca-box:/cauteum/ca:ro'',
       ''/usr/bin/cauteum-init:/cauteum-haven/cauteum-init:ro'', ''/home/u/policy.yaml:/cauteum/policy.yaml:ro'']"
      "hcMounts (coHost ?opts) = []" "hcDeviceRequests (coHost ?opts) = []" "hcSecurityOpt (coHost ?opts) = [''no-new-privileges:true'']"
      "hcPortBindings (coHost ?opts) = portBindings (sampleEnv (\<lambda>_. Inr [])) (sampleSpecOf [] False)"
    using sample_gpu sample_binds [OF assms(1-4)] assms(5)
    by (simp_all add: createOptions_def hostConfig_def ps) (simp add: samplePlanOf_def sampleSandboxConfig_def)
  then show thesis
    using buildNativeSpec_total [of "''host''" ?opts "[]" "[]"] sample_native_parts that by auto
qed

lemma sample_native:
  obtains w' opts s where "Create (sampleEnv (\<lambda>_. Inr ''c1'')) (sampleSpecOf [] False) [] =
      (Inr \<lparr>hID = ''c1'', hName = ''box'', hNetwork = ''cauteum-net-box'', hImage = ''debian:bookworm''\<rparr>, w')"
    "snd (last w') = ContainerCreateReq opts" "buildNativeSpec (fullOptions opts) ''host'' [] [] = Inr s" "wfEnv (ccEnv (coConfig opts))"
proof -
  let ?E = "sampleEnv (\<lambda>_. Inr ''c1'')"
  obtain w' where c: "Create ?E (sampleSpecOf [] False) [] =
      (Inr \<lparr>hID = ''c1'', hName = ''box'', hNetwork = ''cauteum-net-box'', hImage = ''debian:bookworm''\<rparr>, w')"
    by (rule sample_success)
  then show thesis
  proof (cases rule: Create_success)
    case (1 v p i net w1 w2 w3 w4 w5 w6 b1 b2 b3)
    then have p: "p = samplePlanOf [] False"
      using sampled.world_validate [where ls = "[]" and persist = False] sampled.world_plan [where ls = "[]" and persist = False] by auto
    have ps: "pSpec p = sampleSpecOf [] False" by (simp add: p samplePlanOf_def)
    define opts where "opts = createOptions ?E p (fst i) b3"
    obtain s where "buildNativeSpec (fullOptions opts) ''host'' [] [] = Inr s"
      unfolding opts_def p
      by (rule sample_native_options [OF 1(5) [unfolded p] 1(6) [unfolded ps] 1(7) [unfolded p]]) simp_all
    moreover have "snd (last w') = ContainerCreateReq opts" using requestContainer_request [OF 1(8)] by (auto simp: opts_def)
    moreover have "wfEnv (ccEnv (coConfig opts))"
      using stages_wf [OF 1(5-7)] by (simp add: opts_def createOptions_def containerConfig_def Let_def)
    ultimately show thesis using that c by blast
  qed
qed

lemma sample_native_create:
  assumes "buildNativeSpec options mode uids gids = Inr s"
  shows "nativeCreate samplePodman sampleHost mode uids gids options [] = (Inr ''c1'', [LCreateContainer s])"
  using assms sample_endpoint
  by (simp add: nativeCreate_def run_simps send_def samplePodman_def sampleDo_def sampleResponse_def statusOK_def Let_def)


end
