(* ===== verification/Credential_Rules.thy ===== *)
theory Credential_Rules
  imports Registry_Auth
begin

text \<open>
  What the resolver of registry credentials promises: a credential is sent only to the registry it was
  stored for, and the Docker CLI is asked only for a registry the Podman file does not know.
\<close>

lemma matchAuth_Some: "matchAuth registry auths = Some entry \<Longrightarrow> \<exists>key. (key, entry) \<in> set auths \<and> normalizeAuthRegistry key = registry"
  by (induction registry auths rule: matchAuth.induct) (auto split: if_splits)

lemma matchAuth_None: "matchAuth registry auths = None \<Longrightarrow> (key, entry) \<in> set auths \<Longrightarrow> normalizeAuthRegistry key \<noteq> registry"
  by (induction registry auths rule: matchAuth.induct) (auto split: if_splits)

text \<open>The credential that is encoded belongs to the registry: it names the registry as its server, and its
  secrets come from an entry of the file for this registry or from the Docker CLI's lookup of it.\<close>

definition fileCredential :: "string \<Rightarrow> podmanRegistryCredential \<Rightarrow> auth_config \<Rightarrow> bool" where
  "fileCredential registry entry c \<longleftrightarrow> (\<exists>u p.
     (if rcAuth entry = [] then u = rcUsername entry \<and> p = rcPassword entry
      else CHR '':'' \<notin> set u \<and> decodedLogin (rcAuth entry) = Some (u @ CHR '':'' # p)) \<and>
     c = \<lparr>acUsername = u, acPassword = p, acAuth = [], acServerAddress = registry,
          acIdentityToken = rcIdentityToken entry, acRegistryToken = rcRegistryToken entry\<rparr>)"

definition dockerCredential :: "string \<Rightarrow> auth_config \<Rightarrow> auth_config \<Rightarrow> bool" where
  "dockerCredential registry found c \<longleftrightarrow> c = found\<lparr>acServerAddress := dockerAuthKey registry\<rparr>"

lemma encodeCredential_Inr:
  assumes "encodeCredential A registry entry = Inr h"
  shows "\<exists>c. fileCredential registry entry c \<and> alEncode A c = Inr h"
proof -
  have cut: "Cut d (CHR '':'') = (u, p, True) \<Longrightarrow> CHR '':'' \<notin> set u \<and> d = u @ CHR '':'' # p" for d u p
    by (cases rule: Cut_cases [of "CHR '':''" d]) auto
  show ?thesis
    using assms by (auto simp: encodeCredential_def result_iff wrapE_Inr_iff fileCredential_def split: if_splits option.splits prod.splits dest!: cut)
qed

lemma dockerRegistryAuth_Inr:
  assumes "dockerRegistryAuth A ref = Inr h" "alDomain A (TrimSpace ref) = Inr registry"
  shows "h = [] \<or> (\<exists>lookup found c. alLoad A = Inr lookup \<and> lookup (dockerAuthKey registry) = Inr found \<and>
    dockerCredential registry found c \<and> alEncode A c = Inr h)"
proof -
  obtain lookup found where l: "alLoad A = Inr lookup" "lookup (dockerAuthKey registry) = Inr found"
    and h: "h = [] \<or> alEncode A \<lparr>acUsername = acUsername found, acPassword = acPassword found, acAuth = acAuth found,
      acServerAddress = dockerAuthKey registry, acIdentityToken = acIdentityToken found, acRegistryToken = acRegistryToken found\<rparr> = Inr h"
    using assms by (auto simp: dockerRegistryAuth_def result_iff wrapE_Inr_iff Let_def split: if_splits)
  have "dockerCredential registry found \<lparr>acUsername = acUsername found, acPassword = acPassword found, acAuth = acAuth found,
      acServerAddress = dockerAuthKey registry, acIdentityToken = acIdentityToken found, acRegistryToken = acRegistryToken found\<rparr>"
    by (simp add: dockerCredential_def)
  with l h show ?thesis by blast
qed

text \<open>
  C17. Credentials go to the registry they belong to and to no other: whatever the resolver returns for an
  image names the image's registry as its server and holds the secrets of an entry for this registry of the
  auth file, or of the Docker CLI's lookup of it, which is used only when the file has no such
  entry. Without a credential the value is empty.
\<close>

theorem credentials_match_registry:
  assumes "podmanRegistryAuth A os ref configuredPath = Inr h"
  shows "\<exists>registry path auths. alDomain A (TrimSpace ref) = Inr registry \<and> findPodmanAuthFile A os configuredPath = Inr path \<and>
    (if path = [] then auths = [] else readAuthFile os path = Inr auths) \<and>
    ((\<exists>key entry c. (key, entry) \<in> set auths \<and> normalizeAuthRegistry key = registry \<and>
        fileCredential registry entry c \<and> alEncode A c = Inr h) \<or>
     (\<forall>(key, entry) \<in> set auths. normalizeAuthRegistry key \<noteq> registry) \<and>
     (h = [] \<or> (\<exists>lookup found c. alLoad A = Inr lookup \<and> lookup (dockerAuthKey registry) = Inr found \<and>
        dockerCredential registry found c \<and> alEncode A c = Inr h)))"
proof -
  obtain registry path where r: "alDomain A (TrimSpace ref) = Inr registry" "findPodmanAuthFile A os configuredPath = Inr path"
    and rest: "if path = [] then dockerRegistryAuth A ref = Inr h
      else \<exists>auths. readAuthFile os path = Inr auths \<and>
        (case matchAuth registry auths of Some entry \<Rightarrow> encodeCredential A registry entry | None \<Rightarrow> dockerRegistryAuth A ref) = Inr h"
    using assms by (auto simp: podmanRegistryAuth_def result_iff wrapE_Inr_iff split: if_splits)
  show ?thesis
  proof (cases "path = []")
    case True
    with rest r show ?thesis using dockerRegistryAuth_Inr [OF _ r(1)] by (intro exI [of _ registry] exI [of _ path] exI [of _ "[]"]) simp
  next
    case False
    with rest obtain auths where a: "readAuthFile os path = Inr auths"
      "(case matchAuth registry auths of Some entry \<Rightarrow> encodeCredential A registry entry | None \<Rightarrow> dockerRegistryAuth A ref) = Inr h" by auto
    show ?thesis
    proof (cases "matchAuth registry auths")
      case None
      then have "\<forall>(key, entry) \<in> set auths. normalizeAuthRegistry key \<noteq> registry" using matchAuth_None by blast
      moreover have "dockerRegistryAuth A ref = Inr h" using a None by simp
      ultimately show ?thesis using r a(1) False dockerRegistryAuth_Inr [OF _ r(1)]
        by (intro exI [of _ registry] exI [of _ path] exI [of _ auths]) simp
    next
      case (Some entry)
      then obtain key where k: "(key, entry) \<in> set auths" "normalizeAuthRegistry key = registry" using matchAuth_Some by blast
      obtain c where "fileCredential registry entry c" "alEncode A c = Inr h"
        using a(2) Some by (auto dest!: encodeCredential_Inr)
      with k r a(1) False show ?thesis
        by (intro exI [of _ registry] exI [of _ path] exI [of _ auths]) auto
    qed
  qed
qed

definition sampleAuthLib :: auth_lib where
  "sampleAuthLib =
     \<lparr>alDomain = (\<lambda>_. Inr ''quay.io''), alLoad = Inl ''no config'',
      alEncode = (\<lambda>c. Inr (acServerAddress c @ '' '' @ acUsername c @ '':'' @ acPassword c)), alNotExist = (\<lambda>_. True)\<rparr>"

abbreviation sampleAuthText :: string where
  "sampleAuthText \<equiv> ''{\"auths\":{\"ghcr.io\":{\"auth\":\"eDp6\"},\"https://quay.io/v1\":{\"auth\":\"dTpw\"}}}''"

definition sampleAuthOS :: host_os where
  "sampleAuthOS = exampleOS\<lparr>Stat := (\<lambda>_. Inr fileInfo), ReadFile := (\<lambda>_. Inr sampleAuthText)\<rparr>"

lemma sample_auth_file:
  "decodeAuthFile sampleAuthText = Some [(''ghcr.io'', zeroCredential\<lparr>rcAuth := ''eDp6''\<rparr>), (''https://quay.io/v1'', zeroCredential\<lparr>rcAuth := ''dTpw''\<rparr>)]"
  "matchAuth ''quay.io'' [(''ghcr.io'', zeroCredential\<lparr>rcAuth := ''eDp6''\<rparr>), (''https://quay.io/v1'', zeroCredential\<lparr>rcAuth := ''dTpw''\<rparr>)] =
     Some (zeroCredential\<lparr>rcAuth := ''dTpw''\<rparr>)"
  "encodeCredential sampleAuthLib ''quay.io'' (zeroCredential\<lparr>rcAuth := ''dTpw''\<rparr>) = Inr ''quay.io u:p''"
  "TrimSpace ''/auth.json'' = ''/auth.json''" "IsAbs ''/auth.json''" "Clean ''/auth.json'' = ''/auth.json''"
  by code_simp+

lemma sample_registry_auth: "podmanRegistryAuth sampleAuthLib sampleAuthOS ''quay.io/a'' ''/auth.json'' = Inr ''quay.io u:p''"
proof -
  have "readAuthFile sampleAuthOS ''/auth.json'' =
      Inr [(''ghcr.io'', zeroCredential\<lparr>rcAuth := ''eDp6''\<rparr>), (''https://quay.io/v1'', zeroCredential\<lparr>rcAuth := ''dTpw''\<rparr>)]"
    using sample_auth_file
    by (simp add: readAuthFile_def validateRegistryAuthFile_def sampleAuthOS_def exampleOS_def fileInfo_def del: matchAuth.simps)
  moreover have "alDomain sampleAuthLib (TrimSpace ''quay.io/a'') = Inr ''quay.io''" by (simp add: sampleAuthLib_def)
  ultimately show ?thesis
    using sample_auth_file by (simp add: podmanRegistryAuth_def findPodmanAuthFile_def del: matchAuth.simps)
qed

theorem credentials_match_registry_witness:
  "\<exists>path auths. findPodmanAuthFile sampleAuthLib sampleAuthOS ''/auth.json'' = Inr path \<and> readAuthFile sampleAuthOS path = Inr auths \<and>
     (\<exists>key entry c. (key, entry) \<in> set auths \<and> normalizeAuthRegistry key = ''quay.io'' \<and>
        fileCredential ''quay.io'' entry c \<and> alEncode sampleAuthLib c = Inr ''quay.io u:p'')"
  using credentials_match_registry [OF sample_registry_auth] sample_auth_file(4)
  by (auto simp: sampleAuthLib_def findPodmanAuthFile_def)

end
