(* ===== verification/Podman_Backend.thy ===== *)
theory Podman_Backend
  imports Podman Podman_Rules Credential_Rules
begin

text \<open>
  The driver on Podman: the Docker driver of the model with the callbacks that \<^verbatim>\<open>NewWithConfig\<close> installs.
  Its requests for native networks and containers are answered by the Libpod adapters, every other
  request by the Engine API as before. The answers of Libpod may depend on everything that was asked
  before.

  The locale states what the driver needs of such a backend, that a network it verifies is isolated, and
  concludes that every proxied sandbox is on an isolated network; the callbacks keep this contract.
\<close>

section \<open>The callbacks as answers\<close>

definition nativeAnswer :: "(trace \<Rightarrow> podman_env) \<Rightarrow> string \<Rightarrow> (native_error \<Rightarrow> engine_error) \<Rightarrow> engine \<Rightarrow> trace \<Rightarrow> engine_error + unit" where
  "nativeAnswer P host txt en w =
     (case snd (last w) of
        NativeNetworkCreateReq n internal labels \<Rightarrow> wrapE txt (fst (nativeNetworkCreateP (P w) host n internal labels []))
      | NativeNetworkVerifyReq n internal \<Rightarrow> wrapE txt (fst (nativeNetworkVerifyP (P w) host n internal []))
      | _ \<Rightarrow> ansUnit en w)"

definition nativeContainerAnswer ::
  "(trace \<Rightarrow> podman_env) \<Rightarrow> string \<Rightarrow> Config \<Rightarrow> (native_error \<Rightarrow> engine_error) \<Rightarrow> engine \<Rightarrow> trace \<Rightarrow> engine_error + string" where
  "nativeContainerAnswer P host cfg txt en w =
     (case snd (last w) of
        NativeContainerCreateReq opts \<Rightarrow>
          wrapE txt (fst (nativeCreate (P w) host (pcUsernsMode cfg) (pcUIDMap cfg) (pcGIDMap cfg) (fullOptions opts) []))
      | _ \<Rightarrow> ansContainerCreate en w)"

text \<open>\<open>txt\<close> is the text of an error of the adapters.\<close>

definition onPodman ::
  "(trace \<Rightarrow> podman_env) \<Rightarrow> auth_lib \<Rightarrow> string \<Rightarrow> Config \<Rightarrow> (native_error \<Rightarrow> engine_error) \<Rightarrow> env \<Rightarrow> env" where
  "onPodman P A host cfg txt E =
     E\<lparr>eDriver := podmanDriver A (eOS E) host cfg,
       eEngine := (eEngine E)\<lparr>ansUnit := nativeAnswer P host txt (eEngine E),
                             ansContainerCreate := nativeContainerAnswer P host cfg txt (eEngine E)\<rparr>\<rparr>"

lemma onPodman_simps [simp]:
  "eDriver (onPodman P A host cfg txt E) = podmanDriver A (eOS E) host cfg"
  "ansUnit (eEngine (onPodman P A host cfg txt E)) = nativeAnswer P host txt (eEngine E)"
  "ansContainerCreate (eEngine (onPodman P A host cfg txt E)) = nativeContainerAnswer P host cfg txt (eEngine E)"
  "eDefaults (onPodman P A host cfg txt E) = eDefaults E" "eOS (onPodman P A host cfg txt E) = eOS E"
  "eParsePort (onPodman P A host cfg txt E) = eParsePort E"
  "ansContainerList (eEngine (onPodman P A host cfg txt E)) = ansContainerList (eEngine E)"
  "ansContainerInspect (eEngine (onPodman P A host cfg txt E)) = ansContainerInspect (eEngine E)"
  "ansImageInspect (eEngine (onPodman P A host cfg txt E)) = ansImageInspect (eEngine E)"
  "ansNetworkInspect (eEngine (onPodman P A host cfg txt E)) = ansNetworkInspect (eEngine E)"
  "ansExecCreate (eEngine (onPodman P A host cfg txt E)) = ansExecCreate (eEngine E)"
  "ansExecAttach (eEngine (onPodman P A host cfg txt E)) = ansExecAttach (eEngine E)"
  "ansExecInspect (eEngine (onPodman P A host cfg txt E)) = ansExecInspect (eEngine E)"
  "pollRounds (eEngine (onPodman P A host cfg txt E)) = pollRounds (eEngine E)"
  by (simp_all add: onPodman_def)

lemma podmanDriver_simps [simp]:
  "cliPresent (podmanDriver A os host cfg)" "runtimeConfig (podmanDriver A os host cfg) = podmanRuntimeConfig host cfg"
  "enableBindMounts (podmanDriver A os host cfg) = pcEnableBindMounts cfg"
  "nativeContainerCreate (podmanDriver A os host cfg) = (pcUsernsMode cfg \<noteq> [])"
  "nativeNetworkCreate (podmanDriver A os host cfg)" "nativeNetworkVerify (podmanDriver A os host cfg)"
  by (simp_all add: podmanDriver_def)

lemma answer_simps [simp]:
  "nativeAnswer P host txt en (w @ [(c, NativeNetworkCreateReq n internal labels)]) =
     wrapE txt (fst (nativeNetworkCreateP (P (w @ [(c, NativeNetworkCreateReq n internal labels)])) host n internal labels []))"
  "nativeAnswer P host txt en (w @ [(c, NativeNetworkVerifyReq n internal)]) =
     wrapE txt (fst (nativeNetworkVerifyP (P (w @ [(c, NativeNetworkVerifyReq n internal)])) host n internal []))"
  "nativeAnswer P host txt en (w @ [(c, VolumeInspectReq v)]) = ansUnit en (w @ [(c, VolumeInspectReq v)])"
  "nativeAnswer P host txt en (w @ [(c, VolumeCreateReq v)]) = ansUnit en (w @ [(c, VolumeCreateReq v)])"
  "nativeAnswer P host txt en (w @ [(c, NetworkConnectReq n cid)]) = ansUnit en (w @ [(c, NetworkConnectReq n cid)])"
  "nativeAnswer P host txt en (w @ [(c, ContainerStartReq cid)]) = ansUnit en (w @ [(c, ContainerStartReq cid)])"
  "nativeContainerAnswer P host cfg txt en (w @ [(c, ContainerCreateReq opts)]) = ansContainerCreate en (w @ [(c, ContainerCreateReq opts)])"
  "nativeContainerAnswer P host cfg txt en (w @ [(c, NativeContainerCreateReq opts)]) =
     wrapE txt (fst (nativeCreate (P (w @ [(c, NativeContainerCreateReq opts)])) host (pcUsernsMode cfg) (pcUIDMap cfg) (pcGIDMap cfg)
       (fullOptions opts) []))"
  by (simp_all add: nativeAnswer_def nativeContainerAnswer_def)

text \<open>The driver that \<^verbatim>\<open>NewWithConfig\<close> builds is the one on Podman, with the checked configuration and the host it chose.\<close>

lemma NewWithConfig_onPodman:
  assumes "NewWithConfig X A cfg0 = Inr d" "peOS X = eOS E"
  obtains cfg host where "checkNew (peOS X) (peCrypto X) cfg0 = Inr cfg" "chooseHost X cfg = Inr host"
    "d = eDriver (onPodman P A host cfg txt E)"
  using assms by (auto simp: NewWithConfig_def result_iff)

section \<open>What the driver needs of a backend with callbacks\<close>

locale isolating_backend =
  fixes E :: env and isolated :: "string \<Rightarrow> trace \<Rightarrow> bool"
  assumes installed: "nativeNetworkCreate (eDriver E)" "nativeNetworkVerify (eDriver E)"
    and verified: "ansUnit (eEngine E) (w @ [(ReqCtx, NativeNetworkVerifyReq n True)]) = Inr () \<Longrightarrow>
      isolated n (w @ [(ReqCtx, NativeNetworkVerifyReq n True)])"
begin

lemma ensured:
  assumes "ensureNetwork E n sb True w = (Inr created, w')"
  shows "\<exists>w0. w' = w0 @ [(ReqCtx, NativeNetworkVerifyReq n True)] \<and> isolated n w'"
proof -
  have "\<exists>w0. w' = w0 @ [(ReqCtx, NativeNetworkVerifyReq n True)] \<and> ansUnit (eEngine E) w' = Inr ()"
    using assms installed
    by (auto simp: ensureNetwork_def reuseNetwork_def createNativeNetwork_def nativeVerify_def result_iff split: sum.splits if_splits)
  then show ?thesis using verified by blast
qed

lemma sandbox_network:
  assumes "Create E spec w = (Inr h, w')" "TrimSpace (spProxyBin spec) \<noteq> []"
  shows "\<exists>w1. prefix (w1 @ [(ReqCtx, NativeNetworkVerifyReq (hNetwork h) True)]) w' \<and>
    isolated (hNetwork h) (w1 @ [(ReqCtx, NativeNetworkVerifyReq (hNetwork h) True)])"
  using assms(1)
proof (cases rule: Create_success)
  case (1 v p i net w1 w2 w3 w4 w5 w6 b1 b2 b3)
  note n = createValidate_name [OF 1(1)] createPlan_name [OF 1(2)] requestContainer_request [OF 1(8)]
  then have "spProxyBin (pSpec p) = spProxyBin spec" by (metis (no_types, lifting) Spec.select_convs(7) Spec.surjective Spec.update_convs(25))
  then have "pWithProxy p" using n assms(2) by simp
  then obtain w0 where "w4 = w0 @ [(ReqCtx, NativeNetworkVerifyReq (pNetName p) True)]" "isolated (pNetName p) w4"
    using ensured [of "pNetName p" "pName p" w3 net w4] 1(4) by auto
  moreover have "hNetwork h = pNetName p" using n by simp
  ultimately show ?thesis using 1(10) by (intro exI [of _ w0]) simp
qed

end

section \<open>Podman keeps the contract\<close>

text \<open>The network is internal, and for every subnet there is a blackhole route to exactly its gateway.\<close>

definition gatewayBlackholed :: "nativeNetworkDetails \<Rightarrow> nativeNetworkSubnet \<Rightarrow> bool" where
  "gatewayBlackholed d s \<longleftrightarrow>
     (case (ParsePrefix (snSubnet s), ParseAddr (snGateway s)) of
        (Some pfx, Some gateway) \<Rightarrow>
          PrefixContains pfx gateway \<and>
          (\<exists>route \<in> set (ndRoutes d). EqualFold (rtType route) ''blackhole'' \<and>
             ParsePrefix (rtDestination route) = Some \<lparr>pfAddr = gateway, pfBits = BitLen gateway\<rparr>)
      | _ \<Rightarrow> False)"

definition isolatedNetwork :: "nativeNetworkDetails \<Rightarrow> bool" where
  "isolatedNetwork d \<longleftrightarrow> ndInternal d \<and> ndSubnets d \<noteq> [] \<and> (\<forall>s \<in> set (ndSubnets d). gatewayBlackholed d s)"

text \<open>Libpod, asked for the network at this point, reports it as isolated.\<close>

definition libpodIsolated :: "(trace \<Rightarrow> podman_env) \<Rightarrow> string \<Rightarrow> trace \<Rightarrow> bool" where
  "libpodIsolated P n w \<longleftrightarrow>
     (case peDo (P w) [LInspectNetwork n] of
        Inr r \<Rightarrow> statusOK r \<and> (case rsDetails r of Inr d \<Rightarrow> isolatedNetwork d | Inl _ \<Rightarrow> False)
      | Inl _ \<Rightarrow> False)"

lemma withoutZone_plain: "zoneOf a = [] \<Longrightarrow> withoutZone a = a"
  by (cases a) auto

lemma verifySubnets_iff: "verifySubnets (ndRoutes d) ss = Inr () \<longleftrightarrow> (\<forall>s \<in> set ss. gatewayBlackholed d s)"
proof (induction ss)
  case (Cons s ss)
  have "list_ex (blackholes pfx gw) (ndRoutes d) \<longleftrightarrow> PrefixContains pfx gw \<and>
      (\<exists>route \<in> set (ndRoutes d). EqualFold (rtType route) ''blackhole'' \<and>
         ParsePrefix (rtDestination route) = Some \<lparr>pfAddr = gw, pfBits = BitLen gw\<rparr>)" for pfx gw
    by (auto simp: list_ex_iff blackholes_def PrefixFrom_def PrefixContains_def withoutZone_plain split: option.splits)
  with Cons.IH show ?case by (auto simp: gatewayBlackholed_def split: option.splits)
qed simp

lemma verifyDetails_iff: "verifyDetails True d = Inr () \<longleftrightarrow> isolatedNetwork d"
  by (simp add: verifyDetails_def isolatedNetwork_def verifySubnets_iff)

lemma nativeVerify_isolated:
  assumes "fst (nativeNetworkVerifyP (P w) host n True []) = Inr ()"
  shows "libpodIsolated P n w"
proof -
  obtain w' where "nativeNetworkVerifyP (P w) host n True [] = (Inr (), w')" using assms by (metis prod.collapse)
  then show ?thesis
    by (auto simp: nativeNetworkVerifyP_def result_iff send_def libpodIsolated_def verifyDetails_iff [symmetric]
        split: if_splits sum.splits)
qed

interpretation podman_backend: isolating_backend "onPodman P A host cfg txt E" "libpodIsolated P" for P A host cfg txt E
proof unfold_locales
  fix w n
  assume "ansUnit (eEngine (onPodman P A host cfg txt E)) (w @ [(ReqCtx, NativeNetworkVerifyReq n True)]) = Inr ()"
  then show "libpodIsolated P n (w @ [(ReqCtx, NativeNetworkVerifyReq n True)])"
    by (auto simp: result_iff intro: nativeVerify_isolated)
qed simp_all

text \<open>The request for the sandbox itself, when user namespaces are configured.\<close>

lemma podman_request:
  assumes "Create (onPodman P A host cfg txt E) spec w = (Inr h, w')" "pcUsernsMode cfg \<noteq> []"
  obtains opts v' where "snd (last w') = NativeContainerCreateReq opts"
    "nativeCreate (P w') host (pcUsernsMode cfg) (pcUIDMap cfg) (pcGIDMap cfg) (fullOptions opts) [] = (Inr (hID h), v')"
  using assms(1)
proof (cases rule: Create_success)
  case (1 v p i net w1 w2 w3 w4 w5 w6 b1 b2 b3)
  let ?opts = "createOptions (onPodman P A host cfg txt E) p (fst i) b3"
  have r: "w' = w6 @ [(ReqCtx, NativeContainerCreateReq ?opts)]" "nativeContainerAnswer P host cfg txt (eEngine E) w' = Inr (hID h)"
    using requestContainer_request [OF 1(8), unfolded onPodman_simps podmanDriver_simps if_P [OF assms(2)]] by blast+
  then have "fst (nativeCreate (P w') host (pcUsernsMode cfg) (pcUIDMap cfg) (pcGIDMap cfg) (fullOptions ?opts) []) = Inr (hID h)"
    by (simp add: result_iff)
  then show thesis using that [of ?opts] r(1) by (metis last_snoc prod.collapse snd_conv)
qed

text \<open>
  C7. A sandbox on Podman is confined. When \<open>Create\<close> succeeds on the driver that the Podman backend builds,
  then behind a proxy its network was verified before the container was requested, and Libpod reported
  it at that point as internal with a blackhole route for the gateway of every subnet. With a configured
  user namespace the container is the answer to a single Libpod request that forbids new privileges,
  drops NET_RAW and adds no capability, joins that network and no other, publishes ports on the loopback
  interface only, and leaves the identity of the sandbox to the driver.
\<close>

theorem podman_sandbox_confined:
  assumes "Create (onPodman P A host cfg txt E) spec w = (Inr h, w')"
  shows "(TrimSpace (spProxyBin spec) \<noteq> [] \<longrightarrow>
      (\<exists>w1. prefix (w1 @ [(ReqCtx, NativeNetworkVerifyReq (hNetwork h) True)]) w' \<and>
        libpodIsolated P (hNetwork h) (w1 @ [(ReqCtx, NativeNetworkVerifyReq (hNetwork h) True)]))) \<and>
    (pcUsernsMode cfg \<noteq> [] \<longrightarrow>
      (\<exists>s r. peDo (P w') [LCreateContainer s] = Inr r \<and> statusOK r \<and>
        nsNoNewPrivileges s \<and> nsCapDrop s = [''NET_RAW''] \<and> nsCapAdd s = [] \<and>
        nsNetworks s = [(hNetwork h, [])] \<and> nsHostAdd s = spExtraHosts spec \<and>
        (\<forall>m \<in> set (nsPortMappings s). npHostIP m = loopback) \<and>
        nsEnv s ''OPENSHELL_SANDBOX_UID'' = None \<and> nsEnv s ''OPENSHELL_SANDBOX_GID'' = None))"
proof (intro conjI impI)
  assume "TrimSpace (spProxyBin spec) \<noteq> []"
  with assms show "\<exists>w1. prefix (w1 @ [(ReqCtx, NativeNetworkVerifyReq (hNetwork h) True)]) w' \<and>
      libpodIsolated P (hNetwork h) (w1 @ [(ReqCtx, NativeNetworkVerifyReq (hNetwork h) True)])"
    by (rule podman_backend.sandbox_network)
next
  assume mode: "pcUsernsMode cfg \<noteq> []"
  obtain opts v' where op: "snd (last w') = NativeContainerCreateReq opts"
    "nativeCreate (P w') host (pcUsernsMode cfg) (pcUIDMap cfg) (pcGIDMap cfg) (fullOptions opts) [] = (Inr (hID h), v')"
    by (rule podman_request [OF assms mode])
  obtain s where s: "v' = [LCreateContainer s]" "nsNoNewPrivileges s" "nsCapDrop s = [''NET_RAW'']" "nsCapAdd s = []"
      "nsNetworks s = [(hNetwork h, [])]" "nsHostAdd s = spExtraHosts spec" "\<forall>m \<in> set (nsPortMappings s). npHostIP m = loopback"
      "nsEnv s ''OPENSHELL_SANDBOX_UID'' = None" "nsEnv s ''OPENSHELL_SANDBOX_GID'' = None"
    using native_sandbox_request [OF assms _ op(2)] op(1) mode by auto
  moreover have "\<exists>r. peDo (P w') [LCreateContainer s] = Inr r \<and> statusOK r"
    using op(2) s(1) by (auto simp: nativeCreate_def result_iff send_def Let_def split: if_splits sum.splits prod.splits)
  ultimately show "\<exists>s r. peDo (P w') [LCreateContainer s] = Inr r \<and> statusOK r \<and>
        nsNoNewPrivileges s \<and> nsCapDrop s = [''NET_RAW''] \<and> nsCapAdd s = [] \<and>
        nsNetworks s = [(hNetwork h, [])] \<and> nsHostAdd s = spExtraHosts spec \<and>
        (\<forall>m \<in> set (nsPortMappings s). npHostIP m = loopback) \<and>
        nsEnv s ''OPENSHELL_SANDBOX_UID'' = None \<and> nsEnv s ''OPENSHELL_SANDBOX_GID'' = None"
    by blast
qed

section \<open>The sample sandbox on Podman\<close>

text \<open>A Libpod that reports a network as isolated once its creation was requested.\<close>

definition isolatedPodman :: podman_env where
  "isolatedPodman = samplePodman\<lparr>peDo := (\<lambda>_. Inr (sampleResponse\<lparr>rsDetails := Inr \<lparr>ndInternal = True,
     ndSubnets = [\<lparr>snSubnet = ''172.16.2.0/24'', snGateway = ''172.16.2.1''\<rparr>],
     ndRoutes = [\<lparr>rtDestination = ''172.16.2.1/32'', rtGateway = [], rtType = ''blackhole''\<rparr>]\<rparr>\<rparr>))\<rparr>"

definition asksInternal :: "ctx \<times> request \<Rightarrow> bool" where
  "asksInternal e = (case snd e of NativeNetworkCreateReq n internal labels \<Rightarrow> internal | _ \<Rightarrow> False)"

definition samplePodmanAt :: "trace \<Rightarrow> podman_env" where
  "samplePodmanAt w = (if list_ex asksInternal w then isolatedPodman else samplePodman)"

definition sampleHostConfig :: Config where
  "sampleHostConfig = zeroPodmanConfig\<lparr>pcImagePullPolicy := ''missing'', pcUsernsMode := ''host''\<rparr>"

definition sampleOnPodman :: env where
  "sampleOnPodman = onPodman samplePodmanAt sampleAuthLib sampleHost sampleHostConfig (\<lambda>_. ''libpod'')
     (sampleEnv (answering ''p1'' (\<lambda>_. Inr ''c1'')))"

lemma isolatedPodman_network:
  "fst (nativeNetworkCreateP isolatedPodman sampleHost ''cauteum-net-box'' True (networkLabels ''box'') []) = Inr ()"
  "fst (nativeNetworkVerifyP isolatedPodman sampleHost ''cauteum-net-box'' True []) = Inr ()"
  by code_simp+

lemma isolatedPodman_create:
  assumes "buildNativeSpec options mode uids gids = Inr s"
  shows "nativeCreate isolatedPodman sampleHost mode uids gids options [] = (Inr ''c1'', [LCreateContainer s])"
proof -
  have "nativeEndpoint isolatedPodman sampleHost = Inr (''http'', ''podman'')" "nativeHTTPClient isolatedPodman (''http'', ''podman'') = Inr None"
    by code_simp+
  with assms show ?thesis
    by (simp add: nativeCreate_def run_simps send_def isolatedPodman_def sampleResponse_def statusOK_def Let_def)
qed

lemma sample_podman_runtime:
  "cfgOf sampleOnPodman = podmanRuntimeConfig sampleHost sampleHostConfig" "plainConfig (podmanRuntimeConfig sampleHost sampleHostConfig)"
  by (simp_all add: sampleOnPodman_def plainConfig_def podmanRuntimeConfig_def sampleHostConfig_def zeroPodmanConfig_def zeroConfig_def)

lemma sample_podman_ensured: "yields (ensureNetwork sampleOnPodman ''cauteum-net-box'' ''box'' True) True"
  unfolding yields_def
  by (auto simp: sampleOnPodman_def ensureNetwork_def createNativeNetwork_def nativeVerify_def run_simps samplePodmanAt_def
      asksInternal_def isolatedPodman_network)

interpretation sample_podman: sample_world sampleOnPodman "''p1''"
proof unfold_locales
  show "plainConfig (cfgOf sampleOnPodman)" using sample_podman_runtime by simp
  show "yields (ensureNetwork sampleOnPodman ''cauteum-net-box'' ''box'' True) True" by (rule sample_podman_ensured)
qed (simp_all add: sampleOnPodman_def sampleHostConfig_def zeroPodmanConfig_def answering_def)

lemma sample_podman_create:
  obtains w' where "Create sampleOnPodman (sampleSpecOf [] False) [] =
    (Inr \<lparr>hID = ''c1'', hName = ''box'', hNetwork = ''cauteum-net-box'', hImage = ''debian:bookworm''\<rparr>, w')"
proof (rule sample_podman.world_create [where ls = "[]" and persist = False])
  fix b1 b2 b3 w0 w1 w'
  let ?opts = "createOptions sampleOnPodman (samplePlanOf [] False) sampleImage b3"
  assume c: "addPersist sampleOnPodman (samplePlanOf [] False) (buildBase sampleOnPodman (samplePlanOf [] False) sampleProxyEnv) w0 = (Inr b1, w1)"
    "addInit sampleOnPodman (sampleSpecOf [] False) b1 = Inr b2"
    "addDisplay sampleOnPodman (samplePlanOf [] False) (addSSH sampleOnPodman (samplePlanOf [] False) (addSupervisor (samplePlanOf [] False) b2)) = Inr b3"
    "Create sampleOnPodman (sampleSpecOf [] False) [] = (fst (requestContainer sampleOnPodman (samplePlanOf [] False) ?opts w1), w')"
  obtain s where s: "buildNativeSpec (fullOptions ?opts) ''host'' [] [] = Inr s"
    by (rule sample_native_options [OF c(1-3)]) simp_all
  have "nativeCreate (samplePodmanAt w) sampleHost ''host'' [] [] (fullOptions ?opts) [] = (Inr ''c1'', [LCreateContainer s])" for w
    using sample_native_create [OF s] isolatedPodman_create [OF s] by (simp add: samplePodmanAt_def)
  then have "ansContainerCreate (eEngine sampleOnPodman) (w @ [(ReqCtx, NativeContainerCreateReq ?opts)]) = Inr ''c1''" for w
    by (simp add: sampleOnPodman_def sampleHostConfig_def zeroPodmanConfig_def)
  then have "fst (requestContainer sampleOnPodman (samplePlanOf [] False) ?opts w1) =
      Inr \<lparr>hID = ''c1'', hName = ''box'', hNetwork = ''cauteum-net-box'', hImage = ''debian:bookworm''\<rparr>"
    by (simp add: requestContainer_def run_simps sample_plan_fields) (simp add: sampleOnPodman_def sampleHostConfig_def zeroPodmanConfig_def)
  with c(4) show thesis using that by simp
qed

theorem podman_sandbox_confined_witness:
  "\<exists>w' w1 s r. Create sampleOnPodman (sampleSpecOf [] False) [] =
      (Inr \<lparr>hID = ''c1'', hName = ''box'', hNetwork = ''cauteum-net-box'', hImage = ''debian:bookworm''\<rparr>, w') \<and>
    prefix w1 w' \<and> libpodIsolated samplePodmanAt ''cauteum-net-box'' w1 \<and>
    peDo (samplePodmanAt w') [LCreateContainer s] = Inr r \<and> nsNoNewPrivileges s \<and> nsNetworks s = [(''cauteum-net-box'', [])]"
proof -
  obtain w' where c: "Create sampleOnPodman (sampleSpecOf [] False) [] =
      (Inr \<lparr>hID = ''c1'', hName = ''box'', hNetwork = ''cauteum-net-box'', hImage = ''debian:bookworm''\<rparr>, w')"
    by (rule sample_podman_create)
  have t: "TrimSpace (spProxyBin (sampleSpecOf [] False)) \<noteq> []" "pcUsernsMode sampleHostConfig \<noteq> []"
    by (simp_all add: sample_trims sampleHostConfig_def)
  note conf = podman_sandbox_confined [OF c [unfolded sampleOnPodman_def]]
  obtain w1 where "prefix (w1 @ [(ReqCtx, NativeNetworkVerifyReq ''cauteum-net-box'' True)]) w'"
    "libpodIsolated samplePodmanAt ''cauteum-net-box'' (w1 @ [(ReqCtx, NativeNetworkVerifyReq ''cauteum-net-box'' True)])"
    using conjunct1 [OF conf, rule_format, OF t(1)] by auto
  moreover obtain s r where "peDo (samplePodmanAt w') [LCreateContainer s] = Inr r" "nsNoNewPrivileges s"
      "nsNetworks s = [(''cauteum-net-box'', [])]"
    using conjunct2 [OF conf, rule_format, OF t(2)] unfolding Handle.simps by blast
  ultimately show ?thesis using c by blast
qed

end
