(* ===== verification/Sidecar_Build.thy ===== *)
theory Sidecar_Build
  imports Host_Tree
begin

text \<open>
  \<^verbatim>\<open>internal/sidecar/sidecar.go\<close>, the part that provides the Linux binaries: each is built once, cached
  below the user's cache directory and rebuilt when it may be stale. The Go toolchain and the operations that
  change the host are a parameter; the trace records them in order.

  The main result says what ``may be stale'' means: a cached binary is used exactly when it is at least as new
  as the module files and as every Go source of the module the walk reaches.
\<close>

section \<open>The host\<close>

datatype build_action =
    MkdirAll string
  | GoBuild string string string "string list"
  | ChmodX string

text \<open>\<open>bTree\<close> is \<^verbatim>\<open>os.Lstat\<close> of a root with everything below it; \<open>bRun\<close> the failure of the last action of a trace, if
  any; for a build it comes with the output.\<close>

record build_env =
  bOS :: host_os
  bCacheDir :: "os_error + string"
  bArch :: string
  bTree :: "string \<Rightarrow> os_error + host_tree"
  bRun :: "build_action list \<Rightarrow> os_error option"
  bOutput :: "build_action list \<Rightarrow> string"

datatype build_error =
    NoCacheDir os_error
  | CacheNotCreated os_error
  | CrossCompile string os_error string
  | NotExecutable os_error

type_synonym ('e, 'a) bop = "(build_action list, 'e, 'a) stateful"

definition act :: "build_env \<Rightarrow> build_action \<Rightarrow> (os_error, unit) bop" where
  "act B a w = (case bRun B (w @ [a]) of None \<Rightarrow> Inr () | Some e \<Rightarrow> Inl e, w @ [a])"

section \<open>Staleness\<close>

definition skippedDirs :: "string list" where
  "skippedDirs = [''vendor'', ''.git'', ''node_modules'']"

text \<open>The callback of the walk; the state is \<^verbatim>\<open>newer\<close>.\<close>

definition rebuildCallback :: "int \<Rightarrow> bool walk_fn" where
  "rebuildCallback outTime path d err newer =
     (case err of
        Some e \<Rightarrow> (Fail e, newer)
      | None \<Rightarrow>
          if newer then (Continue, newer)
          else
            (case d of
               None \<Rightarrow> (Continue, newer)
             | Some t \<Rightarrow>
                 if treeIsDir t then (if treeName t \<in> set skippedDirs then SkipDir else Continue, newer)
                 else if \<not> HasSuffix path ''.go'' then (Continue, newer)
                 else
                   (case treeInfo t of
                      Inl e \<Rightarrow> (Fail e, newer)
                    | Inr info \<Rightarrow> if outTime < fiModTime info then (SkipAll, True) else (Continue, newer))))"

definition moduleFileNewer :: "build_env \<Rightarrow> string \<Rightarrow> int \<Rightarrow> string \<Rightarrow> bool" where
  "moduleFileNewer B moduleDir outTime name \<longleftrightarrow>
     (case Stat (bOS B) (Join [moduleDir, name]) of
        Inr ms \<Rightarrow> outTime < fiModTime ms
      | Inl _ \<Rightarrow> False)"

definition needsLinuxRebuild :: "build_env \<Rightarrow> string \<Rightarrow> string \<Rightarrow> bool" where
  "needsLinuxRebuild B out moduleDir \<longleftrightarrow>
     (if Getenv (bOS B) ''CAUTEUM_REBUILD_CLI'' = ''1'' \<or> Getenv (bOS B) ''CAUTEUM_REBUILD_INIT'' = ''1'' then True
      else
        (case Stat (bOS B) out of
           Inl _ \<Rightarrow> True
         | Inr st \<Rightarrow>
             if fiSize st = 0 then True
             else if list_ex (moduleFileNewer B moduleDir (fiModTime st)) [''go.mod'', ''go.sum''] then True
             else
               (case WalkDir (bTree B) (rebuildCallback (fiModTime st)) moduleDir False of
                  (walkErr, newer) \<Rightarrow> newer \<or> walkErr \<noteq> None)))"

section \<open>Building\<close>

definition buildEnv :: "build_env \<Rightarrow> string list" where
  "buildEnv B = [''GOOS=linux'', ''GOARCH='' @ bArch B, ''CGO_ENABLED=0'']"

definition goBuild :: "build_env \<Rightarrow> string \<Rightarrow> string \<Rightarrow> string \<Rightarrow> string \<Rightarrow> (build_error, unit) bop" where
  "goBuild B name out pkg moduleDir w =
     (case act B (GoBuild out pkg moduleDir (buildEnv B)) w of
        (Inr _, w') \<Rightarrow> (Inr (), w')
      | (Inl e, w') \<Rightarrow> (Inl (CrossCompile name e (TrimSpace (bOutput B w'))), w'))"

definition cachePath :: "build_env \<Rightarrow> string \<Rightarrow> string \<Rightarrow> string" where
  "cachePath B cacheDir name = Join [cacheDir, ''cauteum'', name @ ''-linux-'' @ bArch B]"

definition EnsureLinuxCLI :: "build_env \<Rightarrow> string \<Rightarrow> (build_error, string) bop" where
  "EnsureLinuxCLI B moduleDir =
     bindW (wrapW NoCacheDir (liftW (bCacheDir B))) (\<lambda>cacheDir.
     let out = cachePath B cacheDir ''cauteum'' in
     if \<not> needsLinuxRebuild B out moduleDir then returnW out
     else
       bindW (wrapW CacheNotCreated (act B (MkdirAll (Dir out)))) (\<lambda>_.
       bindW (goBuild B ''cauteum'' out ''./cmd/cauteum'' moduleDir) (\<lambda>_.
       returnW out)))"

definition ensureLinuxCmd :: "build_env \<Rightarrow> string \<Rightarrow> string \<Rightarrow> string \<Rightarrow> (build_error, string) bop" where
  "ensureLinuxCmd B runtimeModuleDir name pkg =
     bindW (wrapW NoCacheDir (liftW (bCacheDir B))) (\<lambda>cacheDir.
     let out = cachePath B cacheDir name in
     if \<not> needsLinuxRebuild B out runtimeModuleDir then returnW out
     else
       bindW (wrapW CacheNotCreated (act B (MkdirAll (Dir out)))) (\<lambda>_.
       bindW (goBuild B name out pkg runtimeModuleDir) (\<lambda>_.
       bindW (wrapW NotExecutable (act B (ChmodX out))) (\<lambda>_.
       returnW out))))"

text \<open>\<^verbatim>\<open>EnsureLinuxInit\<close> repeats the steps of \<^verbatim>\<open>ensureLinuxCmd\<close>.\<close>

definition EnsureLinuxInit :: "build_env \<Rightarrow> string \<Rightarrow> (build_error, string) bop" where
  "EnsureLinuxInit B runtimeModuleDir =
     bindW (wrapW NoCacheDir (liftW (bCacheDir B))) (\<lambda>cacheDir.
     let out = Join [cacheDir, ''cauteum'', ''cauteum-init-linux-'' @ bArch B] in
     if \<not> needsLinuxRebuild B out runtimeModuleDir then returnW out
     else
       bindW (wrapW CacheNotCreated (act B (MkdirAll (Dir out)))) (\<lambda>_.
       bindW (goBuild B ''cauteum-init'' out ''./cmd/cauteum-init'' runtimeModuleDir) (\<lambda>_.
       bindW (wrapW NotExecutable (act B (ChmodX out))) (\<lambda>_.
       returnW out))))"

definition EnsureLinuxSSHD :: "build_env \<Rightarrow> string \<Rightarrow> (build_error, string) bop" where
  "EnsureLinuxSSHD B runtimeModuleDir = ensureLinuxCmd B runtimeModuleDir ''cauteum-sshd'' ''./cmd/cauteum-sshd''"

definition EnsureLinuxAgent :: "build_env \<Rightarrow> string \<Rightarrow> (build_error, string) bop" where
  "EnsureLinuxAgent B runtimeModuleDir = ensureLinuxCmd B runtimeModuleDir ''cauteum-agent'' ''./cmd/cauteum-agent''"

section \<open>What the walk decides\<close>

text \<open>The Go sources below a path that no skipped directory hides, with their file information, and the
  directories there that cannot be read.\<close>

inductive goSource :: "string \<Rightarrow> host_tree \<Rightarrow> os_error + file_info \<Rightarrow> bool" where
  here: "HasSuffix path ''.go'' \<Longrightarrow> goSource path (HLeaf n i c) i"
| below: "n \<notin> set skippedDirs \<Longrightarrow> t \<in> set ts \<Longrightarrow> goSource (Join [path, treeName t]) t i \<Longrightarrow> goSource path (HDir n j ts) i"

inductive unreadable :: "host_tree \<Rightarrow> bool" where
  here: "n \<notin> set skippedDirs \<Longrightarrow> unreadable (HBadDir n i e)"
| below: "n \<notin> set skippedDirs \<Longrightarrow> t \<in> set ts \<Longrightarrow> unreadable t \<Longrightarrow> unreadable (HDir n j ts)"

inductive_simps goSource_leaf: "goSource path (HLeaf n i c) j"
inductive_simps goSource_dir: "goSource path (HDir n k ts) j"
inductive_simps goSource_bad: "goSource path (HBadDir n k e) j"
inductive_simps unreadable_leaf: "unreadable (HLeaf n i c)"
inductive_simps unreadable_dir: "unreadable (HDir n k ts)"
inductive_simps unreadable_bad: "unreadable (HBadDir n k e)"

lemmas source_simps = goSource_leaf goSource_dir goSource_bad unreadable_leaf unreadable_dir unreadable_bad

text \<open>Nothing below the path is newer than the time, and everything could be examined.\<close>

definition upToDate :: "int \<Rightarrow> string \<Rightarrow> host_tree \<Rightarrow> bool" where
  "upToDate outTime path t \<longleftrightarrow> \<not> unreadable t \<and> (\<forall>i. goSource path t i \<longrightarrow> (\<exists>info. i = Inr info \<and> fiModTime info \<le> outTime))"

text \<open>How the walk of a tree ends: on, or with the news or an error.\<close>

definition decided :: "bool \<Rightarrow> walk_result \<times> bool \<Rightarrow> bool" where
  "decided fine r \<longleftrightarrow> (if fine then r = (Continue, False) else r = (SkipAll, True) \<or> (\<exists>e. r = (Fail e, False)))"

lemma upToDate_simps:
  "upToDate T path (HLeaf n i c) \<longleftrightarrow> (HasSuffix path ''.go'' \<longrightarrow> (\<exists>info. i = Inr info \<and> fiModTime info \<le> T))"
  "upToDate T path (HDir n k ts) \<longleftrightarrow> n \<in> set skippedDirs \<or> (\<forall>t \<in> set ts. upToDate T (Join [path, treeName t]) t)"
  "upToDate T path (HBadDir n k e) \<longleftrightarrow> n \<in> set skippedDirs"
  unfolding upToDate_def by (auto simp: source_simps)

lemma walk_decides:
  "decided (upToDate T path t) (walkDir (rebuildCallback T) path t False)"
  "decided (\<forall>t \<in> set ts. upToDate T (Join [path, treeName t]) t) (walkEntries (rebuildCallback T) path ts False)"
proof (induction t and ts arbitrary: path and path rule: walkDir.induct walkEntries.induct)
  case (HLeaf n i c)
  then show ?case by (cases i) (auto simp: upToDate_simps rebuildCallback_def decided_def)
next
  case (HDir n i ts)
  then show ?case by (auto simp: upToDate_simps rebuildCallback_def decided_def)
next
  case (HBadDir n i e)
  then show ?case by (auto simp: upToDate_simps rebuildCallback_def decided_def)
next
  case Nil_host_tree
  then show ?case by (simp add: decided_def)
next
  case (Cons_host_tree t ts)
  show ?case
    using Cons_host_tree(1) [of "Join [path, treeName t]"] Cons_host_tree(2) [of path]
    by (auto simp: decided_def split: if_splits)
qed

section \<open>Freshness\<close>

text \<open>
  A cached binary is fresh when no rebuild is forced, it exists and is not empty, and neither a module
  file nor a Go source that the walk reaches is newer than it.
\<close>

definition fresh :: "build_env \<Rightarrow> string \<Rightarrow> string \<Rightarrow> bool" where
  "fresh B out moduleDir \<longleftrightarrow>
     Getenv (bOS B) ''CAUTEUM_REBUILD_CLI'' \<noteq> ''1'' \<and> Getenv (bOS B) ''CAUTEUM_REBUILD_INIT'' \<noteq> ''1'' \<and>
     (\<exists>st. Stat (bOS B) out = Inr st \<and> fiSize st \<noteq> 0 \<and>
        (\<forall>name \<in> {''go.mod'', ''go.sum''}. \<forall>ms. Stat (bOS B) (Join [moduleDir, name]) = Inr ms \<longrightarrow> fiModTime ms \<le> fiModTime st) \<and>
        (\<exists>t. bTree B moduleDir = Inr t \<and> upToDate (fiModTime st) moduleDir t))"

text \<open>The check is exact: a rebuild is wanted exactly when the cached binary is not fresh.\<close>

lemma needsLinuxRebuild_iff: "needsLinuxRebuild B out moduleDir \<longleftrightarrow> \<not> fresh B out moduleDir"
proof (cases "Stat (bOS B) out")
  case (Inr st)
  have m: "moduleFileNewer B moduleDir T name \<longleftrightarrow> (\<exists>ms. Stat (bOS B) (Join [moduleDir, name]) = Inr ms \<and> T < fiModTime ms)" for T name
    by (auto simp: moduleFileNewer_def split: sum.splits)
  have w: "(case WalkDir (bTree B) (rebuildCallback T) moduleDir False of (e, newer) \<Rightarrow> newer \<or> e \<noteq> None) \<longleftrightarrow>
      \<not> (\<exists>t. bTree B moduleDir = Inr t \<and> upToDate T moduleDir t)" for T
  proof (cases "bTree B moduleDir")
    case (Inr t)
    then show ?thesis using walk_decides(1) [of T moduleDir t] by (auto simp: WalkDir_def decided_def split: if_splits)
  qed (simp add: WalkDir_def rebuildCallback_def)
  show ?thesis
    using Inr by (auto simp: needsLinuxRebuild_def fresh_def w m simp del: not_None_eq simp flip: not_less)
qed (simp add: needsLinuxRebuild_def fresh_def)

section \<open>The binaries\<close>

lemma EnsureLinuxInit_eq: "EnsureLinuxInit B dir = ensureLinuxCmd B dir ''cauteum-init'' ''./cmd/cauteum-init''"
  by (simp add: EnsureLinuxInit_def ensureLinuxCmd_def cachePath_def)

lemma act_Inr [result_iff]: "act B a w = (Inr x, w') \<longleftrightarrow> bRun B (w @ [a]) = None \<and> w' = w @ [a]"
  by (auto simp: act_def split: option.splits)

lemma goBuild_Inr [result_iff]:
  "goBuild B name out pkg dir w = (Inr x, w') \<longleftrightarrow>
     bRun B (w @ [GoBuild out pkg dir (buildEnv B)]) = None \<and> w' = w @ [GoBuild out pkg dir (buildEnv B)]"
  by (auto simp: goBuild_def act_def split: option.splits)

text \<open>The actions extend the trace and succeed.\<close>

fun succeeds :: "build_env \<Rightarrow> build_action list \<Rightarrow> build_action list \<Rightarrow> build_action list \<Rightarrow> bool" where
  "succeeds B w [] w' \<longleftrightarrow> w' = w"
| "succeeds B w (a # as) w' \<longleftrightarrow> bRun B (w @ [a]) = None \<and> succeeds B (w @ [a]) as w'"

text \<open>
  C20. A Linux binary that is handed out is current: it is the cached one, untouched, exactly when that one is
  fresh, and otherwise it has just been built from the module for Linux without cgo and been made executable.
\<close>

theorem linux_binary_fresh_or_built:
  assumes "ensureLinuxCmd B dir name pkg w = (Inr out, w')"
  shows "\<exists>cache. bCacheDir B = Inr cache \<and> out = cachePath B cache name \<and>
    (if fresh B out dir then w' = w
     else succeeds B w [MkdirAll (Dir out), GoBuild out pkg dir [''GOOS=linux'', ''GOARCH='' @ bArch B, ''CGO_ENABLED=0''], ChmodX out] w')"
  using assms by (auto simp: ensureLinuxCmd_def result_iff needsLinuxRebuild_iff buildEnv_def Let_def split: if_splits)

text \<open>The command line tool is handed out under the same condition; it needs no change of its mode.\<close>

lemma linux_cli_fresh_or_built:
  assumes "EnsureLinuxCLI B dir w = (Inr out, w')"
  shows "\<exists>cache. bCacheDir B = Inr cache \<and> out = cachePath B cache ''cauteum'' \<and>
    (if fresh B out dir then w' = w
     else succeeds B w [MkdirAll (Dir out), GoBuild out ''./cmd/cauteum'' dir (buildEnv B)] w')"
  using assms by (auto simp: EnsureLinuxCLI_def result_iff needsLinuxRebuild_iff Let_def split: if_splits)

text \<open>
  The walk does not follow a symbolic link: when the module directory is one, or has the name of a
  skipped directory, no change of a source is ever noticed.
\<close>

lemma linked_module_never_stale:
  assumes "bTree B dir = Inr (HLeaf n i c) \<and> \<not> HasSuffix dir ''.go'' \<or> (\<exists>j ts. bTree B dir = Inr (HDir n j ts) \<and> n \<in> set skippedDirs)"
    and "Getenv (bOS B) ''CAUTEUM_REBUILD_CLI'' = []" and "Getenv (bOS B) ''CAUTEUM_REBUILD_INIT'' = []"
    and "Stat (bOS B) out = Inr st" and "fiSize st \<noteq> 0"
    and "Stat (bOS B) (Join [dir, ''go.mod'']) = Inr ms" and "fiModTime ms \<le> fiModTime st"
    and "Stat (bOS B) (Join [dir, ''go.sum'']) = Inr ms'" and "fiModTime ms' \<le> fiModTime st"
  shows "\<not> needsLinuxRebuild B out dir"
  unfolding needsLinuxRebuild_iff using assms by (auto simp: fresh_def upToDate_simps)

definition sampleModule :: "int \<Rightarrow> host_tree" where
  "sampleModule t =
     HDir ''m'' dirInfo
       [HDir ''cmd'' dirInfo [HLeaf ''main.go'' (Inr (fileInfo\<lparr>fiModTime := t\<rparr>)) (Inr ([], None))],
        HDir ''vendor'' dirInfo [HLeaf ''x.go'' (Inr (fileInfo\<lparr>fiModTime := 9\<rparr>)) (Inr ([], None))],
        HLeaf ''README.md'' (Inr (fileInfo\<lparr>fiModTime := 9\<rparr>)) (Inr ([], None))]"

definition sampleBuild :: "int \<Rightarrow> build_env" where
  "sampleBuild t =
     \<lparr>bOS = exampleOS\<lparr>Stat := (\<lambda>_. Inr fileInfo)\<rparr>, bCacheDir = Inr ''/c'', bArch = ''arm64'',
      bTree = (\<lambda>_. Inr (sampleModule t)), bRun = (\<lambda>_. None), bOutput = (\<lambda>_. [])\<rparr>"

lemma sample_builds:
  "fst (ensureLinuxCmd (sampleBuild 0) ''/m'' ''a'' ''./a'' []) = Inr ''/c/cauteum/a-linux-arm64''"
  "snd (ensureLinuxCmd (sampleBuild 0) ''/m'' ''a'' ''./a'' []) = []"
  "fst (ensureLinuxCmd (sampleBuild 1) ''/m'' ''a'' ''./a'' []) = Inr ''/c/cauteum/a-linux-arm64''"
  "length (snd (ensureLinuxCmd (sampleBuild 1) ''/m'' ''a'' ''./a'' [])) = 3"
  by code_simp+

theorem linux_binary_fresh_or_built_witness:
  "fresh (sampleBuild 0) ''/c/cauteum/a-linux-arm64'' ''/m'' \<and> \<not> fresh (sampleBuild 1) ''/c/cauteum/a-linux-arm64'' ''/m''"
proof -
  have r: "ensureLinuxCmd (sampleBuild t) ''/m'' ''a'' ''./a'' [] =
      (Inr ''/c/cauteum/a-linux-arm64'', snd (ensureLinuxCmd (sampleBuild t) ''/m'' ''a'' ''./a'' []))" if "t = 0 \<or> t = 1" for t
    using that sample_builds(1,3) by (metis prod.collapse)
  from linux_binary_fresh_or_built [OF r [of 0]] linux_binary_fresh_or_built [OF r [of 1]] sample_builds(2,4)
  show ?thesis by (auto split: if_splits)
qed

end
