(* ===== verification/Docker_Terminal.thy ===== *)
theory Docker_Terminal
  imports Docker_Exec
begin

text \<open>
  The two loops beside an attached terminal: \<^verbatim>\<open>resizeExecTTY\<close> of \<^verbatim>\<open>resize_unix.go\<close> and \<^verbatim>\<open>resize_windows.go\<close>,
  which runs in a goroutine of its own, and \<^verbatim>\<open>copyStdinTTY\<close> of \<^verbatim>\<open>docker.go\<close>. The lemmas show that resizing sends
  nothing but resize requests, so the trace of \<open>Exec\<close> is complete up to those, and that a terminal copy that ends
  without an error has forwarded every byte that was read, in order.
\<close>

section \<open>Resizing\<close>

fun repeatW :: "nat \<Rightarrow> ('e, unit) op \<Rightarrow> ('e, unit) op" where
  "repeatW 0 m = returnW ()"
| "repeatW (Suc n) m = bindW m (\<lambda>_. repeatW n m)"

text \<open>Ten attempts, then one for every window change that arrives before the context ends.\<close>

definition resizeExecTTY :: "env \<Rightarrow> string \<Rightarrow> nat \<Rightarrow> (exec_error, unit) op" where
  "resizeExecTTY E execID changes =
     bindW (repeatW 10 (resizeExecOnce E execID)) (\<lambda>_. repeatW changes (resizeExecOnce E execID))"

definition resizeExecTTY_windows :: "env \<Rightarrow> string \<Rightarrow> (exec_error, unit) op" where
  "resizeExecTTY_windows E execID = repeatW 10 (resizeExecOnce E execID)"

definition resizes :: "string \<Rightarrow> ctx \<times> request \<Rightarrow> bool" where
  "resizes execID r \<longleftrightarrow> (\<exists>h v. r = (ReqCtx, ExecResizeReq execID (h, v)) \<and> 0 < h \<and> 0 < v)"

lemma emits_resizeExecOnce: "emits (resizes execID) (resizeExecOnce E execID)"
  by (auto simp: resizeExecOnce_def resizes_def trace_simps split: option.splits intro!: emits_bindW)

lemma emits_repeatW: "emits P m \<Longrightarrow> emits P (repeatW n m)"
  by (induction n) (auto simp: trace_simps intro: emits_bindW)

lemma resizing_only_resizes: "emits (resizes execID) (resizeExecTTY E execID changes)" "emits (resizes execID) (resizeExecTTY_windows E execID)"
  unfolding resizeExecTTY_def resizeExecTTY_windows_def
  by (intro emits_bindW emits_repeatW emits_resizeExecOnce)+

section \<open>Copying the terminal input\<close>

text \<open>What a read returns with its bytes, and how the copy ends; \<open>Waiting\<close> stands for a read that has not returned.\<close>

datatype read_status = More | AtEOF | ReadFailed os_error

datatype copy_end = Waiting | Copied | ShortWrite | CopyFailed os_error

text \<open>\<open>wr\<close> is the writer: what it accepts of a chunk and its error, given the bytes it has accepted so far.
  The result has the count and the bytes forwarded.\<close>

fun copyStdinTTY :: "(string \<Rightarrow> string \<Rightarrow> nat \<times> os_error option) \<Rightarrow> (string \<times> read_status) list \<Rightarrow> nat \<Rightarrow> string \<Rightarrow> copy_end \<times> nat \<times> string" where
  "copyStdinTTY wr [] n out = (Waiting, n, out)"
| "copyStdinTTY wr ((buf, st) # reads) n out =
     (let (nw, ew) = (if buf = [] then (0, None) else wr out buf); n' = n + nw; out' = out @ take nw buf in
      if buf \<noteq> [] \<and> ew \<noteq> None then (CopyFailed (the ew), n', out')
      else if buf \<noteq> [] \<and> length buf \<noteq> nw then (ShortWrite, n', out')
      else
        (case st of
           More \<Rightarrow> copyStdinTTY wr reads n' out'
         | AtEOF \<Rightarrow> (Copied, n', out')
         | ReadFailed e \<Rightarrow> (CopyFailed e, n', out')))"

text \<open>Everything up to the end of the input.\<close>

fun inputOf :: "(string \<times> read_status) list \<Rightarrow> string" where
  "inputOf [] = []"
| "inputOf ((buf, st) # reads) = buf @ (if st = More then inputOf reads else [])"

lemma terminal_copy_complete:
  "copyStdinTTY wr reads n out = (Copied, n', out') \<Longrightarrow> out' = out @ inputOf reads \<and> n' = n + length (inputOf reads)"
  by (induction wr reads n out rule: copyStdinTTY.induct) (auto simp: Let_def split: prod.splits if_splits read_status.splits)

end
