(* ===== verification/Docker_Open.thy ===== *)
theory Docker_Open
  imports Docker_Sidecar
begin

text \<open>
  Constructing the Docker driver: \<^verbatim>\<open>New\<close>, \<^verbatim>\<open>NewFromClient\<close> and its variants and \<^verbatim>\<open>Close\<close> of \<^verbatim>\<open>docker.go\<close>, and the
  constructor that \<^verbatim>\<open>register.go\<close> registers for a configuration map. The client library is a parameter:
  what building a client from the environment yields, with the host that overrides it, if any.
\<close>

record docker_setup =
  dsOS :: host_os
  dsCrypto :: crypto_lib
  dsClient :: "string option \<Rightarrow> engine_error option"
  dsClose :: "engine_error option"

datatype open_error = DockerConfig config_error | DockerClient engine_error

definition NewFromClientWithRuntimeConfig :: "RuntimeConfig \<Rightarrow> docker_driver" where
  "NewFromClientWithRuntimeConfig cfg =
     \<lparr>cliPresent = True, runtimeConfig = cfg, enableBindMounts = EnableBindMounts cfg, registryAuthResolver = None,
      nativeContainerCreate = False, nativeNetworkCreate = False, nativeNetworkVerify = False\<rparr>"

definition NewFromClientWithConfig :: "bool \<Rightarrow> docker_driver" where
  "NewFromClientWithConfig enable = NewFromClientWithRuntimeConfig (zeroConfig\<lparr>EnableBindMounts := enable\<rparr>)"

text \<open>Every other field has its zero value.\<close>

definition NewFromClient :: docker_driver where
  "NewFromClient =
     \<lparr>cliPresent = True, runtimeConfig = zeroConfig, enableBindMounts = False, registryAuthResolver = None,
      nativeContainerCreate = False, nativeNetworkCreate = False, nativeNetworkVerify = False\<rparr>"

definition NewDocker :: "docker_setup \<Rightarrow> open_error + docker_driver" where
  "NewDocker S = (case dsClient S None of Some e \<Rightarrow> Inl (DockerClient e) | None \<Rightarrow> Inr NewFromClient)"

definition openDocker :: "docker_setup \<Rightarrow> (string \<times> anyval) list \<Rightarrow> open_error + docker_driver" where
  "openDocker S values =
     bindR (wrapE DockerConfig (ConfigFromMap (dsOS S) (dsCrypto S) values)) (\<lambda>(cfg, socket).
     (case dsClient S (if socket = [] then None else Some socket) of
        Some e \<Rightarrow> Inl (DockerClient e)
      | None \<Rightarrow> Inr (NewFromClientWithRuntimeConfig cfg)))"

text \<open>A missing driver or client closes without an error.\<close>

definition CloseDocker :: "docker_setup \<Rightarrow> docker_driver option \<Rightarrow> engine_error + unit" where
  "CloseDocker S d =
     (case d of
        None \<Rightarrow> Inr ()
      | Some drv \<Rightarrow> if \<not> cliPresent drv then Inr () else (case dsClose S of None \<Rightarrow> Inr () | Some e \<Rightarrow> Inl e))"

text \<open>Opening without a configuration is opening with all settings at their zero values; the native callbacks are
  never installed.\<close>

lemma NewFromClient_zero: "NewFromClient = NewFromClientWithConfig False"
  by (simp add: NewFromClient_def NewFromClientWithConfig_def NewFromClientWithRuntimeConfig_def zeroConfig_def)

lemma openDocker_driver:
  assumes "openDocker S values = Inr d"
  shows "cliPresent d \<and> \<not> nativeContainerCreate d \<and> \<not> nativeNetworkCreate d \<and> registryAuthResolver d = None \<and>
    enableBindMounts d = EnableBindMounts (runtimeConfig d) \<and>
    (\<exists>socket. ConfigFromMap (dsOS S) (dsCrypto S) values = Inr (runtimeConfig d, socket))"
  using assms by (auto simp: openDocker_def result_iff NewFromClientWithRuntimeConfig_def split: option.splits)

end
