(* ===== verification/JSON_Rules.thy ===== *)
theory JSON_Rules
  imports Go_JSON
begin

text \<open>
  The bound of the JSON reader is enough: every value consumes at least one character, so twice the length
  of the document and two is more than the reader can use, and a larger bound changes nothing. Hence \<open>None\<close>
  means that the document is malformed or nested too deeply, never that the reader stopped early.
\<close>

section \<open>Every value consumes input\<close>

lemma skipWS_length: "length (skipWS s) \<le> length s"
  by (simp add: skipWS_def length_dropWhile_le)

lemma skipWS_Cons: "skipWS s = c # r \<Longrightarrow> length r < length s"
  using skipWS_length [of s] by simp

lemma addStr_Some: "addStr u m = Some (x, r) \<longleftrightarrow> (\<exists>y. m = Some (y, r) \<and> x = u @ y)"
  by (cases m) (auto simp: addStr_def)

lemma parseStr_consumes: "parseStr s = Some (x, r) \<Longrightarrow> length r < length s"
proof (induction "length s" arbitrary: s x rule: less_induct)
  case less
  show ?case
  proof (cases s)
    case (Cons c cs)
    have rec: "length r \<le> length cs" if "addStr u (parseStr t) = Some (x, r)" "length t \<le> length cs" for u t
      using that less(1) [of t] by (auto simp: addStr_Some Cons)
    show ?thesis
      using less(2) unfolding Cons
      by (subst (asm) parseStr.simps) (auto split: if_splits list.splits option.splits dest!: rec)
  qed (use less(2) in simp)
qed

lemma digits_length: "length (drop (length (digits s)) s) \<le> length s"
  by simp

lemma parseFraction_length: "parseFraction s = Some (x, r) \<Longrightarrow> length r \<le> length s"
  by (auto simp: parseFraction_def split: list.splits if_splits)

lemma parseExponent_length: "parseExponent s = Some (x, r) \<Longrightarrow> length r \<le> length s"
  by (auto simp: parseExponent_def Let_def split: list.splits if_splits)

lemma parseIntPart_consumes: "parseIntPart s = Some (x, r) \<Longrightarrow> length r < length s"
proof -
  assume p: "parseIntPart s = Some (x, r)"
  define n where "n = (case s of c # _ \<Rightarrow> if c = CHR ''-'' then [c] else [] | [] \<Rightarrow> [])"
  define t where "t = drop (length n) s"
  have e: "parseIntPart s = (case digits t of [] \<Rightarrow> None
      | d # ds \<Rightarrow> if d = CHR ''0'' then Some (n @ [d], drop 1 t) else Some (n @ d # ds, drop (length (d # ds)) t))"
    by (simp only: parseIntPart_def Let_def n_def t_def)
  have "digits t \<noteq> []" using p e by auto
  then have "t \<noteq> []" by (auto simp: digits_def)
  then have "length r < length t" using p unfolding e by (auto split: list.splits if_splits)
  moreover have "length t \<le> length s" by (simp add: t_def)
  ultimately show ?thesis by simp
qed

lemma parseNum_consumes: "parseNum s = Some (x, r) \<Longrightarrow> length r < length s"
  by (fastforce simp: parseNum_def split: option.splits
      dest: parseIntPart_consumes parseFraction_length parseExponent_length)

lemma parse_consumes:
  "(\<forall>depth s v r. parseV fuel depth s = Some (v, r) \<longrightarrow> length r < length s) \<and>
   (\<forall>depth s vs r. parseElems fuel depth s = Some (vs, r) \<longrightarrow> length r < length s) \<and>
   (\<forall>depth s ms r. parseMembers fuel depth s = Some (ms, r) \<longrightarrow> length r < length s)"
proof (induction fuel)
  case (Suc fuel)
  then have V: "parseV fuel depth s = Some (v, r) \<Longrightarrow> length r < length s"
    and L: "parseElems fuel depth s = Some (vs, r) \<Longrightarrow> length r < length s"
    and M: "parseMembers fuel depth s = Some (ms, r) \<Longrightarrow> length r < length s" for depth s v vs ms r
    by blast+
  note shorter = V L M parseStr_consumes parseNum_consumes skipWS_Cons
  have "length r < length s" if p: "parseV (Suc fuel) depth s = Some (v, r)" for depth s v r
  proof -
    obtain c t where s: "skipWS s = c # t" using p by (cases "skipWS s") auto
    have "length r < length (c # t)"
      using p by (auto simp: s split: if_splits list.splits dest!: shorter)
    then show ?thesis using skipWS_length [of s] by (simp add: s)
  qed
  moreover have "length r < length s" if "parseElems (Suc fuel) depth s = Some (vs, r)" for depth s vs r
    using that by (auto split: option.splits list.splits if_splits dest!: shorter)
  moreover have "length r < length s" if "parseMembers (Suc fuel) depth s = Some (ms, r)" for depth s ms r
    using that by (auto split: option.splits list.splits if_splits dest!: shorter)
  ultimately show ?case by blast
qed simp

lemma parseV_consumes: "parseV fuel depth s = Some (v, r) \<Longrightarrow> length r < length s"
  using parse_consumes [of fuel] by blast

section \<open>A larger bound changes nothing\<close>

lemma parse_bound:
  "(\<forall>g depth s. 2 * length s < f \<longrightarrow> 2 * length s < g \<longrightarrow> parseV f depth s = parseV g depth s) \<and>
   (\<forall>g depth s. 2 * length s + 1 < f \<longrightarrow> 2 * length s + 1 < g \<longrightarrow> parseElems f depth s = parseElems g depth s) \<and>
   (\<forall>g depth s. 2 * length s + 1 < f \<longrightarrow> 2 * length s + 1 < g \<longrightarrow> parseMembers f depth s = parseMembers g depth s)"
proof (induction f)
  case (Suc f)
  then have V: "2 * length s < f \<Longrightarrow> 2 * length s < g \<Longrightarrow> parseV f depth s = parseV g depth s"
    and L: "2 * length s + 1 < f \<Longrightarrow> 2 * length s + 1 < g \<Longrightarrow> parseElems f depth s = parseElems g depth s"
    and M: "2 * length s + 1 < f \<Longrightarrow> 2 * length s + 1 < g \<Longrightarrow> parseMembers f depth s = parseMembers g depth s"
    for g depth s by blast+
  have v: "parseV (Suc f) depth s = parseV (Suc g) depth s" if "2 * length s < Suc f" "2 * length s < Suc g" for g depth s
  proof (cases "skipWS s")
    case (Cons c t)
    then have t: "length t < length s" by (rule skipWS_Cons)
    show ?thesis
    proof (cases "skipWS t")
      case (Cons d r)
      then have "length (d # r) \<le> length t" using skipWS_length [of t] by simp
      then have "parseMembers f (depth + 1) (d # r) = parseMembers g (depth + 1) (d # r)"
        "parseElems f (depth + 1) (d # r) = parseElems g (depth + 1) (d # r)"
        using that t by (intro M L; linarith)+
      then show ?thesis by (simp add: \<open>skipWS s = c # t\<close> Cons)
    qed (simp add: \<open>skipWS s = c # t\<close>)
  qed simp
  have e: "parseElems (Suc f) depth s = parseElems (Suc g) depth s"
    if "2 * length s + 1 < Suc f" "2 * length s + 1 < Suc g" for g depth s
  proof -
    have v: "parseV f depth s = parseV g depth s" using that by (intro V) simp_all
    have "parseElems f depth t = parseElems g depth t" if "parseV g depth s = Some (x, r)" "skipWS r = c # t" for x r c t
    proof -
      have "length t < length s" using parseV_consumes [OF that(1)] skipWS_Cons [OF that(2)] by linarith
      then show ?thesis using \<open>2 * length s + 1 < Suc f\<close> \<open>2 * length s + 1 < Suc g\<close> by (intro L) linarith+
    qed
    then show ?thesis by (simp add: v split: option.split list.split)
  qed
  have m: "parseMembers (Suc f) depth s = parseMembers (Suc g) depth s"
    if "2 * length s + 1 < Suc f" "2 * length s + 1 < Suc g" for g depth s
  proof -
    have v: "parseV f depth t = parseV g depth t" if "length t < length s" for t
      using \<open>2 * length s + 1 < Suc f\<close> \<open>2 * length s + 1 < Suc g\<close> that by (intro V) linarith+
    have m: "parseMembers f depth t = parseMembers g depth t" if "length t < length s" for t
      using \<open>2 * length s + 1 < Suc f\<close> \<open>2 * length s + 1 < Suc g\<close> that by (intro M) linarith+
    have 1: "length r < length s" if "skipWS s = c # t" "parseStr t = Some (key, t1)" "skipWS t1 = d # r" for c t key t1 d r
      using skipWS_Cons [OF that(1)] parseStr_consumes [OF that(2)] skipWS_Cons [OF that(3)] by linarith
    have 2: "length t < length r" if "parseV g depth r = Some (x, r')" "skipWS r' = e # t" for x r r' e t
      using parseV_consumes [OF that(1)] skipWS_Cons [OF that(2)] by linarith
    have "parseMembers f depth t = parseMembers g depth t" if "skipWS s = c # t0" "parseStr t0 = Some (key, t1)"
      "skipWS t1 = d # r" "parseV g depth r = Some (x, r')" "skipWS r' = e # t" for c t0 key t1 d r x r' e t
      using 1 [OF that(1-3)] 2 [OF that(4,5)] by (intro m) linarith
    then show ?thesis using 1 by (auto simp: v split: option.split list.split)
  qed
  show ?case
  proof (intro conjI allI impI)
    show "parseV (Suc f) depth s = parseV g depth s" if "2 * length s < Suc f" "2 * length s < g" for g depth s
      using that by (metis v not0_implies_Suc not_less_zero)
    show "parseElems (Suc f) depth s = parseElems g depth s" if "2 * length s + 1 < Suc f" "2 * length s + 1 < g" for g depth s
      using that by (metis e not0_implies_Suc not_less_zero)
    show "parseMembers (Suc f) depth s = parseMembers g depth s" if "2 * length s + 1 < Suc f" "2 * length s + 1 < g" for g depth s
      using that by (metis m not0_implies_Suc not_less_zero)
  qed
qed simp

text \<open>The result of the reader does not depend on its bound.\<close>

lemma jsonParse_any_bound:
  assumes "2 * length s < f"
  shows "jsonParse s = (case parseV f 0 s of None \<Rightarrow> None | Some (v, r) \<Rightarrow> if skipWS r = [] then Some v else None)"
proof -
  have "parseV (2 * length s + 2) 0 s = parseV f 0 s" using parse_bound [of "2 * length s + 2"] assms by simp
  then show ?thesis by (simp add: jsonParse_def)
qed

end
