(* ===== verification/Log_Rules.thy ===== *)
theory Log_Rules
  imports Docker_Observe Sample
begin

text \<open>
  The goroutines of \<^verbatim>\<open>Logs\<close>. Every move of a reader keeps what it has still to write behind what it has
  written, so the lines with its prefix in the output are always the first lines of its stream; when
  \<^verbatim>\<open>Logs\<close> returns without an error, they are all of them. Every run of the readers ends.
\<close>

section \<open>Lines\<close>

lemma splitChar_terminated: "concat (map (\<lambda>l. l @ [c]) (splitChar c s)) = s @ [c]"
  by (induction s) (auto split: list.splits)

lemma last_splitChar: "last (splitChar c s) = [] \<longleftrightarrow> s = [] \<or> last s = c"
proof (induction s)
  case (Cons x s)
  obtain y ys where e: "splitChar c s = y # ys" by (metis splitChar_ne list.exhaust)
  have one: "ys = [] \<Longrightarrow> y = s" using e joinWith_splitChar [of c s] by simp
  have IH: "last (y # ys) = [] \<longleftrightarrow> s = [] \<or> last s = c" using Cons.IH unfolding e .
  show ?case
  proof (cases "x = c")
    case True
    then have "splitChar c (x # s) = [] # y # ys" using e by simp
    then show ?thesis using IH True by (cases "s = []") simp_all
  next
    case False
    then have "splitChar c (x # s) = (x # y) # ys" using e by simp
    then show ?thesis using IH one False by (cases ys; cases "s = []") simp_all
  qed
qed simp

text \<open>The raw lines are the text cut at its newlines, and nothing but a missing last newline is added.\<close>

lemma rawLines_terminated:
  "concat (map (\<lambda>l. l @ [newline]) (rawLines text)) = (if text = [] \<or> last text = newline then text else text @ [newline])"
proof -
  let ?ls = "splitChar newline text"
  have t: "concat (map (\<lambda>l. l @ [newline]) ?ls) = text @ [newline]" by (rule splitChar_terminated)
  show ?thesis
  proof (cases "last ?ls = []")
    case True
    then obtain bl where bl: "?ls = bl @ [[]]" by (metis append_butlast_last_id splitChar_ne)
    then have "concat (map (\<lambda>l. l @ [newline]) bl) = text" using t by simp
    moreover have "text = [] \<or> last text = newline" using True unfolding last_splitChar .
    ultimately show ?thesis using bl by (simp add: rawLines_def Let_def)
  qed (use t in \<open>simp add: rawLines_def Let_def last_splitChar\<close>)
qed

lemma rawLines_no_newline: "l \<in> set (rawLines text) \<Longrightarrow> newline \<notin> set l"
  by (auto simp: rawLines_def Let_def dest: in_set_butlastD splitChar_no_sep split: if_splits)

lemma scanTokens_prefix: "prefix (fst (scanTokens ls err)) (map dropCR ls)"
  by (induction ls err rule: scanTokens.induct) (auto split: prod.splits)

lemma scanTokens_complete:
  "snd (scanTokens ls err) = None \<Longrightarrow>
     fst (scanTokens ls err) = map dropCR ls \<and> err = None \<and> (\<forall>l \<in> set ls. length l < maxTokenSize)"
  by (induction ls err rule: scanTokens.induct) (auto split: prod.splits if_splits)

section \<open>One reader\<close>

definition unread :: "reader \<Rightarrow> string list" where
  "unread r = (case rdPending r of None \<Rightarrow> [] | Some t \<Rightarrow> [t]) @ rdTokens r"

lemma stepReader_keeps:
  assumes "stepReader ok ctx r = Some (r', ws, es)"
  shows "rdPrefix r' = rdPrefix r" "rdEnd r' = rdEnd r" "set ws \<subseteq> range (logLine (rdPrefix r))"
    "ws @ map (logLine (rdPrefix r)) (unread r') = map (logLine (rdPrefix r)) (unread r)"
    "es = [] \<Longrightarrow> rdDone r' \<Longrightarrow> unread r' = [] \<and> (ctx = None \<longrightarrow> rdEnd r' = None)"
  using assms by (auto simp: stepReader_def unread_def split: if_splits option.splits list.splits)

section \<open>Prefixes\<close>

definition tagged :: "string \<Rightarrow> string \<Rightarrow> bool" where
  "tagged p l \<longleftrightarrow> HasPrefix l (''['' @ p @ ''] '')"

lemma tagged_logLine: "tagged p (logLine p t)"
  by (simp add: tagged_def logLine_def HasPrefix_def)

lemma tagged_other:
  assumes "p \<in> {''sandbox'', ''proxy''}" "q \<in> {''sandbox'', ''proxy''}" "p \<noteq> q"
  shows "\<not> tagged p (logLine q t)"
  using assms by (auto simp: tagged_def logLine_def HasPrefix_def)

section \<open>All readers\<close>

definition recovered :: "log_state \<Rightarrow> reader \<Rightarrow> reader \<Rightarrow> bool" where
  "recovered st r0 r \<longleftrightarrow>
     rdPrefix r = rdPrefix r0 \<and> rdEnd r = rdEnd r0 \<and>
     filter (tagged (rdPrefix r0)) (lsOut st) @ map (logLine (rdPrefix r0)) (unread r) =
       map (logLine (rdPrefix r0)) (rdTokens r0) \<and>
     (lsErrs st = [] \<and> rdDone r \<longrightarrow> unread r = [] \<and> (lsCtx st = None \<longrightarrow> rdEnd r0 = None))"

definition logInv :: "(string \<times> string \<times> engine_error option) list \<Rightarrow> log_state \<Rightarrow> bool" where
  "logInv ss st \<longleftrightarrow>
     list_all2 (recovered st) (map newReader ss) (lsReaders st) \<and> (\<forall>l \<in> set (lsOut st). \<exists>s \<in> set ss. tagged (fst s) l)"

lemma newReader_simps [simp]:
  "rdPrefix (newReader s) = fst s" "rdPending (newReader s) = None" "\<not> rdDone (newReader s)"
  "rdTokens (newReader (p, text, err)) = fst (scanTokens (rawLines text) err)"
  "rdEnd (newReader (p, text, err)) = snd (scanTokens (rawLines text) err)"
  by (simp_all add: newReader_def split: prod.splits)

lemma logInv_start: "logInv ss (startLogs ss)"
  by (auto simp: logInv_def startLogs_def recovered_def unread_def list.rel_map intro!: list.rel_refl)

definition logPrefixes :: "(string \<times> string \<times> engine_error option) list \<Rightarrow> bool" where
  "logPrefixes ss \<longleftrightarrow> distinct (map fst ss) \<and> set (map fst ss) \<subseteq> {''sandbox'', ''proxy''}"

lemma logInv_step:
  assumes "logStep st st'" "logInv ss st" "logPrefixes ss"
  shows "logInv ss st'"
  using assms(1)
proof cases
  case (advance i ok r ws es)
  let ?rs = "lsReaders st" and ?ns = "map newReader ss"
  have len: "length ?ns = length ?rs" and rec: "\<And>j. j < length ?rs \<Longrightarrow> recovered st (?ns ! j) (?rs ! j)"
    using assms(2) by (auto simp: logInv_def list_all2_conv_all_nth)
  note keep = stepReader_keeps [OF advance(3)]
  have i: "rdPrefix (?rs ! i) = fst (ss ! i)" using rec [OF advance(2)] advance(2) len by (simp add: recovered_def)
  have "recovered st' (?ns ! j) (?rs [i := r] ! j)" if j: "j < length ?rs" for j
  proof (cases "j = i")
    case True
    have "filter (tagged (fst (ss ! i))) ws = ws"
      using keep(3) i by (auto simp: filter_id_conv tagged_logLine)
    then have "filter (tagged (fst (ss ! i))) (lsOut st @ ws) @ map (logLine (fst (ss ! i))) (unread r) =
        filter (tagged (fst (ss ! i))) (lsOut st) @ map (logLine (fst (ss ! i))) (unread (?rs ! i))"
      using keep(4) i by simp
    moreover have "recovered st (newReader (ss ! i)) (?rs ! i)" using rec [OF j] j len True by simp
    ultimately have "recovered st' (newReader (ss ! i)) r"
      using keep(1,2,5) unfolding recovered_def advance(1) by simp
    then show ?thesis using True j len by simp
  next
    case False
    have "ss ! j \<in> set ss" "ss ! i \<in> set ss" using j advance(2) len by simp_all
    then have "{fst (ss ! j), fst (ss ! i)} \<subseteq> fst ` set ss" by simp
    also have "fst ` set ss \<subseteq> {''sandbox'', ''proxy''}" using assms(3) by (simp add: logPrefixes_def)
    finally have known: "{fst (ss ! j), fst (ss ! i)} \<subseteq> {''sandbox'', ''proxy''}" .
    have "fst (ss ! j) \<noteq> fst (ss ! i)"
      using assms(3) j advance(2) len False by (simp add: logPrefixes_def distinct_conv_nth)
    note ne = this known
    then have "filter (tagged (fst (ss ! j))) ws = []"
      using keep(3) i tagged_other [of "fst (ss ! j)" "fst (ss ! i)"] by (auto simp: filter_empty_conv)
    with False rec [OF j] j len show ?thesis by (auto simp: recovered_def advance(1))
  qed
  moreover have "\<exists>s \<in> set ss. tagged (fst s) l" if "l \<in> set ws" for l
  proof -
    have "tagged (fst (ss ! i)) l" using that keep(3) i tagged_logLine by auto
    moreover have "ss ! i \<in> set ss" using advance(2) len by simp
    ultimately show ?thesis by blast
  qed
  ultimately show ?thesis
    using assms(2) len by (auto simp: logInv_def advance(1) list_all2_conv_all_nth)
next
  case (cancel e)
  then show ?thesis
    using assms(2) by (auto simp: logInv_def recovered_def elim!: list_all2_mono)
qed

lemma logInv_reach:
  "logStep\<^sup>*\<^sup>* (startLogs ss) st \<Longrightarrow> logPrefixes ss \<Longrightarrow> logInv ss st"
  by (induction rule: rtranclp_induct) (auto intro: logInv_start logInv_step)

text \<open>What \<^verbatim>\<open>Logs\<close> reads has these prefixes.\<close>

lemma openLogs_prefixes:
  "openLogs E follow sources w = (Inr ss, w') \<Longrightarrow> distinct (map snd sources) \<Longrightarrow>
     distinct (map fst ss) \<and> set (map fst ss) \<subseteq> set (map snd sources)"
proof (induction sources arbitrary: ss w)
  case (Cons source rest)
  obtain cid pre where c: "source = (cid, pre)" by force
  let ?w = "w @ [(ReqCtx, ContainerLogsReq cid follow (logTail follow))]"
  have d: "distinct (map snd rest)" "pre \<notin> set (map snd rest)" using Cons.prems(2) c by simp_all
  show ?case
  proof (cases "ansLogs (eEngine E) ?w")
    case (Inl e)
    then have "openLogs E follow rest ?w = (Inr ss, w')"
      using Cons.prems(1) c by (simp add: bindW_def tryW_def call_def liftW_def split: if_splits)
    from Cons.IH [OF this d(1)] show ?thesis using c by auto
  next
    case (Inr te)
    then obtain s err where a: "ansLogs (eEngine E) ?w = Inr (s, err)" by (cases te) auto
    then obtain ls where ls: "openLogs E follow rest ?w = (Inr ls, w')" "ss = (pre, s, err) # ls"
      using Cons.prems(1) c by (auto simp: bindW_def tryW_def call_def returnW_def split: prod.splits sum.splits)
    from Cons.IH [OF ls(1) d(1)] show ?thesis using ls(2) c d(2) by auto
  qed
qed (simp add: returnW_def)

lemma logSources_prefixes:
  "logSources E cid w = (Inr sources, w') \<Longrightarrow>
     distinct (map snd sources) \<and> set (map snd sources) \<subseteq> {''sandbox'', ''proxy''}"
  by (auto simp: logSources_def bindW_def tryW_def call_def returnW_def Let_def split: prod.splits sum.splits option.splits if_splits)

lemma Logs_prefixes:
  assumes "Logs E cid follow w = (Inr (Streams ss), w')"
  shows "logPrefixes ss"
proof -
  have "\<exists>sources w1. (logSources E cid w :: (lifecycle_error + _) \<times> trace) = (Inr sources, w1) \<and> openLogs E follow sources w1 = (Inr ss, w')"
    using assms by (auto simp: Logs_def bindW_def wrapW_def returnW_def liftW_def split: prod.splits sum.splits if_splits option.splits)
  then obtain sources w1 where "(logSources E cid w :: (lifecycle_error + _) \<times> trace) = (Inr sources, w1)" "openLogs E follow sources w1 = (Inr ss, w')" by blast
  with logSources_prefixes [OF this(1)] openLogs_prefixes [OF this(2)] show ?thesis unfolding logPrefixes_def by (meson order_trans)
qed

section \<open>Every run ends\<close>

definition readerWork :: "reader \<Rightarrow> nat" where
  "readerWork r = 2 * length (rdTokens r) + (if rdPending r = None then 0 else 1) + (if rdDone r then 0 else 1)"

definition logWork :: "log_state \<Rightarrow> nat" where
  "logWork st = sum_list (map readerWork (lsReaders st)) + (if lsCtx st = None then 1 else 0)"

lemma stepReader_work: "stepReader ok ctx r = Some (r', ws, es) \<Longrightarrow> readerWork r' < readerWork r"
  by (auto simp: stepReader_def readerWork_def split: if_splits option.splits list.splits)

lemma logStep_work: "logStep st st' \<Longrightarrow> logWork st' < logWork st"
proof (induction rule: logStep.induct)
  case (advance i st ok r ws es)
  have "xs ! i \<le> sum_list xs" if "i < length xs" for xs :: "nat list" using that by (simp add: member_le_sum_list)
  from this [of "map readerWork (lsReaders st)"] have "readerWork (lsReaders st ! i) \<le> sum_list (map readerWork (lsReaders st))"
    using advance(1) by simp
  with advance(1) stepReader_work [OF advance(2)] show ?case by (simp add: logWork_def map_update sum_list_update)
qed (simp add: logWork_def)

lemma logs_end: "wfP (\<lambda>st' st. logStep st st')"
proof -
  have "(\<lambda>st' st. logStep st st') \<le> (\<lambda>st' st. logWork st' < logWork st)" using logStep_work by auto
  then show ?thesis by (rule wfp_subset [rotated]) (simp add: wfp_if_convertible_to_nat)
qed

lemma logs_progress: "\<not> list_all rdDone (lsReaders st) \<Longrightarrow> \<exists>st'. logStep st st'"
proof -
  assume "\<not> list_all rdDone (lsReaders st)"
  then obtain i where i: "i < length (lsReaders st)" "\<not> rdDone (lsReaders st ! i)" by (auto simp: list_all_length)
  then have "\<exists>x. stepReader True (lsCtx st) (lsReaders st ! i) = Some x"
    by (simp add: stepReader_def split: option.splits list.splits)
  then obtain r ws es where "stepReader True (lsCtx st) (lsReaders st ! i) = Some (r, ws, es)" by auto
  from logStep.advance [OF i(1) this] show ?thesis by blast
qed

section \<open>Results\<close>

text \<open>
  C40. Concurrent logs lose nothing and mix nothing up. Let \<open>Logs\<close> have opened streams, and let their
  readers have moved in any order. Every line of the output carries the prefix of a stream, and those
  with one prefix are the first lines of that stream, in order. If \<open>Logs\<close> can return without an error
  while the context has not ended, they are all its lines, the stream has ended without an error, and
  none of its lines reaches the limit of the scanner. The lines, each with its newline, are the text of
  the stream, up to a missing newline at the end; a carriage return before a newline is dropped.
\<close>

theorem log_lines_recovered:
  assumes "Logs E cid follow w = (Inr (Streams ss), w')" and "logStep\<^sup>*\<^sup>* (startLogs ss) st" and "(p, text, err) \<in> set ss"
  shows "(\<forall>l \<in> set (lsOut st). \<exists>s \<in> set ss. tagged (fst s) l) \<and>
    prefix (filter (tagged p) (lsOut st)) (map (\<lambda>l. logLine p (dropCR l)) (rawLines text)) \<and>
    (logReturns st None \<and> lsCtx st = None \<longrightarrow>
       filter (tagged p) (lsOut st) = map (\<lambda>l. logLine p (dropCR l)) (rawLines text) \<and>
       err = None \<and> (\<forall>l \<in> set (rawLines text). length l < 1048576)) \<and>
    concat (map (\<lambda>l. l @ [newline]) (rawLines text)) =
       (if text = [] \<or> last text = newline then text else text @ [newline]) \<and>
    (\<forall>l \<in> set (rawLines text). newline \<notin> set l)"
proof -
  have inv: "logInv ss st" by (rule logInv_reach [OF assms(2) Logs_prefixes [OF assms(1)]])
  obtain i where i: "i < length ss" "ss ! i = (p, text, err)" using assms(3) by (auto simp: in_set_conv_nth)
  define r where "r = lsReaders st ! i"
  have r: "r \<in> set (lsReaders st)" "recovered st (newReader (p, text, err)) r"
    using inv i by (simp_all add: logInv_def list_all2_conv_all_nth r_def) (metis nth_mem)
  let ?ts = "fst (scanTokens (rawLines text) err)" and ?out = "filter (tagged p) (lsOut st)"
  from r(2) have out: "?out @ map (logLine p) (unread r) = map (logLine p) ?ts" by (simp add: recovered_def)
  have "prefix ?out (map (logLine p) ?ts)" unfolding out [symmetric] by simp
  also have "prefix (map (logLine p) ?ts) (map (logLine p) (map dropCR (rawLines text)))"
    by (rule map_mono_prefix [OF scanTokens_prefix])
  finally have pre: "prefix ?out (map (\<lambda>l. logLine p (dropCR l)) (rawLines text))" by (simp add: comp_def)
  have all: "?out = map (\<lambda>l. logLine p (dropCR l)) (rawLines text) \<and> err = None \<and> (\<forall>l \<in> set (rawLines text). length l < 1048576)"
    if "logReturns st None" "lsCtx st = None"
  proof -
    have "rdDone r" "lsErrs st = []" using that(1) r(1) by (auto simp: logReturns_None list_all_iff)
    then have "unread r = []" "snd (scanTokens (rawLines text) err) = None" using r(2) that(2) by (simp_all add: recovered_def)
    note c = scanTokens_complete [OF this(2)]
    have "?out = map (logLine p) ?ts" using out \<open>unread r = []\<close> by simp
    also have "\<dots> = map (\<lambda>l. logLine p (dropCR l)) (rawLines text)" unfolding conjunct1 [OF c] by simp
    finally show ?thesis using conjunct2 [OF c] by (simp add: maxTokenSize_def)
  qed
  show ?thesis using inv pre all rawLines_terminated rawLines_no_newline unfolding logInv_def by blast
qed

text \<open>A run of two readers, by the order in which they move.\<close>

fun runLogs :: "nat list \<Rightarrow> log_state \<Rightarrow> log_state option" where
  "runLogs [] st = Some st"
| "runLogs (i # is) st =
     (if i < length (lsReaders st) then
        (case stepReader True (lsCtx st) (lsReaders st ! i) of
           None \<Rightarrow> None
         | Some (r, ws, es) \<Rightarrow>
             runLogs is (st\<lparr>lsReaders := (lsReaders st)[i := r], lsOut := lsOut st @ ws, lsErrs := lsErrs st @ es\<rparr>))
      else None)"

lemma runLogs_steps: "runLogs is st = Some st' \<Longrightarrow> logStep\<^sup>*\<^sup>* st st'"
proof (induction "is" st rule: runLogs.induct)
  case (2 i "is" st)
  then obtain r ws es where s: "i < length (lsReaders st)" "stepReader True (lsCtx st) (lsReaders st ! i) = Some (r, ws, es)"
    and rest: "runLogs is (st\<lparr>lsReaders := (lsReaders st)[i := r], lsOut := lsOut st @ ws, lsErrs := lsErrs st @ es\<rparr>) = Some st'"
    by (auto split: if_splits option.splits)
  show ?case using logStep.advance [OF s] 2(1) [OF s refl refl rest] by (rule converse_rtranclp_into_rtranclp)
qed simp

definition sampleLogs :: env where
  "sampleLogs = (sampleEnv (\<lambda>_. Inr ''c1''))\<lparr>eEngine := (sampleEngine (\<lambda>_. Inr ''c1''))\<lparr>ansLogs := (\<lambda>w.
     Inr (case snd (last w) of ContainerLogsReq cid _ _ \<Rightarrow> if cid = ''c1'' then ''a'' @ [newline] @ ''b'' else ''x'' @ [newline] | _ \<Rightarrow> [], None))\<rparr>\<rparr>"

definition sampleStreams :: "(string \<times> string \<times> engine_error option) list" where
  "sampleStreams = [(''sandbox'', ''a'' @ [newline] @ ''b'', None), (''proxy'', ''x'' @ [newline], None)]"

definition sampleStart :: log_state where
  "sampleStart =
     \<lparr>lsReaders = [\<lparr>rdPrefix = ''sandbox'', rdTokens = [''a'', ''b''], rdEnd = None, rdPending = None, rdDone = False\<rparr>,
        \<lparr>rdPrefix = ''proxy'', rdTokens = [''x''], rdEnd = None, rdPending = None, rdDone = False\<rparr>],
      lsOut = [], lsErrs = [], lsCtx = None\<rparr>"

lemma sample_lines:
  "rawLines (''a'' @ [newline] @ ''b'') = [''a'', ''b'']" "rawLines (''x'' @ [newline]) = [''x'']"
  "dropCR ''a'' = ''a''" "dropCR ''b'' = ''b''" "dropCR ''x'' = ''x''"
  by code_simp+

lemma sample_start: "startLogs sampleStreams = sampleStart"
  unfolding startLogs_def sampleStreams_def sampleStart_def newReader_def
  by (simp add: sample_lines [simplified] maxTokenSize_def)

theorem log_lines_recovered_witness:
  "\<exists>w' st. Logs sampleLogs ''c1'' False [] = (Inr (Streams sampleStreams), w') \<and>
     logStep\<^sup>*\<^sup>* (startLogs sampleStreams) st \<and> logReturns st None \<and>
     lsOut st = [logLine ''sandbox'' ''a'', logLine ''proxy'' ''x'', logLine ''sandbox'' ''b''] \<and>
     filter (tagged ''sandbox'') (lsOut st) = [logLine ''sandbox'' ''a'', logLine ''sandbox'' ''b'']"
proof -
  have "fst (Logs sampleLogs ''c1'' False []) = Inr (Streams sampleStreams)" by code_simp
  then obtain w' where l: "Logs sampleLogs ''c1'' False [] = (Inr (Streams sampleStreams), w')" by (metis prod.collapse)
  have "map_option (\<lambda>st. (lsOut st, list_all rdDone (lsReaders st), lsErrs st, lsCtx st)) (runLogs [0, 0, 1, 0, 1, 1, 0, 0] sampleStart) =
      Some ([logLine ''sandbox'' ''a'', logLine ''proxy'' ''x'', logLine ''sandbox'' ''b''], True, [], None)"
    by code_simp
  then obtain st where s: "runLogs [0, 0, 1, 0, 1, 1, 0, 0] (startLogs sampleStreams) = Some st"
      "lsOut st = [logLine ''sandbox'' ''a'', logLine ''proxy'' ''x'', logLine ''sandbox'' ''b'']"
      "list_all rdDone (lsReaders st)" "lsErrs st = []" "lsCtx st = None"
    unfolding map_option_eq_Some sample_start by auto
  have m: "(''sandbox'', ''a'' @ [newline] @ ''b'', None) \<in> set sampleStreams" by (simp add: sampleStreams_def)
  have "logReturns st None" using s by (auto intro: logReturns.finished)
  moreover have "map (\<lambda>x. logLine ''sandbox'' (dropCR x)) (rawLines (''a'' @ [newline] @ ''b'')) =
      [logLine ''sandbox'' ''a'', logLine ''sandbox'' ''b'']"
    by code_simp
  ultimately show ?thesis
    using l s log_lines_recovered [OF l runLogs_steps [OF s(1)] m] runLogs_steps [OF s(1)] by auto
qed

end
