(* ===== verification/Spec2Isabelle.thy ===== *)
theory Spec2Isabelle
  imports Registry Lifecycle_Rules Archive_Rules Podman_Backend Sidecar_Build Docker_Terminal Docker_Open JSON_Rules Log_Rules
begin

text \<open>
  \<^bold>\<open>The program.\<close>
  The module \<^verbatim>\<open>cauteum-driver\<close> starts and controls sandboxes: containers that hold an agent, attached to a
  network of their own, optionally behind an egress proxy, with a hardened init that applies a policy. A
  caller opens a backend by name (\<^verbatim>\<open>driver/open.go\<close>), gets a driver or an engine (the interfaces of
  \<^verbatim>\<open>driver/driver.go\<close> and \<^verbatim>\<open>driver/engine.go\<close>) and calls its operations. Three parts do the work:

  \<^item> \<^verbatim>\<open>internal/docker\<close> is the driver on the Docker Engine API: it decodes its configuration, checks a
    specification, creates the network, the volumes, the proxy and the container, runs commands, copies files,
    reads logs and deletes what it created. It keeps no state of its own; what it must remember is in the
    labels of the containers.
  \<^item> \<^verbatim>\<open>internal/podman\<close> is the same driver on Podman. It decodes a configuration of its own, finds the
    socket, and installs callbacks in the Docker driver that create networks and containers through Libpod.
  \<^item> \<^verbatim>\<open>internal/mounts\<close>, \<^verbatim>\<open>internal/certbundle\<close> and \<^verbatim>\<open>internal/sidecar\<close> are helpers: which guest paths may be
    mounted over, what a certificate bundle is, and the Linux binaries that go into a container.

  \<^verbatim>\<open>internal/kubernetes\<close> and \<^verbatim>\<open>internal/vm\<close> are placeholders whose every operation fails.

  \<^bold>\<open>The model.\<close>
  A function that returns a value or an error is a function into \<open>'e + 'a\<close>, \<open>Inl\<close> the error; the constructors
  of the error types are the places where the code builds an error. An operation on the outside world is a
  function on a trace: it appends the requests it issues, and the answer to a request is a function of all
  requests so far (\<open>call\<close>, \<open>send\<close>, \<open>act\<close>). So every world that answers request by request is covered, and
  the theorems that mention traces speak about the order of requests. Strings are lists of characters, one
  for each byte; Go maps are association lists where the order of visits is the question and functions
  otherwise; integers that Go stores in 16 or 64 bits are words, or integers with the wrap-around written out.

  Parameters stand for code that is not part of the repository: \<open>core_defaults\<close> for the constants of
  \<^verbatim>\<open>cauteum-core/defaults\<close>, \<open>host_os\<close> for the file system and the environment of the process, \<open>engine\<close> for the
  daemon and the client library, \<open>crypto_lib\<close> for PEM, X.509 and key pairs, \<open>auth_lib\<close> for the Docker CLI
  configuration and the parser of image references, \<open>podman_env\<close> for HTTP, TLS, sockets and \<^verbatim>\<open>podman info\<close>,
  \<open>build_env\<close> for the Go toolchain, and \<open>docker_setup\<close> for the construction of a client. The record \<open>env\<close>
  holds everything an operation of the Docker driver can read; its field \<open>eDockerAuth\<close> stands for
  \<open>dockerRegistryAuth\<close> of \<open>Registry_Auth\<close>.

  \<^bold>\<open>The theories.\<close>
  Foundations:
  \<^item> \<open>Prelude\<close>: results, sequencing, collections of facts, and the locale \<open>map_reader\<close>: a decoder that visits
    the entries of a map in any order.
  \<^item> \<open>Go_Strings\<close>, \<open>Go_Path\<close>, \<open>Go_Float\<close>, \<open>Go_Net\<close>, \<open>Go_Netip\<close>, \<open>Go_URL\<close>, \<open>Go_JSON\<close>: what the code uses of
    the standard library. \<open>JSON_Rules\<close> shows that the bound of the JSON reader is enough.
  \<^item> \<open>Host\<close>, \<open>Host_Tree\<close>: the surroundings of the process, directory trees and the walks over them.

  The public module:
  \<^item> \<open>Driver_API\<close>: the types and interfaces of \<^verbatim>\<open>driver/driver.go\<close>, \<^verbatim>\<open>driver/engine.go\<close>.
  \<^item> \<open>Registry\<close>: \<^verbatim>\<open>driver/open.go\<close>, the inert backends and the \<^verbatim>\<open>register.go\<close> files. The tables of factories are an
    explicit state; the locale \<open>kind_table\<close> states what a table promises and is interpreted on the three
    tables, \<open>inert_driver\<close> on the two placeholders.

  The Docker driver, \<^verbatim>\<open>internal/docker\<close>:
  \<^item> \<open>Mounts\<close>: \<^verbatim>\<open>internal/mounts\<close>. The locale \<open>path_guard\<close> states what a guard of guest paths promises; the
    code's guard is an interpretation.
  \<^item> \<open>Env\<close>, \<open>Runtime\<close>: the helpers of \<^verbatim>\<open>docker.go\<close>, \<^verbatim>\<open>gpu.go\<close> and their neighbours that need no engine: environment
    lists (the locale \<open>env_store\<close>, interpreted on \<^verbatim>\<open>mergeEnv\<close>), names, quoting, limits, GPU requests.
  \<^item> \<open>Docker_Config\<close>, \<open>Driver_Config\<close>: \<^verbatim>\<open>config.go\<close> with \<^verbatim>\<open>internal/certbundle\<close>, and \<^verbatim>\<open>driver_config.go\<close>.
  \<^item> \<open>Engine\<close>: the Engine API as the driver sees it, and the driver itself.
  \<^item> \<open>Docker_Resources\<close>, \<open>Docker_Exec\<close>, \<open>Docker_Sidecar\<close>, \<open>Docker_Create\<close>, \<open>Docker_Lifecycle\<close>,
    \<open>Docker_Observe\<close>, \<open>Docker_Copy\<close>, \<open>Docker_Archive\<close>, \<open>Docker_Terminal\<close>, \<open>Docker_Open\<close>: the operations of
    \<^verbatim>\<open>docker.go\<close>, \<^verbatim>\<open>policy_path.go\<close> and the resize files, in groups.
  \<^item> \<open>Sidecar_Build\<close>: the part of \<^verbatim>\<open>internal/sidecar\<close> that builds and caches the Linux binaries; the
    environment of a proxied container is in \<open>Env\<close>.

  The Podman driver, \<^verbatim>\<open>internal/podman\<close>:
  \<^item> \<open>Podman_Config\<close>: \<^verbatim>\<open>config.go\<close>. Its decoder is the second interpretation of \<open>map_reader\<close>.
  \<^item> \<open>Podman_Native\<close>, \<open>Podman_Network\<close>: \<^verbatim>\<open>libpod_create.go\<close> and \<^verbatim>\<open>libpod_network.go\<close>.
  \<^item> \<open>Registry_Auth\<close>: both \<^verbatim>\<open>registry_auth.go\<close> files.
  \<^item> \<open>Podman\<close>: \<^verbatim>\<open>podman.go\<close> and \<^verbatim>\<open>register.go\<close>. \<open>Podman_Backend\<close> puts the Docker driver on top of the callbacks.

  Rules about several operations together:
  \<^item> \<open>Live_Resources\<close>, \<open>Create_Failure\<close>, \<open>Create_Sandbox\<close>, \<open>Create_Rules\<close>, \<open>Create_Delete\<close>,
    \<open>Lifecycle_Rules\<close>: what \<^verbatim>\<open>Create\<close> leaves behind when it fails, what it asks for when it succeeds, what
    \<^verbatim>\<open>Delete\<close> takes back, and the rules of the other operations. A resource is \<open>live\<close> from a creation the
    engine has acknowledged to a removal it has acknowledged; \<open>refused\<close> collects the removals it has
    answered with an error.
  \<^item> \<open>Log_Rules\<close>: the goroutines of \<^verbatim>\<open>Logs\<close>, as a step relation on the readers, the output and the channel of
    errors, with an invariant of all reachable states.
  \<^item> \<open>Copy_Rules\<close>, \<open>Archive_Rules\<close>: extraction stays below the destination, and copying there and back
    restores a directory.
  \<^item> \<open>Podman_Rules\<close>, \<open>Credential_Rules\<close>, \<open>Podman_Backend\<close>: the Libpod request against the Engine request,
    credentials against registries, and whole calls of \<^verbatim>\<open>Create\<close> on Podman. The locale \<open>isolating_backend\<close> states
    what the Docker driver needs of a backend with network callbacks; Podman is its interpretation.
  \<^item> \<open>Sample\<close>: a concrete world on which the theorems are applied. The locales \<open>sample_surroundings\<close> and
    \<open>sample_world\<close> collect what the run of the sample specification depends on; they are interpreted on an
    Engine API world and on a Podman world.

  \<^bold>\<open>What is shown.\<close>
  \<^item> Safety of a sandbox: whatever goes wrong, \<^verbatim>\<open>Create\<close> leaves no network, proxy or container behind that the
    engine agrees to remove; when it succeeds the container is confined, its network is isolated and its
    environment is the driver's; mounts stay off the reserved paths, ports on the loopback interface, and
    untrusted archives below their destination. On Podman the network is verified and the request to
    Libpod is confined.
  \<^item> Refinements: \<^verbatim>\<open>mergeEnv\<close> against the override of maps, the registrations of backends against the set of
    imported ones, the Libpod specification against the Engine request.
  \<^item> Functional behaviour on every branch: configuration maps, image policies, certificate bundles, GPU requests,
    dispatch, lists of sandboxes, log lines, and the exact conditions under which paths, archive names, ID maps and JSON keys are refused.
  \<^item> Round trips: \<^verbatim>\<open>Create\<close> and \<^verbatim>\<open>Delete\<close>, \<^verbatim>\<open>CopyTo\<close> and extraction, quoting and a POSIX shell.
  \<^item> Termination and liveness: the bundle reader, the network search, the polling loops and the log readers.

  Some lemmas show behaviour that is surely not intended, such as \<open>workspace_ancestor_of_home_accepted\<close>,
  \<open>volume_subpath_traversal_accepted\<close>, \<open>caller_label_redirects_delete\<close>, \<open>linked_module_never_stale\<close> and
  \<open>symlink_in_directory_fails\<close>; they are stated as the code behaves.

  \<^bold>\<open>Bounds.\<close>
  \<^item> The JSON reader gets twice the length of the document and two, which is enough (\<open>jsonParse_any_bound\<close>).
  \<^item> The reader of a certificate bundle gets the length of the input; every block consumes some, so
    the reader never runs out.
  \<^item> A polling loop runs for \<open>pollRounds\<close> rounds, a function of the trace that stands for the clock: the number of
    rounds that start before the deadline.
  \<^item> The search for a subnet tries 4096 candidates and the creation of a network 32 times, as in the code.
  \<^item> A log line of 1048576 bytes or more ends the scan of its stream, as the buffer of the scanner does.
  \<^item> Resizing tries ten times and then once for every change of the window.

  \<^bold>\<open>Not modelled.\<close>
  \<^item> The lengths of timeouts (\<^verbatim>\<open>timeouts.go\<close>) and the clock: a deadline is the number of rounds before it.
  \<^item> The bytes that go through an attached command, apart from the copy of terminal input, and the
    goroutine that copies a log stream into the pipe of its reader.
  \<^item> Messages on standard error, and the texts of errors beyond what distinguishes them.
  \<^item> \<^verbatim>\<open>setConnNoDelay\<close>, which sets a socket option, and the forwarders \<^verbatim>\<open>ParseMemoryBytes\<close> and \<^verbatim>\<open>SeccompNote\<close>.
  \<^item> Modification times and owners in archives.
  \<^item> Of hosts in URLs, zone identifiers and the checks of \<^verbatim>\<open>net/url\<close> inside brackets; and of \<^verbatim>\<open>sort.Slice\<close>, the
    order of device indexes with equal values, such as 1 and 01, which is that of the directory here.
\<close>

end
